(* ===== verification/Prelude.thy ===== *)
theory Prelude
  imports Main "HOL-Library.AList" "HOL-Library.Word"
begin

text \<open>
  Shared foundations of the development.

  A Go string is a \<open>string\<close>: a list of bytes. A Go map with string keys is an
  association list in one iteration order, whose keys are distinct (\<open>wf_gomap\<close>); Go
  leaves that order open, and every property below holds for each order. A fallible Go
  function returns \<open>Inl\<close> of an error or \<open>Inr\<close> of its value. A Go pointer field that
  may be nil is an \<open>option\<close>.
\<close>

named_theorems gomap_simps \<open>equations of the association-list maps\<close>
named_theorems go_intros \<open>preservation rules of the components\<close>

section \<open>Fallible results\<close>

type_synonym ('e, 'a) result = "'e + 'a"

definition bind_result :: "('e, 'a) result \<Rightarrow> ('a \<Rightarrow> ('e, 'b) result) \<Rightarrow> ('e, 'b) result" where
  "bind_result r f = (case r of Inl e \<Rightarrow> Inl e | Inr a \<Rightarrow> f a)"

lemma bind_result_simps [simp]:
  "bind_result (Inl e) f = Inl e"
  "bind_result (Inr a) f = f a"
  by (simp_all add: bind_result_def)

lemma bind_result_Inr_iff:
  "bind_result r f = Inr b \<longleftrightarrow> (\<exists>a. r = Inr a \<and> f a = Inr b)"
  by (cases r) simp_all

text \<open>A check either passes (\<open>None\<close>) or names its error; a sequence of checks stops at the
  first that fails, as a chain of early returns does.\<close>

fun first_error :: "'e option list \<Rightarrow> 'e option" where
  "first_error [] = None"
| "first_error (Some e # cs) = Some e"
| "first_error (None # cs) = first_error cs"

lemma first_error_None_iff: "first_error cs = None \<longleftrightarrow> (\<forall>c \<in> set cs. c = None)"
  by (induction cs rule: first_error.induct) auto

lemma first_error_Cons_None [simp]: "first_error (c # cs) = None \<longleftrightarrow> c = None \<and> first_error cs = None"
  by (cases c) auto

lemma first_error_append_None [simp]:
  "first_error (cs @ ds) = None \<longleftrightarrow> first_error cs = None \<and> first_error ds = None"
  by (induction cs) auto

lemma first_error_mem: "first_error cs = Some e \<Longrightarrow> Some e \<in> set cs"
  by (induction cs rule: first_error.induct) auto

definition reject :: "bool \<Rightarrow> 'e \<Rightarrow> 'e option" where
  "reject b e = (if b then Some e else None)"

lemma reject_None [simp]: "reject b e = None \<longleftrightarrow> \<not> b"
  by (simp add: reject_def)

section \<open>Maps with string keys\<close>

type_synonym 'a gomap = "(string \<times> 'a) list"

definition wf_gomap :: "'a gomap \<Rightarrow> bool" where
  "wf_gomap m \<longleftrightarrow> distinct (map fst m)"

definition map_vals :: "(string \<Rightarrow> 'a \<Rightarrow> 'b) \<Rightarrow> 'a gomap \<Rightarrow> 'b gomap" where
  "map_vals f m = map (\<lambda>(k, v). (k, f k v)) m"

lemma map_vals_simps [simp]:
  "map_vals f [] = []"
  "map_vals f ((k, v) # m) = (k, f k v) # map_vals f m"
  by (simp_all add: map_vals_def)

lemma keys_map_vals [simp]: "map fst (map_vals f m) = map fst m"
  by (induction m) auto

lemma wf_map_vals [simp]: "wf_gomap (map_vals f m) \<longleftrightarrow> wf_gomap m"
  by (simp add: wf_gomap_def)

lemma map_of_map_vals [gomap_simps]:
  "map_of (map_vals f m) k = map_option (f k) (map_of m k)"
  by (induction m) auto

lemma map_vals_cong:
  "(\<And>k v. (k, v) \<in> set m \<Longrightarrow> f k v = g k v) \<Longrightarrow> map_vals f m = map_vals g m"
  by (induction m) auto

lemma map_vals_compose [simp]: "map_vals f (map_vals g m) = map_vals (\<lambda>k v. f k (g k v)) m"
  by (induction m) auto

lemma map_vals_ident: "(\<And>k v. (k, v) \<in> set m \<Longrightarrow> f k v = v) \<Longrightarrow> map_vals f m = m"
  by (induction m) auto

lemma wf_gomap_Nil [simp]: "wf_gomap []"
  by (simp add: wf_gomap_def)

lemma wf_gomap_update [simp]: "wf_gomap m \<Longrightarrow> wf_gomap (AList.update k v m)"
  by (simp add: wf_gomap_def distinct_update)

lemma wf_gomap_delete [simp]: "wf_gomap m \<Longrightarrow> wf_gomap (AList.delete k m)"
  by (simp add: wf_gomap_def distinct_delete)

lemma map_of_update [gomap_simps]:
  "map_of (AList.update k v m) k' = (if k' = k then Some v else map_of m k')"
  by (simp add: update_conv')

lemma map_of_delete [gomap_simps]:
  "map_of (AList.delete k m) k' = (if k' = k then None else map_of m k')"
  by (simp add: delete_conv')

lemma map_of_wf_iff: "wf_gomap m \<Longrightarrow> map_of m k = Some v \<longleftrightarrow> (k, v) \<in> set m"
  by (simp add: wf_gomap_def)

section \<open>Lists\<close>

text \<open>Some element of a list fails the given check: the first error in list order.\<close>

definition check_all :: "('a \<Rightarrow> 'e option) \<Rightarrow> 'a list \<Rightarrow> 'e option" where
  "check_all f xs = first_error (map f xs)"

lemma check_all_None_iff: "check_all f xs = None \<longleftrightarrow> (\<forall>x \<in> set xs. f x = None)"
  by (simp add: check_all_def first_error_None_iff)

lemma check_all_Nil [simp]: "check_all f [] = None"
  by (simp add: check_all_def)

lemma list_all_mem: "list_all P xs \<Longrightarrow> x \<in> set xs \<Longrightarrow> P x"
  by (simp add: list_all_iff)

definition add_unique :: "'a list \<Rightarrow> 'a \<Rightarrow> 'a list" where
  "add_unique xs x = (if x \<in> set xs then xs else xs @ [x])"

lemma set_add_unique [simp]: "set (add_unique xs x) = insert x (set xs)"
  by (auto simp: add_unique_def)

lemma add_unique_mem [simp]: "x \<in> set xs \<Longrightarrow> add_unique xs x = xs"
  by (simp add: add_unique_def)

section \<open>Queues\<close>

text \<open>What a queue's client needs: taking splits the queue in order, and an occupied queue yields
  something.\<close>

locale fifo_take =
  fixes take_some :: "'a list \<Rightarrow> 'a list \<times> 'a list"
  assumes take_split: "take_some q = (xs, rest) \<Longrightarrow> xs @ rest = q"
    and take_progress: "q \<noteq> [] \<Longrightarrow> fst (take_some q) \<noteq> []"
begin

lemma take_shrinks: "q \<noteq> [] \<Longrightarrow> length (snd (take_some q)) < length q"
  using take_split [of q "fst (take_some q)" "snd (take_some q)"] take_progress [of q]
  by (metis length_append length_greater_0_conv less_add_same_cancel2 surjective_pairing)

lemma taken_subset: "set (fst (take_some q)) \<subseteq> set q" "set (snd (take_some q)) \<subseteq> set q"
  using take_split [of q "fst (take_some q)" "snd (take_some q)"] by (metis set_append sup_ge1 sup_ge2 surjective_pairing)+

lemma take_empty: "fst (take_some []) = []" "snd (take_some []) = []"
  using take_split [of "[]" "fst (take_some [])" "snd (take_some [])"] by (simp_all add: surjective_pairing)

lemma taken_empty_iff: "fst (take_some q) = [] \<longleftrightarrow> q = []"
  using take_progress take_empty by blast

end

end
