(* ===== verification/GoStrings.thy ===== *)
theory GoStrings
  imports Prelude "HOL-Library.List_Lexorder" "HOL-Library.Char_ord"
begin

text \<open>
  The operations of Go's \<open>strings\<close>, \<open>regexp\<close> and \<open>unicode/utf8\<close> packages that the program
  uses, over byte strings. White space is the set Go's \<open>unicode.IsSpace\<close> names, each rune in
  its UTF-8 bytes. Case folding (\<open>to_lower\<close>) covers the ASCII letters, which are the only
  letters the program's identifiers may have.
\<close>

section \<open>Trimming\<close>

definition byte :: "nat \<Rightarrow> char" where
  "byte n = char_of n"

definition space_runes :: "string list" where
  "space_runes =
   [[CHR 0x09], [CHR 0x0A], [CHR 0x0B], [CHR 0x0C], [CHR 0x0D], [CHR 0x20], [CHR 0xC2, CHR 0x85],
    [CHR 0xC2, CHR 0xA0], [CHR 0xE1, CHR 0x9A, CHR 0x80], [CHR 0xE2, CHR 0x80, CHR 0xA8],
    [CHR 0xE2, CHR 0x80, CHR 0xA9], [CHR 0xE2, CHR 0x80, CHR 0xAF],
    [CHR 0xE2, CHR 0x81, CHR 0x9F], [CHR 0xE3, CHR 0x80, CHR 0x80],
    [CHR 0xE2, CHR 0x80, CHR 0x80], [CHR 0xE2, CHR 0x80, CHR 0x81],
    [CHR 0xE2, CHR 0x80, CHR 0x82], [CHR 0xE2, CHR 0x80, CHR 0x83],
    [CHR 0xE2, CHR 0x80, CHR 0x84], [CHR 0xE2, CHR 0x80, CHR 0x85],
    [CHR 0xE2, CHR 0x80, CHR 0x86], [CHR 0xE2, CHR 0x80, CHR 0x87],
    [CHR 0xE2, CHR 0x80, CHR 0x88], [CHR 0xE2, CHR 0x80, CHR 0x89],
    [CHR 0xE2, CHR 0x80, CHR 0x8A]]"

definition has_prefix :: "string \<Rightarrow> string \<Rightarrow> bool" where
  "has_prefix s p \<longleftrightarrow> take (length p) s = p"

definition has_suffix :: "string \<Rightarrow> string \<Rightarrow> bool" where
  "has_suffix s p \<longleftrightarrow> has_prefix (rev s) (rev p)"

text \<open>Drop members of \<open>ws\<close> from the front as long as one is there.\<close>

function trim_by :: "string list \<Rightarrow> string \<Rightarrow> string" where
  "trim_by ws s =
     (case find (\<lambda>w. w \<noteq> [] \<and> has_prefix s w) ws of
        None \<Rightarrow> s
      | Some w \<Rightarrow> trim_by ws (drop (length w) s))"
  by pat_completeness auto
termination
proof (relation "measure (\<lambda>(ws, s). length s)")
  fix ws :: "string list" and s w
  assume "find (\<lambda>w. w \<noteq> [] \<and> has_prefix s w) ws = Some w"
  then have "w \<noteq> []" "has_prefix s w"
    by (auto simp: find_Some_iff)
  then have "s \<noteq> []" "0 < length w"
    by (auto simp: has_prefix_def)
  then show "((ws, drop (length w) s), ws, s) \<in> measure (\<lambda>(ws, s). length s)"
    by simp
qed simp

declare trim_by.simps [simp del]

definition trim_left_space :: "string \<Rightarrow> string" where
  "trim_left_space s = trim_by space_runes s"

definition trim_right_space :: "string \<Rightarrow> string" where
  "trim_right_space s = rev (trim_by (map rev space_runes) (rev s))"

definition trim_space :: "string \<Rightarrow> string" where
  "trim_space s = trim_right_space (trim_left_space s)"

lemma trim_by_suffix: "\<exists>p. s = p @ trim_by ws s"
proof (induction ws s rule: trim_by.induct)
  case (1 ws s)
  show ?case
  proof (cases "find (\<lambda>w. w \<noteq> [] \<and> has_prefix s w) ws")
    case None
    then show ?thesis by (simp add: trim_by.simps [of ws s])
  next
    case (Some w)
    then obtain p where "drop (length w) s = p @ trim_by ws (drop (length w) s)"
      using "1.IH" by blast
    then have "s = (take (length w) s @ p) @ trim_by ws (drop (length w) s)"
      by (metis append.assoc append_take_drop_id)
    moreover have "trim_by ws s = trim_by ws (drop (length w) s)"
      using Some by (simp add: trim_by.simps [of ws s])
    ultimately show ?thesis by metis
  qed
qed

lemma trim_by_stop: "find (\<lambda>w. w \<noteq> [] \<and> has_prefix (trim_by ws s) w) ws = None"
proof (induction ws s rule: trim_by.induct)
  case (1 ws s)
  then show ?case
    by (cases "find (\<lambda>w. w \<noteq> [] \<and> has_prefix s w) ws")
       (simp_all add: trim_by.simps [of ws s])
qed

lemma trim_by_fixed: "find (\<lambda>w. w \<noteq> [] \<and> has_prefix s w) ws = None \<Longrightarrow> trim_by ws s = s"
  by (simp add: trim_by.simps [of ws s])

lemma trim_by_idem [simp]: "trim_by ws (trim_by ws s) = trim_by ws s"
  by (simp add: trim_by_fixed trim_by_stop)

lemma trim_by_Nil [simp]: "trim_by ws [] = []"
  by (rule trim_by_fixed) (auto simp: find_None_iff has_prefix_def)

lemma length_trim_by: "length (trim_by ws s) \<le> length s"
  by (metis trim_by_suffix le_add2 length_append)

lemma has_prefix_iff: "has_prefix s p \<longleftrightarrow> (\<exists>t. s = p @ t)"
  by (auto simp: has_prefix_def) (metis append_take_drop_id)

lemma has_prefix_append: "has_prefix s p \<Longrightarrow> has_prefix (s @ t) p"
  by (auto simp: has_prefix_iff)

lemma trim_by_prefix_fixed:
  assumes "trim_by ws (s @ t) = s @ t"
  shows "trim_by ws s = s"
proof (rule trim_by_fixed)
  have "find (\<lambda>w. w \<noteq> [] \<and> has_prefix (s @ t) w) ws = None"
    using assms trim_by_stop [of ws "s @ t"] by simp
  then show "find (\<lambda>w. w \<noteq> [] \<and> has_prefix s w) ws = None"
    by (auto simp: find_None_iff dest: has_prefix_append)
qed

lemma trim_right_prefix: "\<exists>t. s = trim_right_space s @ t"
  by (metis trim_right_space_def trim_by_suffix rev_append rev_rev_ident)

lemma trim_space_idem [simp]: "trim_space (trim_space s) = trim_space s"
proof -
  obtain t where t: "trim_left_space s = trim_space s @ t"
    using trim_right_prefix trim_space_def by metis
  have "trim_by space_runes (trim_space s @ t) = trim_space s @ t"
    by (metis t trim_left_space_def trim_by_idem)
  then have "trim_left_space (trim_space s) = trim_space s"
    by (simp add: trim_left_space_def trim_by_prefix_fixed)
  then show ?thesis
    by (simp add: trim_space_def trim_right_space_def)
qed

lemma trim_space_Nil [simp]: "trim_space [] = []"
  by (simp add: trim_space_def trim_left_space_def trim_right_space_def)

lemma length_trim_space: "length (trim_space s) \<le> length s"
  by (metis trim_space_def trim_right_space_def trim_left_space_def length_rev length_trim_by
      order_trans)

section \<open>Case, search, split and join\<close>

definition lower_char :: "char \<Rightarrow> char" where
  "lower_char c =
     (if 65 \<le> (of_char c :: nat) \<and> (of_char c :: nat) \<le> 90 then char_of ((of_char c :: nat) + 32) else c)"

definition to_lower :: "string \<Rightarrow> string" where
  "to_lower s = map lower_char s"

definition equal_fold :: "string \<Rightarrow> string \<Rightarrow> bool" where
  "equal_fold s t \<longleftrightarrow> to_lower s = to_lower t"

lemma lower_char_idem [simp]: "lower_char (lower_char c) = lower_char c"
  by (auto simp: lower_char_def)

lemma to_lower_idem [simp]: "to_lower (to_lower s) = to_lower s"
  by (simp add: to_lower_def)

lemma equal_fold_refl [simp]: "equal_fold s s"
  and equal_fold_sym: "equal_fold s t \<Longrightarrow> equal_fold t s"
  and equal_fold_trans: "equal_fold s t \<Longrightarrow> equal_fold t u \<Longrightarrow> equal_fold s u"
  by (simp_all add: equal_fold_def)

fun contains_sub :: "string \<Rightarrow> string \<Rightarrow> bool" where
  "contains_sub [] p = (p = [])"
| "contains_sub (c # s) p = (has_prefix (c # s) p \<or> contains_sub s p)"

definition contains_char :: "string \<Rightarrow> char \<Rightarrow> bool" where
  "contains_char s c \<longleftrightarrow> c \<in> set s"

fun split_char :: "char \<Rightarrow> string \<Rightarrow> string list" where
  "split_char d [] = [[]]"
| "split_char d (c # s) =
     (if c = d then [] # split_char d s
      else (case split_char d s of [] \<Rightarrow> [[c]] | w # ws \<Rightarrow> (c # w) # ws))"

fun join_with :: "string \<Rightarrow> string list \<Rightarrow> string" where
  "join_with sep [] = []"
| "join_with sep [w] = w"
| "join_with sep (w # ws) = w @ sep @ join_with sep ws"

lemma split_char_neq_Nil [simp]: "split_char d s \<noteq> []"
  by (induction s) (auto split: list.splits)

lemma join_split_char [simp]: "join_with [d] (split_char d s) = s"
proof (induction s)
  case Nil
  then show ?case by simp
next
  case (Cons c s)
  then show ?case
    by (cases "split_char d s"; cases "tl (split_char d s)") auto
qed

lemma split_char_no_sep: "w \<in> set (split_char d s) \<Longrightarrow> d \<notin> set w"
  by (induction s arbitrary: w) (auto split: if_splits list.splits)

lemma split_char_plain: "d \<notin> set w \<Longrightarrow> split_char d w = [w]"
  by (induction w) auto

lemma split_char_append: "d \<notin> set w \<Longrightarrow> split_char d (w @ d # s) = w # split_char d s"
  by (induction w) auto

lemma split_join_char:
  "ws \<noteq> [] \<Longrightarrow> (\<forall>w \<in> set ws. d \<notin> set w) \<Longrightarrow> split_char d (join_with [d] ws) = ws"
  by (induction "[d]" ws rule: join_with.induct) (auto simp: split_char_plain split_char_append)

section \<open>Decimal numbers\<close>

fun show_nat :: "nat \<Rightarrow> string" where
  "show_nat n =
     (if n < 10 then [char_of (48 + n)] else show_nat (n div 10) @ [char_of (48 + n mod 10)])"

declare show_nat.simps [simp del]

lemma show_nat_neq_Nil [simp]: "show_nat n \<noteq> []"
  by (subst show_nat.simps) simp

definition show_int :: "int \<Rightarrow> string" where
  "show_int i = (if i < 0 then ''-'' @ show_nat (nat (- i)) else show_nat (nat i))"

section \<open>Character classes and the name patterns\<close>

definition is_lower_letter :: "char \<Rightarrow> bool" where
  "is_lower_letter c \<longleftrightarrow> 97 \<le> (of_char c :: nat) \<and> (of_char c :: nat) \<le> 122"

definition is_upper_letter :: "char \<Rightarrow> bool" where
  "is_upper_letter c \<longleftrightarrow> 65 \<le> (of_char c :: nat) \<and> (of_char c :: nat) \<le> 90"

definition is_ascii_digit :: "char \<Rightarrow> bool" where
  "is_ascii_digit c \<longleftrightarrow> 48 \<le> (of_char c :: nat) \<and> (of_char c :: nat) \<le> 57"

definition is_alnum :: "char \<Rightarrow> bool" where
  "is_alnum c \<longleftrightarrow> is_lower_letter c \<or> is_upper_letter c \<or> is_ascii_digit c"

text \<open>The shape \<open>[A-Za-z0-9][A-Za-z0-9 extra]{0,n}\<close> the program's name patterns share.\<close>

definition name_pattern :: "string \<Rightarrow> nat \<Rightarrow> string \<Rightarrow> bool" where
  "name_pattern extra n s \<longleftrightarrow>
     s \<noteq> [] \<and> is_alnum (hd s) \<and> length (tl s) \<le> n \<and>
     list_all (\<lambda>c. is_alnum c \<or> c \<in> set extra) (tl s)"

text \<open>\<open>unicode.IsControl\<close> over bytes: the C0 and C1 controls and DEL.\<close>

fun contains_control :: "string \<Rightarrow> bool" where
  "contains_control [] = False"
| "contains_control (c # s) =
     ((of_char c :: nat) < 32 \<or> (of_char c :: nat) = 127 \<or>
      ((of_char c :: nat) = 194 \<and> s \<noteq> [] \<and> 128 \<le> (of_char (hd s) :: nat) \<and> (of_char (hd s) :: nat) \<le> 159) \<or>
      contains_control s)"

section \<open>UTF-8 runes\<close>

text \<open>\<open>utf8.DecodeRune\<close>: the length of the first rune; a byte that starts no valid sequence is a
  rune of its own (the replacement rune).\<close>

definition in_range :: "nat \<Rightarrow> nat \<Rightarrow> nat \<Rightarrow> bool" where
  "in_range lo hi b \<longleftrightarrow> lo \<le> b \<and> b \<le> hi"

fun utf8_len :: "nat list \<Rightarrow> nat" where
  "utf8_len (a # b # rest) =
     (if in_range 194 223 a \<and> in_range 128 191 b then 2
      else (case rest of
              c # rest' \<Rightarrow>
                (if ((a = 224 \<and> in_range 160 191 b) \<or> (in_range 225 236 a \<and> in_range 128 191 b) \<or>
                     (a = 237 \<and> in_range 128 159 b) \<or> (in_range 238 239 a \<and> in_range 128 191 b)) \<and>
                    in_range 128 191 c then 3
                 else (case rest' of
                         d # _ \<Rightarrow>
                           (if ((a = 240 \<and> in_range 144 191 b) \<or> (in_range 241 243 a \<and> in_range 128 191 b) \<or>
                                (a = 244 \<and> in_range 128 143 b)) \<and> in_range 128 191 c \<and> in_range 128 191 d
                            then 4 else 1)
                       | [] \<Rightarrow> 1))
            | [] \<Rightarrow> 1))"
| "utf8_len bs = 1"

definition rune_len :: "string \<Rightarrow> nat" where
  "rune_len s = utf8_len (map of_char (take 4 s))"

lemma utf8_len_pos [simp]: "0 < utf8_len bs"
  by (induction bs rule: utf8_len.induct) (auto split: list.splits)

lemma rune_len_pos [simp]: "0 < rune_len s" "rune_len s \<noteq> 0"
  by (simp_all add: rune_len_def)

function runes :: "string \<Rightarrow> string list" where
  "runes s = (if s = [] then [] else take (rune_len s) s # runes (drop (rune_len s) s))"
  by pat_completeness auto
termination
  by (relation "measure length") auto

declare runes.simps [simp del]

lemma runes_Nil [simp]: "runes [] = []"
  by (simp add: runes.simps)

lemma runes_Cons: "s \<noteq> [] \<Longrightarrow> runes s = take (rune_len s) s # runes (drop (rune_len s) s)"
  by (subst runes.simps) simp

lemma concat_runes [simp]: "concat (runes s) = s"
proof (induction s rule: runes.induct)
  case (1 s)
  then show ?case by (cases "s = []") (simp_all add: runes_Cons)
qed

definition rune_count :: "string \<Rightarrow> nat" where
  "rune_count s = length (runes s)"

text \<open>Fast evaluation of the first rune of ASCII text and of letters.\<close>

lemma utf8_len_ascii: "a < 128 \<Longrightarrow> utf8_len (a # rest) = 1"
  by (cases rest) (auto simp: in_range_def split: list.splits)

lemma ascii_of_char: "\<not> digit7 c \<Longrightarrow> of_char c < (128 :: nat)"
  by (cases c) (auto simp: of_char_def)

lemma rune_len_code [code]:
  "rune_len s = (if s \<noteq> [] \<and> \<not> digit7 (hd s) then 1 else utf8_len (map of_char (take 4 s)))"
  by (cases s) (simp_all add: rune_len_def utf8_len_ascii ascii_of_char)

lemma lower_char_code [code]:
  "lower_char c = (let n = (of_char c :: int) in if 65 \<le> n \<and> n \<le> 90 then char_of (n + 32) else c)"
proof -
  have n: "(of_char c :: int) = int (of_char c)" by (rule of_nat_of_char [symmetric])
  have "char_of (int (of_char c) + 32) = (char_of ((of_char c :: nat) + 32) :: char)"
    using char_of_nat [of "(of_char c :: nat) + 32", where ?'a = int] by (simp only: of_nat_add of_nat_numeral)
  then show ?thesis unfolding lower_char_def Let_def n by simp
qed

section \<open>Trimming keeps what is not white space\<close>

lemma trim_by_keeps: "c \<in> set s \<Longrightarrow> \<forall>w \<in> set ws. c \<notin> set w \<Longrightarrow> c \<in> set (trim_by ws s)"
proof (induction ws s rule: trim_by.induct)
  case (1 ws s)
  show ?case
  proof (cases "find (\<lambda>w. w \<noteq> [] \<and> has_prefix s w) ws")
    case None
    with "1.prems" show ?thesis by (simp add: trim_by_fixed)
  next
    case (Some w)
    then have "w \<in> set ws" "has_prefix s w"
      by (auto simp: find_Some_iff)
    then have "c \<in> set (drop (length w) s)"
      using "1.prems" by (metis Un_iff append_take_drop_id has_prefix_def set_append)
    with "1.IH" [OF Some] "1.prems" Some show ?thesis
      by (simp add: trim_by.simps [of ws s])
  qed
qed

definition is_space_byte :: "char \<Rightarrow> bool" where
  "is_space_byte c \<longleftrightarrow> c \<in> \<Union> (set ` set space_runes)"

lemma trim_space_keeps: "c \<in> set s \<Longrightarrow> \<not> is_space_byte c \<Longrightarrow> c \<in> set (trim_space s)"
proof -
  assume c: "c \<in> set s" and "\<not> is_space_byte c"
  then have ns: "\<forall>w \<in> set space_runes. c \<notin> set w" by (auto simp: is_space_byte_def)
  then have "c \<in> set (trim_left_space s)"
    unfolding trim_left_space_def using c by (rule trim_by_keeps [rotated])
  then have "c \<in> set (rev (trim_left_space s))" by simp
  then have "c \<in> set (trim_by (map rev space_runes) (rev (trim_left_space s)))"
    by (rule trim_by_keeps) (use ns in auto)
  then show ?thesis by (simp add: trim_space_def trim_right_space_def)
qed

lemma slash_not_space: "\<not> is_space_byte (CHR ''/'')"
  unfolding is_space_byte_def by code_simp

lemma trim_space_neq_Nil: "c \<in> set s \<Longrightarrow> \<not> is_space_byte c \<Longrightarrow> trim_space s \<noteq> []"
  by (metis trim_space_keeps list.distinct(1) list.set_cases)

text \<open>\<open>filepath.IsAbs\<close> on Unix\<close>

definition is_abs :: "string \<Rightarrow> bool" where
  "is_abs p \<longleftrightarrow> p \<noteq> [] \<and> hd p = CHR ''/''"

lemma is_abs_trim: "is_abs p \<Longrightarrow> trim_space p \<noteq> []"
  unfolding is_abs_def by (rule trim_space_neq_Nil [OF _ slash_not_space]) (cases p; simp)

section \<open>Bytes of trimmed, lowered and joined strings\<close>

lemma set_split_char: "w \<in> set (split_char d s) \<Longrightarrow> set w \<subseteq> set s"
proof (induction s arbitrary: w)
  case (Cons a s)
  then show ?case by (cases "split_char d s") (auto split: if_splits, blast)
qed simp

lemma not_list_ex_eq: "\<not> list_ex ((=) c) s \<longleftrightarrow> c \<notin> set s"
  by (auto simp: list_ex_iff)

lemma set_trim_by: "set (trim_by ws s) \<subseteq> set s"
  using trim_by_suffix [of s ws] by (metis set_append sup_ge2)

lemma set_trim_space: "set (trim_space s) \<subseteq> set s"
  unfolding trim_space_def trim_right_space_def trim_left_space_def
  using set_trim_by [of space_runes s]
    set_trim_by [of "map rev space_runes" "rev (trim_by space_runes s)"] by auto

lemma to_lower_fixed_iff: "to_lower s = s \<longleftrightarrow> (\<forall>c \<in> set s. lower_char c = c)"
  unfolding to_lower_def by (induction s) auto

lemma lower_letter_not_space: "is_lower_letter c \<Longrightarrow> \<not> is_space_byte c"
proof -
  have "list_all (\<lambda>w. list_all (\<lambda>c. \<not> is_lower_letter c) w) space_runes" by code_simp
  then show "is_lower_letter c \<Longrightarrow> \<not> is_space_byte c"
    by (auto simp: is_space_byte_def list_all_iff)
qed

lemma join_with_snoc: "ws \<noteq> [] \<Longrightarrow> join_with sep (ws @ [w]) = join_with sep ws @ sep @ w"
  by (induction sep ws rule: join_with.induct) auto

lemma set_join_with: "set (join_with sep ws) \<subseteq> set sep \<union> (\<Union>w \<in> set ws. set w)"
  by (induction sep ws rule: join_with.induct) auto

lemma hd_join_with: "ws \<noteq> [] \<Longrightarrow> hd ws \<noteq> [] \<Longrightarrow> hd (join_with sep ws) = hd (hd ws)"
  by (cases "(sep, ws)" rule: join_with.cases) auto

lemma trim_left_fixed: "s \<noteq> [] \<Longrightarrow> \<not> is_space_byte (hd s) \<Longrightarrow> trim_left_space s = s"
  unfolding trim_left_space_def
  by (rule trim_by_fixed)
     (auto simp: find_None_iff has_prefix_iff is_space_byte_def append_eq_Cons_conv hd_append
        split: if_splits)

lemma trim_right_of_trimmed: "trim_space k = k \<Longrightarrow> trim_right_space k = k"
  by (metis trim_by_idem trim_right_space_def trim_space_def rev_rev_ident)

end
