(* ===== verification/Usage.thy ===== *)
theory Usage
  imports Prelude
begin

text \<open>
  Token accounting: \<open>agent.Usage\<close> and the two routines that add one model call to a running
  total, \<open>aggregateUsage\<close> of the agent loop and \<open>accumulateUsage\<close> of the daemon. The counters
  are Go \<open>int64\<close>: 64-bit words whose addition wraps.
\<close>

type_synonym i64 = "64 word"

record usage =
  input_tokens :: i64
  output_tokens :: i64
  cache_read_tokens :: i64
  cache_write_tokens :: i64
  total_tokens :: i64
  context_tokens :: i64
  context_window :: i64

definition zero_usage :: usage where
  "zero_usage = \<lparr>input_tokens = 0, output_tokens = 0, cache_read_tokens = 0,
     cache_write_tokens = 0, total_tokens = 0, context_tokens = 0, context_window = 0\<rparr>"

text \<open>\<open>agentloop.aggregateUsage\<close>\<close>

definition aggregate_usage :: "usage \<Rightarrow> usage \<Rightarrow> usage" where
  "aggregate_usage acc current =
     (let current_total = (if total_tokens current = 0
                           then input_tokens current + output_tokens current
                           else total_tokens current);
          current_context = (if context_tokens current = 0
                             then input_tokens current + output_tokens current
                             else context_tokens current)
      in acc\<lparr>
           input_tokens := input_tokens acc + input_tokens current,
           output_tokens := output_tokens acc + output_tokens current,
           cache_read_tokens := cache_read_tokens acc + cache_read_tokens current,
           cache_write_tokens := cache_write_tokens acc + cache_write_tokens current,
           total_tokens := total_tokens acc + current_total,
           context_tokens := (if current_context \<noteq> 0 then current_context else context_tokens acc),
           context_window := (if context_window current \<noteq> 0 then context_window current
                              else context_window acc)\<rparr>)"

text \<open>\<open>daemon.accumulateUsage\<close>: its own copy of the same update.\<close>

definition accumulate_usage :: "usage \<Rightarrow> usage \<Rightarrow> usage" where
  "accumulate_usage acc current =
     (let t1 = acc\<lparr>
           input_tokens := input_tokens acc + input_tokens current,
           output_tokens := output_tokens acc + output_tokens current,
           cache_read_tokens := cache_read_tokens acc + cache_read_tokens current,
           cache_write_tokens := cache_write_tokens acc + cache_write_tokens current\<rparr>;
          current_total = (if total_tokens current = 0
                           then input_tokens current + output_tokens current
                           else total_tokens current);
          t2 = t1\<lparr>total_tokens := total_tokens t1 + current_total\<rparr>;
          ctx = (if context_tokens current = 0
                 then input_tokens current + output_tokens current
                 else context_tokens current);
          t3 = (if ctx \<noteq> 0 then t2\<lparr>context_tokens := ctx\<rparr> else t2)
      in if context_window current \<noteq> 0 then t3\<lparr>context_window := context_window current\<rparr> else t3)"

text \<open>\<open>daemon.usagePresent\<close>\<close>

definition usage_present :: "usage \<Rightarrow> bool" where
  "usage_present u \<longleftrightarrow>
     input_tokens u \<noteq> 0 \<or> output_tokens u \<noteq> 0 \<or> cache_read_tokens u \<noteq> 0 \<or>
     cache_write_tokens u \<noteq> 0 \<or> total_tokens u \<noteq> 0 \<or> context_tokens u \<noteq> 0 \<or>
     context_window u \<noteq> 0"

section \<open>Lemmas\<close>

definition effective_total :: "usage \<Rightarrow> i64" where
  "effective_total u =
     (if total_tokens u = 0 then input_tokens u + output_tokens u else total_tokens u)"

lemma accumulate_aggregate: "accumulate_usage t c = aggregate_usage t c"
  by (simp add: accumulate_usage_def aggregate_usage_def Let_def)

lemma aggregate_usage_fields [simp]:
  "input_tokens (aggregate_usage t c) = input_tokens t + input_tokens c"
  "output_tokens (aggregate_usage t c) = output_tokens t + output_tokens c"
  "cache_read_tokens (aggregate_usage t c) = cache_read_tokens t + cache_read_tokens c"
  "cache_write_tokens (aggregate_usage t c) = cache_write_tokens t + cache_write_tokens c"
  "total_tokens (aggregate_usage t c) = total_tokens t + effective_total c"
  by (simp_all add: aggregate_usage_def Let_def effective_total_def)

lemma usage_absent_iff: "\<not> usage_present u \<longleftrightarrow> u = zero_usage"
  by (cases u) (auto simp: usage_present_def zero_usage_def)

lemma aggregate_zero_right [simp]: "aggregate_usage t zero_usage = t"
  by (simp add: aggregate_usage_def zero_usage_def Let_def)

text \<open>The counters of a whole run are sums over its model calls.\<close>

lemma foldl_aggregate_sums:
  "input_tokens (foldl aggregate_usage t us) = input_tokens t + sum_list (map input_tokens us)"
  "output_tokens (foldl aggregate_usage t us) = output_tokens t + sum_list (map output_tokens us)"
  "cache_read_tokens (foldl aggregate_usage t us) =
     cache_read_tokens t + sum_list (map cache_read_tokens us)"
  "cache_write_tokens (foldl aggregate_usage t us) =
     cache_write_tokens t + sum_list (map cache_write_tokens us)"
  "total_tokens (foldl aggregate_usage t us) = total_tokens t + sum_list (map effective_total us)"
  by (induction us arbitrary: t) (simp_all add: add.assoc)

end
