(* ===== verification/AgentLoop.thy ===== *)
theory AgentLoop
  imports GoStrings Usage
begin

text \<open>
  The model/tool/model cycle of \<open>agentloop/loop.go\<close> over the provider-neutral types of
  \<open>agent/agent.go\<close>. The provider session, the tools, the hooks, the steering source and the
  context are arguments of the loop (interfaces and callbacks in the code); each may read and
  change a world of type \<open>'w\<close>. A run returns what it did in order: the events it emitted, the
  model steps it asked for and the tools it executed.
\<close>

section \<open>Types of package agent\<close>

record tool_definition =
  td_name :: string
  td_description :: string
  td_parameters :: string

record tool_call =
  tc_id :: string
  tc_name :: string
  tc_arguments :: string

record tool_result =
  tr_call_id :: string
  tr_output :: string
  tr_is_error :: bool

record image_input =
  im_name :: string
  im_mime_type :: string
  im_data :: string

record model_event =
  me_type :: string
  me_delta :: string
  me_text :: string
  me_item :: string

record step_request =
  sr_user_messages :: "string list"
  sr_images :: "image_input list"
  sr_tool_results :: "tool_result list"
  sr_tools :: "tool_definition list"
  sr_reasoning_effort :: string

record agent_result =
  ar_text :: string
  ar_provider :: string
  ar_session_id :: string
  ar_turn_id :: string
  ar_usage :: usage

record step_result =
  ss_result :: agent_result
  ss_tool_calls :: "tool_call list"

section \<open>The facade of package agent\<close>

datatype agent_error =
    ProviderNil | OpenSessionFailed string | ProviderNilSession
  | AgentNotInitialized | AgentPromptEmpty | RunTurnFailed string

text \<open>A provider opens a session, an error, or (wrongly) no session at all. A session is its
  id and its run function.\<close>

record 'w session =
  se_id :: string
  se_run :: "string \<Rightarrow> 'w \<Rightarrow> (string, agent_result) result \<times> 'w"

definition agent_new ::
  "('o \<Rightarrow> 'w \<Rightarrow> (string, 'w session option) result \<times> 'w) option \<Rightarrow> 'o \<Rightarrow> 'w \<Rightarrow>
     (agent_error, 'w session) result \<times> 'w" where
  "agent_new provider options w =
     (case provider of
        None \<Rightarrow> (Inl ProviderNil, w)
      | Some open_session \<Rightarrow>
          (case open_session options w of
             (Inl e, w') \<Rightarrow> (Inl (OpenSessionFailed e), w')
           | (Inr None, w') \<Rightarrow> (Inl ProviderNilSession, w')
           | (Inr (Some s), w') \<Rightarrow> (Inr s, w')))"

definition agent_id :: "'w session option \<Rightarrow> string" where
  "agent_id a = (case a of None \<Rightarrow> [] | Some s \<Rightarrow> se_id s)"

definition agent_run ::
  "'w session option \<Rightarrow> string \<Rightarrow> 'w \<Rightarrow> (agent_error, agent_result) result \<times> 'w" where
  "agent_run a prompt w =
     (case a of
        None \<Rightarrow> (Inl AgentNotInitialized, w)
      | Some s \<Rightarrow>
          if trim_space prompt = [] then (Inl AgentPromptEmpty, w)
          else (case se_run s prompt w of
                  (Inl e, w') \<Rightarrow> (Inl (RunTurnFailed e), w')
                | (Inr r, w') \<Rightarrow> (Inr r, w')))"

section \<open>Events and configuration of package agentloop\<close>

record event =
  ev_type :: string
  ev_step :: nat
  ev_message_id :: string
  ev_delta :: string
  ev_text :: string
  ev_tool_call_id :: string
  ev_tool_name :: string
  ev_arguments :: string
  ev_output :: string
  ev_is_error :: bool
  ev_usage :: "usage option"

definition mk_event :: "string \<Rightarrow> nat \<Rightarrow> event" where
  "mk_event t n = \<lparr>ev_type = t, ev_step = n, ev_message_id = [], ev_delta = [], ev_text = [],
     ev_tool_call_id = [], ev_tool_name = [], ev_arguments = [], ev_output = [],
     ev_is_error = False, ev_usage = None\<rparr>"

text \<open>What a run does, in order.\<close>

datatype obs = Emit event | Step step_request | Exec string string

record 'w loop_tool =
  lt_definition :: tool_definition
  lt_execute :: "string \<Rightarrow> 'w \<Rightarrow> (string \<times> string option) \<times> 'w"

record 'w loop_config =
  lc_session_id :: string
  lc_step :: "step_request \<Rightarrow> 'w \<Rightarrow> model_event list \<times> (string, step_result) result \<times> 'w"
  lc_tools :: "'w loop_tool gomap"
  lc_reasoning_effort :: string
  lc_max_steps :: int
  lc_take_steering :: "('w \<Rightarrow> string list \<times> 'w) option"
  lc_before_prompt :: "(string \<Rightarrow> 'w \<Rightarrow> (string, string) result \<times> 'w) list"
  lc_after_model :: "(step_result \<Rightarrow> 'w \<Rightarrow> (string, step_result) result \<times> 'w) list"
  lc_before_tool :: "(tool_call \<Rightarrow> 'w \<Rightarrow> (tool_call \<times> string option) \<times> 'w) list"
  lc_after_tool :: "(tool_call \<Rightarrow> tool_result \<Rightarrow> 'w \<Rightarrow> (tool_result \<times> string option) \<times> 'w) list"
  lc_ctx_err :: "'w \<Rightarrow> string option"

datatype loop_error =
    PromptEmpty | CtxError string | SessionError string
  | BeforePromptHook string | AfterModelHook string | MaxStepsExceeded int

definition loop_new :: "'w loop_config \<Rightarrow> 'w loop_config" where
  "loop_new c = (if lc_max_steps c \<le> 0 then c\<lparr>lc_max_steps := 32\<rparr> else c)"

section \<open>Hooks\<close>

fun before_prompt ::
  "(string \<Rightarrow> 'w \<Rightarrow> (string, string) result \<times> 'w) list \<Rightarrow> string \<Rightarrow> 'w \<Rightarrow>
     (loop_error, string) result \<times> 'w" where
  "before_prompt [] p w = (Inr p, w)"
| "before_prompt (h # hs) p w =
     (case h p w of
        (Inl e, w') \<Rightarrow> (Inl (BeforePromptHook e), w')
      | (Inr p', w') \<Rightarrow> before_prompt hs p' w')"

fun run_after_model ::
  "(step_result \<Rightarrow> 'w \<Rightarrow> (string, step_result) result \<times> 'w) list \<Rightarrow> step_result \<Rightarrow> 'w \<Rightarrow>
     (loop_error, step_result) result \<times> 'w" where
  "run_after_model [] s w = (Inr s, w)"
| "run_after_model (h # hs) s w =
     (case h s w of
        (Inl e, w') \<Rightarrow> (Inl (AfterModelHook e), w')
      | (Inr s', w') \<Rightarrow> run_after_model hs s' w')"

text \<open>A before-tool hook may change the call; an error vetoes it and skips the later hooks.\<close>

fun run_before_tool ::
  "(tool_call \<Rightarrow> 'w \<Rightarrow> (tool_call \<times> string option) \<times> 'w) list \<Rightarrow> tool_call \<Rightarrow> tool_result \<Rightarrow> 'w \<Rightarrow>
     tool_call \<times> tool_result \<times> 'w" where
  "run_before_tool [] c r w = (c, r, w)"
| "run_before_tool (h # hs) c r w =
     (case h c w of
        ((c', Some e), w') \<Rightarrow> (c', r\<lparr>tr_is_error := True, tr_output := e\<rparr>, w')
      | ((c', None), w') \<Rightarrow> run_before_tool hs c' r w')"

definition append_line :: "string \<Rightarrow> string \<Rightarrow> string" where
  "append_line out e = (if out \<noteq> [] then out @ [byte 10] @ e else e)"

fun run_after_tool ::
  "(tool_call \<Rightarrow> tool_result \<Rightarrow> 'w \<Rightarrow> (tool_result \<times> string option) \<times> 'w) list \<Rightarrow>
     tool_call \<Rightarrow> tool_result \<Rightarrow> 'w \<Rightarrow> tool_result \<times> 'w" where
  "run_after_tool [] c r w = (r, w)"
| "run_after_tool (h # hs) c r w =
     (case h c r w of
        ((r', Some e), w') \<Rightarrow>
          run_after_tool hs c
            (r'\<lparr>tr_is_error := True, tr_output := append_line (tr_output r') e\<rparr>) w'
      | ((r', None), w') \<Rightarrow> run_after_tool hs c r' w')"

section \<open>Streaming events of one model step\<close>

record reasoning =
  rs_text :: string
  rs_started :: bool
  rs_ended :: bool

definition reasoning_event :: "string \<Rightarrow> nat \<Rightarrow> string \<Rightarrow> event" where
  "reasoning_event t n rid = (mk_event t n)\<lparr>ev_message_id := rid\<rparr>"

definition reasoning_start_if_needed :: "nat \<Rightarrow> string \<Rightarrow> reasoning \<Rightarrow> event list" where
  "reasoning_start_if_needed n rid r =
     (if rs_started r then [] else [reasoning_event ''reasoning_start'' n rid])"

definition on_model_event ::
  "nat \<Rightarrow> string \<Rightarrow> string \<Rightarrow> model_event \<Rightarrow> reasoning \<Rightarrow> event list \<times> reasoning" where
  "on_model_event n mid rid e r =
     (if me_type e = ''text_delta'' then
        ([(mk_event ''message_update'' n)\<lparr>ev_message_id := mid, ev_delta := me_delta e\<rparr>], r)
      else if me_type e = ''reasoning_delta'' then
        (reasoning_start_if_needed n rid r @
           [(reasoning_event ''reasoning_update'' n rid)\<lparr>ev_delta := me_delta e\<rparr>],
         r\<lparr>rs_started := True, rs_text := rs_text r @ me_delta e\<rparr>)
      else if me_type e = ''reasoning_done'' then
        (let text = (if trim_space (me_text e) \<noteq> [] then me_text e else rs_text r)
         in if trim_space text \<noteq> [] then
              (reasoning_start_if_needed n rid r @
                 [(reasoning_event ''reasoning_end'' n rid)\<lparr>ev_text := text\<rparr>],
               r\<lparr>rs_text := text, rs_started := True, rs_ended := True\<rparr>)
            else ([], r\<lparr>rs_text := text\<rparr>))
      else ([], r))"

fun on_model_events ::
  "nat \<Rightarrow> string \<Rightarrow> string \<Rightarrow> model_event list \<Rightarrow> reasoning \<Rightarrow> event list \<times> reasoning" where
  "on_model_events n mid rid [] r = ([], r)"
| "on_model_events n mid rid (e # es) r =
     (let (evs, r') = on_model_event n mid rid e r;
          (evs', r'') = on_model_events n mid rid es r'
      in (evs @ evs', r''))"

section \<open>Tool execution\<close>

definition tool_definitions :: "'w loop_config \<Rightarrow> tool_definition list" where
  "tool_definitions c = map (\<lambda>(n, t). lt_definition t) (sort_key fst (lc_tools c))"

definition tool_start_event :: "nat \<Rightarrow> tool_call \<Rightarrow> event" where
  "tool_start_event n call =
     (mk_event ''tool_execution_start'' n)\<lparr>ev_tool_call_id := tc_id call, ev_tool_name := tc_name call,
        ev_arguments := tc_arguments call\<rparr>"

definition tool_end_event :: "nat \<Rightarrow> tool_call \<Rightarrow> tool_result \<Rightarrow> event" where
  "tool_end_event n call r =
     (mk_event ''tool_execution_end'' n)\<lparr>ev_tool_call_id := tc_id call, ev_tool_name := tc_name call,
        ev_arguments := tc_arguments call, ev_output := tr_output r, ev_is_error := tr_is_error r\<rparr>"

text \<open>The tool itself runs only when no hook vetoed the call and the name is a configured tool.\<close>

definition invoke_tool ::
  "'w loop_config \<Rightarrow> tool_call \<Rightarrow> tool_result \<Rightarrow> 'w \<Rightarrow> obs list \<times> tool_result \<times> 'w" where
  "invoke_tool c call r w =
     (if tr_is_error r then ([], r, w)
      else case map_of (lc_tools c) (tc_name call) of
        None \<Rightarrow> ([], r\<lparr>tr_is_error := True,
                      tr_output := ''unknown or disabled tool: '' @ tc_name call\<rparr>, w)
      | Some t \<Rightarrow>
          (case lt_execute t (tc_arguments call) w of
             ((out, None), w') \<Rightarrow> ([Exec (tc_name call) (tc_arguments call)], r\<lparr>tr_output := out\<rparr>, w')
           | ((out, Some e), w') \<Rightarrow>
               ([Exec (tc_name call) (tc_arguments call)],
                r\<lparr>tr_is_error := True, tr_output := append_line out e\<rparr>, w')))"

definition execute_call ::
  "'w loop_config \<Rightarrow> nat \<Rightarrow> tool_call \<Rightarrow> 'w \<Rightarrow> obs list \<times> tool_result \<times> 'w" where
  "execute_call c n call w =
     (let r0 = \<lparr>tr_call_id = tc_id call, tr_output = [], tr_is_error = False\<rparr>;
          (call', r1, w1) = run_before_tool (lc_before_tool c) call r0 w;
          (os, r2, w2) = invoke_tool c call' r1 w1;
          (r3, w3) = run_after_tool (lc_after_tool c) call' r2 w2
      in ([Emit (tool_start_event n call)] @ os @ [Emit (tool_end_event n call' r3)], r3, w3))"

fun execute_calls ::
  "'w loop_config \<Rightarrow> nat \<Rightarrow> tool_call list \<Rightarrow> 'w \<Rightarrow> obs list \<times> tool_result list \<times> 'w" where
  "execute_calls c n [] w = ([], [], w)"
| "execute_calls c n (call # calls) w =
     (let (os, r, w1) = execute_call c n call w;
          (os', rs, w2) = execute_calls c n calls w1
      in (os @ os', r # rs, w2))"

section \<open>One turn\<close>

record turn_input =
  ti_user_messages :: "string list"
  ti_images :: "image_input list"
  ti_tool_results :: "tool_result list"
  ti_usage :: usage

datatype turn_outcome = Failed loop_error | Finished agent_result | Continue turn_input

definition turn_request :: "'w loop_config \<Rightarrow> turn_input \<Rightarrow> step_request" where
  "turn_request c ti =
     \<lparr>sr_user_messages = ti_user_messages ti, sr_images = ti_images ti,
      sr_tool_results = ti_tool_results ti, sr_tools = tool_definitions c,
      sr_reasoning_effort = lc_reasoning_effort c\<rparr>"

text \<open>The model half of a turn: from \<open>turn_start\<close> to \<open>message_end\<close>.\<close>

definition model_half ::
  "'w loop_config \<Rightarrow> string \<Rightarrow> nat \<Rightarrow> turn_input \<Rightarrow> 'w \<Rightarrow>
     obs list \<times> (loop_error, step_result \<times> agent_result) result \<times> 'w" where
  "model_half c run_id n ti w =
     (let mid = run_id @ '':step-'' @ show_nat n;
          rid = mid @ '':reasoning'';
          req = turn_request c ti;
          (mes, sr, w1) = lc_step c req w;
          (revs, rs) = on_model_events n mid rid mes
                         \<lparr>rs_text = [], rs_started = False, rs_ended = False\<rparr>;
          o1 = [Emit (mk_event ''turn_start'' n),
                Emit ((mk_event ''message_start'' n)\<lparr>ev_message_id := mid\<rparr>), Step req] @ map Emit revs
      in case sr of
           Inl e \<Rightarrow> (o1, Inl (SessionError e), w1)
         | Inr step \<Rightarrow>
             (let o2 = o1 @ (if rs_started rs \<and> \<not> rs_ended rs \<and> trim_space (rs_text rs) \<noteq> []
                             then [Emit ((reasoning_event ''reasoning_end'' n rid)\<lparr>ev_text := rs_text rs\<rparr>)]
                             else [])
              in case run_after_model (lc_after_model c) step w1 of
                   (Inl e, w2) \<Rightarrow> (o2, Inl e, w2)
                 | (Inr step', w2) \<Rightarrow>
                     (let usage = aggregate_usage (ti_usage ti) (ar_usage (ss_result step'));
                          reply = (ss_result step')\<lparr>ar_usage := usage\<rparr>
                      in (o2 @ [Emit ((mk_event ''message_end'' n)\<lparr>ev_message_id := mid,
                                 ev_text := ar_text (ss_result step'),
                                 ev_usage := Some (ar_usage (ss_result step'))\<rparr>)],
                          Inr (step', reply), w2))))"

fun prepare_prompts ::
  "(string \<Rightarrow> 'w \<Rightarrow> (string, string) result \<times> 'w) list \<Rightarrow> string list \<Rightarrow> 'w \<Rightarrow>
     (loop_error, string list) result \<times> 'w" where
  "prepare_prompts hs [] w = (Inr [], w)"
| "prepare_prompts hs (p # ps) w =
     (case before_prompt hs p w of
        (Inl e, w') \<Rightarrow> (Inl e, w')
      | (Inr p', w') \<Rightarrow>
          (case prepare_prompts hs ps w' of
             (Inl e, w'') \<Rightarrow> (Inl e, w'')
           | (Inr ps', w'') \<Rightarrow> (Inr (p' # ps'), w'')))"

definition take_steering_messages ::
  "'w loop_config \<Rightarrow> 'w \<Rightarrow> (loop_error, string list) result \<times> 'w" where
  "take_steering_messages c w =
     (case lc_take_steering c of
        None \<Rightarrow> (Inr [], w)
      | Some steer \<Rightarrow> (let (ms, w') = steer w in prepare_prompts (lc_before_prompt c) ms w'))"

definition run_turn ::
  "'w loop_config \<Rightarrow> string \<Rightarrow> nat \<Rightarrow> turn_input \<Rightarrow> 'w \<Rightarrow> obs list \<times> turn_outcome \<times> 'w" where
  "run_turn c run_id n ti w =
     (case lc_ctx_err c w of
        Some e \<Rightarrow> ([], Failed (CtxError e), w)
      | None \<Rightarrow>
         (case model_half c run_id n ti w of
            (o1, Inl e, w1) \<Rightarrow> (o1, Failed e, w1)
          | (o1, Inr (step, reply), w1) \<Rightarrow>
             (let (o2, rs, w2) = execute_calls c n (ss_tool_calls step) w1
              in case take_steering_messages c w2 of
                   (Inl e, w3) \<Rightarrow> (o1 @ o2, Failed e, w3)
                 | (Inr ms, w3) \<Rightarrow>
                     (let o3 = o1 @ o2 @ [Emit (mk_event ''turn_end'' n)]
                      in if ss_tool_calls step = [] \<and> ms = [] then
                           (o3 @ [Emit ((mk_event ''agent_end'' n)\<lparr>ev_text := ar_text reply\<rparr>)],
                            Finished reply, w3)
                         else (o3, Continue \<lparr>ti_user_messages = ms, ti_images = [],
                                    ti_tool_results = rs, ti_usage = ar_usage reply\<rparr>, w3)))))"

section \<open>The run\<close>

text \<open>\<open>run_steps c run_id k n\<close> is the code's loop from step \<open>n\<close> with \<open>k\<close> iterations left, so
  \<open>stepNumber <= MaxSteps\<close> is \<open>0 < k\<close>.\<close>

fun run_steps ::
  "'w loop_config \<Rightarrow> string \<Rightarrow> nat \<Rightarrow> nat \<Rightarrow> turn_input \<Rightarrow> 'w \<Rightarrow>
     obs list \<times> (loop_error, agent_result) result \<times> 'w" where
  "run_steps c run_id 0 n ti w = ([], Inl (MaxStepsExceeded (lc_max_steps c)), w)"
| "run_steps c run_id (Suc k) n ti w =
     (case run_turn c run_id n ti w of
        (os, Failed e, w') \<Rightarrow> (os, Inl e, w')
      | (os, Finished r, w') \<Rightarrow> (os, Inr r, w')
      | (os, Continue ti', w') \<Rightarrow>
          (let (os', res, w'') = run_steps c run_id k (Suc n) ti' w' in (os @ os', res, w'')))"

definition run_with_images ::
  "'w loop_config \<Rightarrow> nat \<Rightarrow> string \<Rightarrow> image_input list \<Rightarrow> 'w \<Rightarrow>
     obs list \<times> (loop_error, agent_result) result \<times> 'w" where
  "run_with_images c run_number prompt images w =
     (if trim_space prompt = [] \<and> images = [] then ([], Inl PromptEmpty, w)
      else
        (let run_id = lc_session_id c @ '':run-'' @ show_nat run_number;
             start = [Emit (mk_event ''agent_start'' 0)];
             (pr, w1) = (if trim_space prompt \<noteq> [] then before_prompt (lc_before_prompt c) prompt w
                         else (Inr prompt, w))
         in case pr of
              Inl e \<Rightarrow> (start, Inl e, w1)
            | Inr p \<Rightarrow>
                (let ms = (if trim_space p \<noteq> [] then [p] else []);
                     (os, res, w2) = run_steps c run_id (nat (lc_max_steps c)) 1
                       \<lparr>ti_user_messages = ms, ti_images = images, ti_tool_results = [],
                        ti_usage = zero_usage\<rparr> w1
                 in (start @ os, res, w2))))"

end
