(* ===== verification/AgentLoopProps.thy ===== *)
theory AgentLoopProps
  imports AgentLoop
begin

text \<open>
  What the agent loop guarantees its clients: the lifecycle protocol of its events, the pairing
  of tool calls with results, the step budget, the tools it may run and the usage it reports.
\<close>

section \<open>The lifecycle protocol of the event stream\<close>

primrec events_of :: "obs list \<Rightarrow> event list" where
  "events_of [] = []"
| "events_of (x # xs) = (case x of Emit e \<Rightarrow> e # events_of xs | _ \<Rightarrow> events_of xs)"

primrec requests_of :: "obs list \<Rightarrow> step_request list" where
  "requests_of [] = []"
| "requests_of (x # xs) = (case x of Step r \<Rightarrow> r # requests_of xs | _ \<Rightarrow> requests_of xs)"

lemma events_of_append [simp]: "events_of (xs @ ys) = events_of xs @ events_of ys"
  by (induction xs) (auto split: obs.splits)

lemma requests_of_append [simp]: "requests_of (xs @ ys) = requests_of xs @ requests_of ys"
  by (induction xs) (auto split: obs.splits)

lemma events_of_Emit [simp]: "events_of (map Emit es) = es"
  by (induction es) auto

lemma requests_of_Emit [simp]: "requests_of (map Emit es) = []"
  by (induction es) auto

text \<open>
  The abstract protocol a client may rely on: a run is a sequence of turns; a turn is a message
  (with text and reasoning updates inside), then tool executions one at a time. Reasoning
  updates and ends come after a start, and a start comes once.
\<close>

datatype phase =
    NotStarted | Between nat | InTurn nat | InMessage nat bool | AfterMessage nat | InTool nat
  | Ended nat




lemma mk_event_fields [simp]:
  "ev_type (mk_event t n) = t" "ev_step (mk_event t n) = n"
  by (simp_all add: mk_event_def)

lemma reasoning_event_fields [simp]:
  "ev_type (reasoning_event t n rid) = t" "ev_step (reasoning_event t n rid) = n"
  by (simp_all add: reasoning_event_def)



lemma invoke_tool_events [simp]: "invoke_tool c call r w = (os, r', w') \<Longrightarrow> events_of os = []"
  by (auto simp: invoke_tool_def split: if_splits option.splits prod.splits)



definition unfinished :: "phase option \<Rightarrow> bool" where
  "unfinished p \<longleftrightarrow> (case p of None \<Rightarrow> False | Some (Ended n) \<Rightarrow> False | _ \<Rightarrow> True)"

lemma unfinished_simps [simp]:
  "unfinished (Some (Between n))" "unfinished (Some (InTurn n))" "unfinished (Some (InMessage n b))"
  "unfinished (Some (AfterMessage n))" "unfinished (Some (InTool n))" "unfinished (Some NotStarted)"
  "\<not> unfinished (Some (Ended n))" "\<not> unfinished None"
  by (simp_all add: unfinished_def)




section \<open>Where the errors of a run come from\<close>

lemma before_prompt_error:
  "before_prompt hs p w = (Inl e, w') \<Longrightarrow> \<exists>m. e = BeforePromptHook m"
  by (induction hs p w rule: before_prompt.induct) (auto split: prod.splits sum.splits)

lemma prepare_prompts_error:
  "prepare_prompts hs ps w = (Inl e, w') \<Longrightarrow> \<exists>m. e = BeforePromptHook m"
  by (induction ps arbitrary: w w')
     (auto split: prod.splits sum.splits dest: before_prompt_error)

lemma run_after_model_error:
  "run_after_model hs s w = (Inl e, w') \<Longrightarrow> \<exists>m. e = AfterModelHook m"
  by (induction hs s w rule: run_after_model.induct) (auto split: prod.splits sum.splits)

lemma take_steering_error:
  "take_steering_messages c w = (Inl e, w') \<Longrightarrow> \<exists>m. e = BeforePromptHook m"
  by (auto simp: take_steering_messages_def split: option.splits prod.splits dest: prepare_prompts_error)

lemma model_half_error:
  "model_half c rid n ti w = (os, Inl e, w') \<Longrightarrow> (\<exists>m. e = SessionError m) \<or> (\<exists>m. e = AfterModelHook m)"
  by (auto simp: model_half_def Let_def split: prod.splits sum.splits dest: run_after_model_error)

lemma run_turn_error:
  "run_turn c rid n ti w = (os, Failed e, w') \<Longrightarrow> e \<noteq> PromptEmpty \<and> (\<forall>m. e \<noteq> MaxStepsExceeded m)"
  by (auto simp: run_turn_def Let_def split: prod.splits sum.splits option.splits if_splits
           dest: model_half_error take_steering_error)



text \<open>A run that gets past its checks is the start event and the steps.\<close>

lemma run_with_images_cases:
  obtains (empty) "run_with_images c k p imgs w = ([], Inl PromptEmpty, w)"
  | (hook) m w' where "run_with_images c k p imgs w =
        ([Emit (mk_event ''agent_start'' 0)], Inl (BeforePromptHook m), w')"
  | (steps) rid ti w1 os res w' where
      "run_steps c rid (nat (lc_max_steps c)) 1 ti w1 = (os, res, w')"
      "ti_images ti = imgs" "ti_usage ti = zero_usage" "ti_tool_results ti = []"
      "run_with_images c k p imgs w = (Emit (mk_event ''agent_start'' 0) # os, res, w')"
proof (cases "trim_space p = [] \<and> imgs = []")
  case True
  then show thesis using empty by (simp add: run_with_images_def)
next
  case False
  obtain pr w1 where pr: "(if trim_space p \<noteq> [] then before_prompt (lc_before_prompt c) p w
      else (Inr p, w)) = (pr, w1)"
    by (metis prod.exhaust)
  show thesis
  proof (cases pr)
    case (Inl e)
    with pr obtain m where "e = BeforePromptHook m"
      by (auto split: if_splits dest: before_prompt_error)
    with False pr Inl hook [of m w1] show thesis
      by (simp add: run_with_images_def Let_def)
  next
    case (Inr q)
    let ?rid = "lc_session_id c @ '':run-'' @ show_nat k"
    let ?ti = "\<lparr>ti_user_messages = (if trim_space q \<noteq> [] then [q] else []), ti_images = imgs,
      ti_tool_results = [], ti_usage = zero_usage\<rparr>"
    obtain os res w' where r: "run_steps c ?rid (nat (lc_max_steps c)) 1 ?ti w1 = (os, res, w')"
      by (metis prod.exhaust)
    show thesis
      by (rule steps [OF r])
         (use False pr Inr r in \<open>simp_all add: run_with_images_def Let_def\<close>)
  qed
qed


section \<open>Tool calls and their results\<close>







definition started_calls :: "obs list \<Rightarrow> string list" where
  "started_calls os =
     map ev_tool_call_id (filter (\<lambda>e. ev_type e = ''tool_execution_start'') (events_of os))"

lemma started_calls_append [simp]: "started_calls (xs @ ys) = started_calls xs @ started_calls ys"
  by (simp add: started_calls_def)

lemma started_calls_simps [simp]:
  "started_calls [] = []"
  "started_calls (Emit e # os) =
     (if ev_type e = ''tool_execution_start'' then [ev_tool_call_id e] else []) @ started_calls os"
  "started_calls (Step q # os) = started_calls os"
  by (simp_all add: started_calls_def)



lemma on_model_event_types:
  "on_model_event n mid rid e r = (es, r') \<Longrightarrow>
     \<forall>ev \<in> set es. ev_type ev \<notin> {''tool_execution_start'', ''message_end''}"
  by (auto simp: on_model_event_def reasoning_start_if_needed_def Let_def split: if_splits)

lemma on_model_events_types:
  "on_model_events n mid rid ms r = (es, r') \<Longrightarrow>
     \<forall>ev \<in> set es. ev_type ev \<notin> {''tool_execution_start'', ''message_end''}"
  by (induction ms arbitrary: r es r') (fastforce split: prod.splits dest: on_model_event_types)+





section \<open>Which tools a run may execute\<close>

definition executed :: "obs list \<Rightarrow> string set" where
  "executed os = {n. \<exists>a. Exec n a \<in> set os}"

lemma executed_simps [simp]:
  "executed [] = {}" "executed (xs @ ys) = executed xs \<union> executed ys"
  "executed (Emit e # xs) = executed xs" "executed (Step r # xs) = executed xs"
  "executed (Exec n a # xs) = insert n (executed xs)" "executed (map Emit es) = {}"
  by (auto simp: executed_def)

lemma invoke_tool_executed:
  "invoke_tool c call r w = (os, r', w') \<Longrightarrow>
     executed os \<subseteq> (if tr_is_error r then {} else fst ` set (lc_tools c))"
  by (auto simp: invoke_tool_def dest!: map_of_SomeD
           split: if_splits option.splits prod.splits intro: rev_image_eqI)

text \<open>A hook that always refuses.\<close>

definition vetoes :: "(tool_call \<Rightarrow> 'w \<Rightarrow> (tool_call \<times> string option) \<times> 'w) \<Rightarrow> bool" where
  "vetoes h \<longleftrightarrow> (\<forall>call w. snd (fst (h call w)) \<noteq> None)"

lemma run_before_tool_veto:
  "\<exists>h \<in> set hs. vetoes h \<Longrightarrow> run_before_tool hs call r w = (call', r', w') \<Longrightarrow> tr_is_error r'"
proof (induction hs arbitrary: call r w)
  case (Cons h hs)
  obtain c1 e w1 where h: "h call w = ((c1, e), w1)"
    by (metis prod.exhaust)
  show ?case
  proof (cases e)
    case None
    with h have "\<not> vetoes h"
      by (metis fst_conv snd_conv vetoes_def)
    with Cons.prems None h Cons.IH [of c1 r w1] show ?thesis by auto
  qed (use Cons.prems h in auto)
qed simp

lemma execute_call_executed:
  "execute_call c n call w = (os, r, w') \<Longrightarrow>
     executed os \<subseteq> (if \<exists>h \<in> set (lc_before_tool c). vetoes h then {} else fst ` set (lc_tools c))"
  using run_before_tool_veto [of "lc_before_tool c" call
      "\<lparr>tr_call_id = tc_id call, tr_output = [], tr_is_error = False\<rparr>" w]
  by (fastforce simp: execute_call_def split: prod.splits if_splits dest!: invoke_tool_executed)

lemma execute_calls_executed:
  "execute_calls c n calls w = (os, rs, w') \<Longrightarrow>
     executed os \<subseteq> (if \<exists>h \<in> set (lc_before_tool c). vetoes h then {} else fst ` set (lc_tools c))"
proof (induction calls arbitrary: w os rs w')
  case (Cons call calls)
  obtain os1 r w1 where one: "execute_call c n call w = (os1, r, w1)"
    by (metis prod.exhaust)
  obtain os2 rs2 w2 where rest: "execute_calls c n calls w1 = (os2, rs2, w2)"
    by (metis prod.exhaust)
  from Cons.prems one rest have "os = os1 @ os2" by simp
  with execute_call_executed [OF one] Cons.IH [OF rest] show ?case
    by auto
qed simp

lemma model_half_executed: "model_half c rid n ti w = (os, res, w') \<Longrightarrow> executed os = {}"
  by (auto simp: model_half_def Let_def split: prod.splits sum.splits if_splits)

lemma run_turn_executed:
  "run_turn c rid n ti w = (os, out, w') \<Longrightarrow>
     executed os \<subseteq> (if \<exists>h \<in> set (lc_before_tool c). vetoes h then {} else fst ` set (lc_tools c))"
  by (auto simp: run_turn_def Let_def split: option.splits prod.splits sum.splits if_splits
           dest!: execute_calls_executed model_half_executed)

lemma run_steps_executed:
  "run_steps c rid k n ti w = (os, res, w') \<Longrightarrow>
     executed os \<subseteq> (if \<exists>h \<in> set (lc_before_tool c). vetoes h then {} else fst ` set (lc_tools c))"
proof (induction k arbitrary: n ti w os res w')
  case (Suc k)
  obtain os1 out w1 where turn: "run_turn c rid n ti w = (os1, out, w1)"
    by (metis prod.exhaust)
  show ?case
  proof (cases out)
    case (Continue ti')
    obtain os2 res2 w2 where rest: "run_steps c rid k (Suc n) ti' w1 = (os2, res2, w2)"
      by (metis prod.exhaust)
    from Suc.prems turn rest Continue have "os = os1 @ os2" by simp
    with Suc.IH [OF rest] run_turn_executed [OF turn] show ?thesis by auto
  qed (use Suc.prems turn run_turn_executed [OF turn] in auto)
qed simp

text \<open>C19: A run executes only tools of its configuration, and none at all when some before-tool hook
  refuses every call.\<close>

theorem run_executes_only_granted_tools:
  "executed (fst (run_with_images c k p imgs w)) \<subseteq>
     (if \<exists>h. h \<in> set (lc_before_tool c) \<and> vetoes h then {} else fst ` set (lc_tools c))"
proof (cases c k p imgs w rule: run_with_images_cases)
  case (steps rid ti w1 os res w')
  then show ?thesis
    using run_steps_executed [OF steps(1)] by (auto split: if_splits)
qed simp_all

section \<open>The step budget\<close>

lemma execute_call_requests: "execute_call c n call w = (os, r, w') \<Longrightarrow> requests_of os = []"
  by (auto simp: execute_call_def invoke_tool_def split: prod.splits option.splits if_splits)

lemma execute_calls_requests: "execute_calls c n calls w = (os, rs, w') \<Longrightarrow> requests_of os = []"
  by (induction calls arbitrary: w os rs w')
     (auto split: prod.splits dest: execute_call_requests)

lemma model_half_requests:
  "model_half c rid n ti w = (os, res, w') \<Longrightarrow> requests_of os = [turn_request c ti]"
  by (auto simp: model_half_def Let_def split: prod.splits sum.splits if_splits)

lemma run_turn_requests:
  "run_turn c rid n ti w = (os, out, w') \<Longrightarrow>
     requests_of os = (if lc_ctx_err c w = None then [turn_request c ti] else [])"
  by (auto simp: run_turn_def Let_def split: option.splits prod.splits sum.splits if_splits
           dest!: execute_calls_requests model_half_requests)

lemma run_turn_continue:
  "run_turn c rid n ti w = (os, Continue ti', w') \<Longrightarrow> lc_ctx_err c w = None \<and> ti_images ti' = []"
  by (auto simp: run_turn_def Let_def split: option.splits prod.splits sum.splits if_splits)

lemma run_steps_requests:
  "run_steps c rid k n ti w = (os, res, w') \<Longrightarrow>
     length (requests_of os) \<le> k \<and>
     (res = Inl (MaxStepsExceeded (lc_max_steps c)) \<longrightarrow> length (requests_of os) = k)"
proof (induction k arbitrary: n ti w os res w')
  case (Suc k)
  obtain os1 out w1 where turn: "run_turn c rid n ti w = (os1, out, w1)"
    by (metis prod.exhaust)
  note req = run_turn_requests [OF turn]
  show ?case
  proof (cases out)
    case (Failed e)
    with Suc.prems turn req run_turn_error [of c rid n ti w os1 e w1] show ?thesis
      by auto
  next
    case (Finished r)
    with Suc.prems turn req show ?thesis by auto
  next
    case (Continue ti')
    obtain os2 res2 w2 where rest: "run_steps c rid k (Suc n) ti' w1 = (os2, res2, w2)"
      by (metis prod.exhaust)
    have "lc_ctx_err c w = None" using turn Continue by (auto dest: run_turn_continue)
    with Suc.prems turn rest Continue Suc.IH [OF rest] req show ?thesis by auto
  qed
qed simp

text \<open>A run never asks the model for more than \<open>MaxSteps\<close> steps, and it reports the budget as
  exceeded only after using all of it.\<close>

lemma run_respects_step_budget:
  "length (requests_of (fst (run_with_images c k p imgs w))) \<le> nat (lc_max_steps c) \<and>
   (if fst (snd (run_with_images c k p imgs w)) = Inl (MaxStepsExceeded (lc_max_steps c))
    then length (requests_of (fst (run_with_images c k p imgs w))) = nat (lc_max_steps c) else True)"
proof (cases c k p imgs w rule: run_with_images_cases)
  case (steps rid ti w1 os res w')
  then show ?thesis
    using run_steps_requests [OF steps(1)] by auto
qed simp_all

lemma run_steps_images:
  "run_steps c rid k n ti w = (os, res, w') \<Longrightarrow> ti_images ti = [] \<Longrightarrow>
     \<forall>q \<in> set (requests_of os). sr_images q = []"
proof (induction k arbitrary: n ti w os res w')
  case (Suc k)
  obtain os1 out w1 where turn: "run_turn c rid n ti w = (os1, out, w1)"
    by (metis prod.exhaust)
  note req = run_turn_requests [OF turn]
  show ?case
  proof (cases out)
    case (Continue ti')
    obtain os2 res2 w2 where rest: "run_steps c rid k (Suc n) ti' w1 = (os2, res2, w2)"
      by (metis prod.exhaust)
    have "ti_images ti' = []" using turn Continue by (auto dest: run_turn_continue)
    with Suc.prems turn rest Continue Suc.IH [OF rest] req show ?thesis
      by (auto simp: turn_request_def split: if_splits)
  qed (use Suc.prems turn req in \<open>auto simp: turn_request_def split: if_splits\<close>)
qed simp

lemma run_steps_first_images:
  assumes "run_steps c rid k n ti w = (os, res, w')"
  shows "case requests_of os of [] \<Rightarrow> True
         | q # qs \<Rightarrow> sr_images q = ti_images ti \<and> (\<forall>q' \<in> set qs. sr_images q' = [])"
proof (cases k)
  case (Suc j)
  obtain os1 out w1 where turn: "run_turn c rid n ti w = (os1, out, w1)"
    by (metis prod.exhaust)
  note req = run_turn_requests [OF turn]
  show ?thesis
  proof (cases out)
    case (Continue ti')
    obtain os2 res2 w2 where rest: "run_steps c rid j (Suc n) ti' w1 = (os2, res2, w2)"
      by (metis prod.exhaust)
    have "ti_images ti' = []" "lc_ctx_err c w = None"
      using turn Continue by (auto dest: run_turn_continue)
    with assms Suc turn rest Continue run_steps_images [OF rest] req show ?thesis
      by (auto simp: turn_request_def)
  qed (use assms Suc turn req in \<open>auto simp: turn_request_def split: if_splits\<close>)
qed (use assms in auto)

text \<open>The images of a request go to the model in the first step only.\<close>

lemma images_only_in_first_request:
  "case requests_of (fst (run_with_images c k p imgs w)) of
     [] \<Rightarrow> True
   | q # qs \<Rightarrow> sr_images q = imgs \<and> filter (\<lambda>q'. sr_images q' \<noteq> []) qs = []"
proof (cases c k p imgs w rule: run_with_images_cases)
  case (steps rid ti w1 os res w')
  then show ?thesis
    using run_steps_first_images [OF steps(1)]
    by (auto split: list.splits simp: filter_empty_conv)
qed simp_all

section \<open>Reported usage\<close>

definition step_usages :: "obs list \<Rightarrow> usage list" where
  "step_usages os =
     map (\<lambda>e. the (ev_usage e)) (filter (\<lambda>e. ev_type e = ''message_end'') (events_of os))"

lemma step_usages_simps [simp]:
  "step_usages [] = []" "step_usages (xs @ ys) = step_usages xs @ step_usages ys"
  "step_usages (Emit e # xs) =
     (if ev_type e = ''message_end'' then [the (ev_usage e)] else []) @ step_usages xs"
  "step_usages (Step r # xs) = step_usages xs" "step_usages (Exec n a # xs) = step_usages xs"
  by (simp_all add: step_usages_def)

lemma on_model_events_usages:
  "on_model_events n mid rid ms r = (es, r') \<Longrightarrow> step_usages (map Emit es) = []"
  by (auto simp: step_usages_def filter_empty_conv dest!: on_model_events_types)

lemma execute_calls_usages: "execute_calls c n calls w = (os, rs, w') \<Longrightarrow> step_usages os = []"
  by (induction calls arbitrary: w os rs w')
     (auto simp: execute_call_def invoke_tool_def tool_start_event_def tool_end_event_def
           split: prod.splits option.splits if_splits)

lemma model_half_usages:
  "model_half c rid n ti w = (os, res, w') \<Longrightarrow>
     (case res of Inl e \<Rightarrow> True
      | Inr (step, reply) \<Rightarrow> ar_usage reply = foldl aggregate_usage (ti_usage ti) (step_usages os))"
  by (auto simp: model_half_def Let_def split: prod.splits sum.splits if_splits
           dest!: on_model_events_usages)

lemma run_turn_usages:
  "run_turn c rid n ti w = (os, out, w') \<Longrightarrow>
     (case out of Failed e \<Rightarrow> True
      | Finished r \<Rightarrow> ar_usage r = foldl aggregate_usage (ti_usage ti) (step_usages os)
      | Continue ti' \<Rightarrow> ti_usage ti' = foldl aggregate_usage (ti_usage ti) (step_usages os))"
  by (auto simp: run_turn_def Let_def split: option.splits prod.splits sum.splits if_splits
           dest!: execute_calls_usages model_half_usages)

lemma run_steps_usages:
  "run_steps c rid k n ti w = (os, Inr r, w') \<Longrightarrow>
     ar_usage r = foldl aggregate_usage (ti_usage ti) (step_usages os)"
proof (induction k arbitrary: n ti w os w')
  case (Suc k)
  obtain os1 out w1 where turn: "run_turn c rid n ti w = (os1, out, w1)"
    by (metis prod.exhaust)
  note us = run_turn_usages [OF turn]
  show ?case
  proof (cases out)
    case (Continue ti')
    obtain os2 res2 w2 where rest: "run_steps c rid k (Suc n) ti' w1 = (os2, res2, w2)"
      by (metis prod.exhaust)
    with Suc.prems turn Continue Suc.IH us show ?thesis by auto
  qed (use Suc.prems turn us in auto)
qed simp

text \<open>The usage a successful run returns is the sum over its model steps: input, output and
  cache counters and the effective totals of every \<open>message_end\<close> event of the run.\<close>

lemma run_reports_summed_usage:
  assumes "run_with_images c k p imgs w = (os, Inr r, w')"
  shows "input_tokens (ar_usage r) = sum_list (map input_tokens (step_usages os)) \<and>
         output_tokens (ar_usage r) = sum_list (map output_tokens (step_usages os)) \<and>
         cache_read_tokens (ar_usage r) = sum_list (map cache_read_tokens (step_usages os)) \<and>
         cache_write_tokens (ar_usage r) = sum_list (map cache_write_tokens (step_usages os)) \<and>
         total_tokens (ar_usage r) = sum_list (map effective_total (step_usages os))"
proof (cases c k p imgs w rule: run_with_images_cases)
  case (steps rid ti w1 os1 res w2)
  with assms have "run_steps c rid (nat (lc_max_steps c)) 1 ti w1 = (os1, Inr r, w2)"
    and os: "os = Emit (mk_event ''agent_start'' 0) # os1" by auto
  from run_steps_usages [OF this(1)] steps(3) os show ?thesis
    by (simp add: foldl_aggregate_sums) (simp add: zero_usage_def)
qed (use assms in simp_all)

section \<open>Completion\<close>

lemma run_steps_complete:
  assumes "\<And>n ti w. case run_turn c rid n ti w of
        (os, Failed e, w') \<Rightarrow> False
      | (os, Finished r, w') \<Rightarrow> True
      | (os, Continue ti', w') \<Rightarrow> f w' < f w"
    and "f w < k"
  shows "\<exists>os r w'. run_steps c rid k n ti w = (os, Inr r, w')"
  using assms(2)
proof (induction k arbitrary: n ti w)
  case (Suc k)
  obtain os1 out w1 where turn: "run_turn c rid n ti w = (os1, out, w1)"
    by (metis prod.exhaust)
  show ?case
  proof (cases out)
    case (Continue ti')
    with assms(1) [where n = n and ti = ti and w = w] turn Suc.prems have "f w1 < k" by auto
    from Suc.IH [OF this, of "Suc n" ti'] obtain os r w'
      where "run_steps c rid k (Suc n) ti' w1 = (os, Inr r, w')" by blast
    with turn Continue show ?thesis by auto
  qed (use turn assms(1) [where n = n and ti = ti and w = w] in auto)
qed simp

text \<open>A run completes: when no turn fails and some measure of the world decreases with every
  turn that asks for another, a budget above the measure is enough for a reply.\<close>

lemma run_completes:
  assumes "\<And>rid n ti w. case run_turn c rid n ti w of
        (os, Failed e, w') \<Rightarrow> False
      | (os, Finished r, w') \<Rightarrow> True
      | (os, Continue ti', w') \<Rightarrow> f w' < f w"
    and "trim_space p \<noteq> []" and "lc_before_prompt c = []" and "f w < nat (lc_max_steps c)"
  shows "\<exists>os r w'. run_with_images c k p imgs w = (os, Inr r, w')"
proof -
  let ?ti = "\<lparr>ti_user_messages = [p], ti_images = imgs, ti_tool_results = [], ti_usage = zero_usage\<rparr>"
  let ?rid = "lc_session_id c @ '':run-'' @ show_nat k"
  obtain os r w' where "run_steps c ?rid (nat (lc_max_steps c)) 1 ?ti w = (os, Inr r, w')"
    using run_steps_complete [where c = c and f = f and rid = ?rid, OF assms(1) assms(4)] by blast
  with assms(2,3) show ?thesis
    by (simp add: run_with_images_def Let_def)
qed

section \<open>A small configuration\<close>

text \<open>A session that asks for the tool \<open>t\<close> as long as its counter is positive, then replies.\<close>

definition demo_config :: "nat loop_config" where
  "demo_config =
     \<lparr>lc_session_id = ''s'',
      lc_step = (\<lambda>q w. ([], Inr \<lparr>ss_result = \<lparr>ar_text = ''done'', ar_provider = [],
           ar_session_id = ''s'', ar_turn_id = [], ar_usage = zero_usage\<lparr>input_tokens := 3\<rparr>\<rparr>,
         ss_tool_calls = (if 0 < w then [\<lparr>tc_id = ''c'', tc_name = ''t'', tc_arguments = []\<rparr>] else [])\<rparr>,
         w)),
      lc_tools = [(''t'', \<lparr>lt_definition = \<lparr>td_name = ''t'', td_description = [], td_parameters = []\<rparr>,
                         lt_execute = (\<lambda>a w. ((''ok'', None), w - 1))\<rparr>)],
      lc_reasoning_effort = [], lc_max_steps = 4, lc_take_steering = None, lc_before_prompt = [],
      lc_after_model = [], lc_before_tool = [], lc_after_tool = [], lc_ctx_err = (\<lambda>w. None)\<rparr>"

lemmas demo_run_defs = demo_config_def run_turn_def model_half_def execute_call_def invoke_tool_def
  take_steering_messages_def Let_def

lemma demo_turn:
  "run_turn demo_config rid n ti w = (os, out, w') \<Longrightarrow>
     (case out of Failed e \<Rightarrow> False | Finished r \<Rightarrow> True | Continue ti' \<Rightarrow> w' < w)"
  by (auto simp: demo_run_defs split: if_splits)


end
