(* ===== verification/ConfigTypes.thy ===== *)
theory ConfigTypes
  imports GoStrings
begin

text \<open>
  The settings document of package \<open>configuration\<close> (\<open>types.go\<close>, \<open>patch.go\<close>,
  \<open>defaults.go\<close>). The string-typed enumerations of the code (thinking level, sandbox mode,
  trust, transport, ...) are strings here too: the code reads them from JSON and validates them
  afterwards. A slice whose nil and empty values differ in meaning (\<open>AgentProfile.Tools\<close>,
  \<open>Settings.Launchers\<close>) is a \<open>list option\<close>; every other slice is a list. A value has value
  semantics, so the deep copies of \<open>clone.go\<close> need no counterpart.
\<close>

definition redacted_value :: string where
  "redacted_value = ''[redacted]''"

definition current_version :: int where
  "current_version = 1"

section \<open>Settings\<close>

record model_settings =
  mo_provider :: string
  mo_id :: string
  mo_context_window :: int

record thinking_settings =
  th_level :: string

record tool_settings =
  to_enabled :: "string list"
  to_sandbox :: string
  to_approval :: string

record queue_settings =
  qu_steering_mode :: string
  qu_follow_up_mode :: string
  qu_max_pending :: int

record skill_settings =
  sk_roots :: "string list"
  sk_disabled :: "string list"
  sk_trust :: string

record mcp_server =
  mc_transport :: string
  mc_command :: string
  mc_args :: "string list"
  mc_inherit_env :: bool
  mc_url :: string
  mc_env :: "string gomap"
  mc_secret_env :: "string list"
  mc_headers :: "string gomap"
  mc_secret_headers :: "string list"
  mc_enabled_tools :: "string list"
  mc_approval :: string
  mc_tool_approvals :: "string gomap"
  mc_enabled :: bool

record mcp_settings =
  mcp_servers :: "mcp_server gomap"

record extension_source =
  ex_kind :: string
  ex_location :: string
  ex_ref :: string
  ex_trust :: string
  ex_enabled :: bool
  ex_command :: string
  ex_args :: "string list"
  ex_env :: "string gomap"
  ex_secret_env :: "string list"
  ex_inherit_env :: bool

record extension_settings =
  es_sources :: "extension_source gomap"
  es_allow_unsigned :: bool

record agent_profile =
  ap_description :: string
  ap_instructions :: string
  ap_model :: string
  ap_thinking :: string
  ap_tools :: "string list option"
  ap_can_spawn :: bool

record subagent_settings =
  sa_enabled :: bool
  sa_max_depth :: int
  sa_max_children :: int
  sa_max_concurrent :: int
  sa_allow_sibling_messages :: bool
  sa_auto_report :: bool
  sa_profiles :: "agent_profile gomap"

record project_launcher =
  la_id :: string
  la_label :: string
  la_kind :: string
  la_icon :: string
  la_command :: string
  la_args :: "string list"
  la_shortcut :: string

record desktop_settings =
  de_codex_home :: string
  de_desktop_config :: string
  de_sync_mode :: string
  de_sync_skills :: bool
  de_sync_mcp :: bool
  de_sync_extensions :: bool
  de_watch_for_changes :: bool

record standalone_chat_settings =
  sc_model :: string
  sc_thinking :: string
  sc_tools :: "string list"
  sc_instructions :: string
  sc_persist_history :: bool

record settings =
  st_model :: model_settings
  st_thinking :: thinking_settings
  st_tools :: tool_settings
  st_queues :: queue_settings
  st_skills :: skill_settings
  st_mcp :: mcp_settings
  st_extensions :: extension_settings
  st_subagents :: subagent_settings
  st_launchers :: "project_launcher list option"
  st_desktop :: desktop_settings
  st_standalone_chat :: standalone_chat_settings

section \<open>Patches\<close>

record model_patch =
  pmo_provider :: "string option"
  pmo_id :: "string option"
  pmo_context_window :: "int option"

record thinking_patch =
  pth_level :: "string option"

record tool_patch =
  pto_enabled :: "string list option"
  pto_sandbox :: "string option"
  pto_approval :: "string option"

record queue_patch =
  pqu_steering_mode :: "string option"
  pqu_follow_up_mode :: "string option"
  pqu_max_pending :: "int option"

record skill_patch =
  psk_roots :: "string list option"
  psk_disabled :: "string list option"
  psk_trust :: "string option"

record mcp_server_patch =
  pmc_transport :: "string option"
  pmc_command :: "string option"
  pmc_args :: "string list option"
  pmc_inherit_env :: "bool option"
  pmc_url :: "string option"
  pmc_env :: "string gomap option"
  pmc_secret_env :: "string list option"
  pmc_headers :: "string gomap option"
  pmc_secret_headers :: "string list option"
  pmc_enabled_tools :: "string list option"
  pmc_approval :: "string option"
  pmc_tool_approvals :: "string gomap option"
  pmc_enabled :: "bool option"

record mcp_patch =
  pmcp_servers :: "mcp_server_patch gomap"
  pmcp_remove_servers :: "string list"

record extension_source_patch =
  pex_kind :: "string option"
  pex_location :: "string option"
  pex_ref :: "string option"
  pex_trust :: "string option"
  pex_enabled :: "bool option"
  pex_command :: "string option"
  pex_args :: "string list option"
  pex_env :: "string gomap option"
  pex_secret_env :: "string list option"
  pex_inherit_env :: "bool option"

record extension_patch =
  pes_sources :: "extension_source_patch gomap"
  pes_remove_sources :: "string list"
  pes_allow_unsigned :: "bool option"

record subagent_patch =
  psa_enabled :: "bool option"
  psa_max_depth :: "int option"
  psa_max_children :: "int option"
  psa_max_concurrent :: "int option"
  psa_allow_sibling_messages :: "bool option"
  psa_auto_report :: "bool option"
  psa_profiles :: "agent_profile gomap option"

record desktop_patch =
  pde_codex_home :: "string option"
  pde_desktop_config :: "string option"
  pde_sync_mode :: "string option"
  pde_sync_skills :: "bool option"
  pde_sync_mcp :: "bool option"
  pde_sync_extensions :: "bool option"
  pde_watch_for_changes :: "bool option"

record standalone_chat_patch =
  psc_model :: "string option"
  psc_thinking :: "string option"
  psc_tools :: "string list option"
  psc_instructions :: "string option"
  psc_persist_history :: "bool option"

record settings_patch =
  sp_model :: "model_patch option"
  sp_thinking :: "thinking_patch option"
  sp_tools :: "tool_patch option"
  sp_queues :: "queue_patch option"
  sp_skills :: "skill_patch option"
  sp_mcp :: "mcp_patch option"
  sp_extensions :: "extension_patch option"
  sp_subagents :: "subagent_patch option"
  sp_launchers :: "project_launcher list option"
  sp_desktop :: "desktop_patch option"
  sp_standalone_chat :: "standalone_chat_patch option"

definition empty_patch :: settings_patch where
  "empty_patch = \<lparr>sp_model = None, sp_thinking = None, sp_tools = None, sp_queues = None,
     sp_skills = None, sp_mcp = None, sp_extensions = None, sp_subagents = None,
     sp_launchers = None, sp_desktop = None, sp_standalone_chat = None\<rparr>"

record project_override =
  po_folder :: string
  po_settings :: settings_patch

record config =
  cf_version :: int
  cf_revision :: "64 word"
  cf_global :: settings
  cf_projects :: "project_override gomap"

section \<open>The model catalog\<close>

definition gpt56_context_window :: int where
  "gpt56_context_window = 372000"

definition gpt54_context_window :: int where
  "gpt54_context_window = 272000"

definition trim_prefix :: "string \<Rightarrow> string \<Rightarrow> string" where
  "trim_prefix s p = (if has_prefix s p then drop (length p) s else s)"

text \<open>\<open>modelcatalog.ContextWindow\<close>\<close>

definition catalog_context_window :: "string \<Rightarrow> int" where
  "catalog_context_window name =
     (let m = trim_prefix (trim_prefix (to_lower (trim_space name)) ''openai.'') ''openai/''
      in if has_prefix m ''gpt-5.6'' then gpt56_context_window
         else if (has_prefix m ''gpt-5.5'' \<or> has_prefix m ''gpt-5.4'') \<and>
                 \<not> contains_sub m ''mini'' \<and> \<not> contains_sub m ''nano'' then gpt54_context_window
         else 0)"

section \<open>Defaults\<close>

text \<open>The paths of the defaults are joins of the given home with fixed relative parts; a home
  directory is absolute and clean, where \<open>filepath.Join\<close> is concatenation with a slash.\<close>

definition join_home :: "string \<Rightarrow> string list \<Rightarrow> string" where
  "join_home home parts = home @ concat (map (\<lambda>p. ''/'' @ p) parts)"

definition read_only_tools :: "string list" where
  "read_only_tools = [''read'', ''grep'', ''find'', ''ls'']"

definition default_project_launchers :: "project_launcher list" where
  "default_project_launchers =
     [\<lparr>la_id = ''shell'', la_label = ''Terminal'', la_kind = ''terminal'', la_icon = [],
       la_command = [], la_args = [], la_shortcut = ''mod+backquote''\<rparr>,
      \<lparr>la_id = ''lazygit'', la_label = ''lazygit'', la_kind = ''terminal'', la_icon = [],
       la_command = ''lazygit'', la_args = [], la_shortcut = ''mod+shift+g''\<rparr>,
      \<lparr>la_id = ''nvim'', la_label = ''nvim'', la_kind = ''terminal'', la_icon = [],
       la_command = ''nvim'', la_args = [''.''], la_shortcut = ''mod+shift+e''\<rparr>]"

definition resolve_project_launchers :: "project_launcher list option \<Rightarrow> project_launcher list" where
  "resolve_project_launchers configured =
     (case configured of None \<Rightarrow> default_project_launchers | Some ls \<Rightarrow> ls)"

definition default_profiles :: "agent_profile gomap" where
  "default_profiles =
     [(''general'', \<lparr>ap_description = ''General-purpose agent for independent implementation or research.'',
        ap_instructions = [], ap_model = [], ap_thinking = ''medium'',
        ap_tools = Some read_only_tools, ap_can_spawn = False\<rparr>),
      (''explore'', \<lparr>ap_description = ''Fast read-only agent for codebase exploration and focused questions.'',
        ap_instructions = [], ap_model = [], ap_thinking = ''low'',
        ap_tools = Some read_only_tools, ap_can_spawn = False\<rparr>),
      (''review'', \<lparr>ap_description = ''Read-only reviewer for correctness, security, and maintainability.'',
        ap_instructions = [], ap_model = [], ap_thinking = ''high'',
        ap_tools = Some read_only_tools, ap_can_spawn = False\<rparr>)]"

definition default_settings :: "string \<Rightarrow> settings" where
  "default_settings home =
     \<lparr>st_model = \<lparr>mo_provider = ''codex'', mo_id = ''gpt-5.6'', mo_context_window = gpt56_context_window\<rparr>,
      st_thinking = \<lparr>th_level = ''medium''\<rparr>,
      st_tools = \<lparr>to_enabled = read_only_tools, to_sandbox = ''strict'', to_approval = ''on-request''\<rparr>,
      st_queues = \<lparr>qu_steering_mode = ''one-at-a-time'', qu_follow_up_mode = ''one-at-a-time'',
                   qu_max_pending = 64\<rparr>,
      st_skills = \<lparr>sk_roots = [join_home home [''.agents'', ''skills''],
                               join_home home [''.codex'', ''skills''],
                               join_home home [''.pi'', ''agent'', ''skills'']],
                   sk_disabled = [], sk_trust = ''prompt''\<rparr>,
      st_mcp = \<lparr>mcp_servers = []\<rparr>,
      st_extensions = \<lparr>es_sources = [], es_allow_unsigned = False\<rparr>,
      st_subagents = \<lparr>sa_enabled = True, sa_max_depth = 2, sa_max_children = 8, sa_max_concurrent = 4,
                      sa_allow_sibling_messages = True, sa_auto_report = True,
                      sa_profiles = default_profiles\<rparr>,
      st_launchers = Some default_project_launchers,
      st_desktop = \<lparr>de_codex_home = join_home home [''.codex''],
                    de_desktop_config = join_home home [''.codex'', ''config.toml''],
                    de_sync_mode = ''import'', de_sync_skills = True, de_sync_mcp = True,
                    de_sync_extensions = True, de_watch_for_changes = False\<rparr>,
      st_standalone_chat = \<lparr>sc_model = ''gpt-5.6'', sc_thinking = ''medium'', sc_tools = [],
                            sc_instructions = [], sc_persist_history = True\<rparr>\<rparr>"

definition default_config :: "string \<Rightarrow> config" where
  "default_config home =
     \<lparr>cf_version = current_version, cf_revision = 1, cf_global = default_settings home,
      cf_projects = []\<rparr>"

end
