(* ===== verification/ConfigMerge.thy ===== *)
theory ConfigMerge
  imports ConfigTypes
begin

text \<open>
  \<open>merge.go\<close>: the effective settings of a project are the global settings with the project's
  patch applied. A patch field that is nil inherits; entries of the MCP and extension maps are
  patched one by one, then the removals are applied.
\<close>

definition override :: "'a option \<Rightarrow> 'a \<Rightarrow> 'a" where
  "override p d = (case p of None \<Rightarrow> d | Some v \<Rightarrow> v)"

lemma override_simps [simp]:
  "override None d = d" "override (Some v) d = v"
  by (simp_all add: override_def)

lemma override_idem [simp]: "override p (override p d) = override p d"
  by (cases p) simp_all

text \<open>A nil patch section leaves its section alone.\<close>

definition patch_section :: "('p \<Rightarrow> 'a \<Rightarrow> 'a) \<Rightarrow> 'p option \<Rightarrow> 'a \<Rightarrow> 'a" where
  "patch_section f p d = (case p of None \<Rightarrow> d | Some q \<Rightarrow> f q d)"

lemma patch_section_simps [simp]:
  "patch_section f None d = d" "patch_section f (Some q) d = f q d"
  by (simp_all add: patch_section_def)

section \<open>Flat sections\<close>

definition apply_model_patch :: "model_patch \<Rightarrow> model_settings \<Rightarrow> model_settings" where
  "apply_model_patch p d =
     \<lparr>mo_provider = override (pmo_provider p) (mo_provider d),
      mo_id = override (pmo_id p) (mo_id d),
      mo_context_window = override (pmo_context_window p) (mo_context_window d)\<rparr>"

definition apply_thinking_patch :: "thinking_patch \<Rightarrow> thinking_settings \<Rightarrow> thinking_settings" where
  "apply_thinking_patch p d = \<lparr>th_level = override (pth_level p) (th_level d)\<rparr>"

definition apply_tool_patch :: "tool_patch \<Rightarrow> tool_settings \<Rightarrow> tool_settings" where
  "apply_tool_patch p d =
     \<lparr>to_enabled = override (pto_enabled p) (to_enabled d),
      to_sandbox = override (pto_sandbox p) (to_sandbox d),
      to_approval = override (pto_approval p) (to_approval d)\<rparr>"

definition apply_queue_patch :: "queue_patch \<Rightarrow> queue_settings \<Rightarrow> queue_settings" where
  "apply_queue_patch p d =
     \<lparr>qu_steering_mode = override (pqu_steering_mode p) (qu_steering_mode d),
      qu_follow_up_mode = override (pqu_follow_up_mode p) (qu_follow_up_mode d),
      qu_max_pending = override (pqu_max_pending p) (qu_max_pending d)\<rparr>"

definition apply_skill_patch :: "skill_patch \<Rightarrow> skill_settings \<Rightarrow> skill_settings" where
  "apply_skill_patch p d =
     \<lparr>sk_roots = override (psk_roots p) (sk_roots d),
      sk_disabled = override (psk_disabled p) (sk_disabled d),
      sk_trust = override (psk_trust p) (sk_trust d)\<rparr>"

definition apply_subagent_patch :: "subagent_patch \<Rightarrow> subagent_settings \<Rightarrow> subagent_settings" where
  "apply_subagent_patch p d =
     \<lparr>sa_enabled = override (psa_enabled p) (sa_enabled d),
      sa_max_depth = override (psa_max_depth p) (sa_max_depth d),
      sa_max_children = override (psa_max_children p) (sa_max_children d),
      sa_max_concurrent = override (psa_max_concurrent p) (sa_max_concurrent d),
      sa_allow_sibling_messages = override (psa_allow_sibling_messages p) (sa_allow_sibling_messages d),
      sa_auto_report = override (psa_auto_report p) (sa_auto_report d),
      sa_profiles = override (psa_profiles p) (sa_profiles d)\<rparr>"

definition apply_desktop_patch :: "desktop_patch \<Rightarrow> desktop_settings \<Rightarrow> desktop_settings" where
  "apply_desktop_patch p d =
     \<lparr>de_codex_home = override (pde_codex_home p) (de_codex_home d),
      de_desktop_config = override (pde_desktop_config p) (de_desktop_config d),
      de_sync_mode = override (pde_sync_mode p) (de_sync_mode d),
      de_sync_skills = override (pde_sync_skills p) (de_sync_skills d),
      de_sync_mcp = override (pde_sync_mcp p) (de_sync_mcp d),
      de_sync_extensions = override (pde_sync_extensions p) (de_sync_extensions d),
      de_watch_for_changes = override (pde_watch_for_changes p) (de_watch_for_changes d)\<rparr>"

definition apply_standalone_patch ::
  "standalone_chat_patch \<Rightarrow> standalone_chat_settings \<Rightarrow> standalone_chat_settings" where
  "apply_standalone_patch p d =
     \<lparr>sc_model = override (psc_model p) (sc_model d),
      sc_thinking = override (psc_thinking p) (sc_thinking d),
      sc_tools = override (psc_tools p) (sc_tools d),
      sc_instructions = override (psc_instructions p) (sc_instructions d),
      sc_persist_history = override (psc_persist_history p) (sc_persist_history d)\<rparr>"

section \<open>Map sections\<close>

text \<open>
  The zero values a patch of an unknown name starts from, the patch loop over the entries in
  iteration order, and the removal loop.
\<close>

definition zero_mcp_server :: mcp_server where
  "zero_mcp_server =
     \<lparr>mc_transport = [], mc_command = [], mc_args = [], mc_inherit_env = False, mc_url = [],
      mc_env = [], mc_secret_env = [], mc_headers = [], mc_secret_headers = [],
      mc_enabled_tools = [], mc_approval = [], mc_tool_approvals = [], mc_enabled = False\<rparr>"

definition zero_extension_source :: extension_source where
  "zero_extension_source =
     \<lparr>ex_kind = [], ex_location = [], ex_ref = [], ex_trust = [], ex_enabled = False,
      ex_command = [], ex_args = [], ex_env = [], ex_secret_env = [], ex_inherit_env = False\<rparr>"

definition apply_mcp_server_patch :: "mcp_server_patch \<Rightarrow> mcp_server \<Rightarrow> mcp_server" where
  "apply_mcp_server_patch p d =
     \<lparr>mc_transport = override (pmc_transport p) (mc_transport d),
      mc_command = override (pmc_command p) (mc_command d),
      mc_args = override (pmc_args p) (mc_args d),
      mc_inherit_env = override (pmc_inherit_env p) (mc_inherit_env d),
      mc_url = override (pmc_url p) (mc_url d),
      mc_env = override (pmc_env p) (mc_env d),
      mc_secret_env = override (pmc_secret_env p) (mc_secret_env d),
      mc_headers = override (pmc_headers p) (mc_headers d),
      mc_secret_headers = override (pmc_secret_headers p) (mc_secret_headers d),
      mc_enabled_tools = override (pmc_enabled_tools p) (mc_enabled_tools d),
      mc_approval = override (pmc_approval p) (mc_approval d),
      mc_tool_approvals = override (pmc_tool_approvals p) (mc_tool_approvals d),
      mc_enabled = override (pmc_enabled p) (mc_enabled d)\<rparr>"

definition apply_extension_source_patch ::
  "extension_source_patch \<Rightarrow> extension_source \<Rightarrow> extension_source" where
  "apply_extension_source_patch p d =
     \<lparr>ex_kind = override (pex_kind p) (ex_kind d),
      ex_location = override (pex_location p) (ex_location d),
      ex_ref = override (pex_ref p) (ex_ref d),
      ex_trust = override (pex_trust p) (ex_trust d),
      ex_enabled = override (pex_enabled p) (ex_enabled d),
      ex_command = override (pex_command p) (ex_command d),
      ex_args = override (pex_args p) (ex_args d),
      ex_env = override (pex_env p) (ex_env d),
      ex_secret_env = override (pex_secret_env p) (ex_secret_env d),
      ex_inherit_env = override (pex_inherit_env p) (ex_inherit_env d)\<rparr>"

fun patch_entries :: "('p \<Rightarrow> 'a \<Rightarrow> 'a) \<Rightarrow> 'a \<Rightarrow> 'p gomap \<Rightarrow> 'a gomap \<Rightarrow> 'a gomap" where
  "patch_entries f z [] m = m"
| "patch_entries f z ((name, p) # ps) m =
     patch_entries f z ps
       (AList.update name (f p (case map_of m name of None \<Rightarrow> z | Some v \<Rightarrow> v)) m)"

fun remove_entries :: "string list \<Rightarrow> 'a gomap \<Rightarrow> 'a gomap" where
  "remove_entries [] m = m"
| "remove_entries (name # names) m = remove_entries names (AList.delete name m)"

definition apply_mcp_patch :: "mcp_patch \<Rightarrow> mcp_settings \<Rightarrow> mcp_settings" where
  "apply_mcp_patch p d =
     \<lparr>mcp_servers = remove_entries (pmcp_remove_servers p)
        (patch_entries apply_mcp_server_patch zero_mcp_server (pmcp_servers p) (mcp_servers d))\<rparr>"

definition apply_extension_patch :: "extension_patch \<Rightarrow> extension_settings \<Rightarrow> extension_settings" where
  "apply_extension_patch p d =
     \<lparr>es_sources = remove_entries (pes_remove_sources p)
        (patch_entries apply_extension_source_patch zero_extension_source (pes_sources p) (es_sources d)),
      es_allow_unsigned = override (pes_allow_unsigned p) (es_allow_unsigned d)\<rparr>"

section \<open>The whole patch and the effective settings\<close>

definition apply_patch :: "settings \<Rightarrow> settings_patch \<Rightarrow> settings" where
  "apply_patch d p =
     \<lparr>st_model = patch_section apply_model_patch (sp_model p) (st_model d),
      st_thinking = patch_section apply_thinking_patch (sp_thinking p) (st_thinking d),
      st_tools = patch_section apply_tool_patch (sp_tools p) (st_tools d),
      st_queues = patch_section apply_queue_patch (sp_queues p) (st_queues d),
      st_skills = patch_section apply_skill_patch (sp_skills p) (st_skills d),
      st_mcp = patch_section apply_mcp_patch (sp_mcp p) (st_mcp d),
      st_extensions = patch_section apply_extension_patch (sp_extensions p) (st_extensions d),
      st_subagents = patch_section apply_subagent_patch (sp_subagents p) (st_subagents d),
      st_launchers = (case sp_launchers p of None \<Rightarrow> st_launchers d | Some ls \<Rightarrow> Some ls),
      st_desktop = patch_section apply_desktop_patch (sp_desktop p) (st_desktop d),
      st_standalone_chat =
        patch_section apply_standalone_patch (sp_standalone_chat p) (st_standalone_chat d)\<rparr>"

definition effective :: "config \<Rightarrow> string \<Rightarrow> settings \<times> bool" where
  "effective c project_id =
     (case map_of (cf_projects c) project_id of
        None \<Rightarrow> (cf_global c, False)
      | Some project \<Rightarrow> (apply_patch (cf_global c) (po_settings project), True))"

section \<open>Lemmas\<close>

lemma map_of_patch_entries [gomap_simps]:
  "wf_gomap ps \<Longrightarrow> map_of (patch_entries f z ps m) k =
     (case map_of ps k of
        None \<Rightarrow> map_of m k
      | Some p \<Rightarrow> Some (f p (case map_of m k of None \<Rightarrow> z | Some v \<Rightarrow> v)))"
proof (induction f z ps m rule: patch_entries.induct)
  case (2 f z name p ps m)
  then have "wf_gomap ps" and "map_of ps name = None"
    by (auto simp: wf_gomap_def map_of_eq_None_iff)
  with 2 show ?case
    by (auto simp: map_of_update split: option.splits)
qed simp

lemma map_of_remove_entries [gomap_simps]:
  "map_of (remove_entries names m) k = (if k \<in> set names then None else map_of m k)"
  by (induction names m rule: remove_entries.induct) (auto simp: map_of_delete)

lemma wf_patch_entries [simp]: "wf_gomap m \<Longrightarrow> wf_gomap (patch_entries f z ps m)"
  by (induction f z ps m rule: patch_entries.induct) auto

lemma wf_remove_entries [simp]: "wf_gomap m \<Longrightarrow> wf_gomap (remove_entries names m)"
  by (induction names m rule: remove_entries.induct) auto

lemma apply_patch_empty [simp]: "apply_patch d empty_patch = d"
  by (simp add: apply_patch_def empty_patch_def)

text \<open>Maps of a settings document have distinct keys.\<close>

definition wf_settings :: "settings \<Rightarrow> bool" where
  "wf_settings s \<longleftrightarrow>
     wf_gomap (mcp_servers (st_mcp s)) \<and> wf_gomap (es_sources (st_extensions s)) \<and>
     wf_gomap (sa_profiles (st_subagents s)) \<and>
     (\<forall>(n, v) \<in> set (mcp_servers (st_mcp s)). wf_gomap (mc_env v) \<and> wf_gomap (mc_headers v)) \<and>
     (\<forall>(n, v) \<in> set (es_sources (st_extensions s)). wf_gomap (ex_env v))"

definition wf_patch :: "settings_patch \<Rightarrow> bool" where
  "wf_patch p \<longleftrightarrow>
     (case sp_mcp p of None \<Rightarrow> True | Some q \<Rightarrow> wf_gomap (pmcp_servers q) \<and>
        (\<forall>(n, v) \<in> set (pmcp_servers q).
           (case pmc_env v of None \<Rightarrow> True | Some e \<Rightarrow> wf_gomap e) \<and>
           (case pmc_headers v of None \<Rightarrow> True | Some h \<Rightarrow> wf_gomap h))) \<and>
     (case sp_extensions p of None \<Rightarrow> True | Some q \<Rightarrow> wf_gomap (pes_sources q) \<and>
        (\<forall>(n, v) \<in> set (pes_sources q). case pex_env v of None \<Rightarrow> True | Some e \<Rightarrow> wf_gomap e)) \<and>
     (case sp_subagents p of None \<Rightarrow> True | Some q \<Rightarrow>
        (case psa_profiles q of None \<Rightarrow> True | Some m \<Rightarrow> wf_gomap m))"

definition wf_config :: "config \<Rightarrow> bool" where
  "wf_config c \<longleftrightarrow> wf_settings (cf_global c) \<and> wf_gomap (cf_projects c) \<and>
     (\<forall>(n, p) \<in> set (cf_projects c). wf_patch (po_settings p))"

text \<open>A property of map entries that the zero value has and each patch of the list keeps holds
  after the patch loop.\<close>

lemma patch_entries_all:
  assumes "\<forall>(n, v) \<in> set m. P v" and "P z" and "\<And>n p v. (n, p) \<in> set ps \<Longrightarrow> P v \<Longrightarrow> P (f p v)"
  shows "\<forall>(n, v) \<in> set (patch_entries f z ps m). P v"
  using assms
proof (induction f z ps m rule: patch_entries.induct)
  case (2 f z name p ps m)
  let ?v = "f p (case map_of m name of None \<Rightarrow> z | Some v \<Rightarrow> v)"
  have "P (case map_of m name of None \<Rightarrow> z | Some v \<Rightarrow> v)"
    using "2.prems"(1,2) by (auto split: option.splits dest: map_of_SomeD)
  then have "P ?v" using "2.prems"(3) [of name p] by simp
  moreover have "set (AList.update name ?v m) \<subseteq> insert (name, ?v) (set m)"
    by (induction m) auto
  ultimately have "\<forall>(n, v) \<in> set (AList.update name ?v m). P v"
    using "2.prems"(1) by auto
  with "2.IH" "2.prems" show ?case by auto
qed auto

lemma remove_entries_subset: "set (remove_entries names m) \<subseteq> set m"
  by (induction names m rule: remove_entries.induct) (auto simp: AList.delete_eq)

lemma wf_apply_patch: "wf_settings d \<Longrightarrow> wf_patch p \<Longrightarrow> wf_settings (apply_patch d p)"
proof -
  assume d: "wf_settings d" and p: "wf_patch p"
  have mcp: "wf_gomap (mcp_servers (st_mcp (apply_patch d p))) \<and>
    (\<forall>(n, v) \<in> set (mcp_servers (st_mcp (apply_patch d p))). wf_gomap (mc_env v) \<and> wf_gomap (mc_headers v))"
  proof (cases "sp_mcp p")
    case (Some q)
    have "\<forall>(n, v) \<in> set (patch_entries apply_mcp_server_patch zero_mcp_server (pmcp_servers q)
        (mcp_servers (st_mcp d))). wf_gomap (mc_env v) \<and> wf_gomap (mc_headers v)"
      by (rule patch_entries_all)
         (use d p Some in \<open>auto simp: wf_settings_def wf_patch_def zero_mcp_server_def
            apply_mcp_server_patch_def override_def split: option.splits\<close>)
    with d Some show ?thesis
      by (auto simp: apply_patch_def apply_mcp_patch_def wf_settings_def
               dest!: subsetD [OF remove_entries_subset])
  qed (use d in \<open>simp add: apply_patch_def wf_settings_def\<close>)
  have ext: "wf_gomap (es_sources (st_extensions (apply_patch d p))) \<and>
    (\<forall>(n, v) \<in> set (es_sources (st_extensions (apply_patch d p))). wf_gomap (ex_env v))"
  proof (cases "sp_extensions p")
    case (Some q)
    have "\<forall>(n, v) \<in> set (patch_entries apply_extension_source_patch zero_extension_source
        (pes_sources q) (es_sources (st_extensions d))). wf_gomap (ex_env v)"
      by (rule patch_entries_all)
         (use d p Some in \<open>auto simp: wf_settings_def wf_patch_def zero_extension_source_def
            apply_extension_source_patch_def override_def split: option.splits\<close>)
    with d Some show ?thesis
      by (auto simp: apply_patch_def apply_extension_patch_def wf_settings_def
               dest!: subsetD [OF remove_entries_subset])
  qed (use d in \<open>simp add: apply_patch_def wf_settings_def\<close>)
  have "wf_gomap (sa_profiles (st_subagents (apply_patch d p)))"
    using d p by (auto simp: apply_patch_def apply_subagent_patch_def wf_settings_def wf_patch_def
        override_def patch_section_def split: option.splits)
  with mcp ext show ?thesis by (simp add: wf_settings_def)
qed

lemma wf_effective: "wf_config c \<Longrightarrow> wf_settings (fst (effective c i))"
  by (auto simp: effective_def wf_config_def wf_apply_patch split: option.splits dest!: map_of_SomeD)

end
