(* ===== verification/ConfigRedact.thy ===== *)
theory ConfigRedact
  imports ConfigMerge
begin

text \<open>
  \<open>redact.go\<close>: the public view of the settings replaces secret values by a placeholder, and an
  update that sends the placeholder back gets the stored value again. A value is secret when
  its key is listed as secret or its name looks secret.
\<close>

section \<open>Values under keys\<close>

definition secret_markers :: "string list" where
  "secret_markers = [''authorization'', ''credential'', ''password'', ''passwd'', ''secret'',
     ''token'', ''api_key'', ''cookie'']"

definition looks_secret :: "string \<Rightarrow> bool" where
  "looks_secret key =
     (let normalized = map (\<lambda>c. if c = CHR ''-'' \<or> c = CHR '' '' then CHR ''_'' else c) (to_lower key)
      in list_ex (\<lambda>marker. contains_sub normalized marker) secret_markers)"

definition redact_values :: "string gomap \<Rightarrow> string list \<Rightarrow> string gomap" where
  "redact_values values explicit =
     map_vals (\<lambda>key v. if key \<in> set explicit \<or> looks_secret key then redacted_value else v) values"

definition restore_values :: "string gomap \<Rightarrow> string gomap \<Rightarrow> string gomap" where
  "restore_values candidate old =
     map_vals (\<lambda>key v. if v \<noteq> redacted_value then v
                       else case map_of old key of None \<Rightarrow> v | Some old_value \<Rightarrow> old_value) candidate"

text \<open>The secret marks an update keeps: each placeholder restored from a marked key is marked again.\<close>

fun restore_secrets :: "string gomap \<Rightarrow> string gomap \<Rightarrow> string list \<Rightarrow> string list \<Rightarrow> string list" where
  "restore_secrets [] old old_secret secret = secret"
| "restore_secrets ((key, v) # candidate) old old_secret secret =
     restore_secrets candidate old old_secret
       (if v = redacted_value \<and> map_of old key \<noteq> None \<and> key \<in> set old_secret
        then add_unique secret key else secret)"

text \<open>In a patch the values are restored first; then every key whose value equals the old value and
  was marked is marked again. Go's lookup of a missing key is the empty string.\<close>

fun restore_patch_secrets ::
  "string gomap \<Rightarrow> string gomap \<Rightarrow> string list \<Rightarrow> string list option \<Rightarrow> string list option" where
  "restore_patch_secrets [] old old_secret secret = secret"
| "restore_patch_secrets ((key, v) # candidate) old old_secret secret =
     restore_patch_secrets candidate old old_secret
       (if v = (case map_of old key of None \<Rightarrow> [] | Some o1 \<Rightarrow> o1) \<and> key \<in> set old_secret
        then Some (add_unique (override secret []) key) else secret)"

definition restore_patch_pair ::
  "string gomap option \<Rightarrow> string list option \<Rightarrow> string gomap option \<Rightarrow> string list option \<Rightarrow>
     string gomap option \<times> string list option" where
  "restore_patch_pair candidate secret old old_secret =
     (case (candidate, old) of
        (Some c, Some o1) \<Rightarrow>
          (let c' = restore_values c o1
           in (Some c', case old_secret of None \<Rightarrow> secret
                        | Some os \<Rightarrow> restore_patch_secrets c' o1 os secret))
      | _ \<Rightarrow> (candidate, secret))"

section \<open>Servers, sources and their patches\<close>

definition redact_server :: "mcp_server \<Rightarrow> mcp_server" where
  "redact_server s = s\<lparr>mc_env := redact_values (mc_env s) (mc_secret_env s),
                       mc_headers := redact_values (mc_headers s) (mc_secret_headers s)\<rparr>"

definition restore_server :: "mcp_server \<Rightarrow> mcp_server \<Rightarrow> mcp_server" where
  "restore_server candidate old =
     candidate\<lparr>
       mc_env := restore_values (mc_env candidate) (mc_env old),
       mc_secret_env := restore_secrets (mc_env candidate) (mc_env old) (mc_secret_env old)
                          (mc_secret_env candidate),
       mc_headers := restore_values (mc_headers candidate) (mc_headers old),
       mc_secret_headers := restore_secrets (mc_headers candidate) (mc_headers old)
                              (mc_secret_headers old) (mc_secret_headers candidate)\<rparr>"

definition redact_extension_source :: "extension_source \<Rightarrow> extension_source" where
  "redact_extension_source s = s\<lparr>ex_env := redact_values (ex_env s) (ex_secret_env s)\<rparr>"

definition restore_extension_source :: "extension_source \<Rightarrow> extension_source \<Rightarrow> extension_source" where
  "restore_extension_source candidate old =
     candidate\<lparr>
       ex_env := restore_values (ex_env candidate) (ex_env old),
       ex_secret_env := restore_secrets (ex_env candidate) (ex_env old) (ex_secret_env old)
                          (ex_secret_env candidate)\<rparr>"

definition redact_server_patch :: "mcp_server_patch \<Rightarrow> mcp_server_patch" where
  "redact_server_patch p =
     p\<lparr>pmc_env := map_option (\<lambda>e. redact_values e (override (pmc_secret_env p) [])) (pmc_env p),
       pmc_headers := map_option (\<lambda>h. redact_values h (override (pmc_secret_headers p) []))
                        (pmc_headers p)\<rparr>"

definition restore_server_patch :: "mcp_server_patch \<Rightarrow> mcp_server_patch \<Rightarrow> mcp_server_patch" where
  "restore_server_patch candidate old =
     (let (e, se) = restore_patch_pair (pmc_env candidate) (pmc_secret_env candidate)
                      (pmc_env old) (pmc_secret_env old);
          (h, sh) = restore_patch_pair (pmc_headers candidate) (pmc_secret_headers candidate)
                      (pmc_headers old) (pmc_secret_headers old)
      in candidate\<lparr>pmc_env := e, pmc_secret_env := se, pmc_headers := h, pmc_secret_headers := sh\<rparr>)"

definition redact_extension_patch :: "extension_source_patch \<Rightarrow> extension_source_patch" where
  "redact_extension_patch p =
     p\<lparr>pex_env := map_option (\<lambda>e. redact_values e (override (pex_secret_env p) [])) (pex_env p)\<rparr>"

definition restore_extension_patch ::
  "extension_source_patch \<Rightarrow> extension_source_patch \<Rightarrow> extension_source_patch" where
  "restore_extension_patch candidate old =
     (let (e, se) = restore_patch_pair (pex_env candidate) (pex_secret_env candidate)
                      (pex_env old) (pex_secret_env old)
      in candidate\<lparr>pex_env := e, pex_secret_env := se\<rparr>)"

section \<open>Settings and the whole document\<close>

text \<open>Restoring a map of entries: an entry whose name is new has nothing to restore from.\<close>

definition restore_map :: "('a \<Rightarrow> 'a \<Rightarrow> 'a) \<Rightarrow> 'a gomap \<Rightarrow> 'a gomap \<Rightarrow> 'a gomap" where
  "restore_map restore candidate old =
     map_vals (\<lambda>name v. case map_of old name of None \<Rightarrow> v | Some o1 \<Rightarrow> restore v o1) candidate"

definition hide_map :: "('a \<Rightarrow> 'a) \<Rightarrow> 'a gomap \<Rightarrow> 'a gomap" where
  "hide_map hide m = map_vals (\<lambda>name v. hide v) m"

definition redact_settings :: "settings \<Rightarrow> settings" where
  "redact_settings s =
     s\<lparr>st_mcp := \<lparr>mcp_servers = hide_map redact_server (mcp_servers (st_mcp s))\<rparr>,
       st_extensions := (st_extensions s)
         \<lparr>es_sources := hide_map redact_extension_source (es_sources (st_extensions s))\<rparr>\<rparr>"

definition restore_settings :: "settings \<Rightarrow> settings \<Rightarrow> settings" where
  "restore_settings candidate old =
     candidate\<lparr>
       st_mcp := \<lparr>mcp_servers = restore_map restore_server (mcp_servers (st_mcp candidate))
                                  (mcp_servers (st_mcp old))\<rparr>,
       st_extensions := (st_extensions candidate)
         \<lparr>es_sources := restore_map restore_extension_source (es_sources (st_extensions candidate))
                           (es_sources (st_extensions old))\<rparr>\<rparr>"

definition redact_override :: "project_override \<Rightarrow> project_override" where
  "redact_override p =
     p\<lparr>po_settings := (po_settings p)
        \<lparr>sp_mcp := map_option (\<lambda>q. q\<lparr>pmcp_servers := hide_map redact_server_patch (pmcp_servers q)\<rparr>)
                     (sp_mcp (po_settings p)),
         sp_extensions := map_option (\<lambda>q. q\<lparr>pes_sources := hide_map redact_extension_patch (pes_sources q)\<rparr>)
                            (sp_extensions (po_settings p))\<rparr>\<rparr>"

definition restore_override :: "project_override \<Rightarrow> project_override \<Rightarrow> project_override" where
  "restore_override candidate previous =
     candidate\<lparr>po_settings := (po_settings candidate)
        \<lparr>sp_mcp := (case (sp_mcp (po_settings candidate), sp_mcp (po_settings previous)) of
             (Some q, Some q0) \<Rightarrow>
               Some (q\<lparr>pmcp_servers := restore_map restore_server_patch (pmcp_servers q) (pmcp_servers q0)\<rparr>)
           | _ \<Rightarrow> sp_mcp (po_settings candidate)),
         sp_extensions := (case (sp_extensions (po_settings candidate), sp_extensions (po_settings previous)) of
             (Some q, Some q0) \<Rightarrow>
               Some (q\<lparr>pes_sources := restore_map restore_extension_patch (pes_sources q) (pes_sources q0)\<rparr>)
           | _ \<Rightarrow> sp_extensions (po_settings candidate))\<rparr>\<rparr>"

definition public_config :: "config \<Rightarrow> config" where
  "public_config raw =
     raw\<lparr>cf_global := redact_settings (cf_global raw),
         cf_projects := hide_map redact_override (cf_projects raw)\<rparr>"

definition restore_redacted :: "config \<Rightarrow> config \<Rightarrow> config" where
  "restore_redacted candidate old =
     candidate\<lparr>cf_global := restore_settings (cf_global candidate) (cf_global old),
               cf_projects := restore_map restore_override (cf_projects candidate) (cf_projects old)\<rparr>"

section \<open>The contract of a redaction\<close>

text \<open>
  What the update of a document needs of a redacted type: hiding is idempotent, and restoring a
  hidden value from the value it hides gives that value back.
\<close>

locale redaction =
  fixes hide :: "'a \<Rightarrow> 'a"
    and restore :: "'a \<Rightarrow> 'a \<Rightarrow> 'a"
    and wf :: "'a \<Rightarrow> bool"
  assumes hide_hide: "hide (hide x) = hide x"
    and restore_hide: "wf x \<Longrightarrow> restore (hide x) x = x"
begin

lemma hide_map_hide_map: "hide_map hide (hide_map hide m) = hide_map hide m"
  by (simp add: hide_map_def hide_hide)

lemma restore_map_hide_map:
  assumes "wf_gomap m" and "\<forall>(n, v) \<in> set m. wf v"
  shows "restore_map restore (hide_map hide m) m = m"
  unfolding restore_map_def hide_map_def map_vals_compose
proof (rule map_vals_ident)
  fix n v
  assume "(n, v) \<in> set m"
  with assms have "map_of m n = Some v" and "wf v"
    by (auto simp: map_of_wf_iff)
  then show "(case map_of m n of None \<Rightarrow> hide v | Some o1 \<Rightarrow> restore (hide v) o1) = v"
    by (simp add: restore_hide)
qed

end

text \<open>
  A confidential redaction adds non-interference: what the public sees after a restore depends
  only on what the public saw of the old value.
\<close>

locale confidential_redaction = redaction hide restore wf
  for hide :: "'a \<Rightarrow> 'a" and restore :: "'a \<Rightarrow> 'a \<Rightarrow> 'a" and wf :: "'a \<Rightarrow> bool" +
  assumes restore_blind: "hide x = hide y \<Longrightarrow> hide (restore c x) = hide (restore c y)"
begin

lemma hide_map_lookup:
  "hide_map hide m = hide_map hide m' \<Longrightarrow>
     map_option hide (map_of m n) = map_option hide (map_of m' n)"
  by (metis hide_map_def map_of_map_vals)

lemma restore_map_blind:
  assumes "hide_map hide m = hide_map hide m'"
  shows "hide_map hide (restore_map restore c m) = hide_map hide (restore_map restore c m')"
  unfolding restore_map_def hide_map_def map_vals_compose
proof (rule map_vals_cong)
  fix n v
  have "map_option hide (map_of m n) = map_option hide (map_of m' n)"
    using assms by (rule hide_map_lookup)
  then show "hide (case map_of m n of None \<Rightarrow> v | Some o1 \<Rightarrow> restore v o1) =
             hide (case map_of m' n of None \<Rightarrow> v | Some o1 \<Rightarrow> restore v o1)"
    by (auto split: option.splits intro: restore_blind)
qed

end

section \<open>Values: round trip and non-interference\<close>

definition is_secret :: "string list \<Rightarrow> string \<Rightarrow> bool" where
  "is_secret explicit key \<longleftrightarrow> key \<in> set explicit \<or> looks_secret key"

lemma redact_values_eq:
  "redact_values m s = map_vals (\<lambda>k v. if is_secret s k then redacted_value else v) m"
  by (simp add: redact_values_def is_secret_def)

lemma redact_values_idem [simp]: "redact_values (redact_values m s) s = redact_values m s"
  by (auto simp: redact_values_eq intro!: map_vals_cong)

lemma restore_redact_values [simp]:
  "wf_gomap m \<Longrightarrow> restore_values (redact_values m s) m = m"
  by (auto simp: redact_values_eq restore_values_def map_of_wf_iff [THEN iffD2] intro!: map_vals_ident)

lemma set_restore_secrets:
  "set (restore_secrets c old os s) =
     set s \<union> {k. (k, redacted_value) \<in> set c \<and> map_of old k \<noteq> None \<and> k \<in> set os}"
  by (induction c old os s rule: restore_secrets.induct) auto

lemma restore_secrets_same: "restore_secrets c old s s = s"
  by (induction c) auto

lemma restore_patch_secrets_same:
  "restore_patch_secrets c old s (Some s) = Some s"
  by (induction c) auto

lemma restore_patch_pair_redact:
  assumes "case e of None \<Rightarrow> True | Some m \<Rightarrow> wf_gomap m"
  shows "restore_patch_pair (map_option (\<lambda>m. redact_values m (override s [])) e) s e s = (e, s)"
  using assms
  by (cases e; cases s) (auto simp: restore_patch_pair_def Let_def restore_patch_secrets_same)

text \<open>Two documents that look alike in public agree on the keys and on every value that is not
  secret.\<close>

lemma redact_values_lookup:
  "redact_values m s = redact_values m' s \<Longrightarrow>
     (map_of m k = None \<longleftrightarrow> map_of m' k = None) \<and>
     (\<not> is_secret s k \<longrightarrow> map_of m k = map_of m' k)"
proof -
  assume "redact_values m s = redact_values m' s"
  then have "map_option (\<lambda>v. if is_secret s k then redacted_value else v) (map_of m k) =
             map_option (\<lambda>v. if is_secret s k then redacted_value else v) (map_of m' k)"
    by (metis redact_values_eq map_of_map_vals)
  then show ?thesis
    by (cases "map_of m k"; cases "map_of m' k") auto
qed

lemma restore_secrets_blind:
  "redact_values m os = redact_values m' os \<Longrightarrow>
     restore_secrets c m os s = restore_secrets c m' os s"
proof (induction c arbitrary: s)
  case (Cons p c)
  obtain k v where "p = (k, v)" by (cases p)
  moreover have "map_of m k = None \<longleftrightarrow> map_of m' k = None"
    using Cons.prems redact_values_lookup by blast
  ultimately show ?case using Cons by simp
qed simp

lemma restore_values_blind:
  assumes "redact_values m os = redact_values m' os"
  shows "redact_values (restore_values c m) (restore_secrets c m os s) =
         redact_values (restore_values c m') (restore_secrets c m' os s)"
proof -
  let ?s = "restore_secrets c m os s"
  have "redact_values (restore_values c m) ?s = redact_values (restore_values c m') ?s"
    unfolding redact_values_eq restore_values_def map_vals_compose
  proof (rule map_vals_cong)
    fix k v
    assume kv: "(k, v) \<in> set c"
    show "(if is_secret ?s k then redacted_value
           else if v \<noteq> redacted_value then v
           else case map_of m k of None \<Rightarrow> v | Some o1 \<Rightarrow> o1) =
          (if is_secret ?s k then redacted_value
           else if v \<noteq> redacted_value then v
           else case map_of m' k of None \<Rightarrow> v | Some o1 \<Rightarrow> o1)"
      using kv redact_values_lookup [OF assms, of k]
      by (auto simp: is_secret_def set_restore_secrets split: option.splits)
  qed
  with restore_secrets_blind [OF assms] show ?thesis by simp
qed

section \<open>The contract holds for servers, sources and patches\<close>

definition wf_server :: "mcp_server \<Rightarrow> bool" where
  "wf_server s \<longleftrightarrow> wf_gomap (mc_env s) \<and> wf_gomap (mc_headers s)"

definition wf_source :: "extension_source \<Rightarrow> bool" where
  "wf_source s \<longleftrightarrow> wf_gomap (ex_env s)"

definition wf_server_patch :: "mcp_server_patch \<Rightarrow> bool" where
  "wf_server_patch p \<longleftrightarrow> (case pmc_env p of None \<Rightarrow> True | Some e \<Rightarrow> wf_gomap e) \<and>
     (case pmc_headers p of None \<Rightarrow> True | Some h \<Rightarrow> wf_gomap h)"

definition wf_source_patch :: "extension_source_patch \<Rightarrow> bool" where
  "wf_source_patch p \<longleftrightarrow> (case pex_env p of None \<Rightarrow> True | Some e \<Rightarrow> wf_gomap e)"

interpretation server: confidential_redaction redact_server restore_server wf_server
proof unfold_locales
  show "redact_server (redact_server x) = redact_server x" for x
    by (simp add: redact_server_def)
  show "wf_server x \<Longrightarrow> restore_server (redact_server x) x = x" for x
    by (simp add: redact_server_def restore_server_def restore_secrets_same wf_server_def)
  show "redact_server x = redact_server y \<Longrightarrow>
      redact_server (restore_server c x) = redact_server (restore_server c y)" for x y c
  proof -
    assume eq: "redact_server x = redact_server y"
    have marks: "mc_secret_env x = mc_secret_env y" "mc_secret_headers x = mc_secret_headers y"
      using arg_cong [where f = mc_secret_env, OF eq] arg_cong [where f = mc_secret_headers, OF eq]
      by (simp_all add: redact_server_def)
    have "redact_values (mc_env x) (mc_secret_env x) = redact_values (mc_env y) (mc_secret_env x)"
      "redact_values (mc_headers x) (mc_secret_headers x) =
       redact_values (mc_headers y) (mc_secret_headers x)"
      using arg_cong [where f = mc_env, OF eq] arg_cong [where f = mc_headers, OF eq] marks
      by (simp_all add: redact_server_def)
    from restore_values_blind [OF this(1)] restore_values_blind [OF this(2)]
      restore_secrets_blind [OF this(1)] restore_secrets_blind [OF this(2)] marks
    show ?thesis
      by (simp add: redact_server_def restore_server_def)
  qed
qed

interpretation source: confidential_redaction redact_extension_source restore_extension_source wf_source
proof unfold_locales
  show "redact_extension_source (redact_extension_source x) = redact_extension_source x" for x
    by (simp add: redact_extension_source_def)
  show "wf_source x \<Longrightarrow> restore_extension_source (redact_extension_source x) x = x" for x
    by (simp add: redact_extension_source_def restore_extension_source_def restore_secrets_same
        wf_source_def)
  show "redact_extension_source x = redact_extension_source y \<Longrightarrow>
      redact_extension_source (restore_extension_source c x) =
      redact_extension_source (restore_extension_source c y)" for x y c
  proof -
    assume eq: "redact_extension_source x = redact_extension_source y"
    have marks: "ex_secret_env x = ex_secret_env y"
      using arg_cong [where f = ex_secret_env, OF eq] by (simp add: redact_extension_source_def)
    have "redact_values (ex_env x) (ex_secret_env x) = redact_values (ex_env y) (ex_secret_env x)"
      using arg_cong [where f = ex_env, OF eq] marks by (simp add: redact_extension_source_def)
    from restore_values_blind [OF this] restore_secrets_blind [OF this] marks
    show ?thesis
      by (simp add: redact_extension_source_def restore_extension_source_def)
  qed
qed

interpretation server_patch: redaction redact_server_patch restore_server_patch wf_server_patch
proof unfold_locales
  show "redact_server_patch (redact_server_patch x) = redact_server_patch x" for x
    by (simp add: redact_server_patch_def option.map_comp comp_def)
  show "wf_server_patch x \<Longrightarrow> restore_server_patch (redact_server_patch x) x = x" for x
    by (simp add: redact_server_patch_def restore_server_patch_def restore_patch_pair_redact
        wf_server_patch_def)
qed

interpretation source_patch: redaction redact_extension_patch restore_extension_patch wf_source_patch
proof unfold_locales
  show "redact_extension_patch (redact_extension_patch x) = redact_extension_patch x" for x
    by (simp add: redact_extension_patch_def option.map_comp comp_def)
  show "wf_source_patch x \<Longrightarrow> restore_extension_patch (redact_extension_patch x) x = x" for x
    by (simp add: redact_extension_patch_def restore_extension_patch_def restore_patch_pair_redact
        wf_source_patch_def)
qed

definition wf_override :: "project_override \<Rightarrow> bool" where
  "wf_override p \<longleftrightarrow> wf_patch (po_settings p)"

lemma restore_redact_settings: "wf_settings s \<Longrightarrow> restore_settings (redact_settings s) s = s"
  by (auto simp: redact_settings_def restore_settings_def wf_settings_def wf_server_def wf_source_def
        server.restore_map_hide_map source.restore_map_hide_map split: prod.splits)

lemma redact_settings_idem [simp]: "redact_settings (redact_settings s) = redact_settings s"
  by (simp add: redact_settings_def server.hide_map_hide_map source.hide_map_hide_map)

interpretation override: redaction redact_override restore_override wf_override
proof unfold_locales
  show "redact_override (redact_override x) = redact_override x" for x
    by (simp add: redact_override_def option.map_comp comp_def server_patch.hide_map_hide_map
        source_patch.hide_map_hide_map)
  show "restore_override (redact_override x) x = x" if "wf_override x" for x
  proof -
    have "restore_map restore_server_patch (hide_map redact_server_patch (pmcp_servers q)) (pmcp_servers q)
        = pmcp_servers q" if "sp_mcp (po_settings x) = Some q" for q
      by (rule server_patch.restore_map_hide_map)
         (use that \<open>wf_override x\<close> in \<open>auto simp: wf_override_def wf_patch_def wf_server_patch_def\<close>)
    moreover have "restore_map restore_extension_patch (hide_map redact_extension_patch (pes_sources q))
        (pes_sources q) = pes_sources q" if "sp_extensions (po_settings x) = Some q" for q
      by (rule source_patch.restore_map_hide_map)
         (use that \<open>wf_override x\<close> in \<open>auto simp: wf_override_def wf_patch_def wf_source_patch_def\<close>)
    ultimately show ?thesis
      by (cases "sp_mcp (po_settings x)"; cases "sp_extensions (po_settings x)")
         (simp_all add: redact_override_def restore_override_def)
  qed
qed

section \<open>The document\<close>

lemma public_config_idem [simp]: "public_config (public_config c) = public_config c"
  by (simp add: public_config_def override.hide_map_hide_map)

lemma restore_public_config: "wf_config c \<Longrightarrow> restore_redacted (public_config c) c = c"
proof -
  assume c: "wf_config c"
  then have "restore_map restore_override (hide_map redact_override (cf_projects c)) (cf_projects c) =
      cf_projects c"
    by (intro override.restore_map_hide_map) (auto simp: wf_config_def wf_override_def)
  with c show ?thesis
    by (simp add: public_config_def restore_redacted_def restore_redact_settings wf_config_def)
qed

lemma restore_settings_blind:
  assumes "redact_settings s = redact_settings s'"
  shows "redact_settings (restore_settings c s) = redact_settings (restore_settings c s')"
proof -
  have mcp: "hide_map redact_server (mcp_servers (st_mcp s)) = hide_map redact_server (mcp_servers (st_mcp s'))"
    using arg_cong [where f = "\<lambda>s. mcp_servers (st_mcp s)", OF assms]
    by (simp add: redact_settings_def)
  have ext: "hide_map redact_extension_source (es_sources (st_extensions s)) =
      hide_map redact_extension_source (es_sources (st_extensions s'))"
    using arg_cong [where f = "\<lambda>s. es_sources (st_extensions s)", OF assms]
    by (simp add: redact_settings_def)
  show ?thesis
    by (simp add: redact_settings_def restore_settings_def
        server.restore_map_blind [OF mcp, of "mcp_servers (st_mcp c)"]
        source.restore_map_blind [OF ext, of "es_sources (st_extensions c)"])
qed

text \<open>In a redacted server no marked or secret-looking key shows its value.\<close>

lemma redact_values_secret:
  "(k, v) \<in> set (redact_values m s) \<Longrightarrow> is_secret s k \<Longrightarrow> v = redacted_value"
  by (auto simp: redact_values_eq map_vals_def)

end
