(* ===== verification/ConfigValidate.thy ===== *)
theory ConfigValidate
  imports ConfigMerge
begin

text \<open>
  \<open>validate.go\<close> and \<open>validate_values.go\<close>: the checks in the order of the code, the first that
  fails names the error. Where the code ranges over a map, the entries are checked in the map's
  iteration order. \<open>net/url.Parse\<close> (scheme and host, or an error) and the letter and digit tables
  of package \<open>unicode\<close> beyond ASCII are arguments of the checks that use them.
\<close>

record go_env =
  url_parse :: "string \<Rightarrow> (string \<times> string) option"
  unicode_alnum :: "string \<Rightarrow> bool"

text \<open>An error is the format string of the code's \<open>Errorf\<close> call, shortened, and its arguments.\<close>

type_synonym config_error = "string \<times> string list"

definition cerr :: "string \<Rightarrow> string list \<Rightarrow> config_error" where
  "cerr template arguments = (template, arguments)"

section \<open>Values\<close>

text \<open>\<open>^[A-Za-z0-9][A-Za-z0-9_.-]{0,127}$\<close>\<close>

definition config_name :: "string \<Rightarrow> bool" where
  "config_name s \<longleftrightarrow> name_pattern ''_.-'' 127 s"

definition valid_thinking :: "string \<Rightarrow> bool" where
  "valid_thinking v \<longleftrightarrow> v \<in> {''none'', ''minimal'', ''low'', ''medium'', ''high'', ''max''}"

definition valid_approval :: "string \<Rightarrow> bool" where
  "valid_approval v \<longleftrightarrow> v = ''never'' \<or> v = ''on-request'' \<or> v = ''always''"

definition valid_queue :: "string \<Rightarrow> bool" where
  "valid_queue v \<longleftrightarrow> v = ''one-at-a-time'' \<or> v = ''all''"

definition valid_trust :: "string \<Rightarrow> bool" where
  "valid_trust v \<longleftrightarrow> v = ''denied'' \<or> v = ''prompt'' \<or> v = ''trusted''"

definition valid_sandbox :: "string \<Rightarrow> bool" where
  "valid_sandbox v \<longleftrightarrow> v = ''strict'' \<or> v = ''workspace'' \<or> v = ''off''"

fun unique_from :: "string list \<Rightarrow> string list \<Rightarrow> string \<Rightarrow> config_error option" where
  "unique_from seen [] label = None"
| "unique_from seen (v # vs) label =
     (if trim_space v = [] then Some (cerr ''cannot contain an empty value'' [label])
      else if v \<in> set seen then Some (cerr ''contains duplicate'' [label, v])
      else unique_from (v # seen) vs label)"

definition unique_non_empty :: "string list \<Rightarrow> string \<Rightarrow> config_error option" where
  "unique_non_empty vs label = unique_from [] vs label"

lemma unique_from_None_iff:
  "unique_from seen vs label = None \<longleftrightarrow>
     distinct vs \<and> set vs \<inter> set seen = {} \<and> (\<forall>v \<in> set vs. trim_space v \<noteq> [])"
  by (induction seen vs label rule: unique_from.induct) auto

lemma unique_non_empty_None_iff:
  "unique_non_empty vs label = None \<longleftrightarrow> distinct vs \<and> (\<forall>v \<in> set vs. trim_space v \<noteq> [])"
  by (simp add: unique_non_empty_def unique_from_None_iff)

definition validate_names :: "string list \<Rightarrow> string \<Rightarrow> config_error option" where
  "validate_names vs label =
     first_error [unique_non_empty vs (label @ '' names''),
       check_all (\<lambda>v. reject (\<not> config_name v) (cerr ''invalid name'' [label, v])) vs]"

definition validate_process_values ::
  "string \<Rightarrow> string list \<Rightarrow> string gomap \<Rightarrow> string \<Rightarrow> config_error option" where
  "validate_process_values command args env label =
     first_error [
       reject (contains_char command (CHR 0x00)) (cerr ''command contains NUL'' [label]),
       check_all (\<lambda>a. reject (contains_char a (CHR 0x00)) (cerr ''argument contains NUL'' [label])) args,
       check_all (\<lambda>(key, v). reject (key = [] \<or> contains_char key (CHR ''='') \<or>
            contains_char key (CHR 0x00) \<or> contains_char v (CHR 0x00)) (cerr ''has invalid environment entry'' [label, key])) env]"

definition validate_secret_keys ::
  "string gomap \<Rightarrow> string list \<Rightarrow> string \<Rightarrow> string \<Rightarrow> config_error option" where
  "validate_secret_keys values keys kind server =
     first_error [unique_non_empty keys (''MCP secret '' @ kind @ '' keys''),
       check_all (\<lambda>k. reject (map_of values k = None) (cerr ''MCP server secret is not configured'' [server, kind, k])) keys]"

section \<open>Sections of the settings\<close>

definition validate_tools :: "tool_settings \<Rightarrow> string \<Rightarrow> config_error option" where
  "validate_tools s scope =
     first_error [unique_non_empty (to_enabled s) (scope @ '' tools''),
       reject (\<not> valid_sandbox (to_sandbox s)) (cerr ''invalid sandbox mode'' [scope, to_sandbox s]),
       reject (\<not> valid_approval (to_approval s)) (cerr ''invalid tool approval'' [scope, to_approval s])]"

definition validate_skills :: "skill_settings \<Rightarrow> string \<Rightarrow> config_error option" where
  "validate_skills s scope =
     first_error [reject (sk_roots s = []) (cerr ''requires a skill root'' [scope]),
       unique_non_empty (sk_roots s) (scope @ '' skill roots''),
       check_all (\<lambda>r. reject (\<not> is_abs r) (cerr ''skill roots must be absolute'' [scope])) (sk_roots s),
       unique_non_empty (sk_disabled s) (scope @ '' disabled skills''),
       reject (\<not> valid_trust (sk_trust s)) (cerr ''invalid skill trust'' [scope, sk_trust s])]"

definition validate_transport :: "go_env \<Rightarrow> string \<Rightarrow> mcp_server \<Rightarrow> config_error option" where
  "validate_transport G name s =
     (if mc_transport s = ''stdio'' then
        first_error [reject (trim_space (mc_command s) = []) (cerr ''MCP server command is required'' [name]),
          reject (mc_url s \<noteq> []) (cerr ''stdio transport cannot set URL'' [name])]
      else if mc_transport s = ''streamable-http'' then
        first_error [
          (case url_parse G (mc_url s) of
             None \<Rightarrow> Some (cerr ''requires an HTTP(S) URL'' [name])
           | Some (scheme, host) \<Rightarrow>
               reject ((scheme \<noteq> ''http'' \<and> scheme \<noteq> ''https'') \<or> host = []) (cerr ''requires an HTTP(S) URL'' [name])),
          reject (mc_command s \<noteq> []) (cerr ''HTTP transport cannot set command'' [name]),
          reject (mc_args s \<noteq> [] \<or> mc_inherit_env s) (cerr ''HTTP transport cannot set process options'' [name])]
      else Some (cerr ''has invalid transport'' [name, mc_transport s]))"

definition validate_server :: "go_env \<Rightarrow> string \<Rightarrow> string \<times> mcp_server \<Rightarrow> config_error option" where
  "validate_server G scope ns =
     (let name = fst ns; s = snd ns in first_error [
       reject (\<not> config_name name) (cerr ''invalid MCP server name'' [scope, name]),
       reject (\<not> valid_approval (mc_approval s)) (cerr ''MCP server has invalid approval'' [scope, name]),
       unique_non_empty (mc_enabled_tools s) (scope @ '' MCP enabled tools''),
       check_all (\<lambda>(t, a). reject (\<not> valid_approval a) (cerr ''MCP server has invalid tool approval'' [scope, name]))
         (mc_tool_approvals s),
       validate_secret_keys (mc_env s) (mc_secret_env s) ''environment'' name,
       validate_process_values (mc_command s) (mc_args s) (mc_env s) (''MCP server '' @ name),
       validate_secret_keys (mc_headers s) (mc_secret_headers s) ''header'' name,
       validate_transport G name s])"

definition validate_mcp :: "go_env \<Rightarrow> mcp_settings \<Rightarrow> string \<Rightarrow> config_error option" where
  "validate_mcp G s scope = check_all (validate_server G scope) (mcp_servers s)"

definition validate_extension_secret_keys ::
  "extension_source \<Rightarrow> string \<Rightarrow> config_error option" where
  "validate_extension_secret_keys s name =
     first_error [unique_non_empty (ex_secret_env s) ''extension secret environment keys'',
       check_all (\<lambda>k. reject (map_of (ex_env s) k = None) (cerr ''extension secret environment is not configured'' [name, k]))
         (ex_secret_env s)]"

definition validate_source :: "string \<Rightarrow> string \<times> extension_source \<Rightarrow> config_error option" where
  "validate_source scope ns =
     (let name = fst ns; s = snd ns in first_error [
       reject (\<not> config_name name) (cerr ''invalid extension name'' [scope, name]),
       reject (trim_space (ex_location s) = []) (cerr ''location is required'' [name]),
       reject (\<not> valid_trust (ex_trust s)) (cerr ''has invalid trust'' [name]),
       validate_process_values (ex_command s) (ex_args s) (ex_env s) (''extension '' @ name),
       validate_extension_secret_keys s name,
       (if ex_kind s = ''local'' then reject (\<not> is_abs (ex_location s)) (cerr ''local extension location must be absolute'' [name])
        else if ex_kind s = ''git'' \<or> ex_kind s = ''registry'' then
          reject (ex_command s \<noteq> [] \<or> ex_args s \<noteq> [] \<or> ex_env s \<noteq> [] \<or> ex_secret_env s \<noteq> [] \<or>
                  ex_inherit_env s) (cerr ''remote extension cannot set local process options'' [name])
        else Some (cerr ''has invalid source kind'' [name, ex_kind s]))])"

definition validate_extensions :: "extension_settings \<Rightarrow> string \<Rightarrow> config_error option" where
  "validate_extensions s scope = check_all (validate_source scope) (es_sources s)"

definition validate_profile :: "string \<Rightarrow> string \<times> agent_profile \<Rightarrow> config_error option" where
  "validate_profile scope np =
     (let name = fst np; p = snd np in first_error [
       reject (\<not> config_name name) (cerr ''invalid subagent profile'' [scope, name]),
       reject (trim_space (ap_description p) = []) (cerr ''subagent profile requires a description'' [scope, name]),
       reject (ap_thinking p \<noteq> [] \<and> \<not> valid_thinking (ap_thinking p)) (cerr ''subagent profile has invalid thinking'' [scope, name]),
       unique_non_empty (override (ap_tools p) []) (scope @ '' subagent profile '' @ name @ '' tools'')])"

definition validate_subagents :: "subagent_settings \<Rightarrow> string \<Rightarrow> config_error option" where
  "validate_subagents s scope =
     first_error [
       reject (sa_max_depth s < 1 \<or> sa_max_depth s > 4) (cerr ''subagent max depth must be between 1 and 4'' [scope]),
       reject (sa_max_children s < 1 \<or> sa_max_children s > 32) (cerr ''subagent max children must be between 1 and 32'' [scope]),
       reject (sa_max_concurrent s < 1 \<or> sa_max_concurrent s > 16) (cerr ''subagent max concurrent must be between 1 and 16'' [scope]),
       reject (sa_profiles s = []) (cerr ''requires at least one subagent profile'' [scope]),
       check_all (validate_profile scope) (sa_profiles s)]"

definition validate_desktop :: "desktop_settings \<Rightarrow> string \<Rightarrow> config_error option" where
  "validate_desktop s scope =
     first_error [
       reject (de_codex_home s = [] \<or> \<not> is_abs (de_codex_home s)) (cerr ''Codex home must be absolute'' [scope]),
       reject (de_desktop_config s \<noteq> [] \<and> \<not> is_abs (de_desktop_config s)) (cerr ''desktop config path must be absolute'' [scope]),
       reject (de_sync_mode s \<notin> {''off'', ''import'', ''export'', ''bidirectional''})
         (cerr ''invalid desktop sync mode'' [scope, de_sync_mode s])]"

section \<open>Launchers and their shortcuts\<close>

definition shortcut_alias :: "string \<Rightarrow> string" where
  "shortcut_alias part =
     (if part = ''cmd'' \<or> part = ''command'' then ''meta''
      else if part = ''ctrl'' then ''control''
      else if part = ''option'' then ''alt''
      else if part = ''grave'' \<or> part = [CHR 0x60] then ''backquote''
      else part)"

definition modifier_names :: "string list" where
  "modifier_names = [''mod'', ''meta'', ''control'', ''shift'', ''alt'']"

datatype shortcut_error = DuplicateModifier | OneKeyRequired | InvalidKey | ModifierAndKeyRequired
  | ModWithMetaOrControl

definition key_rune_ok :: "go_env \<Rightarrow> string \<Rightarrow> bool" where
  "key_rune_ok G r \<longleftrightarrow>
     (case r of [c] \<Rightarrow> is_alnum c \<or> c = CHR ''_'' \<or> c = CHR ''-'' | _ \<Rightarrow> unicode_alnum G r)"

text \<open>The parts left to read, the modifiers seen and the key found so far (empty for none).\<close>

fun shortcut_parts ::
  "go_env \<Rightarrow> string list \<Rightarrow> string list \<Rightarrow> string \<Rightarrow> (shortcut_error, string list \<times> string) result" where
  "shortcut_parts G [] mods key = Inr (mods, key)"
| "shortcut_parts G (raw # raws) mods key =
     (let part = shortcut_alias (trim_space raw)
      in if part \<in> set modifier_names then
           (if part \<in> set mods then Inl DuplicateModifier
            else shortcut_parts G raws (part # mods) key)
         else if part = [] \<or> key \<noteq> [] then Inl OneKeyRequired
         else if \<not> list_all (key_rune_ok G) (runes part) then Inl InvalidKey
         else shortcut_parts G raws mods part)"

definition normalize_launcher_shortcut :: "go_env \<Rightarrow> string \<Rightarrow> (shortcut_error, string) result" where
  "normalize_launcher_shortcut G v =
     (case shortcut_parts G (split_char (CHR ''+'') (to_lower (trim_space v))) [] [] of
        Inl e \<Rightarrow> Inl e
      | Inr (mods, key) \<Rightarrow>
          if key = [] \<or> (''mod'' \<notin> set mods \<and> ''meta'' \<notin> set mods \<and> ''control'' \<notin> set mods \<and>
                         ''alt'' \<notin> set mods) then Inl ModifierAndKeyRequired
          else if ''mod'' \<in> set mods \<and> (''meta'' \<in> set mods \<or> ''control'' \<in> set mods)
          then Inl ModWithMetaOrControl
          else Inr (join_with ''+'' (filter (\<lambda>m. m \<in> set mods) modifier_names @ [key])))"

definition validate_launcher_value :: "string \<Rightarrow> project_launcher \<Rightarrow> config_error option" where
  "validate_launcher_value scope l =
     first_error [
       reject (la_icon l \<notin> {[], ''tool'', ''run'', ''debug'', ''test''}) (cerr ''launcher has an invalid icon'' [scope, la_id l]),
       reject (trim_space (la_label l) = [] \<or> length (la_label l) > 128 \<or> contains_control (la_label l))
         (cerr ''launcher has an invalid label'' [scope, la_id l]),
       reject (length (la_command l) > 4096 \<or> length (la_args l) > 128)
         (cerr ''launcher command is too large'' [scope, la_id l]),
       validate_process_values (la_command l) (la_args l) [] (''launcher '' @ la_id l),
       check_all (\<lambda>a. reject (length a > 4096) (cerr ''launcher argument is too large'' [scope, la_id l])) (la_args l),
       (if la_kind l = ''terminal'' then
          reject (trim_space (la_command l) = [] \<and> la_args l \<noteq> []) (cerr ''login shell cannot set arguments'' [scope, la_id l])
        else if la_kind l = ''desktop'' then
          reject (trim_space (la_command l) = []) (cerr ''desktop launcher command is required'' [scope, la_id l])
        else Some (cerr ''launcher has invalid kind'' [scope, la_id l]))]"

text \<open>The loop over the launchers with the ids and the normalized shortcuts seen so far.\<close>

fun validate_launchers_from ::
  "go_env \<Rightarrow> string \<Rightarrow> string list \<Rightarrow> string gomap \<Rightarrow> project_launcher list \<Rightarrow> config_error option" where
  "validate_launchers_from G scope ids shortcuts [] = None"
| "validate_launchers_from G scope ids shortcuts (l # ls) =
     (if \<not> config_name (la_id l) then Some (cerr ''invalid launcher id'' [scope, la_id l])
      else if la_id l \<in> set ids then Some (cerr ''contains duplicate launcher id'' [scope, la_id l])
      else case validate_launcher_value scope l of
        Some e \<Rightarrow> Some e
      | None \<Rightarrow>
         (let shortcut = to_lower (trim_space (la_shortcut l))
          in if shortcut = [] then validate_launchers_from G scope (la_id l # ids) shortcuts ls
             else if length shortcut > 128 \<or> contains_control shortcut
             then Some (cerr ''launcher has an invalid shortcut'' [scope, la_id l])
             else case normalize_launcher_shortcut G shortcut of
               Inl e \<Rightarrow> Some (cerr ''launcher has an invalid shortcut'' [scope, la_id l])
             | Inr n \<Rightarrow>
                 (case map_of shortcuts n of
                    Some other \<Rightarrow> Some (cerr ''launchers use the same shortcut'' [scope, other, la_id l])
                  | None \<Rightarrow> validate_launchers_from G scope (la_id l # ids) ((n, la_id l) # shortcuts) ls)))"

definition validate_launchers ::
  "go_env \<Rightarrow> project_launcher list option \<Rightarrow> string \<Rightarrow> config_error option" where
  "validate_launchers G configured scope =
     (let ls = resolve_project_launchers configured
      in if length ls > 64 then Some (cerr ''cannot configure more than 64 launchers'' [scope])
         else validate_launchers_from G scope [] [] ls)"

section \<open>Settings, patches and the document\<close>

definition validate_settings :: "go_env \<Rightarrow> settings \<Rightarrow> string \<Rightarrow> config_error option" where
  "validate_settings G s scope =
     first_error [
       reject (trim_space (mo_provider (st_model s)) = [] \<or> trim_space (mo_id (st_model s)) = [])
         (cerr ''model provider and id are required'' [scope]),
       reject (mo_context_window (st_model s) < 0) (cerr ''context window cannot be negative'' [scope]),
       reject (\<not> valid_thinking (th_level (st_thinking s)))
         (cerr ''invalid thinking level'' [scope, th_level (st_thinking s)]),
       validate_tools (st_tools s) scope,
       reject (\<not> valid_queue (qu_steering_mode (st_queues s)) \<or> \<not> valid_queue (qu_follow_up_mode (st_queues s)))
         (cerr ''invalid queue mode'' [scope]),
       reject (qu_max_pending (st_queues s) \<le> 0) (cerr ''max pending must be positive'' [scope]),
       validate_skills (st_skills s) scope,
       validate_mcp G (st_mcp s) scope,
       validate_extensions (st_extensions s) scope,
       validate_subagents (st_subagents s) scope,
       validate_launchers G (st_launchers s) scope,
       validate_desktop (st_desktop s) scope,
       reject (trim_space (sc_model (st_standalone_chat s)) = []) (cerr ''standalone chat model is required'' [scope]),
       reject (\<not> valid_thinking (sc_thinking (st_standalone_chat s))) (cerr ''invalid standalone chat thinking level'' [scope]),
       unique_non_empty (sc_tools (st_standalone_chat s)) (scope @ '' standalone chat tools'')]"

definition validate_patch :: "settings_patch \<Rightarrow> string \<Rightarrow> config_error option" where
  "validate_patch p project_id =
     first_error [
       (case sp_mcp p of None \<Rightarrow> None
        | Some q \<Rightarrow> first_error [
            validate_names (pmcp_remove_servers q) ''removed MCP server'',
            check_all (\<lambda>(n, sp). reject (n \<in> set (pmcp_remove_servers q))
                         (cerr ''both patches and removes MCP server'' [project_id, n])) (pmcp_servers q)]),
       (case sp_extensions p of None \<Rightarrow> None
        | Some q \<Rightarrow> first_error [
            validate_names (pes_remove_sources q) ''removed extension source'',
            check_all (\<lambda>(n, sp). reject (n \<in> set (pes_remove_sources q))
                         (cerr ''both patches and removes extension'' [project_id, n])) (pes_sources q)])]"

definition validate_project :: "go_env \<Rightarrow> config \<Rightarrow> string \<times> project_override \<Rightarrow> config_error option" where
  "validate_project G c ip =
     (let i = fst ip; project = snd ip in first_error [
       reject (\<not> config_name i) (cerr ''invalid project id'' [i]),
       reject (trim_space (po_folder project) = [] \<or> \<not> is_abs (po_folder project)) (cerr ''folder must be absolute'' [i]),
       validate_patch (po_settings project) i,
       validate_settings G (fst (effective c i)) (''project '' @ i)])"

definition validate :: "go_env \<Rightarrow> config \<Rightarrow> config_error option" where
  "validate G c =
     first_error [
       reject (cf_version c \<noteq> current_version) (cerr ''unsupported version'' [show_int (cf_version c)]),
       reject (cf_revision c = 0) (cerr ''revision must be positive'' []),
       validate_settings G (cf_global c) ''global'',
       check_all (validate_project G c) (cf_projects c)]"

end
