(* ===== verification/ConfigStore.thy ===== *)
theory ConfigStore
  imports ConfigRedact ConfigValidate
begin

text \<open>
  \<open>store.go\<close> and \<open>atomic.go\<close>: one settings document on disk, read and replaced under a lock.
  The operating system's part in an operation is its outcomes: each call of the write sequence
  may fail, and the context may be cancelled where the code looks at it. The theorems hold for
  all outcomes.
\<close>

section \<open>The file and its write sequence\<close>

datatype disk = Absent | Unreadable string | Undecodable string | Doc config

record fs =
  fs_target :: disk
  fs_temp :: "config option"

text \<open>The outcomes of one write: \<open>None\<close> is success, \<open>Some\<close> the error.\<close>

record write_io =
  io_context :: "string option"
  io_mkdir :: "string option"
  io_create_temp :: "string option"
  io_chmod_temp :: "string option"
  io_encode :: "string option"
  io_sync_temp :: "string option"
  io_close_temp :: "string option"
  io_context_late :: "string option"
  io_rename :: "string option"
  io_chmod_target :: "string option"
  io_open_dir :: "string option"
  io_sync_dir :: "string option"

datatype store_error =
    ContextError string | ReadError string | DecodeError string | WriteError string string
  | Invalid config_error | RevisionConflict "64 word" "64 word" | BadArgument string string

text \<open>The steps before the rename; each failure removes the temporary file it has created.\<close>

definition write_temp :: "write_io \<Rightarrow> store_error option" where
  "write_temp io =
     first_error [
       map_option ContextError (io_context io),
       map_option (WriteError ''create directory'') (io_mkdir io),
       map_option (WriteError ''create temporary file'') (io_create_temp io),
       map_option (WriteError ''secure temporary file'') (io_chmod_temp io),
       map_option (WriteError ''encode'') (io_encode io),
       map_option (WriteError ''sync'') (io_sync_temp io),
       map_option (WriteError ''close'') (io_close_temp io),
       map_option ContextError (io_context_late io)]"

definition write_locked :: "write_io \<Rightarrow> config \<Rightarrow> fs \<Rightarrow> store_error option \<times> fs" where
  "write_locked io c s =
     (case write_temp io of
        Some e \<Rightarrow> (Some e, s\<lparr>fs_temp := None\<rparr>)
      | None \<Rightarrow>
         (let s1 = s\<lparr>fs_temp := Some c\<rparr>
          in case io_rename io of
               Some e \<Rightarrow> (Some (WriteError ''replace'' e), s1\<lparr>fs_temp := None\<rparr>)
             | None \<Rightarrow>
                (let s2 = s1\<lparr>fs_target := Doc c, fs_temp := None\<rparr>
                 in (first_error [
                       map_option (WriteError ''secure file'') (io_chmod_target io),
                       map_option (WriteError ''open directory'') (io_open_dir io),
                       map_option (WriteError ''sync directory'') (io_sync_dir io)], s2))))"

section \<open>The store\<close>

record store_env =
  se_go :: go_env
  se_defaults :: config

definition load_or_create :: "store_env \<Rightarrow> write_io \<Rightarrow> fs \<Rightarrow> (store_error, config) result \<times> fs" where
  "load_or_create E io s =
     (case fs_target s of
        Absent \<Rightarrow>
          (case write_locked io (se_defaults E) s of
             (Some e, s') \<Rightarrow> (Inl e, s')
           | (None, s') \<Rightarrow> (Inr (se_defaults E), s'))
      | Unreadable e \<Rightarrow> (Inl (ReadError e), s)
      | Undecodable e \<Rightarrow> (Inl (DecodeError e), s)
      | Doc c \<Rightarrow> (case validate (se_go E) c of Some e \<Rightarrow> (Inl (Invalid e), s) | None \<Rightarrow> (Inr c, s)))"

text \<open>\<open>NewStore\<close> refuses invalid defaults.\<close>

definition new_store :: "go_env \<Rightarrow> string \<Rightarrow> config \<Rightarrow> (store_error, store_env) result" where
  "new_store G path defaults =
     (if path = [] then Inl (BadArgument ''path is required'' [])
      else case validate G defaults of
             Some e \<Rightarrow> Inl (Invalid e)
           | None \<Rightarrow> Inr \<lparr>se_go = G, se_defaults = defaults\<rparr>)"

text \<open>The outcomes of one operation: the context at its start, the write that creates a missing file
  and the write that replaces the document.\<close>

record op_io =
  op_context :: "string option"
  op_create :: write_io
  op_replace :: write_io

definition load :: "store_env \<Rightarrow> op_io \<Rightarrow> fs \<Rightarrow> (store_error, config) result \<times> fs" where
  "load E io s =
     (case op_context io of
        Some e \<Rightarrow> (Inl (ContextError e), s)
      | None \<Rightarrow> (case load_or_create E (op_create io) s of
                   (Inl e, s') \<Rightarrow> (Inl e, s')
                 | (Inr raw, s') \<Rightarrow> (Inr (public_config raw), s')))"

definition runtime_settings ::
  "store_env \<Rightarrow> op_io \<Rightarrow> string \<Rightarrow> fs \<Rightarrow> (store_error, settings \<times> bool) result \<times> fs" where
  "runtime_settings E io project_id s =
     (case op_context io of
        Some e \<Rightarrow> (Inl (ContextError e), s)
      | None \<Rightarrow> (case load_or_create E (op_create io) s of
                   (Inl e, s') \<Rightarrow> (Inl e, s')
                 | (Inr raw, s') \<Rightarrow> (Inr (effective raw project_id), s')))"

definition store_effective ::
  "store_env \<Rightarrow> op_io \<Rightarrow> string \<Rightarrow> fs \<Rightarrow> (store_error, settings \<times> bool) result \<times> fs" where
  "store_effective E io project_id s =
     (case runtime_settings E io project_id s of
        (Inl e, s') \<Rightarrow> (Inl e, s')
      | (Inr (st, found), s') \<Rightarrow> (Inr (redact_settings st, found), s'))"

text \<open>The document an update stores when it goes through.\<close>

definition update_candidate :: "config \<Rightarrow> config \<Rightarrow> config" where
  "update_candidate raw replacement =
     restore_redacted
       (replacement\<lparr>cf_version := current_version, cf_revision := cf_revision raw + 1\<rparr>) raw"

text \<open>The last steps of every change: validate the new document, write it, show its public view.\<close>

definition commit ::
  "store_env \<Rightarrow> write_io \<Rightarrow> config \<Rightarrow> fs \<Rightarrow> (store_error, config) result \<times> fs" where
  "commit E io c s =
     (case validate (se_go E) c of
        Some e \<Rightarrow> (Inl (Invalid e), s)
      | None \<Rightarrow> (case write_locked io c s of
                   (Some e, s') \<Rightarrow> (Inl e, s')
                 | (None, s') \<Rightarrow> (Inr (public_config c), s')))"

definition update ::
  "store_env \<Rightarrow> op_io \<Rightarrow> 64 word \<Rightarrow> config \<Rightarrow> fs \<Rightarrow> (store_error, config) result \<times> fs" where
  "update E io expected replacement s =
     (case op_context io of
        Some e \<Rightarrow> (Inl (ContextError e), s)
      | None \<Rightarrow>
         (case load_or_create E (op_create io) s of
            (Inl e, s') \<Rightarrow> (Inl e, s')
          | (Inr raw, s') \<Rightarrow>
              if cf_revision raw \<noteq> expected
              then (Inl (RevisionConflict expected (cf_revision raw)), s')
              else commit E (op_replace io) (update_candidate raw replacement) s'))"

definition empty_settings_patch :: "settings_patch \<Rightarrow> bool" where
  "empty_settings_patch p \<longleftrightarrow>
     sp_model p = None \<and> sp_thinking p = None \<and> sp_tools p = None \<and> sp_queues p = None \<and>
     sp_skills p = None \<and> sp_mcp p = None \<and> sp_extensions p = None \<and> sp_subagents p = None \<and>
     sp_launchers p = None \<and> sp_desktop p = None \<and> sp_standalone_chat p = None"

definition empty_tool_patch :: tool_patch where
  "empty_tool_patch = \<lparr>pto_enabled = None, pto_sandbox = None, pto_approval = None\<rparr>"

text \<open>\<open>SetProjectSandbox\<close>: the new document, or \<open>None\<close> when there is nothing to change.\<close>

definition sandbox_change :: "config \<Rightarrow> string \<Rightarrow> string \<Rightarrow> string option \<Rightarrow> config option" where
  "sandbox_change raw i folder mode =
     (let existing = map_of (cf_projects raw) i
      in case mode of
        None \<Rightarrow>
          (case existing of
             None \<Rightarrow> None
           | Some project \<Rightarrow>
               (case sp_tools (po_settings project) of
                  None \<Rightarrow> None
                | Some tools \<Rightarrow>
                    if pto_sandbox tools = None then None
                    else
                      (let tools' = tools\<lparr>pto_sandbox := None\<rparr>;
                           st' = (po_settings project)
                             \<lparr>sp_tools := if pto_enabled tools' = None \<and> pto_approval tools' = None
                                           then None else Some tools'\<rparr>
                       in Some (raw\<lparr>cf_projects :=
                            if empty_settings_patch st' then AList.delete i (cf_projects raw)
                            else AList.update i (project\<lparr>po_settings := st'\<rparr>) (cf_projects raw)\<rparr>))))
      | Some m \<Rightarrow>
          (let current = (case existing of None \<Rightarrow> None | Some project \<Rightarrow> sp_tools (po_settings project));
               project = (case existing of
                            None \<Rightarrow> \<lparr>po_folder = folder, po_settings = empty_patch\<rparr>
                          | Some project \<Rightarrow> project)
           in if (case current of None \<Rightarrow> False | Some t \<Rightarrow> pto_sandbox t = Some m) then None
              else Some (raw\<lparr>cf_projects :=
                     AList.update i
                       (project\<lparr>po_settings := (po_settings project)
                          \<lparr>sp_tools := Some ((override current empty_tool_patch)\<lparr>pto_sandbox := Some m\<rparr>)\<rparr>\<rparr>)
                       (cf_projects raw)\<rparr>)))"

definition set_project_sandbox ::
  "store_env \<Rightarrow> op_io \<Rightarrow> string \<Rightarrow> string \<Rightarrow> string option \<Rightarrow> fs \<Rightarrow>
     (store_error, config) result \<times> fs" where
  "set_project_sandbox E io i folder mode s =
     (case op_context io of
        Some e \<Rightarrow> (Inl (ContextError e), s)
      | None \<Rightarrow>
         if \<not> config_name i then (Inl (BadArgument ''invalid project id'' i), s)
         else if folder = [] \<or> \<not> is_abs folder then (Inl (BadArgument ''folder must be absolute'' i), s)
         else if (case mode of None \<Rightarrow> False | Some m \<Rightarrow> \<not> valid_sandbox m)
         then (Inl (BadArgument ''invalid sandbox mode'' (override mode [])), s)
         else
           (case load_or_create E (op_create io) s of
              (Inl e, s') \<Rightarrow> (Inl e, s')
            | (Inr raw, s') \<Rightarrow>
                (case sandbox_change raw i folder mode of
                   None \<Rightarrow> (Inr (public_config raw), s')
                 | Some c \<Rightarrow>
                     commit E (op_replace io) (c\<lparr>cf_revision := cf_revision c + 1\<rparr>) s')))"

section \<open>Runs of operations\<close>

text \<open>The lock makes the operations of concurrent clients a sequence.\<close>

datatype store_op =
    OpLoad op_io
  | OpEffective op_io string
  | OpUpdate op_io "64 word" config
  | OpSetSandbox op_io string string "string option"

fun store_step :: "store_env \<Rightarrow> store_op \<Rightarrow> fs \<Rightarrow> fs" where
  "store_step E (OpLoad io) s = snd (load E io s)"
| "store_step E (OpEffective io i) s = snd (store_effective E io i s)"
| "store_step E (OpUpdate io r c) s = snd (update E io r c s)"
| "store_step E (OpSetSandbox io i folder mode) s = snd (set_project_sandbox E io i folder mode s)"

fun store_run :: "store_env \<Rightarrow> store_op list \<Rightarrow> fs \<Rightarrow> fs" where
  "store_run E [] s = s"
| "store_run E (x # xs) s = store_run E xs (store_step E x s)"

section \<open>Lemmas\<close>

definition doc_of :: "store_env \<Rightarrow> fs \<Rightarrow> config option" where
  "doc_of E s = (case fs_target s of Absent \<Rightarrow> Some (se_defaults E) | Doc c \<Rightarrow> Some c | _ \<Rightarrow> None)"

lemma write_locked_cases:
  assumes "write_locked io c s = (e, s')"
  shows "(e \<noteq> None \<and> s' = s\<lparr>fs_temp := None\<rparr>) \<or> s' = s\<lparr>fs_target := Doc c, fs_temp := None\<rparr>"
proof (cases "write_temp io")
  case (Some x)
  then have "e = Some x \<and> s' = s\<lparr>fs_temp := None\<rparr>"
    using assms unfolding write_locked_def Some by simp
  then show ?thesis by simp
next
  case None
  with assms show ?thesis by (cases "io_rename io") (auto simp: write_locked_def Let_def)
qed

lemma write_locked_ok:
  "write_locked io c s = (None, s') \<Longrightarrow> s' = s\<lparr>fs_target := Doc c, fs_temp := None\<rparr>"
  using write_locked_cases by fastforce

lemma load_or_create_Inr:
  "load_or_create E io s = (Inr raw, s') \<Longrightarrow>
     doc_of E s = Some raw \<and> (fs_target s = Absent \<or> validate (se_go E) raw = None) \<and>
     fs_target s' = Doc raw"
  by (auto simp: load_or_create_def doc_of_def split: disk.splits prod.splits option.splits
           dest: write_locked_ok)

lemma load_or_create_target:
  "load_or_create E io s = (r, s') \<Longrightarrow>
     fs_target s' = fs_target s \<or> (fs_target s = Absent \<and> fs_target s' = Doc (se_defaults E))"
  by (auto simp: load_or_create_def split: disk.splits prod.splits option.splits
           dest!: write_locked_cases)

lemma commit_cases:
  "commit E io c s = (r, s') \<Longrightarrow>
     (fs_target s' = fs_target s \<and> (\<exists>e. r = Inl e)) \<or>
     (fs_target s' = Doc c \<and> validate (se_go E) c = None \<and> (\<forall>d. r = Inr d \<longrightarrow> d = public_config c))"
  by (auto simp: commit_def split: option.splits prod.splits dest!: write_locked_cases)

lemma commit_Inr:
  "commit E io c s = (Inr d, s') \<Longrightarrow>
     d = public_config c \<and> fs_target s' = Doc c \<and> validate (se_go E) c = None"
  by (auto simp: commit_def split: option.splits prod.splits dest!: write_locked_ok)

lemma update_Inr:
  assumes "update E io r replacement s = (Inr d, s')"
  obtains raw where "doc_of E s = Some raw" "cf_revision raw = r"
    "fs_target s' = Doc (update_candidate raw replacement)"
    "validate (se_go E) (update_candidate raw replacement) = None"
    "d = public_config (update_candidate raw replacement)"
  using assms
  by (auto simp: update_def split: option.splits prod.splits sum.splits if_splits
           dest!: load_or_create_Inr commit_Inr)

lemma update_candidate_fields [simp]:
  "cf_revision (update_candidate raw c) = cf_revision raw + 1"
  "cf_version (update_candidate raw c) = current_version"
  by (simp_all add: update_candidate_def restore_redacted_def)

section \<open>Optimistic concurrency\<close>

text \<open>
  A store of revisioned documents: an update goes through only when the caller's revision is the
  stored one, and then the stored revision is one higher.
\<close>

locale revisioned_store =
  fixes revision :: "'s \<Rightarrow> ('n :: len) word option"
    and change :: "'n word \<Rightarrow> 'd \<Rightarrow> 's \<Rightarrow> 's option"
  assumes change_current: "change r d s = Some s' \<Longrightarrow> revision s = Some r"
    and change_bumps: "change r d s = Some s' \<Longrightarrow> revision s' = Some (r + 1)"
    and change_positive: "change r d s = Some s' \<Longrightarrow> r + 1 \<noteq> 0"
begin

lemma stale_change_fails:
  assumes "change r d s = Some s'"
  shows "change r d' s' = None"
proof (rule ccontr)
  assume "change r d' s' \<noteq> None"
  then obtain s'' where "change r d' s' = Some s''" by blast
  from change_current [OF this] change_bumps [OF assms] have "r + 1 = r" by simp
  then show False by simp
qed

lemma change_increases:
  assumes "change r d s = Some s'"
  shows "unat (r + 1) = Suc (unat r)"
  using change_positive [OF assms] unatSuc [of r] by (simp add: add.commute)

text \<open>Of two clients that read the same revision, the first to write wins.\<close>

lemma one_winner:
  assumes "change r d s = Some s1" and "change r d' s = Some s2"
  shows "change r d' s1 = None \<and> change r d s2 = None"
  using assms by (blast intro: stale_change_fails)

end

definition store_revision :: "store_env \<Rightarrow> fs \<Rightarrow> 64 word option" where
  "store_revision E s = map_option cf_revision (doc_of E s)"

text \<open>The file after an accepted update, with the outcomes and the document as the request.\<close>

definition accepted_update :: "store_env \<Rightarrow> 64 word \<Rightarrow> op_io \<times> config \<Rightarrow> fs \<Rightarrow> fs option" where
  "accepted_update E r req s =
     (case update E (fst req) r (snd req) s of (Inl e, s') \<Rightarrow> None | (Inr d, s') \<Rightarrow> Some s')"

lemma accepted_update_Some:
  assumes "accepted_update E r req s = Some s'"
  obtains raw where "doc_of E s = Some raw" "cf_revision raw = r"
    "fs_target s' = Doc (update_candidate raw (snd req))"
    "validate (se_go E) (update_candidate raw (snd req)) = None"
proof -
  from assms obtain d where "update E (fst req) r (snd req) s = (Inr d, s')"
    by (auto simp: accepted_update_def split: prod.splits sum.splits)
  then show thesis by (rule update_Inr) (rule that)
qed

interpretation config_store: revisioned_store "store_revision E" "accepted_update E"
proof unfold_locales
  fix r req s s'
  assume upd: "accepted_update E r req s = Some s'"
  obtain raw where raw: "doc_of E s = Some raw" "cf_revision raw = r"
    "fs_target s' = Doc (update_candidate raw (snd req))"
    "validate (se_go E) (update_candidate raw (snd req)) = None"
    using upd by (rule accepted_update_Some)
  show "store_revision E s = Some r"
    using raw by (simp add: store_revision_def)
  show "store_revision E s' = Some (r + 1)"
    using raw by (simp add: store_revision_def doc_of_def)
  show "r + 1 \<noteq> 0"
    using raw by (auto simp: validate_def)
qed

section \<open>The stored document stays valid\<close>

definition store_ok :: "store_env \<Rightarrow> fs \<Rightarrow> bool" where
  "store_ok E s \<longleftrightarrow>
     (case fs_target s of Absent \<Rightarrow> True | Doc c \<Rightarrow> validate (se_go E) c = None | _ \<Rightarrow> False)"

lemma load_or_create_ok:
  assumes "store_ok E s" and "validate (se_go E) (se_defaults E) = None"
    and "load_or_create E io s = (r, s')"
  shows "store_ok E s'"
  using load_or_create_target [OF assms(3)] assms(1,2) by (auto simp: store_ok_def)

lemma commit_ok:
  assumes "store_ok E s"
  shows "store_ok E (snd (commit E io c s))"
  using commit_cases [of E io c s] assms by (cases "commit E io c s") (auto simp: store_ok_def)

lemma store_step_ok [go_intros]:
  assumes "store_ok E s" and "validate (se_go E) (se_defaults E) = None"
  shows "store_ok E (store_step E x s)"
proof (cases x)
  case (OpLoad io)
  with assms show ?thesis
    by (auto simp: load_def split: option.splits prod.splits sum.splits dest: load_or_create_ok)
next
  case (OpEffective io i)
  with assms show ?thesis
    by (auto simp: store_effective_def runtime_settings_def
             split: option.splits prod.splits sum.splits dest: load_or_create_ok)
next
  case (OpUpdate io r c)
  with assms show ?thesis
    by (auto simp: update_def split: option.splits prod.splits sum.splits
             dest: load_or_create_ok commit_ok)
next
  case (OpSetSandbox io i folder mode)
  with assms show ?thesis
    by (auto simp: set_project_sandbox_def split: option.splits prod.splits sum.splits
             dest: load_or_create_ok commit_ok)
qed

lemma store_run_ok:
  "store_ok E s \<Longrightarrow> validate (se_go E) (se_defaults E) = None \<Longrightarrow> store_ok E (store_run E xs s)"
  by (induction xs arbitrary: s) (auto intro: go_intros)

end
