(* ===== verification/ConfigProps.thy ===== *)
theory ConfigProps
  imports ConfigStore
begin

text \<open>
  What validation guarantees of a document: the normal form of launcher shortcuts, the settings of
  every project and the meaning of a project's patch.
\<close>

section \<open>Launcher shortcuts\<close>
lemma modifier_facts:
  assumes "m \<in> set modifier_names"
  shows "trim_space m = m" "shortcut_alias m = m" "CHR ''+'' \<notin> set m" "to_lower m = m"
    "m \<noteq> []" "\<not> is_space_byte (hd m)"
proof -
  have "list_all (\<lambda>m. trim_space m = m \<and> shortcut_alias m = m \<and> \<not> list_ex ((=) CHR ''+'') m \<and>
      to_lower m = m \<and> m \<noteq> [] \<and> is_lower_letter (hd m)) modifier_names"
    by code_simp
  note facts = list_all_mem [OF this assms, unfolded not_list_ex_eq]
  then show "trim_space m = m" "shortcut_alias m = m" "CHR ''+'' \<notin> set m" "to_lower m = m"
    "m \<noteq> []"
    by blast+
  from facts show "\<not> is_space_byte (hd m)" using lower_letter_not_space by blast
qed

text \<open>What the scan of the parts guarantees of the key.\<close>

definition key_ok :: "go_env \<Rightarrow> string \<Rightarrow> bool" where
  "key_ok G k \<longleftrightarrow> k \<noteq> [] \<and> k \<notin> set modifier_names \<and> list_all (key_rune_ok G) (runes k) \<and>
     CHR ''+'' \<notin> set k \<and> to_lower k = k \<and> trim_space k = k \<and> shortcut_alias k = k"

lemma shortcut_alias_facts:
  assumes "trim_space p = p" and "CHR ''+'' \<notin> set p" and "to_lower p = p"
  shows "trim_space (shortcut_alias p) = shortcut_alias p" "CHR ''+'' \<notin> set (shortcut_alias p)"
    "to_lower (shortcut_alias p) = shortcut_alias p"
    "shortcut_alias (shortcut_alias p) = shortcut_alias p"
proof -
  have "list_all (\<lambda>m. trim_space m = m \<and> shortcut_alias m = m \<and> \<not> list_ex ((=) CHR ''+'') m \<and>
      to_lower m = m) [''meta'', ''control'', ''alt'', ''backquote'']"
    by code_simp
  note fixed = list_all_mem [OF this, unfolded not_list_ex_eq]
  have "shortcut_alias p = p \<or> shortcut_alias p \<in> set [''meta'', ''control'', ''alt'', ''backquote'']"
    unfolding shortcut_alias_def by (simp only: list.set split: if_split) blast
  then show "trim_space (shortcut_alias p) = shortcut_alias p" "CHR ''+'' \<notin> set (shortcut_alias p)"
    "to_lower (shortcut_alias p) = shortcut_alias p"
    "shortcut_alias (shortcut_alias p) = shortcut_alias p"
    using assms fixed by metis+
qed

lemma shortcut_parts_key:
  assumes "shortcut_parts G ws mods key = Inr (mods', key')"
    and "\<forall>w \<in> set ws. CHR ''+'' \<notin> set w \<and> to_lower w = w"
    and "key = [] \<or> key_ok G key"
  shows "key' = [] \<or> key_ok G key'"
  using assms
proof (induction ws arbitrary: mods key)
  case (Cons w ws)
  let ?p = "shortcut_alias (trim_space w)"
  have "CHR ''+'' \<notin> set (trim_space w)" "to_lower (trim_space w) = trim_space w"
    using Cons.prems(2) set_trim_space [of w] by (auto simp: to_lower_fixed_iff)
  note al = shortcut_alias_facts [OF trim_space_idem this]
  from Cons.prems(1) consider
      (modifier) "?p \<in> set modifier_names" "shortcut_parts G ws (?p # mods) key = Inr (mods', key')"
    | (key) "?p \<notin> set modifier_names" "?p \<noteq> []" "list_all (key_rune_ok G) (runes ?p)"
        "shortcut_parts G ws mods ?p = Inr (mods', key')"
    by (auto simp: Let_def split: if_splits)
  then show ?case
  proof cases
    case modifier
    with Cons show ?thesis by simp
  next
    case key
    with al have "key_ok G ?p" by (simp add: key_ok_def)
    with Cons.IH [OF key(4)] Cons.prems(2) show ?thesis by simp
  qed
qed simp

lemma shortcut_parts_normal:
  assumes "key_ok G k" and "set ms \<subseteq> set modifier_names" and "distinct ms" and "set ms \<inter> set mods = {}"
  shows "shortcut_parts G (ms @ [k]) mods [] = Inr (rev ms @ mods, k)"
  using assms
proof (induction ms arbitrary: mods)
  case Nil
  then show ?case by (simp add: key_ok_def Let_def)
next
  case (Cons m ms)
  then show ?case by (simp add: Let_def modifier_facts)
qed

lemma plus_not_space: "\<forall>w \<in> set space_runes. CHR ''+'' \<notin> set w"
proof -
  have "list_all (\<lambda>w. \<not> list_ex ((=) CHR ''+'') w) space_runes" by code_simp
  then show ?thesis by (auto simp: list_all_iff list_ex_iff)
qed

lemma trim_right_plus:
  assumes "trim_right_space k = k" and "k \<noteq> []"
  shows "trim_right_space (x @ CHR ''+'' # k) = x @ CHR ''+'' # k"
proof -
  have k: "find (\<lambda>w. w \<noteq> [] \<and> has_prefix (rev k) w) (map rev space_runes) = None"
    using assms(1) trim_by_stop [of "map rev space_runes" "rev k"]
    by (metis rev_rev_ident trim_right_space_def)
  have "trim_by (map rev space_runes) (rev (x @ CHR ''+'' # k)) = rev (x @ CHR ''+'' # k)"
  proof (rule trim_by_fixed, unfold find_None_iff, safe)
    fix w
    assume w: "w \<in> set (map rev space_runes)" "w \<noteq> []" "has_prefix (rev (x @ CHR ''+'' # k)) w"
    then have "CHR ''+'' \<notin> set w" using plus_not_space by auto
    moreover obtain t where "rev k @ CHR ''+'' # rev x = w @ t"
      using w(3) by (auto simp: has_prefix_iff)
    ultimately have "has_prefix (rev k) w"
      by (auto simp: has_prefix_iff append_eq_append_conv2 Cons_eq_append_conv)
    with k w show False by (auto simp: find_None_iff)
  qed
  then show ?thesis by (simp only: trim_right_space_def rev_rev_ident)
qed

lemma normal_form_stable:
  assumes "normalize_launcher_shortcut G v = Inr n"
  shows "normalize_launcher_shortcut G n = Inr n"
proof -
  let ?ws = "split_char (CHR ''+'') (to_lower (trim_space v))"
  obtain mods key where parts: "shortcut_parts G ?ws [] [] = Inr (mods, key)"
    and key: "key \<noteq> []"
    and some_modifier: "\<exists>m \<in> {''mod'', ''meta'', ''control'', ''alt''}. m \<in> set mods"
    and not_both: "\<not> (''mod'' \<in> set mods \<and> (''meta'' \<in> set mods \<or> ''control'' \<in> set mods))"
    and n: "n = join_with ''+'' (filter (\<lambda>m. m \<in> set mods) modifier_names @ [key])"
    using assms by (auto simp: normalize_launcher_shortcut_def split: sum.splits if_splits)
  define ms where "ms = filter (\<lambda>m. m \<in> set mods) modifier_names"
  have "\<forall>w \<in> set ?ws. CHR ''+'' \<notin> set w \<and> to_lower w = w"
  proof safe
    fix w assume w: "w \<in> set ?ws"
    then show "CHR ''+'' \<in> set w \<Longrightarrow> False" by (auto dest: split_char_no_sep)
    have "set w \<subseteq> set (to_lower (trim_space v))"
      using w by (rule set_split_char)
    then show "to_lower w = w"
      using to_lower_idem [of "trim_space v"] unfolding to_lower_fixed_iff by blast
  qed
  from shortcut_parts_key [OF parts this] key have ok: "key_ok G key" by simp
  have ms: "set ms \<subseteq> set modifier_names" "distinct ms" "ms \<noteq> []"
    using some_modifier by (auto simp: ms_def modifier_names_def filter_empty_conv)
  have msf: "m \<in> set ms \<Longrightarrow> CHR ''+'' \<notin> set m \<and> to_lower m = m \<and> m \<noteq> [] \<and> \<not> is_space_byte (hd m)" for m
    using ms(1) modifier_facts by blast
  have n': "n = join_with ''+'' (ms @ [key])" by (simp add: n ms_def)
  have "join_with ''+'' ms \<noteq> []" using ms(3) msf [of "hd ms"] by (cases ms rule: list.exhaust; cases "tl ms") auto
  then have hd_n: "n \<noteq> []" "\<not> is_space_byte (hd n)"
    using ms(3) msf [of "hd ms"] by (auto simp: n' join_with_snoc hd_append hd_join_with)
  have "trim_right_space n = n"
    using ok ms(3) trim_right_plus [of key "join_with ''+'' ms"]
    by (simp add: n' join_with_snoc key_ok_def trim_right_of_trimmed)
  with hd_n have trim: "trim_space n = n" by (simp add: trim_space_def trim_left_fixed)
  have lower: "to_lower n = n"
    using set_join_with [of "''+''" "ms @ [key]"] msf ok
    by (fastforce simp: n' to_lower_fixed_iff key_ok_def lower_char_def)
  have split: "split_char (CHR ''+'') n = ms @ [key]"
    unfolding n' using msf ok by (intro split_join_char) (auto simp: key_ok_def)
  have "shortcut_parts G (ms @ [key]) [] [] = Inr (rev ms, key)"
    using shortcut_parts_normal [OF ok ms(1,2), of "[]"] by simp
  moreover have in_ms: "m \<in> set ms \<longleftrightarrow> m \<in> set mods"
    if "m \<in> {''mod'', ''meta'', ''control'', ''alt''}" for m
    using that by (auto simp: ms_def modifier_names_def)
  moreover have "filter (\<lambda>m. m \<in> set ms) modifier_names = ms"
    unfolding ms_def by (rule filter_cong) auto
  ultimately show ?thesis
    using key some_modifier not_both
    by (simp add: normalize_launcher_shortcut_def trim lower split n' [symmetric] in_ms)
qed

text \<open>Normalizing a launcher's shortcut is idempotent: the normal form (the modifiers in their
  fixed order, then the key, aliases resolved) is accepted again and is its own normal form. The
  duplicate check of the launchers compares normal forms, so two spellings of one shortcut are
  one shortcut.\<close>

lemma shortcut_normal_form_stable:
  assumes "normalize_launcher_shortcut G v = Inr n"
  shows "normalize_launcher_shortcut G n = Inr n"
  using assms by (rule normal_form_stable)

definition plain_env :: go_env where
  "plain_env = \<lparr>url_parse = (\<lambda>u. if has_prefix u ''https://'' then Some (''https'', drop 8 u) else None),
                unicode_alnum = (\<lambda>r. False)\<rparr>"

lemma validate_launchers_from_ok:
  assumes "validate_launchers_from G scope ids shortcuts ls = None"
  shows "distinct (map la_id ls) \<and> set (map la_id ls) \<inter> set ids = {} \<and>
     list_all (\<lambda>l. config_name (la_id l) \<and> validate_launcher_value scope l = None) ls"
  using assms
proof (induction G scope ids shortcuts ls rule: validate_launchers_from.induct)
  case (2 G scope ids shortcuts l ls)
  then show ?case
    by (auto simp: Let_def split: if_splits option.splits sum.splits)
qed simp

text \<open>The normalized shortcuts of the launchers that have one.\<close>

definition launcher_shortcuts :: "go_env \<Rightarrow> project_launcher list \<Rightarrow> (shortcut_error, string) result list" where
  "launcher_shortcuts G ls =
     map (\<lambda>l. normalize_launcher_shortcut G (to_lower (trim_space (la_shortcut l))))
       (filter (\<lambda>l. to_lower (trim_space (la_shortcut l)) \<noteq> []) ls)"

lemma validate_launchers_from_shortcuts:
  assumes "validate_launchers_from G scope ids shortcuts ls = None"
  shows "distinct (launcher_shortcuts G ls) \<and>
     (\<forall>r \<in> set (launcher_shortcuts G ls). \<exists>n. r = Inr n \<and> map_of shortcuts n = None)"
  using assms
proof (induction G scope ids shortcuts ls rule: validate_launchers_from.induct)
  case (2 G scope ids shortcuts l ls)
  define short where "short = to_lower (trim_space (la_shortcut l))"
  show ?case
  proof (cases "short = []")
    case True
    with 2 show ?thesis
      by (simp add: launcher_shortcuts_def short_def Let_def split: if_splits option.splits)
  next
    case False
    with "2.prems" obtain n where n: "normalize_launcher_shortcut G short = Inr n"
      "map_of shortcuts n = None"
      "validate_launchers_from G scope (la_id l # ids) ((n, la_id l) # shortcuts) ls = None"
      and pre: "config_name (la_id l)" "la_id l \<notin> set ids" "validate_launcher_value scope l = None"
        "\<not> (length short > 128 \<or> contains_control short)"
      by (auto simp: short_def Let_def split: if_splits option.splits sum.splits)
    have ls: "launcher_shortcuts G (l # ls) = Inr n # launcher_shortcuts G ls"
      using False n(1) by (simp add: launcher_shortcuts_def short_def)
    have "distinct (launcher_shortcuts G ls) \<and> (\<forall>r \<in> set (launcher_shortcuts G ls).
        \<exists>m. r = Inr m \<and> map_of ((n, la_id l) # shortcuts) m = None)"
      using "2.IH"(2) [of short n] pre False n by (simp add: short_def)
    then show ?thesis
      unfolding ls using n(2) by (fastforce split: if_splits)
  qed
qed (simp add: launcher_shortcuts_def)

text \<open>A launcher list that validation accepts has at most 64 entries with distinct ids, and no
  two of the configured shortcuts have the same normal form.\<close>

lemma valid_launchers_distinct:
  assumes "validate_launchers G configured scope = None"
  shows "length (resolve_project_launchers configured) \<le> 64 \<and>
    distinct (map la_id (resolve_project_launchers configured)) \<and>
    distinct (launcher_shortcuts G (resolve_project_launchers configured)) \<and>
    list_all (\<lambda>r. case r of Inl e \<Rightarrow> False | Inr n \<Rightarrow> normalize_launcher_shortcut G n = Inr n)
      (launcher_shortcuts G (resolve_project_launchers configured))"
proof -
  have ok: "length (resolve_project_launchers configured) \<le> 64"
    "validate_launchers_from G scope [] [] (resolve_project_launchers configured) = None"
    using assms by (auto simp: validate_launchers_def Let_def split: if_splits)
  note short = validate_launchers_from_shortcuts [OF ok(2)]
  have "normalize_launcher_shortcut G n = Inr n"
    if "Inr n \<in> set (launcher_shortcuts G (resolve_project_launchers configured))" for n
    using that by (auto simp: launcher_shortcuts_def dest!: sym [of "Inr n"] normal_form_stable)
  with ok validate_launchers_from_ok [OF ok(2)] short show ?thesis
    by (fastforce simp: list_all_iff split: sum.splits)
qed

section \<open>Effective settings\<close>

text \<open>A document that validation accepts has valid effective settings for every project id: the
  settings of a known project with its patch applied, and the global ones for an unknown id.\<close>

lemma valid_config_valid_everywhere:
  assumes "validate G c = None"
  shows "validate_settings G (fst (effective c i))
           (if snd (effective c i) then ''project '' @ i else ''global'') = None"
proof (cases "map_of (cf_projects c) i")
  case None
  with assms show ?thesis by (simp add: effective_def validate_def)
next
  case (Some project)
  with assms have "validate_project G c (i, project) = None"
    by (auto simp: validate_def check_all_None_iff dest: map_of_SomeD)
  with Some show ?thesis by (simp add: validate_project_def effective_def)
qed

text \<open>A document with one project that widens the sandbox and adds a server.\<close>

definition sample_server :: mcp_server where
  "sample_server = zero_mcp_server
     \<lparr>mc_transport := ''stdio'', mc_command := ''docs'', mc_enabled := True, mc_approval := ''always'',
      mc_env := [(''DOCS_KEY'', ''k1''), (''HOME'', ''/root'')], mc_secret_env := [''DOCS_KEY'']\<rparr>"

definition no_server_patch :: mcp_server_patch where
  "no_server_patch = \<lparr>pmc_transport = None, pmc_command = None, pmc_args = None, pmc_inherit_env = None,
     pmc_url = None, pmc_env = None, pmc_secret_env = None, pmc_headers = None, pmc_secret_headers = None,
     pmc_enabled_tools = None, pmc_approval = None, pmc_tool_approvals = None, pmc_enabled = None\<rparr>"

definition sample_config :: "settings_patch \<Rightarrow> config" where
  "sample_config patch =
     (let c = default_config ''/root''
      in c\<lparr>cf_global := (cf_global c)\<lparr>st_mcp := \<lparr>mcp_servers = [(''docs'', sample_server)]\<rparr>\<rparr>,
           cf_projects := [(''p1'', \<lparr>po_folder = ''/root/p1'', po_settings = patch\<rparr>)]\<rparr>)"

definition workspace_patch :: settings_patch where
  "workspace_patch =
     empty_patch\<lparr>sp_tools := Some (empty_tool_patch\<lparr>pto_sandbox := Some ''workspace''\<rparr>)\<rparr>"

lemma default_parts_valid:
  "validate_launchers G (Some default_project_launchers) ''global'' = None"
  "check_all (validate_profile ''global'') default_profiles = None"
  "unique_non_empty read_only_tools ''global tools'' = None"
proof -
  have "validate_launchers \<lparr>url_parse = u, unicode_alnum = a\<rparr> (Some default_project_launchers) ''global'' = None"
    for u a by code_simp
  from this [of "url_parse G" "unicode_alnum G"]
  show "validate_launchers G (Some default_project_launchers) ''global'' = None"
    by (cases G) simp
qed code_simp+

lemma trim_space_literal_neq_Nil: "trim_space ''codex'' \<noteq> []" "trim_space ''gpt-5.6'' \<noteq> []"
  by code_simp+

lemma default_config_ok:
  assumes "is_abs home"
  shows "validate G (default_config home) = None"
proof -
  have abs: "is_abs (join_home home parts)" for parts
    using assms by (auto simp: is_abs_def join_home_def hd_append)
  have "validate_settings G (default_settings home) ''global'' = None"
    using abs default_parts_valid(1) [of G] default_parts_valid(2,3) is_abs_trim [OF abs] trim_space_literal_neq_Nil
    by (simp add: validate_settings_def default_settings_def validate_tools_def validate_skills_def
        validate_mcp_def validate_extensions_def validate_subagents_def validate_desktop_def
        valid_thinking_def valid_queue_def valid_trust_def valid_sandbox_def valid_approval_def
        gpt56_context_window_def unique_non_empty_None_iff check_all_None_iff default_profiles_def)
       (simp add: join_home_def is_abs_def assms [unfolded is_abs_def])
  then show ?thesis
    by (simp add: validate_def default_config_def current_version_def)
qed

text \<open>The MCP servers a project sees, name by name: a removed name is gone whatever else the
  patch says; a patched name is the global server (or the zero server, for a new name) with the
  patch's set fields replaced; every other name is the global server.\<close>

lemma effective_server:
  assumes "map_of (cf_projects c) i = Some project" and "sp_mcp (po_settings project) = Some q"
    and "wf_gomap (pmcp_servers q)"
  shows "map_of (mcp_servers (st_mcp (fst (effective c i)))) name =
    (if name \<in> set (pmcp_remove_servers q) then None
     else case map_of (pmcp_servers q) name of
       None \<Rightarrow> map_of (mcp_servers (st_mcp (cf_global c))) name
     | Some p \<Rightarrow> Some (apply_mcp_server_patch p
         (case map_of (mcp_servers (st_mcp (cf_global c))) name of
            None \<Rightarrow> zero_mcp_server | Some s \<Rightarrow> s)))"
  using assms by (simp add: effective_def apply_patch_def apply_mcp_patch_def gomap_simps)

definition server_patch_config :: config where
  "server_patch_config =
     sample_config (empty_patch\<lparr>sp_mcp := Some \<lparr>pmcp_servers =
       [(''web'', no_server_patch\<lparr>pmc_transport := Some ''streamable-http'', pmc_url := Some ''https://x''\<rparr>)],
       pmcp_remove_servers = [''docs'']\<rparr>\<rparr>)"

end
