(* ===== verification/StoreProps.thy ===== *)
theory StoreProps
  imports ConfigProps
begin

text \<open>
  The properties of the configuration store: the stored document stays valid, updates are atomic
  and detect conflicts, and what the public views show and hide of the stored secrets.
\<close>

section \<open>Validity, atomicity and conflicts\<close>


definition good_write :: write_io where
  "good_write = \<lparr>io_context = None, io_mkdir = None, io_create_temp = None, io_chmod_temp = None,
     io_encode = None, io_sync_temp = None, io_close_temp = None, io_context_late = None,
     io_rename = None, io_chmod_target = None, io_open_dir = None, io_sync_dir = None\<rparr>"

definition good_io :: op_io where
  "good_io = \<lparr>op_context = None, op_create = good_write, op_replace = good_write\<rparr>"

definition sample_env :: store_env where
  "sample_env = \<lparr>se_go = plain_env, se_defaults = default_config ''/root''\<rparr>"



definition sample_after :: config where
  "sample_after = (sample_config workspace_patch)\<lparr>cf_revision := 2\<rparr>"

lemma sample_valid: "validate plain_env sample_after = None"
  by code_simp





lemma doc_of_Doc [simp]: "fs_target s = Doc c \<Longrightarrow> doc_of E s = Some c"
  by (simp add: doc_of_def)

lemma doc_of_cong: "fs_target s' = fs_target s \<Longrightarrow> doc_of E s' = doc_of E s"
  by (simp add: doc_of_def)

lemma load_or_create_doc: "load_or_create E io s = (r, s') \<Longrightarrow> doc_of E s' = doc_of E s"
  using load_or_create_target [of E io s r s'] by (auto simp: doc_of_def)




lemma commit_doc:
  "commit E io c s = (r, s') \<Longrightarrow> doc_of E s' = doc_of E s \<or> doc_of E s' = Some c"
  using commit_cases [of E io c s r s'] by (auto dest: doc_of_cong)



text \<open>Of the clients that read one revision only the first to update wins: after an accepted update
  every further update that expects the old revision fails, with the conflict error when nothing
  else goes wrong, and leaves the document alone; the accepted update raised the revision by one
  without wrapping around.\<close>

lemma stale_update_conflicts:
  assumes "update E io r c s = (Inr d, s1)"
  shows "store_revision E s1 = Some (r + 1) \<and> unat (r + 1) = Suc (unat r) \<and>
    (\<exists>e. update E io' r c' s1 = (Inl e, s1)) \<and>
    (op_context io' \<noteq> None \<or> update E io' r c' s1 = (Inl (RevisionConflict r (r + 1)), s1))"
proof -
  have acc: "accepted_update E r (io, c) s = Some s1"
    by (simp add: accepted_update_def assms)
  obtain raw where raw: "fs_target s1 = Doc (update_candidate raw c)"
    "validate (se_go E) (update_candidate raw c) = None" "cf_revision raw = r"
    using update_Inr [OF assms] by metis
  have "update E io' r c' s1 = (Inl (RevisionConflict r (r + 1)), s1)" if "op_context io' = None"
    using raw that by (simp add: update_def load_or_create_def)
  moreover have "update E io' r c' s1 = (Inl (ContextError e), s1)" if "op_context io' = Some e" for e
    using that by (simp add: update_def)
  moreover note config_store.change_bumps [OF acc] config_store.change_increases [OF acc]
  ultimately show ?thesis by (cases "op_context io'") auto
qed

section \<open>Secrets\<close>

lemma update_candidate_public:
  assumes "wf_config raw" and "cf_version raw = current_version"
  shows "update_candidate raw (public_config raw) = raw\<lparr>cf_revision := cf_revision raw + 1\<rparr>"
proof -
  have "restore_redacted (public_config raw) raw = raw"
    using assms(1) by (rule restore_public_config)
  then have "cf_global (restore_redacted (public_config raw) raw) = cf_global raw"
    "cf_projects (restore_redacted (public_config raw) raw) = cf_projects raw"
    by simp_all
  then show ?thesis
    using assms(2) by (simp add: update_candidate_def restore_redacted_def)
qed

text \<open>C18: A client that loads the document and sends the redacted view back unchanged loses no secret:
  the update, when it goes through, stores the same document under the next revision.\<close>

theorem load_update_keeps_secrets:
  assumes "load E io s = (Inr view, s1)"
    and "update E io' (cf_revision view) view s1 = (Inr view', s2)"
    and "doc_of E s = Some raw" and "wf_config raw" and "cf_version raw = current_version"
  shows "fs_target s2 = Doc (raw\<lparr>cf_revision := cf_revision raw + 1\<rparr>) \<and>
    view' = view\<lparr>cf_revision := cf_revision raw + 1\<rparr>"
proof -
  have view: "view = public_config raw" "doc_of E s1 = Some raw"
    using assms(1,3) load_or_create_Inr [of E "op_create io" s _ s1]
    by (auto simp: load_def split: option.splits prod.splits sum.splits)
  obtain raw' where "doc_of E s1 = Some raw'" "fs_target s2 = Doc (update_candidate raw' view)"
    "view' = public_config (update_candidate raw' view)"
    using update_Inr [OF assms(2)] by metis
  with view update_candidate_public [OF assms(4,5)] show ?thesis
    by (simp add: public_config_def)
qed

lemma sample_wf: "wf_config sample_after"
  by code_simp

lemma sample_next_valid: "validate plain_env (sample_after\<lparr>cf_revision := 3\<rparr>) = None"
  by code_simp

theorem load_update_keeps_secrets_witness:
  "fs_target (snd (update sample_env good_io 2 (public_config sample_after)
       \<lparr>fs_target = Doc sample_after, fs_temp = None\<rparr>)) = Doc (sample_after\<lparr>cf_revision := 3\<rparr>) \<and>
   map_of (mc_env sample_server) ''DOCS_KEY'' = Some ''k1'' \<and>
   map_of (mc_env (redact_server sample_server)) ''DOCS_KEY'' = Some redacted_value"
proof -
  let ?s = "\<lparr>fs_target = Doc sample_after, fs_temp = None\<rparr>"
  have rev: "cf_revision sample_after = 2" "cf_version sample_after = current_version"
    by (simp_all add: sample_after_def sample_config_def default_config_def Let_def)
  have l: "load sample_env good_io ?s = (Inr (public_config sample_after), ?s)"
    using sample_valid by (simp add: load_def load_or_create_def good_io_def sample_env_def)
  have rp: "cf_revision (public_config sample_after) = 2" using rev by (simp add: public_config_def)
  have u: "update sample_env good_io (cf_revision (public_config sample_after)) (public_config sample_after) ?s =
      (Inr (public_config (sample_after\<lparr>cf_revision := 3\<rparr>)), \<lparr>fs_target = Doc (sample_after\<lparr>cf_revision := 3\<rparr>), fs_temp = None\<rparr>)"
    using sample_valid sample_next_valid update_candidate_public [OF sample_wf rev(2)] rev rp
    by (simp add: update_def load_or_create_def write_locked_def write_temp_def
        good_io_def good_write_def sample_env_def commit_def)
  have "doc_of sample_env ?s = Some sample_after" by simp
  from load_update_keeps_secrets [OF l u this sample_wf rev(2)] u rp rev
  have "fs_target (snd (update sample_env good_io 2 (public_config sample_after) ?s)) =
      Doc (sample_after\<lparr>cf_revision := 3\<rparr>)" by simp
  moreover have "map_of (mc_env sample_server) ''DOCS_KEY'' = Some ''k1'' \<and>
   map_of (mc_env (redact_server sample_server)) ''DOCS_KEY'' = Some redacted_value"
    by code_simp
  ultimately show ?thesis by blast
qed

text \<open>What a client learns from an update does not depend on the global secrets: when two stored
  documents agree on the public view of the global settings (and on the rest), every replacement
  leads to documents with the same public view. Placeholders moved to another key or server bring
  no stored secret into view.\<close>

lemma update_reveals_no_global_secret:
  assumes "redact_settings (cf_global raw) = redact_settings (cf_global raw')"
    and "cf_projects raw = cf_projects raw'" and "cf_revision raw = cf_revision raw'"
  shows "public_config (update_candidate raw c) = public_config (update_candidate raw' c)"
  using restore_settings_blind [OF assms(1)] assms(2,3)
  by (simp add: public_config_def update_candidate_def restore_redacted_def)

definition with_key :: "string \<Rightarrow> config" where
  "with_key secret =
     (sample_config empty_patch)\<lparr>cf_global := (default_settings ''/root'')\<lparr>st_mcp :=
        \<lparr>mcp_servers = [(''docs'', sample_server\<lparr>mc_env := [(''DOCS_KEY'', secret)]\<rparr>)]\<rparr>\<rparr>\<rparr>"

definition stealing_config :: config where
  "stealing_config =
     (sample_config empty_patch)\<lparr>cf_global := (default_settings ''/root'')\<lparr>st_mcp :=
        \<lparr>mcp_servers = [(''docs'', sample_server\<lparr>mc_env := [(''DOCS_KEY'', redacted_value)], mc_secret_env := []\<rparr>)]\<rparr>\<rparr>\<rparr>"

text \<open>The settings that \<open>Effective\<close> returns for a project show no value that the effective
  server marks as secret or whose name looks secret.\<close>

lemma effective_view_hides_marked:
  assumes "store_effective E io i s = (Inr (view, found), s')"
    and "(name, sv) \<in> set (mcp_servers (st_mcp view))"
    and "(key, v) \<in> set (mc_env sv)" and "is_secret (mc_secret_env sv) key"
  shows "v = redacted_value"
proof -
  obtain st where view: "view = redact_settings st"
    using assms(1) by (auto simp: store_effective_def split: prod.splits sum.splits)
  obtain raw where "sv = redact_server raw"
    using assms(2) by (auto simp: view redact_settings_def hide_map_def map_vals_def)
  with assms(3,4) show ?thesis
    by (auto simp: redact_server_def dest: redact_values_secret)
qed

definition unmarking_config :: config where
  "unmarking_config = sample_config (empty_patch\<lparr>sp_mcp := Some \<lparr>pmcp_servers =
     [(''docs'', no_server_patch\<lparr>pmc_secret_env := Some []\<rparr>)], pmcp_remove_servers = []\<rparr>\<rparr>)"

definition revaluing_config :: config where
  "revaluing_config = sample_config (empty_patch\<lparr>sp_mcp := Some \<lparr>pmcp_servers =
     [(''docs'', no_server_patch\<lparr>pmc_env := Some [(''DOCS_KEY'', ''k2'')]\<rparr>)], pmcp_remove_servers = []\<rparr>\<rparr>)"

lemma exposing_configs_valid:
  "validate plain_env unmarking_config = None" "validate plain_env revaluing_config = None"
  by code_simp+

lemma unmarking_exposes:
  "map_option (\<lambda>sv. map_of (mc_env sv) ''DOCS_KEY'')
     (map_of (mcp_servers (st_mcp (redact_settings (fst (effective unmarking_config ''p1''))))) ''docs'') =
     Some (Some ''k1'')"
  by code_simp

lemma revaluing_exposes: "cf_projects (public_config revaluing_config) = cf_projects revaluing_config"
  by code_simp

text \<open>A project patch can expose a global secret: where it replaces the list of secret keys of a
  server, the effective view shows the inherited value of a key that the global settings mark
  secret; and where it sets a value for such a key without a list of its own, the public view of
  the whole document shows the value. Both documents pass validation.\<close>

lemma project_patch_exposes_marked_secret:
  "validate plain_env unmarking_config = None \<and>
   mc_secret_env sample_server = [''DOCS_KEY''] \<and>
   map_of (mcp_servers (st_mcp (cf_global unmarking_config))) ''docs'' = Some sample_server \<and>
   map_option (\<lambda>sv. map_of (mc_env sv) ''DOCS_KEY'')
     (map_of (mcp_servers (st_mcp (redact_settings (fst (effective unmarking_config ''p1''))))) ''docs'') =
     Some (Some ''k1'') \<and>
   validate plain_env revaluing_config = None \<and>
   cf_projects (public_config revaluing_config) = cf_projects revaluing_config"
  using exposing_configs_valid unmarking_exposes revaluing_exposes
  by (simp add: unmarking_config_def sample_config_def Let_def sample_server_def)

section \<open>The project sandbox\<close>

lemma sandbox_of_patch:
  "to_sandbox (st_tools (apply_patch d p)) =
     (case sp_tools p of None \<Rightarrow> to_sandbox (st_tools d) | Some q \<Rightarrow> override (pto_sandbox q) (to_sandbox (st_tools d)))"
  by (simp add: apply_patch_def apply_tool_patch_def split: option.splits)

text \<open>The two ways a change touches the projects.\<close>

lemma effective_update:
  "effective (raw\<lparr>cf_projects := AList.update i p (cf_projects raw)\<rparr>) j =
     (if j = i then (apply_patch (cf_global raw) (po_settings p), True) else effective raw j)"
  by (simp add: effective_def gomap_simps split: option.split)

lemma effective_delete:
  "effective (raw\<lparr>cf_projects := AList.delete i (cf_projects raw)\<rparr>) j =
     (if j = i then (cf_global raw, False) else effective raw j)"
  by (simp add: effective_def gomap_simps split: option.split)

definition sandbox_outcome :: "config \<Rightarrow> config \<Rightarrow> string \<Rightarrow> string option \<Rightarrow> bool" where
  "sandbox_outcome raw c i mode \<longleftrightarrow>
     to_sandbox (st_tools (fst (effective c i))) = override mode (to_sandbox (st_tools (cf_global raw))) \<and>
     cf_global c = cf_global raw \<and> cf_revision c = cf_revision raw \<and>
     (\<forall>j. j \<noteq> i \<longrightarrow> effective c j = effective raw j)"

lemma sandbox_change_set:
  assumes "sandbox_change raw i folder (Some m) = res"
  shows "sandbox_outcome raw (override res raw) i (Some m)"
proof (cases "map_of (cf_projects raw) i")
  case None
  with assms show ?thesis
    by (auto simp: sandbox_change_def Let_def sandbox_outcome_def effective_update sandbox_of_patch)
next
  case (Some project)
  show ?thesis
  proof (cases res)
    case None
    with assms Some show ?thesis
      by (auto simp: sandbox_change_def Let_def sandbox_outcome_def effective_def sandbox_of_patch
          split: option.splits if_splits)
  next
    case (Some c)
    with assms \<open>map_of (cf_projects raw) i = Some project\<close> show ?thesis
      by (simp add: sandbox_change_def Let_def split: if_splits)
         (auto simp: sandbox_outcome_def effective_update sandbox_of_patch)
  qed
qed

lemma sandbox_change_clear:
  assumes "sandbox_change raw i folder None = res"
  shows "sandbox_outcome raw (override res raw) i None"
proof (cases "map_of (cf_projects raw) i")
  case None
  with assms show ?thesis
    by (auto simp: sandbox_change_def Let_def sandbox_outcome_def effective_def)
next
  case (Some project)
  show ?thesis
  proof (cases "sp_tools (po_settings project)")
    case None
    with assms Some show ?thesis
      by (auto simp: sandbox_change_def Let_def sandbox_outcome_def effective_def sandbox_of_patch)
  next
    case tools: (Some tools)
    show ?thesis
    proof (cases "pto_sandbox tools")
      case None
      with assms Some tools show ?thesis
        by (auto simp: sandbox_change_def Let_def sandbox_outcome_def effective_def sandbox_of_patch)
    next
      case (Some m)
      let ?st = "(po_settings project)\<lparr>sp_tools :=
        if pto_enabled tools = None \<and> pto_approval tools = None then None
        else Some (tools\<lparr>pto_sandbox := None\<rparr>)\<rparr>"
      have "override res raw = raw\<lparr>cf_projects :=
          if empty_settings_patch ?st then AList.delete i (cf_projects raw)
          else AList.update i (project\<lparr>po_settings := ?st\<rparr>) (cf_projects raw)\<rparr>"
        using assms Some tools \<open>map_of (cf_projects raw) i = Some project\<close>
        by (simp add: sandbox_change_def Let_def flip: assms)
      then show ?thesis
        by (cases "empty_settings_patch ?st")
           (simp_all add: sandbox_outcome_def effective_update effective_delete sandbox_of_patch)
    qed
  qed
qed

lemma sandbox_change_outcome:
  "sandbox_change raw i folder mode = res \<Longrightarrow> sandbox_outcome raw (override res raw) i mode"
  using sandbox_change_set sandbox_change_clear by (cases mode) blast+

text \<open>A successful call has passed the argument checks and read the document.\<close>

lemma sandbox_steps:
  assumes "set_project_sandbox E io i folder mode s = (Inr view, s')"
  shows "\<exists>raw s1. load_or_create E (op_create io) s = (Inr raw, s1) \<and>
    (case sandbox_change raw i folder mode of
       None \<Rightarrow> (Inr (public_config raw), s1)
     | Some c \<Rightarrow> commit E (op_replace io) (c\<lparr>cf_revision := cf_revision c + 1\<rparr>) s1) = (Inr view, s')"
proof -
  obtain r s1 where l: "load_or_create E (op_create io) s = (r, s1)" by fastforce
  show ?thesis
    using assms unfolding set_project_sandbox_def l
    by (cases "op_context io"; cases r) (simp_all split: if_split_asm)
qed

lemma effective_revision [simp]: "effective (c\<lparr>cf_revision := r\<rparr>) i = effective c i"
  by (simp add: effective_def split: option.split)

text \<open>When \<open>SetProjectSandbox\<close> succeeds, the project's effective sandbox is the requested mode, or
  the global one when the override is removed, and no other project's effective settings change.\<close>

lemma set_project_sandbox_effect:
  assumes "set_project_sandbox E io i folder mode s = (Inr view, s')" and "doc_of E s = Some raw"
    and "j \<noteq> i"
  shows "\<exists>c. doc_of E s' = Some c \<and> view = public_config c \<and>
    to_sandbox (st_tools (fst (effective c i))) =
      (case mode of None \<Rightarrow> to_sandbox (st_tools (cf_global c)) | Some m \<Rightarrow> m) \<and>
    cf_global c = cf_global raw \<and> effective c j = effective raw j"
proof -
  obtain raw1 s1 where l1: "load_or_create E (op_create io) s = (Inr raw1, s1)"
    and rest1: "(case sandbox_change raw1 i folder mode of
                   None \<Rightarrow> (Inr (public_config raw1), s1)
                 | Some c \<Rightarrow> commit E (op_replace io) (c\<lparr>cf_revision := cf_revision c + 1\<rparr>) s1) = (Inr view, s')"
    using sandbox_steps [OF assms(1)] by (elim exE conjE)
  have "raw1 = raw" using load_or_create_Inr [OF l1] assms(2) by simp
  note l = l1 [unfolded this] and rest = rest1 [unfolded this]
  obtain c r where c: "doc_of E s' = Some c" "view = public_config c"
    "c = (override (sandbox_change raw i folder mode) raw)\<lparr>cf_revision := r\<rparr>"
  proof (cases "sandbox_change raw i folder mode")
    case None
    with rest load_or_create_doc [OF l] assms(2) that [of raw "cf_revision raw"] show ?thesis by simp
  next
    case (Some c1)
    let ?c = "c1\<lparr>cf_revision := cf_revision c1 + 1\<rparr>"
    have "commit E (op_replace io) ?c s1 = (Inr view, s')"
      using rest unfolding Some option.case .
    then have "view = public_config ?c" "doc_of E s' = Some ?c"
      using commit_Inr doc_of_Doc by blast+
    with that [of ?c "cf_revision c1 + 1"] show ?thesis unfolding Some override_simps by blast
  qed
  have out: "sandbox_outcome raw (override (sandbox_change raw i folder mode) raw) i mode"
    by (rule sandbox_change_outcome) (rule refl)
  have "effective c k = effective (override (sandbox_change raw i folder mode) raw) k" for k
    by (simp add: c(3))
  moreover have "cf_global c = cf_global (override (sandbox_change raw i folder mode) raw)"
    by (simp add: c(3))
  ultimately show ?thesis
    using out c(1,2) assms(3) by (auto simp: sandbox_outcome_def override_def split: option.splits)
qed

end
