(* ===== verification/RunMachine.thy ===== *)
theory RunMachine
  imports GoStrings
begin

text \<open>
  The runs of one conversation (\<open>daemon/manager_runs.go\<close>): clients prompt, steer and abort it
  while the goroutine of a run works through the prompt and the queued follow-ups. The runtime's
  fields are read and written under its mutex; a step of this model is one critical section, or
  one piece of a goroutine's work between two of them, so a sequence of steps is an interleaving
  of clients and runs. What the provider, the agent loop and the database return is an argument of
  the step that needs it.
\<close>

section \<open>State\<close>

datatype run_error = Canceled | RunFailed string | PersistFailed string

text \<open>Where a run's goroutine is: at the loop's test with the current prompt (and whether images go
  with it), inside the agent loop, with its result in hand, before \<open>takeFollowUpOrSettle\<close>, past the
  loop, and between the two critical sections at its end.\<close>

datatype run_pc =
    Top string bool
  | Working string
  | Ended "run_error + string"
  | Settling
  | Leaving
  | Reporting

record live_run =
  lr_id :: nat
  lr_pc :: run_pc
  lr_last :: string
  lr_error :: "run_error option"

record conv =
  cv_running :: bool
  cv_finishing :: bool
  cv_steering :: "string list"
  cv_follow_ups :: "string list"
  cv_cancel :: "nat option"
  cv_status :: string
  cv_subagent :: bool
  cv_steering_mode :: string
  cv_follow_up_mode :: string
  cv_log :: "(string \<times> string) list"
  cv_cancelled :: "nat list"
  cv_live :: "live_run list"
  cv_pending :: "(string \<times> string) list"
  cv_next :: nat

section \<open>Queues\<close>

definition take_queue :: "string \<Rightarrow> string list \<Rightarrow> string list \<times> string list" where
  "take_queue mode queue =
     (if queue = [] then ([], queue)
      else if mode = ''all'' then (queue, [])
      else ([hd queue], tl queue))"

section \<open>Client operations\<close>

datatype prompt_error = EmptyPrompt | SettlingRetry | ImagesWhileRunning | BehaviorRequired
  | AttachmentFailed string | NotSteerable | NotRunning

datatype prompt_outcome = Started nat | Queued nat nat

definition blank_prompt :: "string \<Rightarrow> bool \<Rightarrow> bool" where
  "blank_prompt message images \<longleftrightarrow> trim_space message = [] \<and> \<not> images"

text \<open>The critical section of \<open>PromptWithAttachments\<close>. \<open>persist\<close> is the outcome of storing the images.\<close>

definition prompt ::
  "string \<Rightarrow> string \<Rightarrow> bool \<Rightarrow> string option \<Rightarrow> conv \<Rightarrow> (prompt_error, prompt_outcome) result \<times> conv" where
  "prompt message behavior images persist c =
     (if blank_prompt message images then (Inl EmptyPrompt, c)
      else if cv_finishing c then (Inl SettlingRetry, c)
      else if cv_running c then
        (if images then (Inl ImagesWhileRunning, c)
         else if behavior = ''steer'' then
           (let c' = c\<lparr>cv_steering := cv_steering c @ [message]\<rparr>
            in (Inr (Queued (length (cv_steering c')) (length (cv_follow_ups c'))), c'))
         else if behavior = ''followUp'' \<or> behavior = ''follow_up'' then
           (let c' = c\<lparr>cv_follow_ups := cv_follow_ups c @ [message]\<rparr>
            in (Inr (Queued (length (cv_steering c')) (length (cv_follow_ups c'))), c'))
         else (Inl BehaviorRequired, c))
      else case persist of
        Some e \<Rightarrow> (Inl (AttachmentFailed e), c)
      | None \<Rightarrow>
          (Inr (Started (cv_next c)),
           c\<lparr>cv_running := True, cv_status := ''running'', cv_cancel := Some (cv_next c),
             cv_live := cv_live c @ [\<lparr>lr_id = cv_next c, lr_pc = Top message images, lr_last = [], lr_error = None\<rparr>],
             cv_next := Suc (cv_next c)\<rparr>))"

text \<open>\<open>Steer\<close> and \<open>FollowUp\<close> look at \<open>running\<close> in a critical section of their own and prompt in a
  later one; in between the prompt is pending.\<close>

definition steer_check :: "string \<Rightarrow> conv \<Rightarrow> (prompt_error, unit) result \<times> conv" where
  "steer_check message c =
     (if \<not> cv_running c then (Inl NotSteerable, c)
      else (Inr (), c\<lparr>cv_pending := cv_pending c @ [(message, ''steer'')]\<rparr>))"

definition follow_up_check :: "string \<Rightarrow> conv \<Rightarrow> (prompt_error, unit) result \<times> conv" where
  "follow_up_check message c =
     (Inr (), c\<lparr>cv_pending := cv_pending c @ [(message, if cv_running c then ''followUp'' else [])]\<rparr>)"

definition pending_prompt :: "string \<Rightarrow> string \<Rightarrow> conv \<Rightarrow> (prompt_error, prompt_outcome) result \<times> conv" where
  "pending_prompt message behavior c =
     prompt message behavior False None (c\<lparr>cv_pending := remove1 (message, behavior) (cv_pending c)\<rparr>)"

definition abort :: "conv \<Rightarrow> (prompt_error, unit) result \<times> conv" where
  "abort c =
     (case cv_cancel c of
        None \<Rightarrow> (Inl NotRunning, c)
      | Some n \<Rightarrow> (Inr (), c\<lparr>cv_cancelled := n # cv_cancelled c\<rparr>))"

text \<open>The guard of \<open>DeleteThread\<close>.\<close>

definition may_delete :: "conv \<Rightarrow> bool" where
  "may_delete c \<longleftrightarrow> \<not> (cv_running c \<or> cv_finishing c)"

section \<open>Steps of a run\<close>

definition set_run :: "live_run \<Rightarrow> conv \<Rightarrow> conv" where
  "set_run r c = c\<lparr>cv_live := map (\<lambda>x. if lr_id x = lr_id r then r else x) (cv_live c)\<rparr>"

definition append_log :: "string \<Rightarrow> string \<Rightarrow> conv \<Rightarrow> conv" where
  "append_log role content c = c\<lparr>cv_log := cv_log c @ [(role, content)]\<rparr>"

text \<open>The loop's test and, when it passes, the stored user message.\<close>

definition run_top :: "live_run \<Rightarrow> string \<Rightarrow> bool \<Rightarrow> conv \<Rightarrow> conv" where
  "run_top r current images c =
     (if current \<noteq> [] \<or> images
      then set_run (r\<lparr>lr_pc := Working current\<rparr>) (append_log ''user'' current c)
      else set_run (r\<lparr>lr_pc := Leaving\<rparr>) c)"

definition take_steering :: "conv \<Rightarrow> string list \<times> conv" where
  "take_steering c =
     (let (messages, rest) = take_queue (cv_steering_mode c) (cv_steering c)
      in (messages, c\<lparr>cv_steering := rest\<rparr>))"

definition clear_queues :: "conv \<Rightarrow> conv" where
  "clear_queues c = c\<lparr>cv_steering := [], cv_follow_ups := []\<rparr>"

text \<open>After the agent loop: an error clears the queues and leaves; a result is stored, and leaves
  only when the session's state cannot be saved.\<close>

definition run_ended :: "live_run \<Rightarrow> run_error + string \<Rightarrow> string option \<Rightarrow> conv \<Rightarrow> conv" where
  "run_ended r result save c =
     (case result of
        Inl e \<Rightarrow> set_run (r\<lparr>lr_pc := Leaving, lr_error := Some e\<rparr>) (clear_queues c)
      | Inr text \<Rightarrow>
         (let c' = (if text \<noteq> [] then append_log ''assistant'' text c else c);
              r' = (if text \<noteq> [] then r\<lparr>lr_last := text\<rparr> else r)
          in case save of
               Some e \<Rightarrow> set_run (r'\<lparr>lr_pc := Leaving, lr_error := Some (PersistFailed e)\<rparr>) c'
             | None \<Rightarrow> set_run (r'\<lparr>lr_pc := Settling\<rparr>) c'))"

definition take_follow_up_or_settle :: "conv \<Rightarrow> string \<times> conv" where
  "take_follow_up_or_settle c =
     (let (messages, rest) = take_queue (cv_follow_up_mode c) (cv_follow_ups c);
          c' = c\<lparr>cv_follow_ups := rest\<rparr>
      in (join_with [CHR 0x0A, CHR 0x0A] messages,
          if messages = [] then c'\<lparr>cv_running := False, cv_cancel := None, cv_status := ''idle''\<rparr> else c'))"

definition run_settle :: "live_run \<Rightarrow> conv \<Rightarrow> conv" where
  "run_settle r c =
     (let (current, c') = take_follow_up_or_settle c in set_run (r\<lparr>lr_pc := Top current False\<rparr>) c')"

definition finish_status :: "bool \<Rightarrow> run_error option \<Rightarrow> bool \<Rightarrow> string" where
  "finish_status subagent err ctx_cancelled =
     (if \<not> subagent then ''idle''
      else if err = Some Canceled \<or> ctx_cancelled then ''interrupted''
      else if err \<noteq> None then ''failed''
      else ''completed'')"

definition run_leave :: "live_run \<Rightarrow> conv \<Rightarrow> conv" where
  "run_leave r c =
     set_run (r\<lparr>lr_pc := Reporting\<rparr>)
       (c\<lparr>cv_finishing := True, cv_running := False, cv_cancel := None,
          cv_status := finish_status (cv_subagent c) (lr_error r) (lr_id r \<in> set (cv_cancelled c))\<rparr>)"

definition run_finish :: "live_run \<Rightarrow> conv \<Rightarrow> conv" where
  "run_finish r c = c\<lparr>cv_finishing := False, cv_live := filter (\<lambda>x. lr_id x \<noteq> lr_id r) (cv_live c)\<rparr>"

section \<open>Interleavings\<close>

datatype conv_op =
    DoPrompt string string bool "string option"
  | DoSteer string
  | DoFollowUp string
  | DoPending string string
  | DoAbort
  | RunTop nat
  | RunSteering nat
  | RunResult nat "run_error + string"
  | RunEnded nat "string option"
  | RunSettle nat
  | RunLeave nat
  | RunFinish nat

definition live :: "nat \<Rightarrow> conv \<Rightarrow> live_run option" where
  "live n c = find (\<lambda>r. lr_id r = n) (cv_live c)"

text \<open>A step happens only where the code can take it.\<close>

fun conv_step :: "conv_op \<Rightarrow> conv \<Rightarrow> conv option" where
  "conv_step (DoPrompt m b i p) c = Some (snd (prompt m b i p c))"
| "conv_step (DoSteer m) c = Some (snd (steer_check m c))"
| "conv_step (DoFollowUp m) c = Some (snd (follow_up_check m c))"
| "conv_step (DoPending m b) c =
     (if (m, b) \<in> set (cv_pending c) then Some (snd (pending_prompt m b c)) else None)"
| "conv_step DoAbort c = Some (snd (abort c))"
| "conv_step (RunTop n) c =
     (case live n c of
        Some r \<Rightarrow> (case lr_pc r of Top current images \<Rightarrow> Some (run_top r current images c) | _ \<Rightarrow> None)
      | None \<Rightarrow> None)"
| "conv_step (RunSteering n) c =
     (case live n c of
        Some r \<Rightarrow> (case lr_pc r of Working current \<Rightarrow> Some (snd (take_steering c)) | _ \<Rightarrow> None)
      | None \<Rightarrow> None)"
| "conv_step (RunResult n result) c =
     (case live n c of
        Some r \<Rightarrow> (case lr_pc r of Working current \<Rightarrow> Some (set_run (r\<lparr>lr_pc := Ended result\<rparr>) c) | _ \<Rightarrow> None)
      | None \<Rightarrow> None)"
| "conv_step (RunEnded n save) c =
     (case live n c of
        Some r \<Rightarrow> (case lr_pc r of Ended result \<Rightarrow> Some (run_ended r result save c) | _ \<Rightarrow> None)
      | None \<Rightarrow> None)"
| "conv_step (RunSettle n) c =
     (case live n c of
        Some r \<Rightarrow> (case lr_pc r of Settling \<Rightarrow> Some (run_settle r c) | _ \<Rightarrow> None)
      | None \<Rightarrow> None)"
| "conv_step (RunLeave n) c =
     (case live n c of
        Some r \<Rightarrow> (case lr_pc r of Leaving \<Rightarrow> Some (run_leave r c) | _ \<Rightarrow> None)
      | None \<Rightarrow> None)"
| "conv_step (RunFinish n) c =
     (case live n c of
        Some r \<Rightarrow> (case lr_pc r of Reporting \<Rightarrow> Some (run_finish r c) | _ \<Rightarrow> None)
      | None \<Rightarrow> None)"

text \<open>A fresh runtime, as \<open>runtimeFromDB\<close> makes it.\<close>

definition new_conv :: "bool \<Rightarrow> string \<Rightarrow> string \<Rightarrow> conv" where
  "new_conv subagent steering_mode follow_up_mode =
     \<lparr>cv_running = False, cv_finishing = False, cv_steering = [], cv_follow_ups = [], cv_cancel = None,
      cv_status = ''idle'', cv_subagent = subagent, cv_steering_mode = steering_mode,
      cv_follow_up_mode = follow_up_mode, cv_log = [], cv_cancelled = [], cv_live = [],
      cv_pending = [], cv_next = 0\<rparr>"

inductive reaches :: "conv \<Rightarrow> conv_op list \<Rightarrow> conv \<Rightarrow> bool" where
  reaches_Nil: "reaches c [] c"
| reaches_snoc: "reaches c ops c' \<Longrightarrow> conv_step x c' = Some c'' \<Longrightarrow> reaches c (ops @ [x]) c''"

inductive_simps reaches_Nil_iff [simp]: "reaches c [] c'"
inductive_simps reaches_snoc_iff: "reaches c (ops @ [x]) c'"
inductive_cases reaches_cases: "reaches c ops c'"

fun conv_run :: "conv_op list \<Rightarrow> conv \<Rightarrow> conv option" where
  "conv_run [] c = Some c"
| "conv_run (x # xs) c = (case conv_step x c of None \<Rightarrow> None | Some c' \<Rightarrow> conv_run xs c')"

lemma conv_run_append:
  "conv_run (xs @ ys) c = (case conv_run xs c of None \<Rightarrow> None | Some c' \<Rightarrow> conv_run ys c')"
  by (induction xs c rule: conv_run.induct) (auto split: option.splits)

lemma reaches_iff_run: "reaches c ops c' \<longleftrightarrow> conv_run ops c = Some c'"
proof
  show "reaches c ops c' \<Longrightarrow> conv_run ops c = Some c'"
    by (induction rule: reaches.induct) (auto simp: conv_run_append)
  show "conv_run ops c = Some c' \<Longrightarrow> reaches c ops c'"
  proof (induction ops arbitrary: c' rule: rev_induct)
    case (snoc x xs)
    then show ?case
      by (auto simp: conv_run_append split: option.splits intro: reaches.intros)
  qed simp
qed

end
