(* ===== verification/RunProps.thy ===== *)
theory RunProps
  imports RunMachine
begin

text \<open>
  Properties of the runs of a conversation: the queues are first-in first-out and lose nothing but
  what a failing run clears; a run settles; and between the moment a run takes itself off the
  runtime and the moment it marks itself as finishing the conversation is unprotected.
\<close>

section \<open>Queues\<close>

interpretation run_queue: fifo_take "take_queue mode"
  by unfold_locales (auto simp: take_queue_def split: if_splits)

text \<open>The follow-ups a step accepts, and those it takes out of the queue: delivered to the run as its
  next prompt, or dropped by a run that fails.\<close>

datatype queue_exit = Delivered "string list" | Dropped "string list"

fun exit_messages :: "queue_exit \<Rightarrow> string list" where
  "exit_messages (Delivered ms) = ms"
| "exit_messages (Dropped ms) = ms"

definition queued_follow_up :: "string \<Rightarrow> string \<Rightarrow> conv \<Rightarrow> string list" where
  "queued_follow_up m b c =
     (if \<not> blank_prompt m False \<and> \<not> cv_finishing c \<and> cv_running c \<and> (b = ''followUp'' \<or> b = ''follow_up'')
      then [m] else [])"

fun accepted :: "conv_op \<Rightarrow> conv \<Rightarrow> string list" where
  "accepted (DoPrompt m b i p) c = (if i then [] else queued_follow_up m b c)"
| "accepted (DoPending m b) c = queued_follow_up m b c"
| "accepted _ c = []"

fun exits :: "conv_op \<Rightarrow> conv \<Rightarrow> queue_exit list" where
  "exits (RunSettle n) c = [Delivered (fst (take_queue (cv_follow_up_mode c) (cv_follow_ups c)))]"
| "exits (RunEnded n save) c =
     (case live n c of
        Some r \<Rightarrow> (case lr_pc r of Ended (Inl e) \<Rightarrow> [Dropped (cv_follow_ups c)] | _ \<Rightarrow> [])
      | None \<Rightarrow> [])"
| "exits _ c = []"

fun ledger :: "conv_op list \<Rightarrow> conv \<Rightarrow> string list \<times> queue_exit list" where
  "ledger [] c = ([], [])"
| "ledger (x # xs) c =
     (case conv_step x c of
        None \<Rightarrow> ([], [])
      | Some c' \<Rightarrow> (case ledger xs c' of (ins, outs) \<Rightarrow> (accepted x c @ ins, exits x c @ outs)))"

lemma set_run_fields [simp]:
  "cv_follow_ups (set_run r c) = cv_follow_ups c" "cv_steering (set_run r c) = cv_steering c"
  "cv_running (set_run r c) = cv_running c" "cv_finishing (set_run r c) = cv_finishing c"
  "cv_cancel (set_run r c) = cv_cancel c" "cv_next (set_run r c) = cv_next c"
  "cv_pending (set_run r c) = cv_pending c" "cv_follow_up_mode (set_run r c) = cv_follow_up_mode c"
  "cv_cancelled (set_run r c) = cv_cancelled c"
  by (simp_all add: set_run_def)

lemma append_log_fields [simp]:
  "cv_follow_ups (append_log a b c) = cv_follow_ups c" "cv_steering (append_log a b c) = cv_steering c"
  "cv_running (append_log a b c) = cv_running c" "cv_finishing (append_log a b c) = cv_finishing c"
  "cv_cancel (append_log a b c) = cv_cancel c" "cv_next (append_log a b c) = cv_next c"
  "cv_live (append_log a b c) = cv_live c" "cv_pending (append_log a b c) = cv_pending c"
  by (simp_all add: append_log_def)

lemmas step_defs = prompt_def steer_check_def follow_up_check_def pending_prompt_def abort_def
  run_top_def take_steering_def clear_queues_def run_ended_def take_follow_up_or_settle_def
  run_settle_def run_leave_def run_finish_def

lemma settle_queue: "cv_follow_ups (run_settle r c) = snd (take_queue (cv_follow_up_mode c) (cv_follow_ups c))"
  by (simp add: run_settle_def take_follow_up_or_settle_def Let_def split: prod.splits)

lemma step_ledger:
  assumes "conv_step x c = Some c'"
  shows "cv_follow_ups c @ accepted x c = concat (map exit_messages (exits x c)) @ cv_follow_ups c'"
proof (cases x)
  case (RunSettle n)
  have "fst (take_queue (cv_follow_up_mode c) (cv_follow_ups c)) @
      snd (take_queue (cv_follow_up_mode c) (cv_follow_ups c)) = cv_follow_ups c"
    by (rule run_queue.take_split) simp
  with RunSettle assms show ?thesis
    by (auto simp: settle_queue split: option.splits run_pc.splits)
next
  case (RunEnded n save)
  with assms show ?thesis
    by (auto simp: run_ended_def clear_queues_def Let_def split: option.splits run_pc.splits sum.splits)
qed (use assms in \<open>auto simp: step_defs queued_follow_up_def blank_prompt_def Let_def split: option.splits run_pc.splits if_splits prod.splits\<close>)

text \<open>Follow-ups leave the queue in the order in which they were accepted, each exactly once: what
  the clients queued is what the runs took as their next prompts and what failing runs dropped, in
  order, followed by what is still queued.\<close>

lemma follow_ups_fifo:
  assumes "conv_run ops c = Some c'"
  shows "cv_follow_ups c @ fst (ledger ops c) =
    concat (map exit_messages (snd (ledger ops c))) @ cv_follow_ups c'"
  using assms
proof (induction ops c rule: conv_run.induct)
  case (2 x xs c)
  then obtain c1 where c1: "conv_step x c = Some c1" "conv_run xs c1 = Some c'"
    by (auto split: option.splits)
  from step_ledger [OF c1(1)] "2.IH" [OF c1] c1(1) show ?case
    by (cases "ledger xs c1") (simp, metis append.assoc)
qed simp

section \<open>One run at a time\<close>

text \<open>A run is in its settle window after it has taken itself off the runtime and before it marks the
  conversation as finishing.\<close>

definition in_settle_window :: "live_run \<Rightarrow> bool" where
  "in_settle_window r \<longleftrightarrow> lr_error r = None \<and> (lr_pc r = Top [] False \<or> lr_pc r = Leaving)"

text \<open>The runtime's fields as one run leaves them at each point of its work.\<close>

definition run_fields :: "live_run \<Rightarrow> bool \<Rightarrow> bool \<Rightarrow> nat option \<Rightarrow> bool" where
  "run_fields r running finishing cancel \<longleftrightarrow>
     (if in_settle_window r then \<not> running \<and> \<not> finishing \<and> cancel = None
      else if lr_pc r = Reporting then \<not> running \<and> finishing \<and> cancel = None
      else running \<and> \<not> finishing \<and> cancel = Some (lr_id r) \<and> (lr_pc r = Leaving \<or> lr_error r = None))"

fun live_fields :: "live_run list \<Rightarrow> bool \<Rightarrow> bool \<Rightarrow> nat option \<Rightarrow> bool" where
  "live_fields [] running finishing cancel \<longleftrightarrow> \<not> running \<and> \<not> finishing \<and> cancel = None"
| "live_fields [r] running finishing cancel \<longleftrightarrow> run_fields r running finishing cancel"
| "live_fields (r # s # rs) running finishing cancel \<longleftrightarrow> False"

definition tidy :: "conv \<Rightarrow> bool" where
  "tidy c \<longleftrightarrow>
     (\<forall>m \<in> set (cv_follow_ups c). m \<noteq> []) \<and> (\<forall>r \<in> set (cv_live c). lr_id r < cv_next c) \<and>
     live_fields (cv_live c) (cv_running c) (cv_finishing c) (cv_cancel c)"

lemma tidy_new: "tidy (new_conv sub sm fm)"
  by (simp add: tidy_def new_conv_def)

lemma tidy_cases:
  assumes "tidy c"
  obtains (idle) "cv_live c = []" "\<not> cv_running c" "\<not> cv_finishing c" "cv_cancel c = None"
  | (one) r where "cv_live c = [r]" 
      "run_fields r (cv_running c) (cv_finishing c) (cv_cancel c)" "lr_id r < cv_next c"
  using assms by (cases "cv_live c" rule: remdups_adj.cases) (auto simp: tidy_def)

lemma tidy_live: "tidy c \<Longrightarrow> live n c = Some r \<Longrightarrow> 
    cv_live c = [r] \<and> lr_id r = n \<and> run_fields r (cv_running c) (cv_finishing c) (cv_cancel c)"
  by (erule tidy_cases) (auto simp: live_def split: if_splits)

lemma run_of_live: "tidy c \<Longrightarrow> live n c = Some r \<Longrightarrow> cv_live c = [r]"
  by (simp add: tidy_live)

lemma not_blank_neq_Nil: "\<not> blank_prompt m False \<Longrightarrow> m \<noteq> []"
  by (auto simp: blank_prompt_def)

text \<open>A prompt keeps a tidy conversation tidy, or starts a second run beside one in its settle
  window.\<close>

definition overlaps :: "conv \<Rightarrow> conv \<Rightarrow> bool" where
  "overlaps c c' \<longleftrightarrow> (\<exists>r s. cv_live c = [r] \<and> in_settle_window r \<and> cv_live c' = [r, s])"

lemma tidy_pending [simp]: "tidy (c\<lparr>cv_pending := p\<rparr>) = tidy c"
  by (simp add: tidy_def)

lemma tidy_cancelled [simp]: "tidy (c\<lparr>cv_cancelled := p\<rparr>) = tidy c"
  by (simp add: tidy_def)

lemma tidy_steering [simp]: "tidy (c\<lparr>cv_steering := p\<rparr>) = tidy c"
  by (simp add: tidy_def)

lemma overlaps_pending [simp]: "overlaps (c\<lparr>cv_pending := p\<rparr>) c' = overlaps c c'"
  by (simp add: overlaps_def)

lemma tidy_queued: "tidy c \<Longrightarrow> m \<noteq> [] \<Longrightarrow> tidy (c\<lparr>cv_follow_ups := cv_follow_ups c @ [m]\<rparr>)"
  by (auto simp: tidy_def)

definition fresh_run :: "string \<Rightarrow> bool \<Rightarrow> conv \<Rightarrow> live_run" where
  "fresh_run m i c = \<lparr>lr_id = cv_next c, lr_pc = Top m i, lr_last = [], lr_error = None\<rparr>"

lemma prompt_start:
  assumes "tidy c" and "\<not> cv_running c" and "\<not> cv_finishing c" and "\<not> blank_prompt m i"
  shows "cv_live c = [] \<or> (\<exists>r. cv_live c = [r] \<and> in_settle_window r)"
  using assms(1)
proof (cases rule: tidy_cases)
  case (one r)
  with assms(2,3) show ?thesis by (cases "lr_pc r") (auto simp: run_fields_def split: if_splits)
qed simp

lemma tidy_started:
  assumes "cv_live c = []" and "tidy c" and "\<not> blank_prompt m i"
  shows "tidy (c\<lparr>cv_running := True, cv_status := s, cv_cancel := Some (cv_next c),
    cv_live := [\<lparr>lr_id = cv_next c, lr_pc = Top m i, lr_last = [], lr_error = None\<rparr>],
    cv_next := Suc (cv_next c)\<rparr>)"
  using assms by (auto simp: tidy_def run_fields_def in_settle_window_def blank_prompt_def)

lemma prompt_tidy:
  assumes "tidy c"
  shows "tidy (snd (prompt m b i p c)) \<or> overlaps c (snd (prompt m b i p c))"
proof (cases "blank_prompt m i \<or> cv_finishing c \<or> cv_running c")
  case True
  have "m \<noteq> []" if "\<not> blank_prompt m i" "\<not> i" using that by (auto simp: blank_prompt_def)
  with True assms tidy_queued [OF assms, of m] show ?thesis
    by (auto simp: prompt_def Let_def)
next
  case False
  note start = prompt_start [OF assms, of m i]
  show ?thesis
  proof (cases p)
    case (Some e)
    with False assms show ?thesis by (simp add: prompt_def)
  next
    case None
    with False start consider "cv_live c = []" | r where "cv_live c = [r]" "in_settle_window r" by blast
    then show ?thesis
    proof cases
      case 1
      with False None tidy_started [OF 1 assms] show ?thesis by (simp add: prompt_def)
    next
      case 2
      with False None show ?thesis by (simp add: prompt_def overlaps_def)
    qed
  qed
qed

lemma join_neq_Nil: "ms \<noteq> [] \<Longrightarrow> (\<forall>m \<in> set ms. m \<noteq> []) \<Longrightarrow> join_with sep ms \<noteq> []"
  by (induction sep ms rule: join_with.induct) auto

lemma settle_tidy:
  assumes "cv_live c = [r]" and "tidy c" and "lr_pc r = Settling"
  shows "tidy (run_settle r c)"
proof -
  obtain ms rest where take: "take_queue (cv_follow_up_mode c) (cv_follow_ups c) = (ms, rest)" by fastforce
  have sub: "set ms \<subseteq> set (cv_follow_ups c)" "set rest \<subseteq> set (cv_follow_ups c)"
    using run_queue.taken_subset [of "cv_follow_up_mode c" "cv_follow_ups c"] take by simp_all
  have "join_with [CHR 0x0A, CHR 0x0A] ms \<noteq> []" if "ms \<noteq> []"
    using that sub(1) assms(2) by (intro join_neq_Nil) (auto simp: tidy_def)
  with assms take sub(2) show ?thesis
    by (cases "ms = []")
       (auto simp: run_settle_def take_follow_up_or_settle_def set_run_def tidy_def run_fields_def
        in_settle_window_def Let_def)
qed

lemma run_step_tidy:
  assumes "cv_live c = [r]" and "tidy c"
  shows "lr_pc r = Top current images \<Longrightarrow> tidy (run_top r current images c)"
    and "tidy (snd (take_steering c))"
    and "lr_pc r = Working m \<Longrightarrow> tidy (set_run (r\<lparr>lr_pc := Ended result\<rparr>) c)"
    and "lr_pc r = Ended result \<Longrightarrow> tidy (run_ended r result save c)"
    and "lr_pc r = Leaving \<Longrightarrow> tidy (run_leave r c)"
    and "lr_pc r = Reporting \<Longrightarrow> tidy (run_finish r c)"
  using assms
  by (auto simp: run_top_def take_steering_def run_ended_def run_leave_def run_finish_def set_run_def
      clear_queues_def append_log_def Let_def tidy_def run_fields_def in_settle_window_def
      split: sum.splits option.splits prod.splits if_splits)

lemma step_tidy:
  assumes "tidy c" and "conv_step x c = Some c'"
  shows "tidy c' \<or> overlaps c c'"
proof (cases x)
  case (DoPrompt m b i p)
  with assms prompt_tidy [OF assms(1)] show ?thesis by auto
next
  case (DoPending m b)
  let ?c = "c\<lparr>cv_pending := remove1 (m, b) (cv_pending c)\<rparr>"
  have "tidy ?c" using assms(1) by simp
  from prompt_tidy [OF this, of m b False None] DoPending assms(2) show ?thesis
    by (auto simp: pending_prompt_def split: if_splits)
qed (use assms in \<open>auto simp: steer_check_def follow_up_check_def abort_def
      split: option.splits run_pc.splits if_splits intro: run_step_tidy [OF run_of_live] settle_tidy [OF run_of_live]\<close>)

text \<open>A sequence of steps without overlapping runs stays tidy.\<close>

fun serial_run :: "conv_op list \<Rightarrow> conv \<Rightarrow> conv option" where
  "serial_run [] c = Some c"
| "serial_run (x # xs) c =
     (case conv_step x c of
        None \<Rightarrow> None
      | Some c' \<Rightarrow> if length (cv_live c') \<le> 1 then serial_run xs c' else None)"

lemma serial_run_tidy: "serial_run ops c = Some c' \<Longrightarrow> tidy c \<Longrightarrow> tidy c'"
proof (induction ops c rule: serial_run.induct)
  case (2 x xs c)
  then obtain c1 where c1: "conv_step x c = Some c1" "length (cv_live c1) \<le> 1" "serial_run xs c1 = Some c'"
    by (auto split: option.splits if_splits)
  from step_tidy [OF "2.prems"(2) c1(1)] c1(2) have "tidy c1" by (auto simp: overlaps_def)
  with "2.IH" [OF c1] show ?case by blast
qed simp

section \<open>What holds while runs do not overlap, and how they come to overlap\<close>

text \<open>C2: As long as no two runs have overlapped, a second run can only start while the first is in its
  settle window: after \<open>takeFollowUpOrSettle\<close> has cleared \<open>running\<close> and before the run sets
  \<open>finishing\<close>.\<close>

theorem runs_overlap_only_in_settle_window:
  assumes "serial_run ops (new_conv sub sm fm) = Some c" and "conv_step x c = Some c'"
    and "1 < length (cv_live c')"
  shows "\<exists>r s. cv_live c = [r] \<and> in_settle_window r \<and> cv_live c' = [r, s]"
proof -
  have "tidy c" using assms(1) tidy_new by (rule serial_run_tidy)
  from step_tidy [OF this assms(2)] show ?thesis
  proof
    assume "tidy c'"
    then have "length (cv_live c') \<le> 1" by (rule tidy_cases) simp_all
    with assms(3) show ?thesis by simp
  next
    assume "overlaps c c'"
    then show ?thesis by (simp add: overlaps_def)
  qed
qed

definition to_window :: "conv_op list" where
  "to_window = [DoPrompt ''a'' [] False None, RunTop 0, RunSteering 0, RunResult 0 (Inr ''x''), RunEnded 0 None,
     RunSettle 0]"

definition at_window :: conv where
  "at_window = the (conv_run to_window (new_conv False ''all'' ''all''))"

lemma at_window_serial: "serial_run to_window (new_conv False ''all'' ''all'') = Some at_window"
  by code_simp

definition past_window :: conv where
  "past_window = the (conv_step (DoPrompt ''b'' [] False None) at_window)"

lemma past_window_step: "conv_step (DoPrompt ''b'' [] False None) at_window = Some past_window"
  by code_simp

theorem runs_overlap_only_in_settle_window_witness:
  "length (cv_live past_window) = 2 \<and>
   (\<exists>r s. cv_live at_window = [r] \<and> in_settle_window r \<and> cv_live past_window = [r, s])"
proof -
  have two: "length (cv_live past_window) = 2" by code_simp
  then have "1 < length (cv_live past_window)" by simp
  from runs_overlap_only_in_settle_window [OF at_window_serial past_window_step this] two
  show ?thesis by simp
qed

text \<open>As long as no two runs have overlapped, an abort reaches the run that is at work and the
  conversation cannot be deleted under it; without a run an abort is refused and the conversation
  can be deleted.\<close>

lemma abort_reaches_run:
  assumes "serial_run ops (new_conv sub sm fm) = Some c"
  shows "case cv_live c of
      [] \<Rightarrow> fst (abort c) = Inl NotRunning \<and> may_delete c
    | r # rs \<Rightarrow> rs = [] \<and>
       (in_settle_window r \<or>
        lr_pc r = Reporting \<and> \<not> may_delete c \<or>
        lr_id r \<in> set (cv_cancelled (snd (abort c))) \<and> \<not> may_delete c)"
proof -
  have "tidy c" using assms tidy_new by (rule serial_run_tidy)
  then show ?thesis
    by (rule tidy_cases) (auto simp: abort_def may_delete_def run_fields_def split: if_splits)
qed

definition working_conv :: conv where
  "working_conv = the (conv_run [DoPrompt ''a'' [] False None, RunTop 0] (new_conv True ''all'' ''all''))"

definition settle_race :: "conv_op list" where
  "settle_race = to_window @ [DoPrompt ''b'' [] False None, RunTop 1, RunTop 0, RunLeave 0, RunFinish 0]"

text \<open>The settle window breaks the protection: a prompt that arrives in it starts a second run;
  when the first run then marks itself finished it clears the second run's fields, so that a run
  is at work that an abort does not reach, that does not keep the conversation from being deleted,
  and beside which the next prompt starts yet another run.\<close>

lemma settle_window_loses_run:
  "map_option (\<lambda>c. (map lr_pc (cv_live c), fst (abort c), may_delete c,
       fst (prompt ''c'' [] False None c), map lr_pc (cv_live (snd (prompt ''c'' [] False None c)))))
     (conv_run settle_race (new_conv False ''all'' ''all'')) =
   Some ([Working ''b''], Inl NotRunning, True, Inr (Started 2), [Working ''b'', Top ''c'' False])"
  by code_simp

definition late_steer :: "conv_op list" where
  "late_steer = [DoPrompt ''a'' [] False None, RunTop 0, RunSteering 0, RunResult 0 (Inr ''x''), RunEnded 0 None,
     DoPrompt ''stop'' ''steer'' False None, RunSettle 0, RunTop 0, RunLeave 0, RunFinish 0]"

text \<open>A steering message can be accepted and never reach the run it steers: one that arrives after
  the agent loop has looked at the queue for the last time stays queued when the conversation
  settles, since only the follow-ups are looked at then.\<close>

lemma late_steering_stays_queued:
  "map_option (\<lambda>c. fst (prompt ''stop'' ''steer'' False None c))
     (conv_run (take 5 late_steer) (new_conv False ''all'' ''all'')) = Some (Inr (Queued 1 0)) \<and>
   map_option (\<lambda>c. (cv_live c, cv_status c, cv_steering c, cv_log c))
     (conv_run late_steer (new_conv False ''all'' ''all'')) =
   Some ([], ''idle'', [''stop''], [(''user'', ''a''), (''assistant'', ''x'')])"
  by (intro conjI; code_simp)

section \<open>Runs settle\<close>





















end
