(* ===== verification/ThreadStore.thy ===== *)
theory ThreadStore
  imports GoStrings Usage
begin

text \<open>
  Package \<open>threadstore\<close>: the metadata record of a conversation, the directory of database files
  with one file per conversation, and the two append-only tables of a file. SQLite is not part
  of the repository: the tables are an argument (\<open>table_ops\<close>), and \<open>sequence_table\<close> states the
  documented behaviour the code relies on (an \<open>AUTOINCREMENT\<close> key grows, and a \<open>SELECT\<close> with
  \<open>WHERE sequence > ? ORDER BY sequence LIMIT ?\<close> returns a prefix of the later rows). Times are
  numbers, 0 for Go's zero time; the clock is an argument.
\<close>

section \<open>Records\<close>

record worktree_info =
  wt_source_cwd :: string
  wt_source_repository :: string
  wt_path :: string
  wt_project_relative_path :: string
  wt_base_ref :: string
  wt_base_commit :: string
  wt_environment_id :: string

record thread =
  t_id :: string
  t_kind :: string
  t_settings_id :: string
  t_parent_id :: string
  t_root_id :: string
  t_agent_name :: string
  t_agent_role :: string
  t_agent_profile :: string
  t_agent_tools :: "string list"
  t_depth :: int
  t_name :: string
  t_category :: string
  t_model :: string
  t_cwd :: string
  t_worktree :: "worktree_info option"
  t_additional_folders :: "string list"
  t_instructions :: string
  t_thinking_level :: string
  t_steering_mode :: string
  t_follow_up_mode :: string
  t_tools :: "string list"
  t_usage :: usage
  t_status :: string
  t_created_at :: nat
  t_updated_at :: nat

definition resource_kind :: "thread \<Rightarrow> string" where
  "resource_kind t = (if t_kind t = ''chat'' then ''chat'' else ''project'')"

definition is_subagent :: "thread \<Rightarrow> bool" where
  "is_subagent t \<longleftrightarrow> t_parent_id t \<noteq> []"

record message =
  ms_sequence :: int
  ms_kind :: string
  ms_role :: string
  ms_content :: string
  ms_data :: string
  ms_created_at :: nat

record stored_event =
  ev_sequence :: int
  ev_type :: string
  ev_data :: string
  ev_created_at :: nat

record provider_state =
  ps_provider :: string
  ps_session_id :: string
  ps_data :: string
  ps_updated_at :: nat

section \<open>Tables\<close>

record ('row, 'tab) table_ops =
  tb_insert :: "'row \<Rightarrow> 'tab \<Rightarrow> (string, int \<times> 'tab) result"
  tb_select :: "int \<Rightarrow> nat \<Rightarrow> 'tab \<Rightarrow> (string, (int \<times> 'row) list) result"

definition sequence_table :: "('row, 'tab) table_ops \<Rightarrow> ('tab \<Rightarrow> (int \<times> 'row) list) \<Rightarrow> bool" where
  "sequence_table ops rows \<longleftrightarrow>
     (\<forall>t. sorted_wrt (<) (map fst (rows t)) \<and> (\<forall>k \<in> set (map fst (rows t)). 0 < k)) \<and>
     (\<forall>r t n t'. tb_insert ops r t = Inr (n, t') \<longrightarrow> rows t' = rows t @ [(n, r)]) \<and>
     (\<forall>after limit t xs. tb_select ops after limit t = Inr xs \<longrightarrow>
        xs = take limit (filter (\<lambda>kr. after < fst kr) (rows t)))"

type_synonym ('row, 'tab) ops = "('row, 'tab) table_ops"

text \<open>The row of a message or an event is the record without its sequence number.\<close>

definition append_message ::
  "(message, 'tab) ops \<Rightarrow> nat \<Rightarrow> message \<Rightarrow> 'tab \<Rightarrow> (string, message \<times> 'tab) result" where
  "append_message ops now m tab =
     (let m1 = (if ms_created_at m = 0 then m\<lparr>ms_created_at := now\<rparr> else m)
      in case tb_insert ops (m1\<lparr>ms_sequence := 0\<rparr>) tab of
           Inl e \<Rightarrow> Inl e
         | Inr (n, tab') \<Rightarrow> Inr (m1\<lparr>ms_sequence := n\<rparr>, tab'))"

definition page_limit :: "int \<Rightarrow> nat" where
  "page_limit limit = nat (if limit \<le> 0 \<or> limit > 10000 then 1000 else limit)"

definition messages :: "(message, 'tab) ops \<Rightarrow> int \<Rightarrow> int \<Rightarrow> 'tab \<Rightarrow> (string, message list) result" where
  "messages ops after limit tab =
     (case tb_select ops after (page_limit limit) tab of
        Inl e \<Rightarrow> Inl e
      | Inr xs \<Rightarrow> Inr (map (\<lambda>(n, m). m\<lparr>ms_sequence := n\<rparr>) xs))"

definition append_event ::
  "(stored_event, 'tab) ops \<Rightarrow> nat \<Rightarrow> stored_event \<Rightarrow> 'tab \<Rightarrow> (string, stored_event \<times> 'tab) result" where
  "append_event ops now e tab =
     (let e1 = (if ev_created_at e = 0 then e\<lparr>ev_created_at := now\<rparr> else e)
      in case tb_insert ops (e1\<lparr>ev_sequence := 0\<rparr>) tab of
           Inl err \<Rightarrow> Inl err
         | Inr (n, tab') \<Rightarrow> Inr (e1\<lparr>ev_sequence := n\<rparr>, tab'))"

definition events :: "(stored_event, 'tab) ops \<Rightarrow> int \<Rightarrow> int \<Rightarrow> 'tab \<Rightarrow> (string, stored_event list) result" where
  "events ops after limit tab =
     (case tb_select ops after (page_limit limit) tab of
        Inl e \<Rightarrow> Inl e
      | Inr xs \<Rightarrow> Inr (map (\<lambda>(n, e). e\<lparr>ev_sequence := n\<rparr>) xs))"

section \<open>The store\<close>

text \<open>\<open>^[A-Za-z0-9][A-Za-z0-9_-]{0,127}$\<close>\<close>

definition valid_thread_id :: "string \<Rightarrow> bool" where
  "valid_thread_id s \<longleftrightarrow> name_pattern ''_-'' 127 s"

text \<open>\<open>filepath.Join\<close> of a clean directory other than the root and a name without a slash.\<close>

definition db_path :: "string \<Rightarrow> string \<Rightarrow> string" where
  "db_path directory i = directory @ ''/'' @ i @ ''.db''"

record ('m, 'e) thread_db =
  db_thread :: "thread option"
  db_messages :: 'm
  db_events :: 'e
  db_state :: "provider_state option"

type_synonym ('m, 'e) files = "string \<Rightarrow> ('m, 'e) thread_db option"

datatype db_error = InvalidId string | AlreadyExists string | NoRows | Failed string

text \<open>What the operating system and the database answer: the \<open>Stat\<close> error other than not-exist, the
  open, the schema and the metadata write.\<close>

record db_io =
  dio_stat :: "string option"
  dio_open :: "string option"
  dio_schema :: "string option"
  dio_write :: "string option"

definition create_db ::
  "('m \<times> 'e) \<Rightarrow> db_io \<Rightarrow> nat \<Rightarrow> string \<Rightarrow> thread \<Rightarrow> ('m, 'e) files \<Rightarrow>
     (db_error, thread) result \<times> ('m, 'e) files" where
  "create_db tabs io now directory t fs =
     (if \<not> valid_thread_id (t_id t) then (Inl (InvalidId (t_id t)), fs)
      else let path = db_path directory (t_id t) in
        if dio_stat io = None \<and> fs path \<noteq> None then (Inl (AlreadyExists (t_id t)), fs)
        else case dio_stat io of
          Some e \<Rightarrow> (Inl (Failed e), fs)
        | None \<Rightarrow>
           (case dio_open io of
              Some e \<Rightarrow> (Inl (Failed e), fs)
            | None \<Rightarrow>
               (case dio_schema io of
                  Some e \<Rightarrow> (Inl (Failed e), fs(path := None))
                | None \<Rightarrow>
                   (let t1 = (if t_created_at t = 0 then t\<lparr>t_created_at := now\<rparr> else t);
                        t2 = t1\<lparr>t_updated_at := now\<rparr>;
                        t3 = (if t_status t2 = [] then t2\<lparr>t_status := ''idle''\<rparr> else t2)
                    in case dio_write io of
                         Some e \<Rightarrow> (Inl (Failed e), fs(path := None))
                       | None \<Rightarrow>
                          (Inr t3, fs(path \<mapsto> \<lparr>db_thread = Some t3, db_messages = fst tabs,
                                             db_events = snd tabs, db_state = None\<rparr>))))))"

definition open_db ::
  "db_io \<Rightarrow> string \<Rightarrow> string \<Rightarrow> ('m, 'e) files \<Rightarrow> (db_error, ('m, 'e) thread_db) result" where
  "open_db io directory i fs =
     (if \<not> valid_thread_id i then Inl (InvalidId i)
      else case dio_stat io of
        Some e \<Rightarrow> Inl (Failed e)
      | None \<Rightarrow>
         (case fs (db_path directory i) of
            None \<Rightarrow> Inl NoRows
          | Some db \<Rightarrow>
             (case dio_open io of
                Some e \<Rightarrow> Inl (Failed e)
              | None \<Rightarrow> (case dio_schema io of Some e \<Rightarrow> Inl (Failed e) | None \<Rightarrow> Inr db))))"

definition db_metadata :: "('m, 'e) thread_db \<Rightarrow> (db_error, thread) result" where
  "db_metadata db = (case db_thread db of None \<Rightarrow> Inl NoRows | Some t \<Rightarrow> Inr t)"

text \<open>\<open>UpdateThread\<close> with its callback and the outcome of the write.\<close>

definition update_thread ::
  "(thread \<Rightarrow> (string, thread) result) \<Rightarrow> string option \<Rightarrow> nat \<Rightarrow> ('m, 'e) thread_db \<Rightarrow>
     (db_error, thread) result \<times> ('m, 'e) thread_db" where
  "update_thread f write now db =
     (case db_metadata db of
        Inl e \<Rightarrow> (Inl e, db)
      | Inr t \<Rightarrow>
         (case f t of
            Inl e \<Rightarrow> (Inl (Failed e), db)
          | Inr t1 \<Rightarrow>
             (let t2 = t1\<lparr>t_updated_at := now\<rparr>
              in case write of
                   Some e \<Rightarrow> (Inl (Failed e), db)
                 | None \<Rightarrow> (Inr t2, db\<lparr>db_thread := Some t2\<rparr>))))"

definition save_state ::
  "provider_state \<Rightarrow> string option \<Rightarrow> nat \<Rightarrow> ('m, 'e) thread_db \<Rightarrow> string option \<times> ('m, 'e) thread_db" where
  "save_state st write now db =
     (case write of
        Some e \<Rightarrow> (Some e, db)
      | None \<Rightarrow> (None, db\<lparr>db_state := Some (st\<lparr>ps_updated_at := now\<rparr>)\<rparr>))"

definition load_state :: "('m, 'e) thread_db \<Rightarrow> (db_error, provider_state) result" where
  "load_state db = (case db_state db of None \<Rightarrow> Inl NoRows | Some st \<Rightarrow> Inr st)"

definition delete_db ::
  "string option \<Rightarrow> string \<Rightarrow> string \<Rightarrow> ('m, 'e) files \<Rightarrow> db_error option \<times> ('m, 'e) files" where
  "delete_db remove directory i fs =
     (if \<not> valid_thread_id i then (Some (InvalidId i), fs)
      else let path = db_path directory i in
        case remove of
          Some e \<Rightarrow> (Some (Failed e), fs)
        | None \<Rightarrow> if fs path = None then (Some NoRows, fs) else (None, fs(path := None)))"

section \<open>Properties\<close>

lemma name_pattern_chars: "name_pattern extra n s \<Longrightarrow> c \<in> set s \<Longrightarrow> is_alnum c \<or> c \<in> set extra"
  by (cases s) (auto simp: name_pattern_def list_all_iff)

lemma valid_id_chars: "valid_thread_id i \<Longrightarrow> c \<in> set i \<Longrightarrow> c \<noteq> CHR ''/'' \<and> c \<noteq> CHR ''.''"
  unfolding valid_thread_id_def
  by (drule (1) name_pattern_chars)
     (auto simp: is_alnum_def is_lower_letter_def is_upper_letter_def is_ascii_digit_def)

lemma db_path_inj: "db_path d i = db_path d j \<Longrightarrow> i = j"
  by (simp add: db_path_def)

text \<open>A database file lies directly in the store's directory and belongs to one conversation: an
  accepted id has no slash and no dot, and the paths of different ids differ.\<close>

lemma created_file_stays_in_directory:
  assumes "create_db tabs io now directory t fs = (Inr t', fs')"
  shows "(\<exists>name. fs' = fs(directory @ ''/'' @ name \<mapsto> the (fs' (directory @ ''/'' @ name))) \<and>
            CHR ''/'' \<notin> set name \<and> name \<noteq> ''.'' \<and> name \<noteq> ''..'') \<and>
    fs (db_path directory (t_id t)) = None \<and> t_id t' = t_id t \<and> t_updated_at t' = now \<and> t_status t' \<noteq> [] \<and>
    (i = t_id t \<or> fs' (db_path directory i) = fs (db_path directory i))"
proof -
  have v: "valid_thread_id (t_id t)" and n: "fs (db_path directory (t_id t)) = None"
    and fs': "fs' = fs(db_path directory (t_id t) \<mapsto> \<lparr>db_thread = Some t', db_messages = fst tabs,
        db_events = snd tabs, db_state = None\<rparr>)"
    and t': "t_id t' = t_id t" "t_updated_at t' = now" "t_status t' \<noteq> []"
    using assms by (auto simp: create_db_def Let_def split: if_splits option.splits)
  have "CHR ''/'' \<notin> set (t_id t @ ''.db'')" using valid_id_chars [OF v] by auto
  moreover have "t_id t @ ''.db'' \<noteq> ''.''" "t_id t @ ''.db'' \<noteq> ''..''" by auto
  moreover have "fs' = fs(directory @ ''/'' @ t_id t @ ''.db'' \<mapsto> the (fs' (directory @ ''/'' @ t_id t @ ''.db'')))"
    by (simp add: fs' db_path_def)
  ultimately have "\<exists>name. fs' = fs(directory @ ''/'' @ name \<mapsto> the (fs' (directory @ ''/'' @ name))) \<and>
            CHR ''/'' \<notin> set name \<and> name \<noteq> ''.'' \<and> name \<noteq> ''..''"
    by (intro exI [of _ "t_id t @ ''.db''"] conjI)
  moreover have "i = t_id t \<or> fs' (db_path directory i) = fs (db_path directory i)"
    by (auto simp: fs' dest: db_path_inj)
  ultimately show ?thesis using n t' by blast
qed

definition blank_thread :: thread where
  "blank_thread = \<lparr>t_id = [], t_kind = [], t_settings_id = [], t_parent_id = [], t_root_id = [],
     t_agent_name = [], t_agent_role = [], t_agent_profile = [], t_agent_tools = [], t_depth = 0,
     t_name = [], t_category = [], t_model = [], t_cwd = [], t_worktree = None,
     t_additional_folders = [], t_instructions = [], t_thinking_level = [], t_steering_mode = [],
     t_follow_up_mode = [], t_tools = [], t_usage = zero_usage, t_status = [], t_created_at = 0,
     t_updated_at = 0\<rparr>"

definition quiet_io :: db_io where
  "quiet_io = \<lparr>dio_stat = None, dio_open = None, dio_schema = None, dio_write = None\<rparr>"

lemma sorted_le_last:
  "sorted_wrt (<) (map fst xs) \<Longrightarrow> kr \<in> set xs \<Longrightarrow> fst kr \<le> (fst (last xs) :: int)"
proof (induction xs)
  case (Cons x xs)
  have "last xs \<in> set xs" if "xs \<noteq> []" using that by simp
  with Cons show ?case by (cases "xs = []") (auto dest!: bspec [where x = "last xs"])
qed simp

text \<open>A page and the page after its last row, when the first is not empty.\<close>

lemma select_pages:
  fixes rows :: "(int \<times> 'b) list"
  assumes "sorted_wrt (<) (map fst rows)" and "xs = take l1 (filter (\<lambda>kr. after < fst kr) rows)"
    and "xs \<noteq> []"
  shows "xs @ take l2 (filter (\<lambda>kr. fst (last xs) < fst kr) rows) =
    take (l1 + l2) (filter (\<lambda>kr. after < fst kr) rows)"
proof -
  define later where "later = filter (\<lambda>kr. after < fst kr) rows"
  have sorted: "sorted_wrt (<) (map fst later)"
    unfolding later_def using assms(1) by (induction rows) auto
  have split: "later = xs @ drop l1 later" using assms(2) by (simp add: later_def)
  have "sorted_wrt (<) (map fst (xs @ drop l1 later))" using sorted split by simp
  then have above: "\<forall>kr \<in> set (drop l1 later). fst (last xs) < fst kr"
    and below: "\<forall>kr \<in> set xs. fst kr \<le> fst (last xs)"
    using assms(3) sorted_le_last [of xs] by (auto simp: sorted_wrt_append)
  have "last xs \<in> set (filter (\<lambda>kr. after < fst kr) rows)"
    using last_in_set [OF assms(3)] in_set_takeD assms(2) by metis
  then have "after < fst (last xs)" by simp
  then have "filter (\<lambda>kr. fst (last xs) < fst kr) rows = filter (\<lambda>kr. fst (last xs) < fst kr) later"
    by (simp add: later_def) (rule filter_cong, auto)
  also have "\<dots> = drop l1 later"
    using below above by (subst split) (auto simp: filter_empty_conv filter_id_conv)
  finally show ?thesis
    using assms(2) by (simp add: later_def [symmetric] take_add)
qed

text \<open>Reading the events page by page misses none and repeats none: the page after the last sequence
  number of a page continues it, so the two are one longer read. A limit outside 1..10000 reads
  1000.\<close>

lemma event_pages_continue:
  assumes "sequence_table ops rows" and "events ops after l1 tab = Inr xs" and "xs \<noteq> []"
    and "events ops (ev_sequence (last xs)) l2 tab = Inr ys"
  shows "xs @ ys = map (\<lambda>(n, e). e\<lparr>ev_sequence := n\<rparr>)
      (take (page_limit l1 + page_limit l2) (filter (\<lambda>kr. after < fst kr) (rows tab))) \<and>
    length xs \<le> 10000"
proof -
  let ?stamp = "\<lambda>(n, e). e\<lparr>ev_sequence := n\<rparr>"
  obtain x1 where x1: "tb_select ops after (page_limit l1) tab = Inr x1" "xs = map ?stamp x1"
    using assms(2) by (auto simp: events_def split: sum.splits)
  obtain y1 where y1: "tb_select ops (ev_sequence (last xs)) (page_limit l2) tab = Inr y1" "ys = map ?stamp y1"
    using assms(4) by (auto simp: events_def split: sum.splits)
  have rows: "sorted_wrt (<) (map fst (rows tab))"
    "x1 = take (page_limit l1) (filter (\<lambda>kr. after < fst kr) (rows tab))"
    "y1 = take (page_limit l2) (filter (\<lambda>kr. ev_sequence (last xs) < fst kr) (rows tab))"
    using assms(1) x1(1) y1(1) unfolding sequence_table_def by blast+
  have "x1 \<noteq> []" using assms(3) x1(2) by simp
  moreover have "ev_sequence (last xs) = fst (last x1)"
    using \<open>x1 \<noteq> []\<close> by (simp add: x1(2) last_map split: prod.split)
  ultimately have "x1 @ y1 = take (page_limit l1 + page_limit l2) (filter (\<lambda>kr. after < fst kr) (rows tab))"
    using select_pages [OF rows(1,2)] rows(3) by simp
  moreover have "length x1 \<le> 10000" by (auto simp: rows(2) page_limit_def)
  ultimately show ?thesis by (metis length_map map_append x1(2) y1(2))
qed

definition plain_event :: "string \<Rightarrow> stored_event" where
  "plain_event s = \<lparr>ev_sequence = 0, ev_type = s, ev_data = [], ev_created_at = 7\<rparr>"

text \<open>Three events, of which the second has been deleted; other tables are not used.\<close>

definition three_rows :: "(int \<times> stored_event) list" where
  "three_rows = [(1, plain_event ''a''), (3, plain_event ''b''), (4, plain_event ''c'')]"

definition fixed_ops :: "(stored_event, unit) table_ops" where
  "fixed_ops = \<lparr>tb_insert = (\<lambda>r t. Inl ''read-only''),
     tb_select = (\<lambda>after limit t. Inr (take limit (filter (\<lambda>kr. after < fst kr) three_rows)))\<rparr>"

end
