(* ===== verification/Team.thy ===== *)
theory Team
  imports ThreadStore ConfigTypes ConfigMerge
begin

text \<open>
  Parent and child agents (\<open>daemon/subagents.go\<close>, \<open>subagent_messages.go\<close>,
  \<open>subagent_permissions.go\<close>, \<open>subagent_completion.go\<close>). A team is the list of the stored
  conversations; what the rest of the daemon contributes to an operation (the settings of a scope,
  the tools of a runtime, the new id, errors of the store and of the prompt) is in the operation's
  environment. The first argument of a settings lookup is the scope's id.
\<close>

type_synonym team_error = "string \<times> string list"

definition terr :: "string \<Rightarrow> string list \<Rightarrow> team_error" where
  "terr template arguments = (template, arguments)"

section \<open>Small helpers\<close>

definition team_root_id :: "thread \<Rightarrow> string" where
  "team_root_id t = (if t_root_id t \<noteq> [] then t_root_id t else t_id t)"

definition config_scope_id :: "thread \<Rightarrow> string" where
  "config_scope_id t =
     (if t_settings_id t \<noteq> [] then t_settings_id t
      else if t_root_id t \<noteq> [] then t_root_id t
      else t_id t)"

text \<open>\<open>^[A-Za-z0-9][A-Za-z0-9_.-]{0,63}$\<close>\<close>

definition valid_agent_name :: "string \<Rightarrow> bool" where
  "valid_agent_name s \<longleftrightarrow> name_pattern ''_.-'' 63 s"

definition is_team_tool :: "string \<Rightarrow> bool" where
  "is_team_tool name \<longleftrightarrow>
     name \<in> {''spawn_agent'', ''list_agents'', ''send_agent_message'', ''wait_agents'', ''interrupt_agent''}"

definition tool_names :: "string list" where
  "tool_names = sort [''read'', ''bash'', ''edit'', ''write'', ''grep'', ''find'', ''ls'']"

definition valid_thinking_level :: "string \<Rightarrow> bool" where
  "valid_thinking_level level \<longleftrightarrow>
     level \<in> {''off'', ''none'', ''minimal'', ''low'', ''medium'', ''high'', ''xhigh'', ''max''}"

fun first_non_empty :: "string list \<Rightarrow> string" where
  "first_non_empty [] = []"
| "first_non_empty (v # vs) = (if trim_space v \<noteq> [] then v else first_non_empty vs)"

definition combine_instructions :: "string \<Rightarrow> string \<Rightarrow> string" where
  "combine_instructions user generated =
     (let u = trim_space user; g = trim_space generated
      in if u = [] then g else if g = [] then u else u @ [CHR 0x0A, CHR 0x0A] @ g)"

definition bounded_agent_result :: "string \<Rightarrow> string" where
  "bounded_agent_result value =
     (let v = trim_space value
      in if int (length v) \<le> 32768 then v
         else take 32768 v @ [CHR 0x0A] @ ''[agent result truncated]'')"

definition find_thread :: "thread list \<Rightarrow> string \<Rightarrow> thread option" where
  "find_thread ts i = find (\<lambda>t. t_id t = i) ts"

section \<open>Policy and limits\<close>

definition validate_spawn_policy :: "thread \<Rightarrow> subagent_settings \<Rightarrow> team_error option" where
  "validate_spawn_policy parent policy =
     first_error [
       reject (\<not> sa_enabled policy) (terr ''subagents are disabled'' []),
       reject (t_depth parent \<ge> sa_max_depth policy) (terr ''subagent depth limit reached'' [show_int (sa_max_depth policy)]),
       reject (is_subagent parent \<and>
           (case map_of (sa_profiles policy) (t_agent_profile parent) of
              None \<Rightarrow> True | Some profile \<Rightarrow> \<not> ap_can_spawn profile))
         (terr ''this subagent profile cannot spawn children'' [])]"

definition enforce_team_limits :: "thread list \<Rightarrow> string \<Rightarrow> subagent_settings \<Rightarrow> team_error option" where
  "enforce_team_limits team parent_id policy =
     (let children = length (filter (\<lambda>m. t_parent_id m = parent_id) team);
          running = length (filter (\<lambda>m. is_subagent m \<and> t_status m = ''running'') team)
      in first_error [
           reject (int children \<ge> sa_max_children policy)
             (terr ''parent already has the maximum children'' [show_int (sa_max_children policy)]),
           reject (int running \<ge> sa_max_concurrent policy)
             (terr ''team already has the maximum concurrent subagents'' [show_int (sa_max_concurrent policy)])])"

text \<open>The requested tools, checked one by one against the granted ones and those seen before.\<close>

fun grant_requested :: "string list \<Rightarrow> string list \<Rightarrow> string list \<Rightarrow> (team_error, string list) result" where
  "grant_requested granted seen [] = Inr []"
| "grant_requested granted seen (raw # raws) =
     (let name = trim_space raw
      in if name = [] \<or> name \<in> set seen then Inl (terr ''invalid or duplicate requested tool'' [name])
         else if name \<notin> set granted
         then Inl (terr ''requested tool is not granted by the parent and profile'' [name])
         else bind_result (grant_requested granted (name # seen) raws) (\<lambda>rest. Inr (name # rest)))"

text \<open>\<open>parent_tools\<close> are the keys of the parent runtime's tool map without the team tools.\<close>

definition narrow_agent_tools ::
  "thread \<Rightarrow> string list \<Rightarrow> agent_profile \<Rightarrow> string list option \<Rightarrow> (team_error, string list) result" where
  "narrow_agent_tools parent parent_tools profile requested =
     (if resource_kind parent = ''chat'' then
        (if override requested [] \<noteq> [] then Inl (terr ''standalone chat agents cannot use project tools'' [])
         else Inr [])
      else
        (let base = (case ap_tools profile of
                       None \<Rightarrow> sort parent_tools
                     | Some names \<Rightarrow> filter (\<lambda>n. n \<in> set parent_tools) names)
         in case requested of
              None \<Rightarrow> Inr base
            | Some names \<Rightarrow> grant_requested base [] names))"

section \<open>Spawning\<close>

record spawn_request =
  rq_parent_id :: string
  rq_name :: string
  rq_profile :: string
  rq_role :: string
  rq_task :: string
  rq_model :: string
  rq_thinking :: string
  rq_tools :: "string list option"

definition trim_request :: "spawn_request \<Rightarrow> spawn_request" where
  "trim_request r =
     r\<lparr>rq_name := trim_space (rq_name r), rq_task := trim_space (rq_task r),
       rq_profile := trim_space (rq_profile r), rq_role := trim_space (rq_role r),
       rq_model := trim_space (rq_model r), rq_thinking := trim_space (rq_thinking r)\<rparr>"

definition check_request :: "spawn_request \<Rightarrow> team_error option" where
  "check_request r =
     first_error [
       reject (rq_parent_id r = []) (terr ''parent agent id is required'' []),
       reject (\<not> valid_agent_name (rq_name r)) (terr ''agent name must be 1-64 letters, digits, dots, dashes, or underscores'' []),
       reject (rq_task r = [] \<or> int (length (rq_task r)) > 100000) (terr ''agent task must be between 1 and 100000 bytes'' []),
       reject (int (length (rq_role r)) > 256) (terr ''agent role must not exceed 256 bytes'' []),
       reject (rq_thinking r \<noteq> [] \<and> \<not> valid_thinking_level (rq_thinking r)) (terr ''subagent thinking level is invalid'' [])]"

text \<open>\<open>quote\<close> is \<open>fmt\<close>'s \<open>%q\<close> verb; \<open>windows\<close> the context window of each known model.\<close>

record spawn_env =
  se_quote :: "string \<Rightarrow> string"
  se_windows :: "string \<Rightarrow> i64 option"
  se_settings :: "string \<Rightarrow> (team_error, subagent_settings) result"
  se_tools :: "string \<Rightarrow> string list"
  se_refresh :: "string \<Rightarrow> team_error option"
  se_new_id :: "(team_error, string) result"
  se_create :: "team_error option"
  se_now :: nat
  se_prompt :: "team_error option"

definition child_agent_instructions :: "spawn_env \<Rightarrow> thread \<Rightarrow> spawn_request \<Rightarrow> string" where
  "child_agent_instructions E parent r =
     ''You are subagent '' @ se_quote E (rq_name r) @ '' ('' @ rq_profile r @ ''), a '' @
     (if rq_role r = [] then ''independent collaborator'' else rq_role r) @
     '' in conversation team '' @ se_quote E (team_root_id parent) @
     ''. Work on the assigned task, stay within inherited permissions, and communicate useful findings or blockers to your parent with send_agent_message. Do not claim work you have not verified.''"

definition new_child_thread ::
  "spawn_env \<Rightarrow> string \<Rightarrow> thread \<Rightarrow> spawn_request \<Rightarrow> agent_profile \<Rightarrow> string list \<Rightarrow> thread" where
  "new_child_thread E i parent r profile allowed =
     (let model = first_non_empty [rq_model r, ap_model profile, t_model parent]
      in blank_thread\<lparr>
           t_id := i, t_kind := resource_kind parent, t_settings_id := t_settings_id parent,
           t_parent_id := t_id parent, t_root_id := team_root_id parent,
           t_agent_name := rq_name r, t_agent_role := rq_role r, t_agent_profile := rq_profile r,
           t_agent_tools := allowed, t_depth := t_depth parent + 1,
           t_name := rq_name r, t_model := model, t_cwd := t_cwd parent,
           t_additional_folders := t_additional_folders parent,
           t_instructions := combine_instructions (ap_instructions profile) (child_agent_instructions E parent r),
           t_thinking_level := first_non_empty [rq_thinking r, ap_thinking profile, t_thinking_level parent],
           t_steering_mode := t_steering_mode parent, t_follow_up_mode := t_follow_up_mode parent,
           t_tools := filter (\<lambda>n. n \<in> set tool_names) allowed, t_status := ''idle'',
           t_usage := zero_usage\<lparr>context_window := (case se_windows E model of None \<Rightarrow> 0 | Some w \<Rightarrow> w)\<rparr>\<rparr>)"

text \<open>\<open>listTeamThreads\<close>: the root and the conversations of its team; a missing kind reads as project.\<close>

definition list_team_threads :: "thread list \<Rightarrow> string \<Rightarrow> thread list" where
  "list_team_threads ts root =
     map (\<lambda>t. if t_kind t = [] then t\<lparr>t_kind := ''project''\<rparr> else t)
       (filter (\<lambda>t. t_id t = root \<or> t_root_id t = root) ts)"

text \<open>The checks of \<open>SpawnAgent\<close> that need the parent and the policy, then those before them. The
  result is the request with its profile, the parent, the profile and the granted tools.\<close>

definition spawn_grant ::
  "spawn_env \<Rightarrow> spawn_request \<Rightarrow> thread list \<Rightarrow> thread \<Rightarrow> subagent_settings \<Rightarrow>
     (team_error, spawn_request \<times> thread \<times> agent_profile \<times> string list) result" where
  "spawn_grant E r ts parent policy =
     (case map_of (sa_profiles policy) (rq_profile r) of
        None \<Rightarrow> Inl (terr ''unknown subagent profile'' [rq_profile r])
      | Some profile \<Rightarrow>
         (case validate_spawn_policy parent policy of
            Some e \<Rightarrow> Inl e
          | None \<Rightarrow>
             (case narrow_agent_tools parent
                     (filter (\<lambda>n. \<not> is_team_tool n) (se_tools E (t_id parent))) profile (rq_tools r) of
                Inl e \<Rightarrow> Inl e
              | Inr allowed \<Rightarrow>
                 (case enforce_team_limits (list_team_threads ts (team_root_id parent)) (t_id parent) policy of
                    Some e \<Rightarrow> Inl e
                  | None \<Rightarrow> Inr (r, parent, profile, allowed)))))"

definition spawn_plan ::
  "spawn_env \<Rightarrow> spawn_request \<Rightarrow> thread list \<Rightarrow>
     (team_error, spawn_request \<times> thread \<times> agent_profile \<times> string list) result" where
  "spawn_plan E request ts =
     (let r = trim_request request in
      case check_request r of
        Some e \<Rightarrow> Inl e
      | None \<Rightarrow>
         (case find_thread ts (rq_parent_id r) of
            None \<Rightarrow> Inl (terr ''no rows'' [rq_parent_id r])
          | Some parent \<Rightarrow>
             (case se_refresh E (t_id parent) of
                Some e \<Rightarrow> Inl e
              | None \<Rightarrow>
                 bind_result (se_settings E (team_root_id parent))
                   (spawn_grant E (if rq_profile r = [] then r\<lparr>rq_profile := ''general''\<rparr> else r) ts parent))))"

text \<open>\<open>createResource\<close>: the store refuses an id it knows and stamps the times.\<close>

definition create_resource :: "spawn_env \<Rightarrow> thread \<Rightarrow> thread list \<Rightarrow> (team_error, thread) result" where
  "create_resource E t ts =
     (if \<not> valid_thread_id (t_id t) then Inl (terr ''invalid project id'' [t_id t])
      else if find_thread ts (t_id t) \<noteq> None then Inl (terr ''project already exists'' [t_id t])
      else case se_create E of
             Some e \<Rightarrow> Inl e
           | None \<Rightarrow> Inr (t\<lparr>t_created_at := se_now E, t_updated_at := se_now E\<rparr>))"

text \<open>\<open>SpawnAgent\<close>. The child is stored before it is prompted and stays when the prompt fails.\<close>

definition spawn_agent ::
  "spawn_env \<Rightarrow> spawn_request \<Rightarrow> thread list \<Rightarrow> (team_error, thread) result \<times> thread list" where
  "spawn_agent E request ts =
     (case spawn_plan E request ts of
        Inl e \<Rightarrow> (Inl e, ts)
      | Inr (r, parent, profile, allowed) \<Rightarrow>
         (case se_new_id E of
            Inl e \<Rightarrow> (Inl e, ts)
          | Inr i \<Rightarrow>
             (case create_resource E (new_child_thread E i parent r profile allowed) ts of
                Inl e \<Rightarrow> (Inl e, ts)
              | Inr child \<Rightarrow>
                 (case se_prompt E of
                    Some e \<Rightarrow> (Inl e, ts @ [child])
                  | None \<Rightarrow> (let running = child\<lparr>t_status := ''running''\<rparr> in (Inr running, ts @ [running]))))))"

text \<open>\<open>DeleteThread\<close> and \<open>DeleteAgent\<close>; \<open>busy\<close> is the runtime's running or finishing.\<close>

definition delete_thread :: "bool \<Rightarrow> string \<Rightarrow> thread list \<Rightarrow> team_error option \<times> thread list" where
  "delete_thread busy i ts =
     (if find_thread ts i = None then (Some (terr ''no rows'' [i]), ts)
      else if busy then (Some (terr ''cannot delete a running conversation'' []), ts)
      else if list_ex (\<lambda>t. t_parent_id t = i) ts
      then (Some (terr ''cannot delete a conversation while it has child agents'' []), ts)
      else (None, filter (\<lambda>t. t_id t \<noteq> i) ts))"

section \<open>Ancestry\<close>

text \<open>The loop of \<open>isAncestor\<close>. It stops at a missing member, and at a member that is its own parent;
  on a longer cycle it does not return, which is the value \<open>None\<close>.\<close>

partial_function (option) ancestor_loop :: "(string \<Rightarrow> thread option) \<Rightarrow> string \<Rightarrow> thread \<Rightarrow> bool option" where
  "ancestor_loop members ancestor current =
     (if t_parent_id current = [] then Some False
      else if t_parent_id current = ancestor then Some True
      else case members (t_parent_id current) of
             None \<Rightarrow> Some False
           | Some next_thread \<Rightarrow>
               if t_id next_thread = t_id current then Some False
               else ancestor_loop members ancestor next_thread)"

definition is_ancestor :: "string \<Rightarrow> string \<Rightarrow> (string \<Rightarrow> thread option) \<Rightarrow> bool option" where
  "is_ancestor ancestor descendant members =
     ancestor_loop members ancestor
       (case members descendant of None \<Rightarrow> blank_thread | Some t \<Rightarrow> t)"

text \<open>\<open>authorizeTeamRoute\<close>: \<open>None\<close> when a walk does not return. \<open>&&\<close> evaluates from the left and stops
  at the first false operand.\<close>

definition and_then :: "bool option \<Rightarrow> bool option \<Rightarrow> bool option" where
  "and_then a b = (case a of None \<Rightarrow> None | Some False \<Rightarrow> Some False | Some True \<Rightarrow> b)"

definition authorize_team_route ::
  "(string \<Rightarrow> (team_error, subagent_settings) result) \<Rightarrow> thread list \<Rightarrow> string \<Rightarrow> string \<Rightarrow>
     (team_error, thread \<times> thread) result option" where
  "authorize_team_route settings ts from_id to_id =
     (if from_id = [] \<or> to_id = [] then Some (Inl (terr ''source and target agent ids are required'' []))
      else if from_id = to_id then Some (Inl (terr ''an agent cannot target itself'' []))
      else case find_thread ts from_id of None \<Rightarrow> Some (Inl (terr ''no rows'' [from_id])) | Some from_t \<Rightarrow>
      (case find_thread ts to_id of None \<Rightarrow> Some (Inl (terr ''no rows'' [to_id])) | Some to_t \<Rightarrow>
       (let root = team_root_id from_t in
        if root \<noteq> team_root_id to_t then Some (Inl (terr ''cross-team agent communication is not allowed'' []))
        else case settings root of Inl e \<Rightarrow> Some (Inl e) | Inr policy \<Rightarrow>
        (let members = find_thread (list_team_threads ts root);
             refused = and_then (Some (t_id from_t \<noteq> root)) (and_then (Some (t_id to_t \<noteq> root))
               (and_then (map_option Not (is_ancestor (t_id from_t) (t_id to_t) members))
                 (and_then (map_option Not (is_ancestor (t_id to_t) (t_id from_t) members))
                   (Some (\<not> sa_allow_sibling_messages policy)))))
         in map_option (\<lambda>b. if b then Inl (terr ''sibling agent communication is disabled'' [])
                            else Inr (from_t, to_t)) refused))))"

definition delete_agent ::
  "(string \<Rightarrow> (team_error, subagent_settings) result) \<Rightarrow> bool \<Rightarrow> string \<Rightarrow> string \<Rightarrow> thread list \<Rightarrow>
     (team_error option \<times> thread list) option" where
  "delete_agent settings busy caller target ts =
     map_option (\<lambda>route. case route of
         Inl e \<Rightarrow> (Some e, ts)
       | Inr (from_t, to_t) \<Rightarrow>
           if \<not> is_subagent to_t then (Some (terr ''the team root cannot be deleted as an agent'' []), ts)
           else delete_thread busy (t_id to_t) ts)
       (authorize_team_route settings ts caller target)"

section \<open>Effective tools\<close>

definition narrow_local_tools :: "string list \<Rightarrow> string list \<Rightarrow> string list \<Rightarrow> string list" where
  "narrow_local_tools allowed local builtins =
     filter (\<lambda>n. \<not> (n \<in> set builtins \<and> n \<notin> set local)) allowed"

text \<open>The walk up the ancestry with the visited ids; the number counts down the safety limit of 128.\<close>

fun narrow_ancestry ::
  "nat \<Rightarrow> (string \<Rightarrow> (team_error, thread) result) \<Rightarrow> string list \<Rightarrow> thread \<Rightarrow> string list \<Rightarrow>
     (team_error, string list) result" where
  "narrow_ancestry left metadata visited current allowed =
     (if t_parent_id current = [] then Inr allowed
      else case left of
        0 \<Rightarrow> Inl (terr ''subagent ancestry exceeds safety limit'' [])
      | Suc left' \<Rightarrow>
         (if t_parent_id current \<in> set visited then Inl (terr ''cycle in subagent ancestry'' [])
          else case metadata (t_parent_id current) of
            Inl e \<Rightarrow> Inl e
          | Inr parent \<Rightarrow>
              narrow_ancestry left' metadata (t_parent_id current # visited) parent
                (narrow_local_tools
                  (if is_subagent parent then filter (\<lambda>n. n \<in> set (t_agent_tools parent)) allowed else allowed)
                  (t_tools parent) tool_names)))"

declare narrow_ancestry.simps [simp del]

definition effective_subagent_tools ::
  "(string \<Rightarrow> (team_error, thread) result) \<Rightarrow> thread \<Rightarrow> (team_error, string list) result" where
  "effective_subagent_tools metadata resource =
     bind_result
       (narrow_ancestry 128 metadata [t_id resource] resource
          (narrow_local_tools (t_agent_tools resource) (t_tools resource) tool_names))
       (\<lambda>allowed. Inr (filter (\<lambda>n. n \<in> set allowed) (t_agent_tools resource)))"

section \<open>Mailboxes and completion\<close>

text \<open>The mailbox part of \<open>SendAgentMessage\<close>, and \<open>drainAgentMailbox\<close>.\<close>

type_synonym 'm mailboxes = "string \<Rightarrow> 'm list"

definition post_message :: "string \<Rightarrow> 'm \<Rightarrow> 'm mailboxes \<Rightarrow> 'm mailboxes" where
  "post_message i m boxes = boxes(i := boxes i @ [m])"

definition drain_mailbox :: "string \<Rightarrow> 'm mailboxes \<Rightarrow> 'm list \<times> 'm mailboxes" where
  "drain_mailbox i boxes = (boxes i, boxes(i := []))"

text \<open>\<open>reportAgentCompletion\<close>'s summary for the parent. \<open>err\<close> is the run's error and whether it is a
  cancellation.\<close>

definition completion_summary :: "thread \<Rightarrow> string \<Rightarrow> (string \<times> bool) option \<Rightarrow> string" where
  "completion_summary child result err =
     (let bounded = bounded_agent_result result;
          blank_line = [CHR 0x0A, CHR 0x0A]
      in ''Agent '' @ first_non_empty [t_agent_name child, t_id child] @ '' ('' @ t_id child @ '') '' @
         t_status child @ ''.'' @
         (if bounded \<noteq> [] then blank_line @ bounded else []) @
         (case err of
            None \<Rightarrow> []
          | Some (text, cancelled) \<Rightarrow>
              if text \<noteq> [] \<and> \<not> cancelled then blank_line @ ''Error: '' @ text else []))"

text \<open>The parent gets the summary as a message, unless the settings cannot be read or say otherwise.\<close>

definition auto_report ::
  "(string \<Rightarrow> (team_error, subagent_settings) result) \<Rightarrow> thread \<Rightarrow> string \<Rightarrow> (string \<times> bool) option \<Rightarrow>
     (string \<times> string) option" where
  "auto_report settings child result err =
     (case settings (team_root_id child) of
        Inl e \<Rightarrow> None
      | Inr policy \<Rightarrow>
          if \<not> sa_auto_report policy \<or> t_parent_id child = [] then None
          else Some (t_parent_id child, completion_summary child result err))"

end
