(* ===== verification/TeamProps.thy ===== *)
theory TeamProps
  imports Team
begin

text \<open>
  Properties of agent teams: the conversations form a forest within the limits of the settings,
  whatever is spawned, deleted and changed; on such a forest the ancestry test returns and is
  right; a child's tools stay within every ancestor's.
\<close>

section \<open>Histories of a team\<close>

text \<open>What other parts of the daemon change in a stored conversation: its status, local tools, name,
  model and so on, but not the fields that place it in its team.\<close>

definition same_place :: "thread \<Rightarrow> thread \<Rightarrow> bool" where
  "same_place t t' \<longleftrightarrow>
     t_id t' = t_id t \<and> t_parent_id t' = t_parent_id t \<and> t_root_id t' = t_root_id t \<and>
     t_depth t' = t_depth t \<and> t_agent_tools t' = t_agent_tools t \<and> t_agent_profile t' = t_agent_profile t"

definition roots_only :: "thread list \<Rightarrow> bool" where
  "roots_only ts \<longleftrightarrow> distinct (map t_id ts) \<and>
     (\<forall>t \<in> set ts. t_id t \<noteq> [] \<and> t_parent_id t = [] \<and> t_root_id t = [] \<and> t_depth t = 0)"

inductive team_history ::
  "(string \<Rightarrow> (team_error, subagent_settings) result) \<Rightarrow> thread list \<Rightarrow> thread list \<Rightarrow> bool"
  for S :: "string \<Rightarrow> (team_error, subagent_settings) result" and start :: "thread list" where
  start: "team_history S start start"
| spawn: "team_history S start ts \<Longrightarrow> se_settings E = S \<Longrightarrow> team_history S start (snd (spawn_agent E r ts))"
| root: "team_history S start ts \<Longrightarrow> roots_only [t] \<Longrightarrow> find_thread ts (t_id t) = None \<Longrightarrow>
    team_history S start (ts @ [t])"
| delete: "team_history S start ts \<Longrightarrow> team_history S start (snd (delete_thread busy i ts))"
| change: "team_history S start ts \<Longrightarrow> list_all2 same_place ts ts' \<Longrightarrow> team_history S start ts'"

definition parent_rel :: "thread list \<Rightarrow> (string \<times> string) set" where
  "parent_rel ts = {(t_parent_id t, t_id t) | t. t \<in> set ts \<and> is_subagent t}"

section \<open>The forest\<close>

definition placed :: "(string \<Rightarrow> (team_error, subagent_settings) result) \<Rightarrow> thread list \<Rightarrow> thread \<Rightarrow> bool" where
  "placed S ts t \<longleftrightarrow> t_id t \<noteq> [] \<and>
     (if is_subagent t
      then (\<exists>p \<in> set ts. t_id p = t_parent_id t \<and> t_depth t = t_depth p + 1 \<and> t_root_id t = team_root_id p) \<and>
           (\<exists>policy. S (t_root_id t) = Inr policy \<and> t_depth t \<le> sa_max_depth policy)
      else t_depth t = 0 \<and> t_root_id t = [])"

definition children :: "string \<Rightarrow> thread list \<Rightarrow> thread list" where
  "children i ts = filter (\<lambda>t. t_parent_id t = i) ts"

definition forest :: "(string \<Rightarrow> (team_error, subagent_settings) result) \<Rightarrow> thread list \<Rightarrow> bool" where
  "forest S ts \<longleftrightarrow> distinct (map t_id ts) \<and> (\<forall>t \<in> set ts. placed S ts t) \<and>
     (\<forall>p \<in> set ts. children (t_id p) ts = [] \<or>
        (\<exists>policy. S (team_root_id p) = Inr policy \<and> int (length (children (t_id p) ts)) \<le> sa_max_children policy))"

lemma roots_forest: "roots_only ts \<Longrightarrow> forest S ts"
  by (auto simp: roots_only_def forest_def placed_def is_subagent_def children_def filter_empty_conv)

lemma find_thread_Some: "find_thread ts i = Some t \<Longrightarrow> t \<in> set ts \<and> t_id t = i"
  by (auto simp: find_thread_def find_Some_iff)

lemma find_thread_None: "find_thread ts i = None \<longleftrightarrow> i \<notin> t_id ` set ts"
  by (auto simp: find_thread_def find_None_iff)

lemma find_thread_mem: "distinct (map t_id ts) \<Longrightarrow> t \<in> set ts \<Longrightarrow> find_thread ts (t_id t) = Some t"
  by (induction ts) (auto simp: find_thread_def)

text \<open>What a spawn that stores a child has checked, and where the child is placed.\<close>

definition child_of :: "thread \<Rightarrow> thread \<Rightarrow> bool" where
  "child_of p c \<longleftrightarrow> t_parent_id c = t_id p \<and> t_root_id c = team_root_id p \<and> t_depth c = t_depth p + 1"

lemma spawn_grant_ok:
  assumes "spawn_grant E r ts p policy = Inr (r', parent, profile, allowed)"
  shows "r' = r \<and> parent = p \<and> validate_spawn_policy p policy = None \<and>
    map_of (sa_profiles policy) (rq_profile r) = Some profile \<and>
    enforce_team_limits (list_team_threads ts (team_root_id p)) (t_id p) policy = None \<and>
    narrow_agent_tools p (filter (\<lambda>n. \<not> is_team_tool n) (se_tools E (t_id p))) profile (rq_tools r)
      = Inr allowed"
proof -
  obtain pr where pr: "map_of (sa_profiles policy) (rq_profile r) = Some pr"
    using assms by (cases "map_of (sa_profiles policy) (rq_profile r)") (simp_all add: spawn_grant_def)
  have v: "validate_spawn_policy p policy = None"
    using assms pr by (cases "validate_spawn_policy p policy") (simp_all add: spawn_grant_def)
  obtain al where al: "narrow_agent_tools p (filter (\<lambda>n. \<not> is_team_tool n) (se_tools E (t_id p))) pr (rq_tools r) = Inr al"
    using assms pr v
    by (cases "narrow_agent_tools p (filter (\<lambda>n. \<not> is_team_tool n) (se_tools E (t_id p))) pr (rq_tools r)")
       (simp_all add: spawn_grant_def)
  have l: "enforce_team_limits (list_team_threads ts (team_root_id p)) (t_id p) policy = None"
    using assms pr v al
    by (cases "enforce_team_limits (list_team_threads ts (team_root_id p)) (t_id p) policy")
       (simp_all add: spawn_grant_def)
  show ?thesis using assms pr v al l by (simp add: spawn_grant_def)
qed

lemma spawn_plan_ok:
  assumes "spawn_plan E request ts = Inr (r, parent, profile, allowed)"
  shows "find_thread ts (rq_parent_id request) = Some parent \<and>
    (\<exists>policy. se_settings E (team_root_id parent) = Inr policy \<and>
       validate_spawn_policy parent policy = None \<and>
       map_of (sa_profiles policy) (rq_profile r) = Some profile \<and>
       enforce_team_limits (list_team_threads ts (team_root_id parent)) (t_id parent) policy = None \<and>
       narrow_agent_tools parent (filter (\<lambda>n. \<not> is_team_tool n) (se_tools E (t_id parent))) profile (rq_tools r)
         = Inr allowed)"
proof -
  define rt where "rt = trim_request request"
  have fields: "rq_parent_id rt = rq_parent_id request" by (simp add: rt_def trim_request_def)
  obtain p where p: "find_thread ts (rq_parent_id request) = Some p"
    "bind_result (se_settings E (team_root_id p))
       (spawn_grant E (if rq_profile rt = [] then rt\<lparr>rq_profile := ''general''\<rparr> else rt) ts p) =
     Inr (r, parent, profile, allowed)"
    using assms unfolding spawn_plan_def Let_def rt_def [symmetric] fields
    by (auto split: option.split_asm)
  then obtain policy r0 where "se_settings E (team_root_id p) = Inr policy"
    "spawn_grant E r0 ts p policy = Inr (r, parent, profile, allowed)"
    by (auto simp: bind_result_Inr_iff)
  with p(1) spawn_grant_ok [OF this(2)] show ?thesis by auto
qed

lemma status_same: "t\<lparr>t_created_at := a, t_updated_at := b, t_status := t_status t\<rparr> = t\<lparr>t_created_at := a, t_updated_at := b\<rparr>"
  by (cases t) simp

lemma spawn_cases:
  obtains (unchanged) "snd (spawn_agent E request ts) = ts"
  | (child) r parent profile allowed i status where
      "spawn_plan E request ts = Inr (r, parent, profile, allowed)"
      "i \<noteq> []" "find_thread ts i = None"
      "snd (spawn_agent E request ts) = ts @ [(new_child_thread E i parent r profile allowed)
         \<lparr>t_created_at := se_now E, t_updated_at := se_now E, t_status := status\<rparr>]"
proof (cases "snd (spawn_agent E request ts) = ts")
  case False
  obtain r parent profile allowed i c where
    p: "spawn_plan E request ts = Inr (r, parent, profile, allowed)" and
    c: "create_resource E (new_child_thread E i parent r profile allowed) ts = Inr c"
    and s: "snd (spawn_agent E request ts) = ts @ [c] \<or> snd (spawn_agent E request ts) = ts @ [c\<lparr>t_status := ''running''\<rparr>]"
    using False by (auto simp: spawn_agent_def Let_def split: sum.splits option.splits prod.splits)
  have i: "t_id (new_child_thread E i parent r profile allowed) = i"
    by (simp add: new_child_thread_def Let_def)
  from c have "valid_thread_id i" "find_thread ts i = None"
    and c': "c = (new_child_thread E i parent r profile allowed)\<lparr>t_created_at := se_now E, t_updated_at := se_now E\<rparr>"
    unfolding create_resource_def i by (auto split: if_splits option.splits)
  moreover have "i \<noteq> []" using \<open>valid_thread_id i\<close> by (auto simp: valid_thread_id_def name_pattern_def)
  moreover have "\<exists>st. snd (spawn_agent E request ts) = ts @ [(new_child_thread E i parent r profile allowed)
         \<lparr>t_created_at := se_now E, t_updated_at := se_now E, t_status := st\<rparr>]"
    using s
  proof
    assume "snd (spawn_agent E request ts) = ts @ [c]"
    then show ?thesis by (intro exI [of _ "t_status c"]) (simp add: c' status_same)
  next
    assume "snd (spawn_agent E request ts) = ts @ [c\<lparr>t_status := ''running''\<rparr>]"
    then show ?thesis by (intro exI [of _ "''running''"]) (simp add: c')
  qed
  ultimately show thesis using p child by metis
qed (rule unchanged)

lemma length_children_team:
  assumes "\<forall>t \<in> set ts. t_parent_id t = i \<longrightarrow> t_root_id t = root"
  shows "length (filter (\<lambda>m. t_parent_id m = i) (list_team_threads ts root)) = length (children i ts)"
  using assms unfolding list_team_threads_def children_def
  by (induction ts) auto

lemma forest_child_root:
  assumes "forest S ts" and "p \<in> set ts" and "t \<in> set ts" and "t_parent_id t = t_id p"
  shows "t_root_id t = team_root_id p"
proof -
  have "t_id p \<noteq> []" using assms(1,2) by (auto simp: forest_def placed_def)
  then have "is_subagent t" using assms(4) by (simp add: is_subagent_def)
  moreover have "placed S ts t" using assms(1,3) by (simp add: forest_def)
  ultimately obtain q where "q \<in> set ts" "t_id q = t_id p" "t_root_id t = team_root_id q"
    using assms(4) by (auto simp: placed_def)
  moreover have "inj_on t_id (set ts)" using assms(1) by (simp add: forest_def distinct_map)
  ultimately show ?thesis using assms(2) by (auto dest: inj_onD)
qed

lemma placed_other:
  assumes "placed S ts t" and "\<forall>p \<in> set ts. t_id p = t_parent_id t \<longrightarrow> p \<in> set us"
  shows "placed S us t"
proof (cases "is_subagent t")
  case True
  with assms(1) obtain p where "p \<in> set ts" "t_id p = t_parent_id t" "t_depth t = t_depth p + 1"
    "t_root_id t = team_root_id p" "\<exists>policy. S (t_root_id t) = Inr policy \<and> t_depth t \<le> sa_max_depth policy"
    by (auto simp: placed_def)
  with True assms show ?thesis by (auto simp: placed_def intro!: bexI [of _ p])
next
  case False
  with assms(1) show ?thesis by (simp add: placed_def)
qed

lemma placed_more: "placed S ts t \<Longrightarrow> set ts \<subseteq> set us \<Longrightarrow> placed S us t"
  by (rule placed_other) auto

lemma length_children_filter: "length (children i (filter P ts)) \<le> length (children i ts)"
  unfolding children_def by (induction ts) auto

lemma team_root_id_child: "child_of p c \<Longrightarrow> team_root_id p \<noteq> [] \<Longrightarrow> team_root_id c = team_root_id p"
  by (simp add: child_of_def team_root_id_def)

lemma forest_root_neq_Nil: "forest S ts \<Longrightarrow> p \<in> set ts \<Longrightarrow> team_root_id p \<noteq> []"
  by (auto simp: forest_def placed_def team_root_id_def)

lemma forest_add:
  assumes "forest S ts" and "p \<in> set ts" and "child_of p c" and "t_id c \<noteq> []" and "find_thread ts (t_id c) = None"
    and "S (team_root_id p) = Inr policy" and "t_depth p < sa_max_depth policy"
    and "int (length (children (t_id p) ts)) < sa_max_children policy"
  shows "forest S (ts @ [c])"
proof -
  have ids: "distinct (map t_id (ts @ [c]))"
    using assms(1,5) by (auto simp: forest_def find_thread_None)
  have pid: "t_id p \<noteq> []" using assms(1,2) by (auto simp: forest_def placed_def)
  have c: "placed S (ts @ [c]) c"
    using assms(2,3,4,6,7) pid by (auto simp: placed_def child_of_def is_subagent_def)
  have no_kids: "children (t_id c) ts = []"
  proof -
    have "t_parent_id t \<noteq> t_id c" if "t \<in> set ts" for t
    proof (cases "is_subagent t")
      case True
      with that assms(1) have "t_parent_id t \<in> t_id ` set ts"
        by (force simp: forest_def placed_def)
      with assms(5) show ?thesis by (auto simp: find_thread_None)
    next
      case False
      with assms(4) show ?thesis by (simp add: is_subagent_def)
    qed
    then show ?thesis by (simp add: children_def filter_empty_conv)
  qed
  have "children (t_id q) (ts @ [c]) = [] \<or>
      (\<exists>policy. S (team_root_id q) = Inr policy \<and> int (length (children (t_id q) (ts @ [c]))) \<le> sa_max_children policy)"
    if q: "q \<in> set (ts @ [c])" for q
  proof (cases "q = c")
    case True
    have "t_id p \<noteq> t_id c" using assms(2,5) by (metis find_thread_None imageI)
    with True no_kids assms(3) show ?thesis by (simp add: children_def child_of_def)
  next
    case False
    then have q: "q \<in> set ts" using q by simp
    show ?thesis
    proof (cases "t_id q = t_id p")
      case True
      then have "q = p" using q assms(1,2) by (auto simp: forest_def distinct_map dest: inj_onD)
      with assms(3,6,8) show ?thesis by (simp add: children_def child_of_def)
    next
      case False
      with q assms(1,3) show ?thesis by (auto simp: forest_def children_def child_of_def)
    qed
  qed
  moreover have "\<forall>t \<in> set (ts @ [c]). placed S (ts @ [c]) t"
    using assms(1) c by (auto simp: forest_def intro: placed_more)
  ultimately show ?thesis using ids by (auto simp: forest_def)
qed

lemma forest_spawn:
  assumes "forest S ts" and "se_settings E = S"
  shows "forest S (snd (spawn_agent E request ts))"
proof (cases rule: spawn_cases [of E request ts])
  case unchanged
  with assms show ?thesis by simp
next
  case (child r parent profile allowed i status)
  let ?c = "(new_child_thread E i parent r profile allowed)
         \<lparr>t_created_at := se_now E, t_updated_at := se_now E, t_status := status\<rparr>"
  from spawn_plan_ok [OF child(1)] assms(2) obtain policy where
    parent: "find_thread ts (rq_parent_id request) = Some parent" and policy: "S (team_root_id parent) = Inr policy"
    and depth: "validate_spawn_policy parent policy = None"
    and limits: "enforce_team_limits (list_team_threads ts (team_root_id parent)) (t_id parent) policy = None"
    by auto
  have p: "parent \<in> set ts" using parent by (simp add: find_thread_Some)
  have "\<forall>t \<in> set ts. t_parent_id t = t_id parent \<longrightarrow> t_root_id t = team_root_id parent"
    using forest_child_root [OF assms(1) p] by blast
  from limits have "int (length (children (t_id parent) ts)) < sa_max_children policy"
    by (simp add: enforce_team_limits_def length_children_team [OF \<open>\<forall>t \<in> set ts. _ t\<close>])
  moreover have "t_depth parent < sa_max_depth policy"
    using depth by (simp add: validate_spawn_policy_def)
  moreover have "child_of parent ?c" "t_id ?c = i"
    by (simp_all add: child_of_def new_child_thread_def Let_def)
  ultimately show ?thesis
    unfolding child(4) using assms(1) p policy child(2,3) by (intro forest_add) auto
qed

lemma forest_delete:
  assumes "forest S ts"
  shows "forest S (snd (delete_thread busy i ts))"
proof (cases "snd (delete_thread busy i ts) = ts")
  case False
  then have no_kids: "\<forall>t \<in> set ts. t_parent_id t \<noteq> i"
    and del: "snd (delete_thread busy i ts) = filter (\<lambda>t. t_id t \<noteq> i) ts"
    by (auto simp: delete_thread_def list_ex_iff split: if_splits)
  let ?ts = "filter (\<lambda>t. t_id t \<noteq> i) ts"
  have "distinct (map t_id ?ts)" using assms by (simp add: forest_def distinct_map_filter)
  moreover have "placed S ?ts t" if "t \<in> set ?ts" for t
    by (rule placed_other [where ts = ts]) (use that assms no_kids in \<open>auto simp: forest_def\<close>)
  moreover have "children (t_id p) ?ts = [] \<or> (\<exists>policy. S (team_root_id p) = Inr policy \<and>
      int (length (children (t_id p) ?ts)) \<le> sa_max_children policy)" if p: "p \<in> set ?ts" for p
  proof (cases "children (t_id p) ts = []")
    case True
    with length_children_filter [of "t_id p" "\<lambda>t. t_id t \<noteq> i" ts] show ?thesis by simp
  next
    case False
    with p assms obtain policy where "S (team_root_id p) = Inr policy"
      "int (length (children (t_id p) ts)) \<le> sa_max_children policy"
      by (auto simp: forest_def)
    with length_children_filter [of "t_id p" "\<lambda>t. t_id t \<noteq> i" ts] show ?thesis by simp
  qed
  ultimately show ?thesis by (simp add: del forest_def)
qed (use assms in simp)

lemma same_place_maps:
  assumes "list_all2 same_place ts ts'"
  shows "map t_id ts' = map t_id ts" and "length (children i ts') = length (children i ts)"
    and "t' \<in> set ts' \<Longrightarrow> \<exists>t \<in> set ts. same_place t t'"
    and "t \<in> set ts \<Longrightarrow> \<exists>t' \<in> set ts'. same_place t t'"
  using assms by (induction) (auto simp: same_place_def children_def)

lemma forest_change:
  assumes "forest S ts" and "list_all2 same_place ts ts'"
  shows "forest S ts'"
proof -
  note maps = same_place_maps [OF assms(2)]
  have "placed S ts' t'" if t': "t' \<in> set ts'" for t'
  proof -
    obtain t where t: "t \<in> set ts" "same_place t t'" using maps(3) [OF t'] by blast
    then have pl: "placed S ts t" using assms(1) by (simp add: forest_def)
    show ?thesis
    proof (cases "is_subagent t")
      case True
      with pl obtain p where p: "p \<in> set ts" "t_id p = t_parent_id t" "t_depth t = t_depth p + 1"
        "t_root_id t = team_root_id p" by (auto simp: placed_def)
      obtain p' where "p' \<in> set ts'" "same_place p p'" using maps(4) [OF p(1)] by blast
      with p t(2) True pl show ?thesis
        by (auto simp: placed_def same_place_def is_subagent_def team_root_id_def intro!: bexI [of _ p'])
    next
      case False
      with pl t(2) show ?thesis by (simp add: placed_def same_place_def is_subagent_def)
    qed
  qed
  moreover have "children (t_id p') ts' = [] \<or> (\<exists>policy. S (team_root_id p') = Inr policy \<and>
      int (length (children (t_id p') ts')) \<le> sa_max_children policy)" if mem: "p' \<in> set ts'" for p'
  proof -
    obtain p where p: "p \<in> set ts" "same_place p p'" using maps(3) [OF mem] by blast
    then have "t_id p' = t_id p" "team_root_id p' = team_root_id p"
      by (simp_all add: same_place_def team_root_id_def)
    with assms(1) p(1) maps(2) [of "t_id p"] show ?thesis
      by (metis (no_types, lifting) forest_def length_0_conv)
  qed
  ultimately show ?thesis using assms(1) maps(1) by (simp add: forest_def)
qed

lemma forest_root:
  assumes "forest S ts" and "roots_only [t]" and "find_thread ts (t_id t) = None"
  shows "forest S (ts @ [t])"
proof -
  have no_kids: "t_parent_id q \<noteq> t_id t" if "q \<in> set ts" for q
  proof (cases "is_subagent q")
    case True
    with that assms(1) have "t_parent_id q \<in> t_id ` set ts" by (force simp: forest_def placed_def)
    with assms(3) show ?thesis by (auto simp: find_thread_None)
  next
    case False
    with assms(2) show ?thesis by (auto simp: is_subagent_def roots_only_def)
  qed
  have t: "t_parent_id t = []" "t_root_id t = []" "t_depth t = 0" "t_id t \<noteq> []"
    using assms(2) by (simp_all add: roots_only_def)
  then have "placed S (ts @ [t]) t" by (simp add: placed_def is_subagent_def)
  moreover have "children (t_id t) (ts @ [t]) = []"
    using no_kids t by (simp add: children_def filter_empty_conv)
  moreover have "children (t_id p) (ts @ [t]) = children (t_id p) ts" if "p \<in> set ts" for p
    using that assms(1) t by (auto simp: children_def forest_def placed_def)
  ultimately show ?thesis
    using assms(1,3) by (auto simp: forest_def find_thread_None intro: placed_more)
qed

lemma history_forest:
  assumes "team_history S start ts" and "roots_only start"
  shows "forest S ts"
  using assms(1)
proof induction
  case start
  with assms(2) show ?case by (rule roots_forest)
qed (auto intro: forest_spawn forest_root forest_delete forest_change)



section \<open>Ancestry\<close>

lemma forest_placed: "forest S ts \<Longrightarrow> t \<in> set ts \<Longrightarrow> placed S ts t"
  by (simp add: forest_def)

lemma forest_distinct: "forest S ts \<Longrightarrow> distinct (map t_id ts)"
  by (simp add: forest_def)

lemma same_id: "distinct (map t_id ts) \<Longrightarrow> t \<in> set ts \<Longrightarrow> u \<in> set ts \<Longrightarrow> t_id t = t_id u \<Longrightarrow> t = u"
  by (auto simp: distinct_map dest: inj_onD)

lemma forest_depth_nonneg:
  assumes "forest S ts" and "t \<in> set ts"
  shows "0 \<le> t_depth t"
proof -
  let ?m = "Min (t_depth ` set ts)"
  have "?m \<in> t_depth ` set ts" using assms(2) by (intro Min_in) auto
  then obtain u where u: "u \<in> set ts" "t_depth u = ?m" by (metis imageE)
  have least: "?m \<le> t_depth q" if "q \<in> set ts" for q using that by simp
  have "\<not> is_subagent u"
  proof
    assume "is_subagent u"
    with forest_placed [OF assms(1) u(1)] obtain p where "p \<in> set ts" "t_depth u = t_depth p + 1"
      by (auto simp: placed_def)
    with least [of p] u(2) show False by linarith
  qed
  with u forest_placed [OF assms(1) u(1)] have "?m = 0" by (simp add: placed_def)
  with least [OF assms(2)] show ?thesis by simp
qed

lemma forest_parent:
  assumes "forest S ts" and "t \<in> set ts" and "is_subagent t"
  obtains p where "p \<in> set ts" "t_id p = t_parent_id t" "t_depth t = t_depth p + 1" "team_root_id p = team_root_id t"
proof -
  obtain p where p: "p \<in> set ts" "t_id p = t_parent_id t" "t_depth t = t_depth p + 1" "t_root_id t = team_root_id p"
    using forest_placed [OF assms(1,2)] assms(3) by (auto simp: placed_def)
  moreover have "team_root_id p \<noteq> []" using forest_root_neq_Nil [OF assms(1) p(1)] .
  ultimately show thesis using that by (simp add: team_root_id_def)
qed

lemma parent_rel_id: "(a, b) \<in> parent_rel ts \<Longrightarrow> \<exists>t \<in> set ts. t_id t = b \<and> is_subagent t \<and> t_parent_id t = a"
  by (auto simp: parent_rel_def)

lemma parent_rel_step:
  assumes "distinct (map t_id ts)" and "t \<in> set ts" and "is_subagent t"
  shows "(a, t_id t) \<in> (parent_rel ts)\<^sup>+ \<longleftrightarrow> a = t_parent_id t \<or> (a, t_parent_id t) \<in> (parent_rel ts)\<^sup>+"
proof -
  have edge: "(t_parent_id t, t_id t) \<in> parent_rel ts" using assms(2,3) by (auto simp: parent_rel_def)
  have unique: "b = t_parent_id t" if "(b, t_id t) \<in> parent_rel ts" for b
    using parent_rel_id [OF that] same_id [OF assms(1) _ assms(2)] by blast
  show ?thesis
  proof
    assume "(a, t_id t) \<in> (parent_rel ts)\<^sup>+"
    then show "a = t_parent_id t \<or> (a, t_parent_id t) \<in> (parent_rel ts)\<^sup>+"
      by (cases rule: trancl.cases) (auto dest: unique)
  qed (use edge in \<open>auto intro: trancl_into_trancl\<close>)
qed

lemma parent_rel_root:
  assumes "distinct (map t_id ts)" and "t \<in> set ts" and "\<not> is_subagent t"
  shows "(a, t_id t) \<notin> (parent_rel ts)\<^sup>+"
proof
  assume "(a, t_id t) \<in> (parent_rel ts)\<^sup>+"
  then obtain b where "(b, t_id t) \<in> parent_rel ts" by (meson tranclE)
  then obtain u where "u \<in> set ts" "t_id u = t_id t" "is_subagent u" using parent_rel_id by blast
  with assms(3) same_id [OF assms(1) _ assms(2)] show False by blast
qed

text \<open>The members of a team as \<open>listTeamThreads\<close> shows them: the same places.\<close>

lemma find_map_filter:
  assumes "\<And>t. f (g t) = f t"
  shows "find (\<lambda>t. f t = i) (map g (filter P ts)) = map_option g (find (\<lambda>t. f t = i \<and> P t) ts)"
  using assms by (induction ts) auto

lemma find_team_thread:
  assumes "distinct (map t_id ts)" and "p \<in> set ts" and "team_root_id p = root"
  obtains p' where "find_thread (list_team_threads ts root) (t_id p) = Some p'"
    "t_id p' = t_id p" "t_parent_id p' = t_parent_id p"
proof -
  have P: "t_id p = root \<or> t_root_id p = root" using assms(3) by (auto simp: team_root_id_def split: if_splits)
  have "find (\<lambda>t. t_id t = t_id p \<and> (t_id t = root \<or> t_root_id t = root)) ts = Some p"
    using assms(1,2) P by (induction ts) auto
  then have "find_thread (list_team_threads ts root) (t_id p) =
      Some (if t_kind p = [] then p\<lparr>t_kind := ''project''\<rparr> else p)"
    unfolding find_thread_def list_team_threads_def by (subst find_map_filter) auto
  then show thesis by (rule that) auto
qed

lemma ancestor_loop_forest:
  assumes "forest S ts" and "t \<in> set ts" and "team_root_id t = root"
    and "t_id u = t_id t" and "t_parent_id u = t_parent_id t"
  shows "ancestor_loop (find_thread (list_team_threads ts root)) a u = Some ((a, t_id t) \<in> (parent_rel ts)\<^sup>+)"
  using assms(2-)
proof (induction "nat (t_depth t)" arbitrary: t u)
  case 0
  have root: "\<not> is_subagent t"
  proof
    assume "is_subagent t"
    then obtain p where "p \<in> set ts" "t_depth t = t_depth p + 1"
      using forest_parent [OF assms(1) 0(2)] by blast
    with forest_depth_nonneg [OF assms(1), of p] 0(1) show False by simp
  qed
  have "(a, t_id t) \<notin> (parent_rel ts)\<^sup>+"
    using parent_rel_root [OF forest_distinct [OF assms(1)] 0(2) root] .
  moreover have "t_parent_id u = []" using root 0(5) by (simp add: is_subagent_def)
  ultimately show ?case by (subst ancestor_loop.simps) simp
next
  case (Suc n)
  have ids: "distinct (map t_id ts)" using assms(1) by (rule forest_distinct)
  have sub: "is_subagent t"
    using Suc.hyps(2) forest_placed [OF assms(1) Suc.prems(1)] by (auto simp: placed_def split: if_splits)
  obtain p where p: "p \<in> set ts" "t_id p = t_parent_id t" "t_depth t = t_depth p + 1" "team_root_id p = root"
    using forest_parent [OF assms(1) Suc.prems(1) sub] Suc.prems(2) by metis
  obtain p' where p': "find_thread (list_team_threads ts root) (t_id p) = Some p'"
    "t_id p' = t_id p" "t_parent_id p' = t_parent_id p"
    using find_team_thread [OF ids p(1,4)] by metis
  have neq: "t_id p \<noteq> t_id t" using p(3) same_id [OF ids p(1) Suc.prems(1)] by force
  have "n = nat (t_depth p)" using Suc.hyps(2) p(3) by simp
  then have rest: "ancestor_loop (find_thread (list_team_threads ts root)) a p' = Some ((a, t_id p) \<in> (parent_rel ts)\<^sup>+)"
    using Suc.hyps(1) p(1,4) p'(2,3) by blast
  have "t_parent_id u = t_id p" "t_id p \<noteq> []"
    using p(2) Suc.prems(4) sub by (simp_all add: is_subagent_def)
  then show ?case
    using parent_rel_step [OF ids Suc.prems(1) sub, of a] neq rest p(2) p' Suc.prems(3)
    by (subst ancestor_loop.simps) (auto)
qed

lemma is_ancestor_forest:
  assumes "forest S ts" and "d \<in> set ts" and "team_root_id d = root"
  shows "is_ancestor a (t_id d) (find_thread (list_team_threads ts root)) = Some ((a, t_id d) \<in> (parent_rel ts)\<^sup>+)"
proof -
  have ids: "distinct (map t_id ts)" using assms(1) by (rule forest_distinct)
  obtain d' where "find_thread (list_team_threads ts root) (t_id d) = Some d'" "t_id d' = t_id d" "t_parent_id d' = t_parent_id d"
    using find_team_thread [OF ids assms(2,3)] by metis
  with ancestor_loop_forest [OF assms, of d'] show ?thesis by (simp add: is_ancestor_def)
qed


text \<open>Two agents of a team may talk when one is the root, one is an ancestor of the other, or the
  settings of the team allow messages between siblings.\<close>

definition may_talk :: "thread list \<Rightarrow> subagent_settings \<Rightarrow> thread \<Rightarrow> thread \<Rightarrow> bool" where
  "may_talk ts policy x y \<longleftrightarrow>
     t_id x = team_root_id x \<or> t_id y = team_root_id x \<or>
     (t_id x, t_id y) \<in> (parent_rel ts)\<^sup>+ \<or> (t_id y, t_id x) \<in> (parent_rel ts)\<^sup>+ \<or>
     sa_allow_sibling_messages policy"

lemma and_then_Some [simp]: "and_then (Some a) (Some b) = Some (a \<and> b)"
  by (cases a) (simp_all add: and_then_def)

lemma route_forest:
  assumes "forest S ts" and "find_thread ts f = Some x" and "find_thread ts g = Some y"
    and "f \<noteq> g" and "team_root_id x = team_root_id y" and "S (team_root_id x) = Inr policy"
  shows "authorize_team_route S ts f g =
    Some (if may_talk ts policy x y then Inr (x, y)
          else Inl (terr ''sibling agent communication is disabled'' []))"
proof -
  have x: "x \<in> set ts" "t_id x = f" and y: "y \<in> set ts" "t_id y = g"
    using assms(2,3) by (auto dest: find_thread_Some)
  have "f \<noteq> []" "g \<noteq> []"
    using forest_placed [OF assms(1) x(1)] forest_placed [OF assms(1) y(1)] x(2) y(2)
    by (auto simp: placed_def)
  moreover have "is_ancestor f g (find_thread (list_team_threads ts (team_root_id x))) =
      Some ((f, g) \<in> (parent_rel ts)\<^sup>+)"
    using is_ancestor_forest [OF assms(1) y(1)] assms(5) y(2) by simp
  moreover have "is_ancestor g f (find_thread (list_team_threads ts (team_root_id x))) =
      Some ((g, f) \<in> (parent_rel ts)\<^sup>+)"
    using is_ancestor_forest [OF assms(1) x(1)] x(2) by simp
  ultimately show ?thesis
    unfolding authorize_team_route_def may_talk_def Let_def
    using assms x(2) y(2) by auto
qed

lemma route_cases:
  assumes "forest S ts"
  shows "authorize_team_route S ts f g \<noteq> None \<and>
    (authorize_team_route S ts f g = Some (Inr (x, y)) \<longleftrightarrow>
      f \<noteq> g \<and> find_thread ts f = Some x \<and> find_thread ts g = Some y \<and>
      team_root_id x = team_root_id y \<and>
      (\<exists>policy. S (team_root_id x) = Inr policy \<and> may_talk ts policy x y))"
proof (cases "\<exists>x' y' policy. find_thread ts f = Some x' \<and> find_thread ts g = Some y' \<and> f \<noteq> g \<and>
    team_root_id x' = team_root_id y' \<and> S (team_root_id x') = Inr policy")
  case True
  then obtain x' y' policy where r: "find_thread ts f = Some x'" "find_thread ts g = Some y'" "f \<noteq> g"
    "team_root_id x' = team_root_id y'" "S (team_root_id x') = Inr policy" by blast
  show ?thesis unfolding route_forest [OF assms r] using r by auto
next
  case False
  have empty_id: "find_thread ts [] = None"
    using assms by (auto simp: find_thread_None forest_def placed_def)
  have "\<exists>e. authorize_team_route S ts f g = Some (Inl e)"
  proof (cases "find_thread ts f")
    case (Some x')
    show ?thesis
    proof (cases "find_thread ts g")
      case (Some y')
      with False \<open>find_thread ts f = Some x'\<close> show ?thesis
        unfolding authorize_team_route_def Let_def
        by (cases "S (team_root_id x')") auto
    qed (use Some in \<open>simp add: authorize_team_route_def\<close>)
  qed (simp add: authorize_team_route_def)
  with False show ?thesis by auto
qed

text \<open>C22: On the conversations of any history the walks of the ancestry test return, and two different
  agents may reach each other exactly when they are of one team whose settings can be read and one
  is the root, one is an ancestor of the other, or messages between siblings are allowed.\<close>

theorem team_route_decided:
  assumes "team_history S start ts" and "roots_only start"
  shows "authorize_team_route S ts f g \<noteq> None \<and>
    (authorize_team_route S ts f g = Some (Inr (x, y)) \<longleftrightarrow>
      f \<noteq> g \<and> find_thread ts f = Some x \<and> find_thread ts g = Some y \<and>
      team_root_id x = team_root_id y \<and>
      (\<exists>policy. S (team_root_id x) = Inr policy \<and> may_talk ts policy x y))"
  by (rule route_cases [OF history_forest [OF assms]])

section \<open>Tools of an agent\<close>

text \<open>The ancestors a walk over stored conversations meets.\<close>

inductive above :: "(string \<Rightarrow> (team_error, thread) result) \<Rightarrow> thread \<Rightarrow> thread \<Rightarrow> bool"
  for metadata :: "string \<Rightarrow> (team_error, thread) result" where
  parent: "t_parent_id t \<noteq> [] \<Longrightarrow> metadata (t_parent_id t) = Inr p \<Longrightarrow> above metadata p t"
| further: "t_parent_id t \<noteq> [] \<Longrightarrow> metadata (t_parent_id t) = Inr p \<Longrightarrow> above metadata q p \<Longrightarrow> above metadata q t"

inductive_cases above_cases: "above metadata p t"

lemma above_root: "t_parent_id t = [] \<Longrightarrow> \<not> above metadata p t"
  by (auto elim: above_cases)

lemma above_child:
  "t_parent_id t \<noteq> [] \<Longrightarrow> metadata (t_parent_id t) = Inr p \<Longrightarrow> above metadata q t \<longleftrightarrow> q = p \<or> above metadata q p"
  by (auto elim: above_cases intro: above.intros)

text \<open>What a conversation lets through: its local switches for built-in tools, and an agent's grant.\<close>

definition lets_through :: "thread \<Rightarrow> string \<Rightarrow> bool" where
  "lets_through t n \<longleftrightarrow> (n \<notin> set tool_names \<or> n \<in> set (t_tools t)) \<and>
     (\<not> is_subagent t \<or> n \<in> set (t_agent_tools t))"

lemma narrow_local_iff:
  "n \<in> set (narrow_local_tools allowed local builtins) \<longleftrightarrow>
     n \<in> set allowed \<and> (n \<notin> set builtins \<or> n \<in> set local)"
  by (auto simp: narrow_local_tools_def)

lemma narrow_ancestry_unfold:
  "narrow_ancestry 0 metadata visited t allowed =
     (if t_parent_id t = [] then Inr allowed
      else Inl (terr ''subagent ancestry exceeds safety limit'' []))"
  "narrow_ancestry (Suc k) metadata visited t allowed =
     (if t_parent_id t = [] then Inr allowed
      else if t_parent_id t \<in> set visited then Inl (terr ''cycle in subagent ancestry'' [])
      else case metadata (t_parent_id t) of
        Inl e \<Rightarrow> Inl e
      | Inr p \<Rightarrow> narrow_ancestry k metadata (t_parent_id t # visited) p
          (narrow_local_tools
            (if is_subagent p then filter (\<lambda>n. n \<in> set (t_agent_tools p)) allowed else allowed)
            (t_tools p) tool_names))"
  by (subst narrow_ancestry.simps, simp)+

lemma narrow_ancestry_set:
  assumes "narrow_ancestry k metadata visited t allowed = Inr res"
  shows "n \<in> set res \<longleftrightarrow> n \<in> set allowed \<and> (\<forall>p. above metadata p t \<longrightarrow> lets_through p n)"
  using assms
proof (induction k arbitrary: visited t allowed)
  case 0
  then have "t_parent_id t = []" "res = allowed"
    by (auto simp: narrow_ancestry_unfold split: if_splits)
  then show ?case by (simp add: above_root)
next
  case (Suc k)
  show ?case
  proof (cases "t_parent_id t = []")
    case True
    with Suc.prems show ?thesis by (simp add: narrow_ancestry_unfold above_root)
  next
    case False
    with Suc.prems obtain p where p: "metadata (t_parent_id t) = Inr p" and
      rest: "narrow_ancestry k metadata (t_parent_id t # visited) p
          (narrow_local_tools (if is_subagent p then filter (\<lambda>n. n \<in> set (t_agent_tools p)) allowed else allowed)
            (t_tools p) tool_names) = Inr res"
      by (auto simp: narrow_ancestry_unfold split: if_splits sum.splits)
    have "above metadata q t \<longleftrightarrow> q = p \<or> above metadata q p" for q
      using above_child [of t metadata p] False p by simp
    with Suc.IH [OF rest] show ?thesis by (auto simp: narrow_local_iff lets_through_def)
  qed
qed

text \<open>C23: The tools in effect for an agent are exactly those of its spawn grant, in the grant's order,
  that its own local switches and every ancestor let through: an ancestor that is an agent only
  tools of its own grant, and every ancestor only the built-in tools switched on in it.\<close>

theorem effective_tools_within_ancestors:
  assumes "effective_subagent_tools metadata t = Inr res"
  shows "res = filter (\<lambda>n. n \<in> set res) (t_agent_tools t) \<and>
    (n \<in> set res \<longleftrightarrow> n \<in> set (t_agent_tools t) \<and> (n \<notin> set tool_names \<or> n \<in> set (t_tools t)) \<and>
       (\<forall>p. above metadata p t \<longrightarrow> lets_through p n))"
proof -
  obtain allowed where a: "narrow_ancestry 128 metadata [t_id t] t
      (narrow_local_tools (t_agent_tools t) (t_tools t) tool_names) = Inr allowed"
    and res: "res = filter (\<lambda>n. n \<in> set allowed) (t_agent_tools t)"
    using assms by (auto simp: effective_subagent_tools_def bind_result_Inr_iff)
  have "n \<in> set allowed \<longleftrightarrow> n \<in> set (t_agent_tools t) \<and> (n \<notin> set tool_names \<or> n \<in> set (t_tools t)) \<and>
      (\<forall>p. above metadata p t \<longrightarrow> lets_through p n)" for n
    by (simp add: narrow_ancestry_set [OF a] narrow_local_iff)
  then show ?thesis by (auto simp: res intro: filter_cong)
qed

end
