(* ===== verification/TeamRuns.thy ===== *)
theory TeamRuns
  imports Team RunMachine
begin

text \<open>
  Agents that talk to each other (\<open>daemon/subagent_messages.go\<close>): the list of a team's agents,
  messages with their stored copy, mailbox and wake-up prompt, waiting with the team's signal
  channels, and interrupting. The conversations of \<open>RunMachine\<close> are the agents' runs.
\<close>

section \<open>Agents\<close>

record agent =
  ag_id :: string
  ag_parent_id :: string
  ag_root_id :: string
  ag_name :: string
  ag_role :: string
  ag_profile :: string
  ag_depth :: int
  ag_status :: string
  ag_model :: string
  ag_created_at :: nat
  ag_updated_at :: nat

definition agent_from_thread :: "thread \<Rightarrow> agent" where
  "agent_from_thread t =
     \<lparr>ag_id = t_id t, ag_parent_id = t_parent_id t, ag_root_id = team_root_id t,
      ag_name = first_non_empty [t_agent_name t, t_name t, t_id t], ag_role = t_agent_role t,
      ag_profile = t_agent_profile t, ag_depth = t_depth t, ag_status = t_status t,
      ag_model = t_model t, ag_created_at = t_created_at t, ag_updated_at = t_updated_at t\<rparr>"

text \<open>The order of \<open>ListAgents\<close>: by depth, then by creation.\<close>

datatype agent_rank = Agent_Rank int nat

instantiation agent_rank :: linorder
begin

definition less_agent_rank :: "agent_rank \<Rightarrow> agent_rank \<Rightarrow> bool" where
  "less_agent_rank a b =
     (case (a, b) of (Agent_Rank d c, Agent_Rank d' c') \<Rightarrow> if d \<noteq> d' then d < d' else c < c')"

definition less_eq_agent_rank :: "agent_rank \<Rightarrow> agent_rank \<Rightarrow> bool" where
  "less_eq_agent_rank a b \<longleftrightarrow> a < b \<or> a = b"

instance
  by standard (auto simp: less_agent_rank_def less_eq_agent_rank_def split: agent_rank.splits if_splits)

end

definition agent_rank :: "agent \<Rightarrow> agent_rank" where
  "agent_rank a = Agent_Rank (ag_depth a) (ag_created_at a)"

text \<open>\<open>sort.Slice\<close> leaves the order of agents of one rank open; this is the stable one.\<close>

definition list_agents :: "thread list \<Rightarrow> string \<Rightarrow> (team_error, agent list) result" where
  "list_agents ts caller =
     (case find_thread ts caller of
        None \<Rightarrow> Inl (terr ''no rows'' [caller])
      | Some t \<Rightarrow> Inr (sort_key agent_rank (map agent_from_thread (list_team_threads ts (team_root_id t)))))"

section \<open>Signals\<close>

text \<open>The signal channel of each team: closed to wake whoever waits on it, and replaced.\<close>

record signals =
  sg_current :: "string \<Rightarrow> nat option"
  sg_closed :: "nat set"
  sg_next :: nat

definition team_signal :: "string \<Rightarrow> signals \<Rightarrow> nat \<times> signals" where
  "team_signal root s =
     (case sg_current s root of
        Some c \<Rightarrow> (c, s)
      | None \<Rightarrow> (sg_next s,
          s\<lparr>sg_current := (sg_current s)(root \<mapsto> sg_next s), sg_next := Suc (sg_next s)\<rparr>))"

definition notify_team :: "string \<Rightarrow> signals \<Rightarrow> signals" where
  "notify_team root s =
     s\<lparr>sg_closed := (case sg_current s root of None \<Rightarrow> sg_closed s | Some c \<Rightarrow> insert c (sg_closed s)),
       sg_current := (sg_current s)(root \<mapsto> sg_next s), sg_next := Suc (sg_next s)\<rparr>"

section \<open>Messages\<close>

record agent_message =
  am_id :: string
  am_from :: string
  am_to :: string
  am_content :: string
  am_created_at :: nat

record team_world =
  tw_threads :: "thread list"
  tw_convs :: "string \<Rightarrow> conv"
  tw_stored :: "string \<Rightarrow> agent_message list"
  tw_boxes :: "agent_message mailboxes"
  tw_signals :: signals

text \<open>What a message needs from the rest of the daemon: the new id, the error of loading the
  recipient's runtime or of appending to its database, the error of loading and refreshing it again
  for the prompt, and the time.\<close>

record message_io =
  mi_id :: "(team_error, string) result"
  mi_append :: "team_error option"
  mi_refresh :: "team_error option"
  mi_now :: nat

definition set_status :: "string \<Rightarrow> string \<Rightarrow> thread list \<Rightarrow> thread list" where
  "set_status i status ts = map (\<lambda>t. if t_id t = i then t\<lparr>t_status := status\<rparr> else t) ts"

text \<open>\<open>Prompt\<close> on an agent: the run machine's step, and the status the thread shows after it.\<close>

definition prompt_agent ::
  "string \<Rightarrow> string \<Rightarrow> string \<Rightarrow> team_world \<Rightarrow> (prompt_error, prompt_outcome) result \<times> team_world" where
  "prompt_agent i message behavior w =
     (let (outcome, c) = prompt message behavior False None (tw_convs w i)
      in (outcome, w\<lparr>tw_convs := (tw_convs w)(i := c), tw_threads := set_status i (cv_status c) (tw_threads w)\<rparr>))"

definition wake_text :: "thread \<Rightarrow> string \<Rightarrow> string" where
  "wake_text from_t content =
     ''[Message from '' @ first_non_empty [t_agent_name from_t, t_name from_t, t_id from_t] @ '' ('' @
     t_id from_t @ '')]'' @ [CHR 0x0A] @ content"

datatype send_error = Refused team_error | NotWoken "team_error + prompt_error"

text \<open>The stored copy, the mailbox entry and the signal, in that order.\<close>

definition deliver :: "string \<Rightarrow> agent_message \<Rightarrow> team_world \<Rightarrow> team_world" where
  "deliver root m w =
     w\<lparr>tw_stored := (tw_stored w)(am_to m := tw_stored w (am_to m) @ [m]),
       tw_boxes := post_message (am_to m) m (tw_boxes w),
       tw_signals := notify_team root (tw_signals w)\<rparr>"

definition wake_agent ::
  "message_io \<Rightarrow> thread \<Rightarrow> agent_message \<Rightarrow> team_world \<Rightarrow> (send_error, agent_message) result \<times> team_world" where
  "wake_agent io from_t m w =
     (case mi_refresh io of
        Some e \<Rightarrow> (Inl (NotWoken (Inl e)), w)
      | None \<Rightarrow>
          (case prompt_agent (am_to m) (wake_text from_t (am_content m)) ''steer'' w of
             (Inl e, w') \<Rightarrow> (Inl (NotWoken (Inr e)), w')
           | (Inr outcome, w') \<Rightarrow> (Inr m, w')))"

definition send_agent_message ::
  "(string \<Rightarrow> (team_error, subagent_settings) result) \<Rightarrow> message_io \<Rightarrow> string \<Rightarrow> string \<Rightarrow> string \<Rightarrow> bool \<Rightarrow>
     team_world \<Rightarrow> ((send_error, agent_message) result \<times> team_world) option" where
  "send_agent_message S io from_id to_id raw wake w =
     (let content = trim_space raw
      in if content = [] \<or> int (length content) > 100000
         then Some (Inl (Refused (terr ''agent message must be between 1 and 100000 bytes'' [])), w)
         else case authorize_team_route S (tw_threads w) from_id to_id of
           None \<Rightarrow> None
         | Some (Inl e) \<Rightarrow> Some (Inl (Refused e), w)
         | Some (Inr (from_t, to_t)) \<Rightarrow>
             (case mi_id io of Inl e \<Rightarrow> Some (Inl (Refused e), w) | Inr i \<Rightarrow>
             (case mi_append io of Some e \<Rightarrow> Some (Inl (Refused e), w) | None \<Rightarrow>
              (let m = \<lparr>am_id = i, am_from = t_id from_t, am_to = t_id to_t, am_content = content,
                        am_created_at = mi_now io\<rparr>;
                   w' = deliver (team_root_id from_t) m w
               in if \<not> wake then Some (Inr m, w') else Some (wake_agent io from_t m w')))))"

text \<open>\<open>InterruptAgent\<close>\<close>

definition interrupt_agent ::
  "(string \<Rightarrow> (team_error, subagent_settings) result) \<Rightarrow> string \<Rightarrow> string \<Rightarrow> team_world \<Rightarrow>
     ((team_error + prompt_error, unit) result \<times> team_world) option" where
  "interrupt_agent S caller target w =
     map_option (\<lambda>route. case route of
         Inl e \<Rightarrow> (Inl (Inl e), w)
       | Inr (from_t, to_t) \<Rightarrow>
           (case abort (tw_convs w (t_id to_t)) of
              (Inl e, c) \<Rightarrow> (Inl (Inr e), w)
            | (Inr u, c) \<Rightarrow> (Inr u, w\<lparr>tw_convs := (tw_convs w)(t_id to_t := c),
                tw_signals := notify_team (team_root_id from_t) (tw_signals w)\<rparr>)))
       (authorize_team_route S (tw_threads w) caller target)"

section \<open>Waiting\<close>

definition agents_ready :: "agent list \<Rightarrow> bool" where
  "agents_ready agents \<longleftrightarrow> agents = [] \<or> list_ex (\<lambda>a. ag_status a \<noteq> ''running'') agents"

text \<open>\<open>threadMap\<close> and \<open>byID\<close>: of agents with one id the last counts.\<close>

definition find_agent :: "agent list \<Rightarrow> string \<Rightarrow> agent option" where
  "find_agent agents i = find (\<lambda>a. ag_id a = i) (rev agents)"

definition thread_map :: "agent list \<Rightarrow> string \<Rightarrow> thread option" where
  "thread_map agents i =
     map_option (\<lambda>a. blank_thread\<lparr>t_id := ag_id a, t_parent_id := ag_parent_id a\<rparr>) (find_agent agents i)"

fun select_named :: "string \<Rightarrow> agent list \<Rightarrow> string list \<Rightarrow> string list \<Rightarrow> (team_error, agent list) result" where
  "select_named caller agents seen [] = Inr []"
| "select_named caller agents seen (i # is) =
     (if i = caller then Inl (terr ''an agent cannot wait on itself'' [])
      else case find_agent agents i of
        None \<Rightarrow> Inl (terr ''agent is not in this team'' [i])
      | Some a \<Rightarrow>
          if i \<in> set seen then select_named caller agents seen is
          else bind_result (select_named caller agents (i # seen) is) (\<lambda>rest. Inr (a # rest)))"

text \<open>Without ids the descendants of the caller, in the order of the agents.\<close>

fun select_descendants :: "string \<Rightarrow> (string \<Rightarrow> thread option) \<Rightarrow> agent list \<Rightarrow> agent list option" where
  "select_descendants caller members [] = Some []"
| "select_descendants caller members (a # as) =
     (case (if ag_id a = caller then Some False else is_ancestor caller (ag_id a) members) of
        None \<Rightarrow> None
      | Some b \<Rightarrow> map_option (\<lambda>rest. if b then a # rest else rest) (select_descendants caller members as))"

definition select_wait_agents ::
  "string \<Rightarrow> agent list \<Rightarrow> string list \<Rightarrow> (team_error, agent list) result option" where
  "select_wait_agents caller agents ids =
     (if ids = [] then map_option Inr (select_descendants caller (thread_map agents) agents)
      else Some (select_named caller agents [] ids))"

record wait_result =
  wt_agents :: "agent list"
  wt_messages :: "agent_message list"
  wt_timed_out :: bool

text \<open>One round of \<open>WaitAgents\<close>: whether the mailbox had messages when the signal was taken, the
  conversations as they were listed after that, what the select statement met, and the mailbox when
  it was drained.\<close>

datatype wait_event = Woken | DeadlinePassed | ContextDone team_error

record wait_round =
  wr_has_messages :: bool
  wr_threads :: "thread list"
  wr_event :: wait_event
  wr_box :: "agent_message list"

text \<open>\<open>None\<close> while it has not returned.\<close>

fun wait_rounds ::
  "string \<Rightarrow> string list \<Rightarrow> wait_round list \<Rightarrow> (team_error, wait_result) result option" where
  "wait_rounds caller ids [] = None"
| "wait_rounds caller ids (r # rs) =
     (case list_agents (wr_threads r) caller of
        Inl e \<Rightarrow> Some (Inl e)
      | Inr agents \<Rightarrow>
         (case select_wait_agents caller agents ids of
            None \<Rightarrow> None
          | Some (Inl e) \<Rightarrow> Some (Inl e)
          | Some (Inr selected) \<Rightarrow>
              if wr_has_messages r \<or> agents_ready selected
              then Some (Inr \<lparr>wt_agents = selected, wt_messages = wr_box r, wt_timed_out = False\<rparr>)
              else (case wr_event r of
                  ContextDone e \<Rightarrow> Some (Inl e)
                | DeadlinePassed \<Rightarrow>
                    Some (Inr \<lparr>wt_agents = selected, wt_messages = wr_box r, wt_timed_out = (wr_box r = [])\<rparr>)
                | Woken \<Rightarrow> wait_rounds caller ids rs)))"

definition wait_agents ::
  "thread list \<Rightarrow> string \<Rightarrow> string list \<Rightarrow> int \<Rightarrow> wait_round list \<Rightarrow> (team_error, wait_result) result option" where
  "wait_agents ts caller ids timeout_ns rounds =
     (if find_thread ts caller = None then Some (Inl (terr ''no rows'' [caller]))
      else if timeout_ns > 60 * 10 ^ 9 then Some (Inl (terr ''agent wait cannot exceed 60 seconds'' []))
      else wait_rounds caller ids rounds)"

text \<open>The critical section that opens a round.\<close>

definition wait_look :: "string \<Rightarrow> string \<Rightarrow> team_world \<Rightarrow> (nat \<times> bool) \<times> team_world" where
  "wait_look root caller w =
     (let (c, s) = team_signal root (tw_signals w)
      in ((c, tw_boxes w caller \<noteq> []), w\<lparr>tw_signals := s\<rparr>))"

end
