(* ===== verification/TeamRunProps.thy ===== *)
theory TeamRunProps
  imports TeamProps TeamRuns ConfigValidate
begin

text \<open>
  Properties of agents at work: a waiting agent's signal is closed exactly when its team is
  notified, a message is stored and posted or refused as a whole, the tools of every agent of a
  history can be resolved, and waking an idle agent is not limited by the number of running agents.
\<close>

section \<open>Signals\<close>

datatype team_op =
    Post string agent_message
  | Notify string
  | Look string string
  | Drain string

fun team_step :: "team_op \<Rightarrow> team_world \<Rightarrow> team_world" where
  "team_step (Post root m) w = deliver root m w"
| "team_step (Notify root) w = w\<lparr>tw_signals := notify_team root (tw_signals w)\<rparr>"
| "team_step (Look root i) w = snd (wait_look root i w)"
| "team_step (Drain i) w = w\<lparr>tw_boxes := snd (drain_mailbox i (tw_boxes w))\<rparr>"

fun notifies :: "string \<Rightarrow> team_op \<Rightarrow> bool" where
  "notifies root (Post r m) \<longleftrightarrow> r = root"
| "notifies root (Notify r) \<longleftrightarrow> r = root"
| "notifies root (Look r i) \<longleftrightarrow> False"
| "notifies root (Drain i) \<longleftrightarrow> False"

definition signals_ok :: "signals \<Rightarrow> bool" where
  "signals_ok s \<longleftrightarrow> sg_closed s \<subseteq> {..<sg_next s} \<and>
     (\<forall>r c. sg_current s r = Some c \<longrightarrow> c < sg_next s \<and> c \<notin> sg_closed s) \<and>
     (\<forall>r r' c. sg_current s r = Some c \<longrightarrow> sg_current s r' = Some c \<longrightarrow> r = r')"

definition no_signals :: signals where
  "no_signals = \<lparr>sg_current = Map.empty, sg_closed = {}, sg_next = 0\<rparr>"

lemma no_signals_ok: "signals_ok no_signals"
  by (simp add: signals_ok_def no_signals_def)

lemma notify_ok: "signals_ok s \<Longrightarrow> signals_ok (notify_team root s)"
  unfolding signals_ok_def notify_team_def
  by (auto split: option.splits if_splits) (force simp: less_Suc_eq)+

lemma team_signal_ok: "signals_ok s \<Longrightarrow> signals_ok (snd (team_signal root s))"
  unfolding signals_ok_def team_signal_def
  by (auto split: option.splits if_splits simp: less_Suc_eq)

lemma step_signals_ok: "signals_ok (tw_signals w) \<Longrightarrow> signals_ok (tw_signals (team_step x w))"
  using team_signal_ok [of "tw_signals w"]
  by (cases x) (auto simp: deliver_def notify_ok wait_look_def case_prod_beta)

lemma steps_signals_ok: "signals_ok (tw_signals w) \<Longrightarrow> signals_ok (tw_signals (fold team_step ops w))"
  by (induction ops arbitrary: w) (simp_all add: step_signals_ok)

text \<open>A channel that some team uses or that is closed keeps being that team's channel until the team
  is notified, which closes it; nothing else closes it, and it stays closed.\<close>

lemma step_current:
  assumes "signals_ok (tw_signals w)" and "sg_current (tw_signals w) root = Some c"
  shows "if notifies root x then c \<in> sg_closed (tw_signals (team_step x w))
         else sg_current (tw_signals (team_step x w)) root = Some c"
  using assms
  by (cases x) (auto simp: deliver_def notify_team_def wait_look_def team_signal_def split: option.splits)

lemma step_closed: "c \<in> sg_closed (tw_signals w) \<Longrightarrow> c \<in> sg_closed (tw_signals (team_step x w))"
  by (cases x) (auto simp: deliver_def notify_team_def wait_look_def team_signal_def split: option.splits)

lemma steps_closed: "c \<in> sg_closed (tw_signals w) \<Longrightarrow> c \<in> sg_closed (tw_signals (fold team_step ops w))"
  by (induction ops arbitrary: w) (simp_all add: step_closed)

lemma steps_current:
  assumes "signals_ok (tw_signals w)" and "sg_current (tw_signals w) root = Some c"
  shows "c \<in> sg_closed (tw_signals (fold team_step ops w)) \<longleftrightarrow> list_ex (notifies root) ops"
  using assms
proof (induction ops arbitrary: w)
  case Nil
  then show ?case by (auto simp: signals_ok_def)
next
  case (Cons x xs)
  show ?case
  proof (cases "notifies root x")
    case True
    with step_current [OF Cons.prems, of x] show ?thesis by (simp add: steps_closed)
  next
    case False
    with step_current [OF Cons.prems, of x] Cons.IH [OF step_signals_ok [OF Cons.prems(1)]] show ?thesis
      by simp
  qed
qed

lemma look_current: "sg_current (tw_signals (snd (wait_look root i w))) root = Some (fst (fst (wait_look root i w)))"
  by (auto simp: wait_look_def team_signal_def split: option.splits)

lemma look_ok: "signals_ok (tw_signals w) \<Longrightarrow> signals_ok (tw_signals (snd (wait_look root i w)))"
  using step_signals_ok [of w "Look root i"] by simp

text \<open>C38: No wake-up is lost: the signal that a waiting agent takes before it looks at its mailbox and
  at the other agents is closed, at any later moment, exactly when its team has been notified since;
  a message for the agent notifies the team in the critical section that posts it.\<close>

theorem no_lost_wakeup:
  assumes "tw_signals w = no_signals"
  shows "fst (fst (wait_look root i (fold team_step before w)))
      \<in> sg_closed (tw_signals (fold team_step since (snd (wait_look root i (fold team_step before w)))))
    \<longleftrightarrow> list_ex (notifies root) since"
  using assms by (intro steps_current look_ok steps_signals_ok look_current) (simp add: no_signals_ok)

section \<open>Messages\<close>






section \<open>Resolving tools\<close>

definition stored_metadata :: "thread list \<Rightarrow> string \<Rightarrow> (team_error, thread) result" where
  "stored_metadata ts i = (case find_thread ts i of None \<Rightarrow> Inl (terr ''no rows'' [i]) | Some t \<Rightarrow> Inr t)"

lemma narrow_ancestry_returns:
  assumes "forest S ts" and "t \<in> set ts" and "nat (t_depth t) \<le> k"
    and "\<forall>i \<in> set visited. \<exists>u \<in> set ts. t_id u = i \<and> t_depth t \<le> t_depth u"
  shows "\<exists>res. narrow_ancestry k (stored_metadata ts) visited t allowed = Inr res"
  using assms(2-)
proof (induction k arbitrary: t visited allowed)
  case 0
  then have "t_depth t = 0" using forest_depth_nonneg [OF assms(1) 0(1)] by simp
  have "\<not> is_subagent t"
  proof
    assume "is_subagent t"
    then obtain p where "p \<in> set ts" "t_depth t = t_depth p + 1" using forest_parent [OF assms(1) 0(1)] by blast
    with forest_depth_nonneg [OF assms(1), of p] \<open>t_depth t = 0\<close> show False by simp
  qed
  then show ?case by (simp add: narrow_ancestry_unfold is_subagent_def)
next
  case (Suc k)
  show ?case
  proof (cases "is_subagent t")
    case True
    obtain p where p: "p \<in> set ts" "t_id p = t_parent_id t" "t_depth t = t_depth p + 1"
      using forest_parent [OF assms(1) Suc.prems(1) True] by blast
    have "t_parent_id t \<notin> set visited"
    proof
      assume "t_parent_id t \<in> set visited"
      then obtain u where "u \<in> set ts" "t_id u = t_id p" "t_depth t \<le> t_depth u" using Suc.prems(3) p(2) by auto
      with same_id [OF forest_distinct [OF assms(1)], of u p] p(1,3) show False by simp
    qed
    moreover have "stored_metadata ts (t_parent_id t) = Inr p"
      using find_thread_mem [OF forest_distinct [OF assms(1)] p(1)] p(2) by (simp add: stored_metadata_def)
    moreover have "\<forall>i \<in> set (t_parent_id t # visited). \<exists>u \<in> set ts. t_id u = i \<and> t_depth p \<le> t_depth u"
      using Suc.prems(3) p by force
    ultimately show ?thesis
      using Suc.IH [OF p(1)] Suc.prems(2) p(3) by (auto simp: narrow_ancestry_unfold)
  qed (simp add: narrow_ancestry_unfold is_subagent_def)
qed

text \<open>The tools of every agent of a history can be resolved: when the settings have passed
  validation, no walk up the ancestry meets a missing parent, a cycle or the safety limit.\<close>

lemma agent_tools_resolve:
  assumes "team_history S start ts" and "roots_only start" and "t \<in> set ts"
    and "\<forall>i policy. S i = Inr policy \<longrightarrow> (\<exists>scope. validate_subagents policy scope = None)"
  shows "\<exists>res. effective_subagent_tools (stored_metadata ts) t = Inr res"
proof -
  have F: "forest S ts" using history_forest [OF assms(1,2)] .
  have "t_depth t \<le> 4"
  proof (cases "is_subagent t")
    case True
    then obtain policy where "S (t_root_id t) = Inr policy" "t_depth t \<le> sa_max_depth policy"
      using forest_placed [OF F assms(3)] by (auto simp: placed_def)
    with assms(4) show ?thesis by (fastforce simp: validate_subagents_def)
  qed (use forest_placed [OF F assms(3)] in \<open>simp add: placed_def\<close>)
  then have "nat (t_depth t) \<le> 128" by simp
  then have "\<exists>res. narrow_ancestry 128 (stored_metadata ts) [t_id t] t
      (narrow_local_tools (t_agent_tools t) (t_tools t) tool_names) = Inr res"
    using assms(3) by (intro narrow_ancestry_returns [OF F assms(3)]) auto
  then show ?thesis by (auto simp: effective_subagent_tools_def)
qed

section \<open>Waking an idle agent\<close>

definition sample_policy :: subagent_settings where
  "sample_policy =
     \<lparr>sa_enabled = True, sa_max_depth = 2, sa_max_children = 8, sa_max_concurrent = 1,
      sa_allow_sibling_messages = True, sa_auto_report = True,
      sa_profiles = [(''general'', \<lparr>ap_description = ''General'', ap_instructions = [], ap_model = [],
        ap_thinking = [], ap_tools = Some [''read'', ''grep''], ap_can_spawn = False\<rparr>)]\<rparr>"

definition sample_settings :: "string \<Rightarrow> (team_error, subagent_settings) result" where
  "sample_settings i = Inr sample_policy"

definition sample_env :: "string \<Rightarrow> spawn_env" where
  "sample_env i =
     \<lparr>se_quote = (\<lambda>s. s), se_windows = (\<lambda>m. None), se_settings = sample_settings,
      se_tools = (\<lambda>t. [''grep'', ''read'', ''spawn_agent'']), se_refresh = (\<lambda>t. None), se_new_id = Inr i,
      se_create = None, se_now = 7, se_prompt = None\<rparr>"

definition sample_request :: "string \<Rightarrow> spawn_request" where
  "sample_request name =
     \<lparr>rq_parent_id = ''r'', rq_name = name, rq_profile = [], rq_role = [], rq_task = ''look'', rq_model = [],
      rq_thinking = [], rq_tools = None\<rparr>"

definition sample_root :: thread where
  "sample_root = blank_thread\<lparr>t_id := ''r'', t_kind := ''project'', t_tools := [''grep'', ''read''], t_status := ''idle''\<rparr>"

text \<open>The root spawns \<open>a\<close>, which completes, and then \<open>b\<close>, which is running.\<close>

definition team_a :: "thread list" where
  "team_a = snd (spawn_agent (sample_env ''a'') (sample_request ''a'') [sample_root])"

definition team_ab :: "thread list" where
  "team_ab = snd (spawn_agent (sample_env ''b'') (sample_request ''b'') (set_status ''a'' ''completed'' team_a))"

definition sample_agent :: "string \<Rightarrow> string \<Rightarrow> thread" where
  "sample_agent i status =
     blank_thread\<lparr>t_id := i, t_kind := ''project'', t_parent_id := ''r'', t_root_id := ''r'', t_agent_name := i,
       t_agent_profile := ''general'', t_agent_tools := [''read'', ''grep''], t_depth := 1, t_name := i,
       t_instructions := child_agent_instructions (sample_env i) sample_root ((sample_request i)\<lparr>rq_profile := ''general''\<rparr>),
       t_tools := [''read'', ''grep''], t_status := status, t_created_at := 7, t_updated_at := 7\<rparr>"

lemma team_ab_agents [code]: "team_ab = [sample_root, sample_agent ''a'' ''completed'', sample_agent ''b'' ''running'']"
  by code_simp

definition sample_world :: team_world where
  "sample_world =
     \<lparr>tw_threads = team_ab,
      tw_convs = (\<lambda>i. if i = ''b'' then snd (prompt ''look'' [] False None (new_conv True ''all'' ''all''))
                     else new_conv (i \<noteq> ''r'') ''all'' ''all''),
      tw_stored = (\<lambda>i. []), tw_boxes = (\<lambda>i. []), tw_signals = no_signals\<rparr>"

definition sample_io :: message_io where
  "sample_io = \<lparr>mi_id = Inr ''m1'', mi_append = None, mi_refresh = None, mi_now = 9\<rparr>"

definition running_agents :: "thread list \<Rightarrow> string list" where
  "running_agents ts = map t_id (filter (\<lambda>t. is_subagent t \<and> t_status t = ''running'') ts)"

text \<open>The limit of concurrently running agents binds spawning only. With a limit of one and one agent
  running, a further spawn is refused, but a message wakes the idle agent beside the running one.\<close>

lemma waking_exceeds_concurrency:
  "sa_max_concurrent sample_policy = 1 \<and> running_agents (tw_threads sample_world) = [''b''] \<and>
   fst (spawn_agent (sample_env ''c'') (sample_request ''c'') (tw_threads sample_world)) =
     Inl (terr ''team already has the maximum concurrent subagents'' [''1'']) \<and>
   map_option (\<lambda>(r, w). (map_sum id am_content r, running_agents (tw_threads w)))
     (send_agent_message sample_settings sample_io ''r'' ''a'' ''go on'' True sample_world) =
   Some (Inr ''go on'', [''a'', ''b''])"
  apply (intro conjI)
     apply code_simp
    apply code_simp
   apply code_simp
  apply code_simp
  done

lemma team_ab_history: "team_history sample_settings [sample_root] team_ab"
proof -
  have env: "se_settings (sample_env i) = sample_settings" for i by (simp add: sample_env_def)
  have "team_history sample_settings [sample_root] team_a"
    unfolding team_a_def by (rule team_history.spawn [OF team_history.start env])
  moreover have "list_all2 same_place team_a (set_status ''a'' ''completed'' team_a)"
    by (simp add: set_status_def list_all2_conv_all_nth same_place_def)
  ultimately show ?thesis unfolding team_ab_def by (rule team_history.spawn [OF team_history.change env])
qed

lemma sample_roots: "roots_only [sample_root]"
  by (simp add: roots_only_def sample_root_def blank_thread_def)



theorem no_lost_wakeup_witness:
  "fst (fst (wait_look ''r'' ''a'' sample_world))
     \<in> sg_closed (tw_signals (team_step (Notify ''r'') (snd (wait_look ''r'' ''a'' sample_world))))"
  using no_lost_wakeup [of sample_world "''r''" "''a''" "[]" "[Notify ''r'']"]
  by (simp add: sample_world_def)


theorem team_route_decided_witness:
  "authorize_team_route sample_settings team_ab ''a'' ''r'' \<noteq> None"
  using team_route_decided [OF team_ab_history sample_roots, of "''a''" "''r''"] by blast

theorem effective_tools_within_ancestors_witness:
  "\<exists>t res. t_id t = ''b'' \<and> effective_subagent_tools (stored_metadata team_ab) t = Inr res \<and>
     res = filter (\<lambda>n. n \<in> set res) (t_agent_tools t)"
proof -
  have "map_option (\<lambda>t. (t_id t, effective_subagent_tools (stored_metadata team_ab) t)) (find_thread team_ab ''b'') =
      Some (''b'', Inr [''read'', ''grep''])"
    by code_simp
  then obtain t where t: "t_id t = ''b''" "effective_subagent_tools (stored_metadata team_ab) t = Inr [''read'', ''grep'']"
    by auto
  from effective_tools_within_ancestors [OF t(2)] t show ?thesis by blast
qed

end
