(* ===== verification/GoPaths.thy ===== *)
theory GoPaths
  imports GoStrings "HOL-Library.Sublist"
begin

text \<open>
  Go's \<open>path/filepath\<close> on Unix, as far as the program uses it, and a file tree with symbolic links
  for the system calls behind it. Lexical operations work on the components between slashes.
\<close>

section \<open>Lexical paths\<close>

definition is_rooted :: "string \<Rightarrow> bool" where
  "is_rooted p \<longleftrightarrow> p \<noteq> [] \<and> hd p = CHR ''/''"

text \<open>\<open>filepath.Clean\<close>: drops empty and dot components and resolves the dot-dot ones, which a rooted
  path loses at its root and a relative one keeps in front. The accumulator is reversed.\<close>

fun clean_comps :: "bool \<Rightarrow> string list \<Rightarrow> string list \<Rightarrow> string list" where
  "clean_comps rooted acc [] = rev acc"
| "clean_comps rooted acc (c # cs) =
     (if c = [] \<or> c = ''.'' then clean_comps rooted acc cs
      else if c = ''..'' then
        (case acc of
           [] \<Rightarrow> clean_comps rooted (if rooted then [] else [c]) cs
         | a # as \<Rightarrow> clean_comps rooted (if a = ''..'' then c # acc else as) cs)
      else clean_comps rooted (c # acc) cs)"

definition path_comps :: "string \<Rightarrow> string list" where
  "path_comps p = clean_comps (is_rooted p) [] (split_char CHR ''/'' p)"

definition from_comps :: "bool \<Rightarrow> string list \<Rightarrow> string" where
  "from_comps rooted cs =
     (if rooted then CHR ''/'' # join_with ''/'' cs else if cs = [] then ''.'' else join_with ''/'' cs)"

definition clean_path :: "string \<Rightarrow> string" where
  "clean_path p = from_comps (is_rooted p) (path_comps p)"

text \<open>\<open>filepath.Join\<close>, \<open>Dir\<close>, \<open>Base\<close>.\<close>

definition join_path :: "string list \<Rightarrow> string" where
  "join_path parts =
     (case dropWhile (\<lambda>p. p = []) parts of [] \<Rightarrow> [] | ps \<Rightarrow> clean_path (join_with ''/'' ps))"

definition dir_path :: "string \<Rightarrow> string" where
  "dir_path p = clean_path (rev (dropWhile (\<lambda>c. c \<noteq> CHR ''/'') (rev p)))"

definition base_path :: "string \<Rightarrow> string" where
  "base_path p =
     (if p = [] then ''.''
      else (let q = rev (dropWhile (\<lambda>c. c = CHR ''/'') (rev p));
                b = rev (takeWhile (\<lambda>c. c \<noteq> CHR ''/'') (rev q))
            in if b = [] then ''/'' else b))"

text \<open>\<open>filepath.Abs\<close> in a working directory.\<close>

definition abs_path :: "string \<Rightarrow> string \<Rightarrow> string" where
  "abs_path cwd p = (if is_rooted p then clean_path p else join_path [cwd, p])"

text \<open>\<open>filepath.Rel\<close>: up from what is left of the base, down to what is left of the target. It fails
  when it would have to leave a dot-dot component of the base whose name it does not know.\<close>

fun strip_common :: "'a list \<Rightarrow> 'a list \<Rightarrow> 'a list \<times> 'a list" where
  "strip_common (a # as) (b # bs) = (if a = b then strip_common as bs else (a # as, b # bs))"
| "strip_common as bs = (as, bs)"

definition rel_comps :: "string list \<Rightarrow> string list \<Rightarrow> string list option" where
  "rel_comps base targ =
     (case strip_common base targ of
        ([], t) \<Rightarrow> Some t
      | (b # bs, t) \<Rightarrow> if b = ''..'' \<and> t \<noteq> [] then None else Some (replicate (Suc (length bs)) ''..'' @ t))"

definition rel_path :: "string \<Rightarrow> string \<Rightarrow> string option" where
  "rel_path base targ =
     (if clean_path base = clean_path targ then Some ''.''
      else if is_rooted base \<noteq> is_rooted targ then None
      else map_option (join_with ''/'')
        (rel_comps (path_comps base)
          (if \<not> is_rooted targ \<and> path_comps targ = [] then [''.''] else path_comps targ)))"

text \<open>The containment test that several packages share (\<open>within\<close>, \<open>containsPath\<close>, \<open>containedPath\<close>).\<close>

definition within :: "string \<Rightarrow> string \<Rightarrow> bool" where
  "within root p =
     (case rel_path root p of None \<Rightarrow> False | Some r \<Rightarrow> r \<noteq> ''..'' \<and> \<not> has_prefix r ''../'')"

section \<open>Clean components\<close>

definition plain_comp :: "string \<Rightarrow> bool" where
  "plain_comp c \<longleftrightarrow> c \<noteq> [] \<and> c \<noteq> ''.'' \<and> c \<noteq> ''..'' \<and> CHR ''/'' \<notin> set c"

text \<open>The components of a clean path: plain ones, after any dot-dots of a relative path.\<close>

definition clean_list :: "bool \<Rightarrow> string list \<Rightarrow> bool" where
  "clean_list rooted cs \<longleftrightarrow>
     (\<exists>n ps. cs = replicate n ''..'' @ ps \<and> list_all plain_comp ps \<and> (rooted \<longrightarrow> n = 0))"

lemma clean_comps_plain: "list_all plain_comp ps \<Longrightarrow> clean_comps rooted acc ps = rev acc @ ps"
  by (induction ps arbitrary: acc) (auto simp: plain_comp_def)

lemma clean_comps_dots:
  "list_all plain_comp ps \<Longrightarrow>
     clean_comps False (replicate m ''..'') (replicate n ''..'' @ ps) = replicate (m + n) ''..'' @ ps"
proof (induction n arbitrary: m)
  case 0
  then show ?case by (simp add: clean_comps_plain)
next
  case (Suc n)
  show ?case using Suc.IH [OF Suc.prems, of "Suc m"] by (cases m) (simp_all add: replicate_append_same)
qed

lemma clean_comps_clean: "clean_list rooted cs \<Longrightarrow> clean_comps rooted [] cs = cs"
  using clean_comps_dots [of _ 0] by (cases rooted) (auto simp: clean_list_def clean_comps_plain)

lemma clean_comps_result:
  assumes "clean_list rooted (rev acc)" and "\<forall>c \<in> set cs. CHR ''/'' \<notin> set c"
  shows "clean_list rooted (clean_comps rooted acc cs)"
  using assms
proof (induction cs arbitrary: acc)
  case (Cons c cs)
  show ?case
  proof (cases "c = [] \<or> c = ''.'' ")
    case True
    with Cons show ?thesis by auto
  next
    case no_dot: False
    obtain n ps where acc: "rev acc = replicate n ''..'' @ ps" "list_all plain_comp ps" "rooted \<longrightarrow> n = 0"
      using Cons.prems(1) by (auto simp: clean_list_def)
    show ?thesis
    proof (cases "c = ''..'' ")
      case False
      then have "plain_comp c" using no_dot Cons.prems(2) by (simp add: plain_comp_def)
      then have "clean_list rooted (rev (c # acc))"
        unfolding clean_list_def using acc by (intro exI [of _ n] exI [of _ "ps @ [c]"]) simp
      with Cons.IH [of "c # acc"] Cons.prems(2) no_dot False show ?thesis by simp
    next
      case dots: True
      show ?thesis
      proof (cases acc)
        case Nil
        have "clean_list rooted (rev (if rooted then [] else [c]))"
          unfolding clean_list_def dots
          by (intro exI [of _ "if rooted then 0 else 1"] exI [of _ "[]"]) simp
        with Cons.IH [of "if rooted then [] else [c]"] Cons.prems(2) Nil dots show ?thesis
          by (cases rooted) simp_all
      next
        case (Cons a as)
        have "clean_list rooted (rev (if a = ''..'' then c # acc else as))"
        proof (cases ps rule: rev_cases)
          case Nil
          then have all: "rev acc = replicate n ''..''" using acc(1) by simp
          then have "acc = replicate n ''..''" by (metis rev_replicate rev_swap)
          then have "a = ''..''" "n \<noteq> 0" using \<open>acc = a # as\<close> by (cases n; simp)+
          then show ?thesis unfolding clean_list_def dots using all acc(3)
            by (intro exI [of _ "Suc n"] exI [of _ "[]"]) (simp add: replicate_append_same)
        next
          case (snoc qs q)
          then have "rev acc = (replicate n ''..'' @ qs) @ [q]" using acc(1) by simp
          then have "a = q" "rev as = replicate n ''..'' @ qs" using \<open>acc = a # as\<close> by simp_all
          moreover have "q \<noteq> ''..''" using acc(2) snoc by (simp add: plain_comp_def)
          ultimately show ?thesis unfolding clean_list_def using acc(2,3) snoc
            by (intro exI [of _ n] exI [of _ qs]) simp
        qed
        with Cons.IH [of "if a = ''..'' then c # acc else as"] Cons.prems(2) \<open>acc = a # as\<close> dots
        show ?thesis by (cases "a = ''..''") simp_all
      qed
    qed
  qed
qed simp

lemma path_comps_clean: "clean_list (is_rooted p) (path_comps p)"
  unfolding path_comps_def
  by (rule clean_comps_result) (auto simp: clean_list_def dest: split_char_no_sep)

lemma rooted_comps_plain: "is_rooted p \<Longrightarrow> list_all plain_comp (path_comps p)"
  using path_comps_clean [of p] by (auto simp: clean_list_def)


lemma clean_list_no_slash:
  assumes "clean_list rooted cs" and "c \<in> set cs"
  shows "CHR ''/'' \<notin> set c \<and> c \<noteq> []"
proof -
  obtain n ps where cs: "cs = replicate n ''..'' @ ps" "list_all plain_comp ps"
    using assms(1) by (auto simp: clean_list_def)
  then consider "c = ''..''" | "c \<in> set ps" using assms(2) by (auto dest: in_set_replicate [THEN iffD1])
  then show ?thesis
  proof cases
    case 2
    with cs(2) have "plain_comp c" by (simp add: list_all_iff)
    then show ?thesis by (simp add: plain_comp_def)
  qed simp
qed

lemma split_from_comps:
  assumes "clean_list rooted cs" and "cs \<noteq> []"
  shows "split_char CHR ''/'' (join_with ''/'' cs) = cs"
  by (rule split_join_char [OF assms(2)]) (use clean_list_no_slash [OF assms(1)] in blast)

lemma hd_join: "w \<noteq> [] \<Longrightarrow> join_with sep (w # ws) \<noteq> [] \<and> hd (join_with sep (w # ws)) = hd w"
  by (cases ws) simp_all

lemma rooted_from_comps: "clean_list rooted cs \<Longrightarrow> is_rooted (from_comps rooted cs) = rooted"
proof (cases cs)
  case (Cons c cs')
  assume cl: "clean_list rooted cs"
  have "c \<noteq> []" "hd c \<noteq> CHR ''/''" using clean_list_no_slash [OF cl, of c] Cons by (auto dest: hd_in_set)
  then show ?thesis using Cons hd_join [of c "''/''" cs'] by (simp add: from_comps_def is_rooted_def)
qed (simp add: from_comps_def is_rooted_def)

lemma comps_from_comps:
  assumes "clean_list rooted cs"
  shows "path_comps (from_comps rooted cs) = cs"
proof (cases "cs = []")
  case True
  then show ?thesis by (cases rooted) (simp_all add: path_comps_def from_comps_def is_rooted_def)
next
  case False
  have "clean_comps rooted [] (split_char CHR ''/'' (from_comps rooted cs)) = cs"
    using split_from_comps [OF assms False] clean_comps_clean [OF assms] False
    by (cases rooted) (simp_all add: from_comps_def)
  then show ?thesis using rooted_from_comps [OF assms] by (simp add: path_comps_def)
qed

lemma path_comps_clean_path [simp]: "path_comps (clean_path p) = path_comps p"
  unfolding clean_path_def by (rule comps_from_comps [OF path_comps_clean])

lemma is_rooted_clean_path [simp]: "is_rooted (clean_path p) = is_rooted p"
  unfolding clean_path_def by (rule rooted_from_comps [OF path_comps_clean])

lemma clean_path_idem [simp]: "clean_path (clean_path p) = clean_path p"
  unfolding clean_path_def [of "clean_path p"] path_comps_clean_path is_rooted_clean_path
  by (simp add: clean_path_def)

lemma clean_path_eq_iff:
  assumes "is_rooted p = is_rooted q"
  shows "clean_path p = clean_path q \<longleftrightarrow> path_comps p = path_comps q"
proof
  assume "clean_path p = clean_path q"
  then have "path_comps (clean_path p) = path_comps (clean_path q)" by simp
  then show "path_comps p = path_comps q" by simp
qed (use assms in \<open>simp add: clean_path_def\<close>)

section \<open>Containment\<close>

lemma strip_common_prefix: "prefix as bs \<longleftrightarrow> fst (strip_common as bs) = []"
  by (induction as bs rule: strip_common.induct) auto

lemma strip_common_rest: "\<exists>cs. as = cs @ fst (strip_common as bs) \<and> bs = cs @ snd (strip_common as bs)"
proof (induction as bs rule: strip_common.induct)
  case (1 a as b bs)
  show ?case
  proof (cases "a = b")
    case True
    with 1 obtain cs where "as = cs @ fst (strip_common as bs)" "bs = cs @ snd (strip_common as bs)" by blast
    with True show ?thesis by (intro exI [of _ "a # cs"]) simp
  qed simp
qed simp_all

lemma up_path: "join_with ''/'' (''..'' # ts) = ''..'' \<or> has_prefix (join_with ''/'' (''..'' # ts)) ''../''"
  by (cases ts) (simp_all add: has_prefix_def)

lemma down_path:
  assumes "list_all plain_comp ts" and "ts \<noteq> []"
  shows "join_with ''/'' ts \<noteq> ''..'' \<and> \<not> has_prefix (join_with ''/'' ts) ''../''"
proof -
  have split: "split_char CHR ''/'' (join_with ''/'' ts) = ts"
    using assms by (intro split_join_char) (auto simp: list_all_iff plain_comp_def)
  have first: "hd ts \<noteq> ''..''" using assms by (cases ts) (simp_all add: plain_comp_def)
  have "join_with ''/'' ts \<noteq> ''..''"
  proof
    assume "join_with ''/'' ts = ''..''"
    with split have "ts = [''..'']" by simp
    with first show False by simp
  qed
  moreover have "\<not> has_prefix (join_with ''/'' ts) ''../''"
  proof
    assume "has_prefix (join_with ''/'' ts) ''../''"
    then obtain s where "join_with ''/'' ts = ''..'' @ CHR ''/'' # s"
      unfolding has_prefix_def by (metis append_Cons append_Nil append_take_drop_id)
    with split have "ts = ''..'' # split_char CHR ''/'' s" by (simp add: split_char_append)
    with first show False by simp
  qed
  ultimately show ?thesis by blast
qed

text \<open>On rooted paths the textual test is the prefix relation on clean components.\<close>

lemma within_iff_prefix:
  assumes "is_rooted root" and "is_rooted p"
  shows "within root p \<longleftrightarrow> prefix (path_comps root) (path_comps p)"
proof (cases "path_comps root = path_comps p")
  case True
  then have "clean_path root = clean_path p" using assms by (simp add: clean_path_eq_iff)
  with True show ?thesis by (simp add: within_def rel_path_def has_prefix_def)
next
  case False
  let ?b = "path_comps root" and ?t = "path_comps p"
  obtain x y where xy: "strip_common ?b ?t = (x, y)" by fastforce
  obtain cs where cs: "?b = cs @ x" "?t = cs @ y" using strip_common_rest [of ?b ?t] xy by auto
  have plain: "list_all plain_comp x" "list_all plain_comp y"
    using rooted_comps_plain [OF assms(1)] rooted_comps_plain [OF assms(2)] cs by simp_all
  have ne: "clean_path root \<noteq> clean_path p" using False assms by (simp add: clean_path_eq_iff)
  then have rel: "rel_path root p = map_option (join_with ''/'') (rel_comps ?b ?t)"
    using assms by (simp add: rel_path_def)
  show ?thesis
  proof (cases x)
    case Nil
    then have "y \<noteq> []" using cs False by auto
    have "rel_comps ?b ?t = Some y" using xy Nil by (simp add: rel_comps_def)
    then have "within root p" using rel down_path [OF plain(2) \<open>y \<noteq> []\<close>] by (simp add: within_def)
    moreover have "prefix ?b ?t" using xy Nil by (simp add: strip_common_prefix)
    ultimately show ?thesis by simp
  next
    case (Cons c x')
    have "c \<noteq> ''..''" using plain(1) Cons by (simp add: plain_comp_def)
    then have "rel_comps ?b ?t = Some (''..'' # replicate (length x') ''..'' @ y)"
      using xy Cons by (simp add: rel_comps_def)
    then have "\<not> within root p"
      using rel up_path [of "replicate (length x') ''..'' @ y"] by (auto simp: within_def)
    moreover have "\<not> prefix ?b ?t" using xy Cons by (simp add: strip_common_prefix)
    ultimately show ?thesis by simp
  qed
qed

end
