(* ===== verification/FileTree.thy ===== *)
theory FileTree
  imports GoPaths
begin

text \<open>
  A file tree with symbolic links, and the calls of \<open>os\<close> and \<open>path/filepath\<close> that the program makes
  on it. A path below the root is its list of components; the tree lists the entries by theirs.
\<close>

datatype node = Dir | File string | Link string

type_synonym tree = "(string list \<times> node) list"

definition node_at :: "tree \<Rightarrow> string list \<Rightarrow> node option" where
  "node_at fs d = (if d = [] then Some Dir else map_of fs d)"

section \<open>Following links\<close>

text \<open>A walk along components: dot-dot steps back, a link's text takes the place of its name, from the
  root when it is rooted. The number bounds the links; a file must be the end.\<close>

function resolve :: "tree \<Rightarrow> nat \<Rightarrow> string list \<Rightarrow> string list \<Rightarrow> string list option" where
  "resolve fs k d [] = Some d"
| "resolve fs k d (c # cs) =
     (if c = [] \<or> c = ''.'' then resolve fs k d cs
      else if c = ''..'' then resolve fs k (butlast d) cs
      else case node_at fs (d @ [c]) of
        None \<Rightarrow> None
      | Some Dir \<Rightarrow> resolve fs k (d @ [c]) cs
      | Some (File content) \<Rightarrow> if cs = [] then Some (d @ [c]) else None
      | Some (Link t) \<Rightarrow>
          (case k of 0 \<Rightarrow> None
           | Suc k' \<Rightarrow> resolve fs k' (if is_rooted t then [] else d) (split_char CHR ''/'' t @ cs)))"
  by pat_completeness auto
termination
  by (relation "measures [\<lambda>(fs, k, d, cs). k, \<lambda>(fs, k, d, cs). length cs]") auto

declare resolve.simps(2) [simp del]

text \<open>As \<open>open\<close> with the create flag does: the last name may be missing.\<close>

function resolve_new :: "tree \<Rightarrow> nat \<Rightarrow> string list \<Rightarrow> string list \<Rightarrow> string list option" where
  "resolve_new fs k d [] = Some d"
| "resolve_new fs k d (c # cs) =
     (if c = [] \<or> c = ''.'' then resolve_new fs k d cs
      else if c = ''..'' then resolve_new fs k (butlast d) cs
      else case node_at fs (d @ [c]) of
        None \<Rightarrow> if cs = [] then Some (d @ [c]) else None
      | Some Dir \<Rightarrow> resolve_new fs k (d @ [c]) cs
      | Some (File content) \<Rightarrow> if cs = [] then Some (d @ [c]) else None
      | Some (Link t) \<Rightarrow>
          (case k of 0 \<Rightarrow> None
           | Suc k' \<Rightarrow> resolve_new fs k' (if is_rooted t then [] else d) (split_char CHR ''/'' t @ cs)))"
  by pat_completeness auto
termination
  by (relation "measures [\<lambda>(fs, k, d, cs). k, \<lambda>(fs, k, d, cs). length cs]") auto

declare resolve_new.simps(2) [simp del]

text \<open>Both walks by what they meet.\<close>

definition named :: "string \<Rightarrow> bool" where
  "named c \<longleftrightarrow> c \<noteq> [] \<and> c \<noteq> ''.'' \<and> c \<noteq> ''..''"

lemma resolve_steps:
  "c = [] \<or> c = ''.'' \<Longrightarrow> resolve fs k d (c # cs) = resolve fs k d cs"
  "resolve fs k d (''..'' # cs) = resolve fs k (butlast d) cs"
  "named c \<Longrightarrow> node_at fs (d @ [c]) = None \<Longrightarrow> resolve fs k d (c # cs) = None"
  "named c \<Longrightarrow> node_at fs (d @ [c]) = Some Dir \<Longrightarrow> resolve fs k d (c # cs) = resolve fs k (d @ [c]) cs"
  "named c \<Longrightarrow> node_at fs (d @ [c]) = Some (File x) \<Longrightarrow>
     resolve fs k d (c # cs) = (if cs = [] then Some (d @ [c]) else None)"
  "named c \<Longrightarrow> node_at fs (d @ [c]) = Some (Link t) \<Longrightarrow> resolve fs 0 d (c # cs) = None"
  "named c \<Longrightarrow> node_at fs (d @ [c]) = Some (Link t) \<Longrightarrow>
     resolve fs (Suc k) d (c # cs) = resolve fs k (if is_rooted t then [] else d) (split_char CHR ''/'' t @ cs)"
  by (auto simp: resolve.simps(2) named_def)

lemma resolve_new_steps:
  "c = [] \<or> c = ''.'' \<Longrightarrow> resolve_new fs k d (c # cs) = resolve_new fs k d cs"
  "resolve_new fs k d (''..'' # cs) = resolve_new fs k (butlast d) cs"
  "named c \<Longrightarrow> node_at fs (d @ [c]) = None \<Longrightarrow>
     resolve_new fs k d (c # cs) = (if cs = [] then Some (d @ [c]) else None)"
  "named c \<Longrightarrow> node_at fs (d @ [c]) = Some Dir \<Longrightarrow> resolve_new fs k d (c # cs) = resolve_new fs k (d @ [c]) cs"
  "named c \<Longrightarrow> node_at fs (d @ [c]) = Some (File x) \<Longrightarrow>
     resolve_new fs k d (c # cs) = (if cs = [] then Some (d @ [c]) else None)"
  "named c \<Longrightarrow> node_at fs (d @ [c]) = Some (Link t) \<Longrightarrow> resolve_new fs 0 d (c # cs) = None"
  "named c \<Longrightarrow> node_at fs (d @ [c]) = Some (Link t) \<Longrightarrow>
     resolve_new fs (Suc k) d (c # cs) = resolve_new fs k (if is_rooted t then [] else d) (split_char CHR ''/'' t @ cs)"
  by (auto simp: resolve_new.simps(2) named_def)

lemma walk_cases [case_names stay up missing dir leaf stuck link]:
  assumes "c = [] \<or> c = ''.'' \<Longrightarrow> P" and "c = ''..'' \<Longrightarrow> P"
    and "named c \<Longrightarrow> node_at fs (d @ [c]) = None \<Longrightarrow> P"
    and "named c \<Longrightarrow> node_at fs (d @ [c]) = Some Dir \<Longrightarrow> P"
    and "\<And>x. named c \<Longrightarrow> node_at fs (d @ [c]) = Some (File x) \<Longrightarrow> P"
    and "\<And>t. named c \<Longrightarrow> node_at fs (d @ [c]) = Some (Link t) \<Longrightarrow> k = 0 \<Longrightarrow> P"
    and "\<And>t k'. named c \<Longrightarrow> node_at fs (d @ [c]) = Some (Link t) \<Longrightarrow> k = Suc k' \<Longrightarrow> P"
  shows P
proof (cases "named c")
  case True
  show ?thesis
  proof (cases "node_at fs (d @ [c])")
    case (Some n)
    with True assms(4-) show ?thesis by (cases n; cases k) auto
  qed (use True assms(3) in blast)
qed (use assms(1,2) in \<open>auto simp: named_def\<close>)

section \<open>Calls\<close>

text \<open>\<open>filepath.EvalSymlinks\<close> follows up to 255 links, the kernel up to 40.\<close>

definition eval_symlinks :: "tree \<Rightarrow> string \<Rightarrow> string option" where
  "eval_symlinks fs p = map_option (from_comps True) (resolve fs 255 [] (split_char CHR ''/'' p))"

definition real_path :: "tree \<Rightarrow> string \<Rightarrow> string list option" where
  "real_path fs p = resolve fs 40 [] (split_char CHR ''/'' p)"

definition stat_node :: "tree \<Rightarrow> string \<Rightarrow> node option" where
  "stat_node fs p = (case real_path fs p of None \<Rightarrow> None | Some d \<Rightarrow> node_at fs d)"

definition is_dir :: "node option \<Rightarrow> bool" where
  "is_dir n \<longleftrightarrow> n = Some Dir"

definition read_file :: "tree \<Rightarrow> string \<Rightarrow> string option" where
  "read_file fs p = (case stat_node fs p of Some (File content) \<Rightarrow> Some content | _ \<Rightarrow> None)"

definition write_file :: "tree \<Rightarrow> string \<Rightarrow> string \<Rightarrow> tree option" where
  "write_file fs p content =
     (case resolve_new fs 40 [] (split_char CHR ''/'' p) of
        None \<Rightarrow> None
      | Some d \<Rightarrow> if node_at fs d = Some Dir then None else Some (AList.update d (File content) fs))"

text \<open>\<open>os.MkdirAll\<close>, on reversed components: nothing to do for a directory, otherwise the parents
  first.\<close>

definition make_dir :: "tree \<Rightarrow> string list \<Rightarrow> string \<Rightarrow> tree option" where
  "make_dir fs parent name =
     (case resolve fs 40 [] parent of
        None \<Rightarrow> None
      | Some d \<Rightarrow>
          if node_at fs d = Some Dir \<and> node_at fs (d @ [name]) = None
          then Some (AList.update (d @ [name]) Dir fs) else None)"

fun make_dirs :: "tree \<Rightarrow> string list \<Rightarrow> tree option" where
  "make_dirs fs [] = Some fs"
| "make_dirs fs (c # parents) =
     (case (case resolve fs 40 [] (rev (c # parents)) of None \<Rightarrow> None | Some d \<Rightarrow> node_at fs d) of
        Some Dir \<Rightarrow> Some fs
      | Some n \<Rightarrow> None
      | None \<Rightarrow>
         (case make_dirs fs parents of
            None \<Rightarrow> None
          | Some fs' \<Rightarrow> make_dir fs' (rev parents) c))"

definition mkdir_all :: "tree \<Rightarrow> string \<Rightarrow> tree option" where
  "mkdir_all fs p = make_dirs fs (rev (path_comps p))"

text \<open>\<open>os.ReadDir\<close>: the entries of a directory by name, links not followed.\<close>

definition entries :: "tree \<Rightarrow> string list \<Rightarrow> (string \<times> node) list" where
  "entries fs d =
     map (\<lambda>n. (n, the (node_at fs (d @ [n]))))
       (sort (remdups (map (\<lambda>e. last (fst e)) (filter (\<lambda>e. fst e \<noteq> [] \<and> butlast (fst e) = d) fs))))"

definition read_dir :: "tree \<Rightarrow> string \<Rightarrow> (string \<times> node) list option" where
  "read_dir fs p =
     (case real_path fs p of
        None \<Rightarrow> None
      | Some d \<Rightarrow> if node_at fs d = Some Dir then Some (entries fs d) else None)"

text \<open>\<open>filepath.WalkDir\<close>: a node, then, in a directory, its entries in order. Links are not followed.\<close>

definition max_depth :: "tree \<Rightarrow> nat" where
  "max_depth fs = Max (set (0 # map (\<lambda>e. length (fst e)) fs))"

lemma entries_exist: "(n, x) \<in> set (entries fs d) \<Longrightarrow> d @ [n] \<in> fst ` set fs \<and> node_at fs (d @ [n]) = Some x"
proof -
  assume "(n, x) \<in> set (entries fs d)"
  then obtain e where e: "e \<in> set fs" "fst e \<noteq> []" "butlast (fst e) = d" "n = last (fst e)" "x = the (node_at fs (d @ [n]))"
    by (auto simp: entries_def)
  then have "fst e = d @ [n]" by (metis append_butlast_last_id)
  then have mem: "d @ [n] \<in> fst ` set fs" using e(1) by (metis imageI)
  then have "map_of fs (d @ [n]) \<noteq> None" by (simp add: map_of_eq_None_iff)
  with mem e(5) show ?thesis by (auto simp: node_at_def)
qed

lemma depth_bound: "d \<in> fst ` set fs \<Longrightarrow> length d \<le> max_depth fs"
  unfolding max_depth_def by (rule Max_ge) auto

function walk_dir :: "tree \<Rightarrow> string list \<Rightarrow> node \<Rightarrow> (string list \<times> node) list" where
  "walk_dir fs d n =
     (d, n) # (if n = Dir then concat (map (\<lambda>(c, x). walk_dir fs (d @ [c]) x) (entries fs d)) else [])"
  by pat_completeness auto
termination
proof (relation "measure (\<lambda>(fs, d, n). Suc (max_depth fs) - length d)")
  fix fs d n e c x
  assume "n = Dir" "e \<in> set (entries fs d)" "(c, x) = e"
  then have "length (d @ [c]) \<le> max_depth fs" by (metis depth_bound entries_exist)
  then show "((fs, d @ [c], x), fs, d, n) \<in> measure (\<lambda>(fs, d, n). Suc (max_depth fs) - length d)"
    by simp
qed simp

declare walk_dir.simps [simp del]

section \<open>Real locations\<close>

text \<open>A real location: no component on the way is a link, and all but the last are directories.\<close>

definition real_location :: "tree \<Rightarrow> string list \<Rightarrow> bool" where
  "real_location fs d \<longleftrightarrow> list_all plain_comp d \<and>
     (\<forall>q. prefix q d \<longrightarrow> (case node_at fs q of Some Dir \<Rightarrow> True | Some (File c) \<Rightarrow> q = d | _ \<Rightarrow> False))"

definition real_dir :: "tree \<Rightarrow> string list \<Rightarrow> bool" where
  "real_dir fs d \<longleftrightarrow> list_all plain_comp d \<and> (\<forall>q. prefix q d \<longrightarrow> node_at fs q = Some Dir)"

lemma real_dir_Nil [simp]: "real_dir fs []"
  by (simp add: real_dir_def node_at_def)

lemma real_dir_location: "real_dir fs d \<Longrightarrow> real_location fs d"
  by (simp add: real_dir_def real_location_def)

lemma real_dir_butlast: "real_dir fs d \<Longrightarrow> real_dir fs (butlast d)"
  unfolding real_dir_def
  by (metis (no_types, lifting) append_butlast_last_id butlast.simps(1) list_all_append prefixI prefix_order.trans)

lemma real_dir_snoc: "real_dir fs d \<Longrightarrow> plain_comp c \<Longrightarrow> node_at fs (d @ [c]) = Some Dir \<Longrightarrow> real_dir fs (d @ [c])"
  by (auto simp: real_dir_def prefix_snoc)

lemma real_location_snoc:
  "real_dir fs d \<Longrightarrow> plain_comp c \<Longrightarrow> node_at fs (d @ [c]) = Some (File x) \<Longrightarrow> real_location fs (d @ [c])"
  by (auto simp: real_dir_def real_location_def prefix_snoc)

lemma real_dir_node: "real_dir fs d \<Longrightarrow> node_at fs d = Some Dir"
  by (simp add: real_dir_def)

lemma split_no_slash: "\<forall>c \<in> set (split_char d t). d \<notin> set c"
  using split_char_no_sep by blast

lemma resolve_real:
  assumes "resolve fs k d cs = Some r" and "real_dir fs d" and "\<forall>c \<in> set cs. CHR ''/'' \<notin> set c"
  shows "real_location fs r"
  using assms
proof (induction fs k d cs rule: resolve.induct)
  case (1 fs k d)
  then show ?case by (simp add: real_dir_location)
next
  case (2 fs k d c cs)
  note IH = "2.IH" and res = "2.prems"(1) and d = "2.prems"(2) and cs = "2.prems"(3)
  show ?case
  proof (cases rule: walk_cases [of c _ fs d k])
    case stay
    with IH(1) res d cs show ?thesis by (simp add: resolve_steps)
  next
    case up
    with IH(2) res d cs show ?thesis by (simp add: resolve_steps real_dir_butlast)
  next
    case missing
    with res show ?thesis by (simp add: resolve_steps)
  next
    case dir
    then have "plain_comp c" using cs by (simp add: plain_comp_def named_def)
    then have "real_dir fs (d @ [c])" using real_dir_snoc d dir by blast
    with IH(3) dir res cs show ?thesis by (simp add: resolve_steps named_def)
  next
    case (leaf x)
    then have "plain_comp c" using cs by (simp add: plain_comp_def named_def)
    then have "real_location fs (d @ [c])" using real_location_snoc [OF d] leaf by blast
    with leaf res show ?thesis by (simp add: resolve_steps split: if_splits)
  next
    case (stuck t)
    with res show ?thesis by (simp add: resolve_steps)
  next
    case (link t k')
    have "resolve fs k' (if is_rooted t then [] else d) (split_char CHR ''/'' t @ cs) = Some r"
      using link res by (simp add: resolve_steps)
    moreover have "real_dir fs (if is_rooted t then [] else d)" using d by simp
    moreover have "\<forall>c \<in> set (split_char CHR ''/'' t @ cs). CHR ''/'' \<notin> set c"
      using cs split_no_slash by auto
    ultimately show ?thesis using IH(4) [of "Link t" t k'] link by (simp add: named_def)
  qed
qed

text \<open>Along a real location the walk goes straight.\<close>

lemma resolve_straight:
  assumes "real_dir fs d" and "real_location fs (d @ cs)"
  shows "resolve fs k d cs = Some (d @ cs)"
  using assms
proof (induction cs arbitrary: d)
  case (Cons c cs)
  have plain: "plain_comp c" using Cons.prems(2) by (simp add: real_location_def)
  then have c: "c \<noteq> []" "c \<noteq> ''.''" "c \<noteq> ''..''" by (simp_all add: plain_comp_def)
  have "prefix (d @ [c]) (d @ c # cs)" by simp
  with Cons.prems(2) have node: "case node_at fs (d @ [c]) of Some Dir \<Rightarrow> True
      | Some (File x) \<Rightarrow> d @ [c] = d @ c # cs | _ \<Rightarrow> False"
    unfolding real_location_def by blast
  then consider "node_at fs (d @ [c]) = Some Dir" | x where "node_at fs (d @ [c]) = Some (File x)" "cs = []"
    by (auto split: option.splits node.splits)
  then show ?case
  proof cases
    case 1
    have "real_dir fs (d @ [c])" using real_dir_snoc [OF Cons.prems(1) plain 1] .
    with Cons.IH [of "d @ [c]"] Cons.prems(2) c 1 show ?thesis by (simp add: resolve.simps)
  next
    case 2
    with c show ?thesis by (simp add: resolve.simps)
  qed
qed simp

section \<open>Paths of components\<close>

lemma comps_from_plain: "list_all plain_comp cs \<Longrightarrow> path_comps (from_comps True cs) = cs"
  by (rule comps_from_comps) (auto simp: clean_list_def intro: exI [of _ 0])

lemma is_rooted_from_comps [simp]: "is_rooted (from_comps True cs)"
  by (simp add: from_comps_def is_rooted_def)

lemma rooted_append: "is_rooted p \<Longrightarrow> is_rooted (p @ q)"
  by (simp add: is_rooted_def)

lemma rooted_join: "is_rooted p \<Longrightarrow> is_rooted (join_path [p, q])"
proof -
  assume "is_rooted p"
  moreover from this have "p \<noteq> []" by (simp add: is_rooted_def)
  ultimately show ?thesis by (simp add: join_path_def rooted_append)
qed

lemma real_location_split:
  assumes "list_all plain_comp d"
  shows "split_char CHR ''/'' (from_comps True d) = [] # (if d = [] then [[]] else d)"
proof (cases "d = []")
  case False
  have "split_char CHR ''/'' (join_with ''/'' d) = d"
    using assms False by (intro split_join_char) (auto simp: list_all_iff plain_comp_def)
  with False show ?thesis by (simp add: from_comps_def)
qed (simp add: from_comps_def)

lemma clean_comps_plain_append:
  "list_all plain_comp ps \<Longrightarrow> clean_comps rooted acc (ps @ cs) = clean_comps rooted (rev ps @ acc) cs"
  by (induction ps arbitrary: acc) (auto simp: plain_comp_def)

lemma path_comps_slash:
  assumes "list_all plain_comp cs" and "cs \<noteq> []"
  shows "path_comps (from_comps True cs @ ''/'') = cs"
proof -
  have "from_comps True cs @ ''/'' = CHR ''/'' # join_with ''/'' (cs @ [[]])"
    using assms(2) by (simp add: from_comps_def join_with_snoc)
  moreover have "split_char CHR ''/'' (join_with ''/'' (cs @ [[]])) = cs @ [[]]"
    using assms(1) by (intro split_join_char) (auto simp: list_all_iff plain_comp_def)
  ultimately show ?thesis
    using assms(1) by (simp add: path_comps_def is_rooted_def clean_comps_plain_append)
qed

lemma resolve_comps:
  assumes "list_all plain_comp cs"
  shows "resolve fs k [] (split_char CHR ''/'' (from_comps True cs)) = resolve fs k [] cs"
    and "resolve_new fs k [] (split_char CHR ''/'' (from_comps True cs)) = resolve_new fs k [] cs"
  by (simp_all add: real_location_split [OF assms] resolve_steps resolve_new_steps)

lemma resolve_continue:
  assumes "resolve fs k d cs = Some r" and "node_at fs r = Some Dir"
  shows "\<exists>k'. resolve_new fs k d (cs @ ds) = resolve_new fs k' r ds"
  using assms
proof (induction fs k d cs rule: resolve.induct)
  case (2 fs k d c cs)
  note IH = "2.IH" and res = "2.prems"(1) and r = "2.prems"(2)
  show ?case
  proof (cases rule: walk_cases [of c _ fs d k])
    case dir
    with IH(3) res r show ?thesis by (simp add: resolve_steps resolve_new_steps named_def)
  next
    case (link t k')
    with res have "resolve fs k' (if is_rooted t then [] else d) (split_char CHR ''/'' t @ cs) = Some r"
      by (simp add: resolve_steps)
    with IH(4) [of "Link t" t k'] link r show ?thesis by (simp add: resolve_new_steps named_def)
  qed (use IH(1,2) res r in \<open>auto simp: resolve_steps resolve_new_steps split: if_splits\<close>)
qed auto

lemma join_child:
  assumes "is_rooted p" and "clean_path p = p"
  shows "is_rooted (join_path [p, name])" and "clean_path (join_path [p, name]) = join_path [p, name]"
  using assms rooted_join [OF assms(1)]
  by (auto simp: join_path_def is_rooted_def)

lemma join_child_comps:
  assumes "is_rooted p" and "clean_path p = p" and "plain_comp name"
  shows "path_comps (join_path [p, name]) = path_comps p @ [name]"
proof -
  have plain: "list_all plain_comp (path_comps p)" using rooted_comps_plain [OF assms(1)] .
  have p: "p = from_comps True (path_comps p)" using assms(1,2) by (metis clean_path_def)
  have name: "CHR ''/'' \<notin> set name" "name \<noteq> []" using assms(3) by (simp_all add: plain_comp_def)
  have "path_comps (p @ ''/'' @ name) = path_comps p @ [name]"
  proof (cases "path_comps p = []")
    case True
    then have "p = ''/''" using p by (simp add: from_comps_def)
    then have "p @ ''/'' @ name = CHR ''/'' # CHR ''/'' # name" by simp
    then show ?thesis using True name assms(3)
      by (simp add: path_comps_def is_rooted_def split_char_plain plain_comp_def)
  next
    case False
    have "p @ ''/'' @ name = from_comps True (path_comps p @ [name])"
      using False by (subst p) (simp add: from_comps_def join_with_snoc)
    then show ?thesis using plain assms(3) by (simp add: comps_from_plain)
  qed
  moreover have "p \<noteq> []" using assms(1) by (auto simp: is_rooted_def)
  ultimately show ?thesis by (simp add: join_path_def)
qed

end
