(* ===== verification/GoText.thy ===== *)
theory GoText
  imports GoStrings
begin

text \<open>
  More of Go's text packages: substrings that do not overlap, fields, UTF-8 validity and
  truncation by runes, \<open>strings.EqualFold\<close> against an ASCII name, and \<open>strconv.Unquote\<close> of a
  double-quoted literal.
\<close>

section \<open>Substrings\<close>

text \<open>\<open>bytes.Count\<close> and \<open>bytes.Replace\<close>: occurrences from the left that do not overlap.\<close>

fun find_sub :: "string \<Rightarrow> string \<Rightarrow> nat option" where
  "find_sub p [] = (if p = [] then Some 0 else None)"
| "find_sub p (c # s) = (if has_prefix (c # s) p then Some 0 else map_option Suc (find_sub p s))"

function split_sub :: "string \<Rightarrow> string \<Rightarrow> string list" where
  "split_sub p s =
     (case (if p = [] then None else find_sub p s) of
        None \<Rightarrow> [s]
      | Some i \<Rightarrow> take i s # split_sub p (drop (i + length p) s))"
  by pat_completeness auto

lemma find_sub_bound: "find_sub p s = Some i \<Longrightarrow> i + length p \<le> length s"
proof (induction p s arbitrary: i rule: find_sub.induct)
  case (2 p c s)
  then show ?case
    by (auto simp: has_prefix_def split: if_splits) (metis length_Cons length_take min.cobounded1)
qed (auto split: if_splits)

termination split_sub
proof (relation "measure (\<lambda>(p, s). length s)")
  fix p s :: string and i
  assume a: "(if p = [] then None else find_sub p s) = Some i"
  then have "p \<noteq> []" "find_sub p s = Some i" by (auto split: if_splits)
  with find_sub_bound [of p s i] have "0 < length p" "i + length p \<le> length s" by simp_all
  then have "length s - (i + length p) < length s" by linarith
  then show "((p, drop (i + length p) s), p, s) \<in> measure (\<lambda>(p, s). length s)" by simp
qed simp

declare split_sub.simps [simp del]

definition count_sub :: "string \<Rightarrow> string \<Rightarrow> nat" where
  "count_sub p s = length (split_sub p s) - 1"

text \<open>The first \<open>n\<close> occurrences, or all of them when \<open>n\<close> is negative.\<close>

fun join_replaced :: "int \<Rightarrow> string \<Rightarrow> string \<Rightarrow> string list \<Rightarrow> string" where
  "join_replaced n old new [] = []"
| "join_replaced n old new [w] = w"
| "join_replaced n old new (w # ws) =
     w @ (if n = 0 then old else new) @ join_replaced (if n > 0 then n - 1 else n) old new ws"

definition replace_sub :: "int \<Rightarrow> string \<Rightarrow> string \<Rightarrow> string \<Rightarrow> string" where
  "replace_sub n old new s = join_replaced n old new (split_sub old s)"

section \<open>Fields and cuts\<close>

definition starts_space :: "string \<Rightarrow> bool" where
  "starts_space s \<longleftrightarrow> list_ex (\<lambda>w. has_prefix s w) space_runes"

fun break_space :: "string \<Rightarrow> string \<times> string" where
  "break_space [] = ([], [])"
| "break_space (c # s) =
     (if starts_space (c # s) then ([], c # s)
      else (case break_space s of (w, rest) \<Rightarrow> (c # w, rest)))"

lemma break_space_length: "length (snd (break_space s)) \<le> length s"
  by (induction s rule: break_space.induct) (auto split: prod.splits)

text \<open>\<open>strings.Fields\<close>\<close>

function text_fields :: "string \<Rightarrow> string list" where
  "text_fields s =
     (case trim_left_space s of
        [] \<Rightarrow> []
      | c # s' \<Rightarrow> (let (w, rest) = break_space s' in (c # w) # text_fields rest))"
  by pat_completeness auto
termination
proof (relation "measure length")
  fix s c s' p w rest
  assume a: "trim_left_space s = c # s'" "p = break_space s'" "(w, rest) = p"
  have "length (trim_left_space s) \<le> length s" by (simp add: trim_left_space_def length_trim_by)
  with a break_space_length [of s'] show "(rest, s) \<in> measure length" by (metis Suc_le_eq in_measure le_trans length_Cons not_less_eq_eq snd_conv)
qed simp

declare text_fields.simps [simp del]

text \<open>\<open>strings.TrimRight\<close> and \<open>strings.TrimLeft\<close> with a set of ASCII characters.\<close>

definition trim_right_chars :: "string \<Rightarrow> string \<Rightarrow> string" where
  "trim_right_chars ws s = rev (dropWhile (\<lambda>c. c \<in> set ws) (rev s))"

definition trim_left_chars :: "string \<Rightarrow> string \<Rightarrow> string" where
  "trim_left_chars ws s = dropWhile (\<lambda>c. c \<in> set ws) s"

section \<open>Runes\<close>

text \<open>A rune of \<open>runes\<close> that is a single byte above 127 stands for an invalid one.\<close>

definition invalid_rune :: "string \<Rightarrow> bool" where
  "invalid_rune r \<longleftrightarrow> length r = 1 \<and> 128 \<le> (of_char (hd r) :: nat)"

definition utf8_valid :: "string \<Rightarrow> bool" where
  "utf8_valid s \<longleftrightarrow> list_all (\<lambda>r. \<not> invalid_rune r) (runes s)"

text \<open>The conversion to runes and back writes the replacement rune for an invalid byte.\<close>

definition encode_rune :: "string \<Rightarrow> string" where
  "encode_rune r = (if invalid_rune r then [CHR 0xEF, CHR 0xBF, CHR 0xBD] else r)"

definition truncate_runes :: "string \<Rightarrow> nat \<Rightarrow> string" where
  "truncate_runes s limit =
     (if limit = 0 then [] else if rune_count s \<le> limit then s
      else concat (map encode_rune (take limit (runes s))))"

text \<open>\<open>strings.EqualFold\<close> when one side is ASCII: beside the letters of the other case, the Kelvin
  sign folds to k and the long s to s.\<close>

definition fold_rune :: "string \<Rightarrow> string" where
  "fold_rune r =
     (if r = [CHR 0xE2, CHR 0x84, CHR 0xAA] then ''k''
      else if r = [CHR 0xC5, CHR 0xBF] then ''s''
      else if length r = 1 then map lower_char r else r)"

definition equal_fold_ascii :: "string \<Rightarrow> string \<Rightarrow> bool" where
  "equal_fold_ascii a b \<longleftrightarrow> map fold_rune (runes a) = map fold_rune (runes b)"

section \<open>Unquoting\<close>

definition hex_value :: "char \<Rightarrow> nat option" where
  "hex_value c =
     (let n = of_char c in
      if 48 \<le> n \<and> n \<le> 57 then Some (n - 48)
      else if 97 \<le> n \<and> n \<le> 102 then Some (n - 87)
      else if 65 \<le> n \<and> n \<le> 70 then Some (n - 55)
      else None)"

fun hex_number :: "nat \<Rightarrow> string \<Rightarrow> nat option" where
  "hex_number acc [] = Some acc"
| "hex_number acc (c # cs) = (case hex_value c of None \<Rightarrow> None | Some v \<Rightarrow> hex_number (acc * 16 + v) cs)"

definition octal_value :: "char \<Rightarrow> nat option" where
  "octal_value c = (let n = of_char c in if 48 \<le> n \<and> n \<le> 55 then Some (n - 48) else None)"

text \<open>\<open>utf8.AppendRune\<close> of a valid rune.\<close>

definition encode_utf8 :: "nat \<Rightarrow> string" where
  "encode_utf8 v =
     map char_of
       (if v < 128 then [v]
        else if v < 2048 then [192 + v div 64, 128 + v mod 64]
        else if v < 65536 then [224 + v div 4096, 128 + v div 64 mod 64, 128 + v mod 64]
        else [240 + v div 262144, 128 + v div 4096 mod 64, 128 + v div 64 mod 64, 128 + v mod 64])"

definition valid_rune :: "nat \<Rightarrow> bool" where
  "valid_rune v \<longleftrightarrow> v < 55296 \<or> (57344 \<le> v \<and> v < 1114112)"

text \<open>One escape, after its backslash: the bytes it stands for and the rest.\<close>

definition hex_escape :: "nat \<Rightarrow> bool \<Rightarrow> string \<Rightarrow> (string \<times> string) option" where
  "hex_escape n single s =
     (if length s < n then None
      else case hex_number 0 (take n s) of
        None \<Rightarrow> None
      | Some v \<Rightarrow>
          if single then Some ([char_of v], drop n s)
          else if valid_rune v then Some (encode_utf8 v, drop n s) else None)"

definition octal_escape :: "char \<Rightarrow> string \<Rightarrow> (string \<times> string) option" where
  "octal_escape c s =
     (case s of
        d # e # rest \<Rightarrow>
          (case (octal_value c, octal_value d, octal_value e) of
             (Some x, Some y, Some z) \<Rightarrow>
               (let v = x * 64 + y * 8 + z in if v > 255 then None else Some ([char_of v], rest))
           | _ \<Rightarrow> None)
      | _ \<Rightarrow> None)"

definition simple_escapes :: "(char \<times> char) list" where
  "simple_escapes =
     [(CHR ''a'', CHR 0x07), (CHR ''b'', CHR 0x08), (CHR ''f'', CHR 0x0C), (CHR ''n'', CHR 0x0A),
      (CHR ''r'', CHR 0x0D), (CHR ''t'', CHR 0x09), (CHR ''v'', CHR 0x0B), (CHR 0x5C, CHR 0x5C),
      (CHR 0x22, CHR 0x22)]"

definition unquote_escape :: "string \<Rightarrow> (string \<times> string) option" where
  "unquote_escape s =
     (case s of
        [] \<Rightarrow> None
      | c # rest \<Rightarrow>
          (case map_of simple_escapes c of
             Some b \<Rightarrow> Some ([b], rest)
           | None \<Rightarrow>
               if c = CHR ''x'' then hex_escape 2 True rest
               else if c = CHR ''u'' then hex_escape 4 False rest
               else if c = CHR ''U'' then hex_escape 8 False rest
               else octal_escape c rest))"

lemma unquote_escape_shorter: "unquote_escape s = Some (b, rest) \<Longrightarrow> length rest < length s"
  by (auto simp: unquote_escape_def hex_escape_def octal_escape_def Let_def
      split: list.splits option.splits if_splits)

text \<open>The text after the opening quote: it must end with the closing one and contain no newline.
  Bytes above 127 are copied, which is what decoding and encoding does to valid text.\<close>

function unquote_body :: "string \<Rightarrow> string option" where
  "unquote_body s =
     (case s of
        [] \<Rightarrow> None
      | c # rest \<Rightarrow>
          if c = CHR 0x22 then (if rest = [] then Some [] else None)
          else if c = CHR 0x0A then None
          else if c = CHR 0x5C then
            (case unquote_escape rest of
               None \<Rightarrow> None
             | Some (b, rest') \<Rightarrow> map_option (\<lambda>t. b @ t) (unquote_body rest'))
          else map_option (\<lambda>t. c # t) (unquote_body rest))"
  by pat_completeness auto
termination
  by (relation "measure length") (auto dest: unquote_escape_shorter)

declare unquote_body.simps [simp del]

end
