(* ===== verification/ToolSandbox.thy ===== *)
theory ToolSandbox
  imports FileTree GoText
begin

text \<open>
  The path sandbox of the built-in file tools and the tools themselves (\<open>tools/builtin_paths.go\<close>,
  \<open>tools/builtin_files.go\<close>, \<open>tools/builtin_search.go\<close>), on a file tree with links. The arguments
  are decoded; the working directory of the process is \<open>cwd\<close>. \<open>filepath.Match\<close> and compiled
  regular expressions are arguments of the tools that use them.
\<close>

section \<open>Directories\<close>

definition canonical_directory :: "tree \<Rightarrow> string \<Rightarrow> string \<Rightarrow> (string, string) result" where
  "canonical_directory fs cwd path =
     (case eval_symlinks fs (abs_path cwd path) of
        None \<Rightarrow> Inl ''resolve project folder symlinks''
      | Some resolved \<Rightarrow>
         (case stat_node fs resolved of
            None \<Rightarrow> Inl ''stat project folder''
          | Some n \<Rightarrow> if n \<noteq> Dir then Inl ''project folder is not a directory'' else Inr (clean_path resolved)))"

definition normalized_paths :: "tree \<Rightarrow> string list \<Rightarrow> string list" where
  "normalized_paths fs paths =
     sort (remdups (concat (map (\<lambda>p.
       if p = [] \<or> CHR 0x00 \<in> set p then []
       else clean_path p # (case eval_symlinks fs (clean_path p) of None \<Rightarrow> [] | Some r \<Rightarrow> [clean_path r]))
       paths)))"

section \<open>The sandbox\<close>

record path_sandbox =
  ps_main :: string
  ps_additional :: "string list"
  ps_roots :: "string list"

text \<open>The loop over the additional folders, with the folders seen, the ones kept and the candidates
  for roots so far.\<close>

fun add_folders ::
  "tree \<Rightarrow> string \<Rightarrow> string \<Rightarrow> string list \<Rightarrow> string list \<Rightarrow> string list \<Rightarrow> string list \<Rightarrow>
     (string, string list \<times> string list) result" where
  "add_folders fs cwd main seen kept roots [] = Inr (kept, roots)"
| "add_folders fs cwd main seen kept roots (f # folders) =
     (let folder = trim_space f in
      if folder = [] then add_folders fs cwd main seen kept roots folders
      else case canonical_directory fs cwd folder of
        Inl e \<Rightarrow> Inl e
      | Inr resolved \<Rightarrow>
          if dir_path resolved = resolved
          then Inl ''filesystem root cannot be an additional sandbox folder''
          else if resolved \<in> set seen \<or> within main resolved
          then add_folders fs cwd main seen kept roots folders
          else add_folders fs cwd main (resolved # seen) (kept @ [resolved])
                 (roots @ [abs_path cwd folder, resolved]) folders)"

definition new_path_sandbox :: "tree \<Rightarrow> string \<Rightarrow> string \<Rightarrow> string list \<Rightarrow> (string, path_sandbox) result" where
  "new_path_sandbox fs cwd main additional =
     (case canonical_directory fs cwd main of
        Inl e \<Rightarrow> Inl e
      | Inr resolved \<Rightarrow>
         (case add_folders fs cwd resolved [resolved] [] [abs_path cwd (trim_space main), resolved] additional of
            Inl e \<Rightarrow> Inl e
          | Inr (kept, roots) \<Rightarrow>
              Inr \<lparr>ps_main = resolved, ps_additional = sort kept, ps_roots = normalized_paths fs roots\<rparr>))"

definition sandbox_contains :: "path_sandbox \<Rightarrow> string \<Rightarrow> bool" where
  "sandbox_contains S p \<longleftrightarrow> list_ex (\<lambda>root. within root p) (ps_roots S)"

definition escapes :: string where
  "escapes = ''path escapes the project sandbox''"

definition secure_lexical_path :: "path_sandbox \<Rightarrow> string \<Rightarrow> (string, string) result" where
  "secure_lexical_path S requested =
     (if trim_space requested = [] then Inl ''path is required''
      else (let p = clean_path (if is_rooted requested then requested else join_path [ps_main S, requested])
            in if sandbox_contains S p then Inr p else Inl escapes))"

definition secure_existing_path :: "tree \<Rightarrow> path_sandbox \<Rightarrow> string \<Rightarrow> (string, string) result" where
  "secure_existing_path fs S requested =
     bind_result (secure_lexical_path S requested) (\<lambda>p.
       case eval_symlinks fs p of
         None \<Rightarrow> Inl ''no such file or directory''
       | Some resolved \<Rightarrow> if sandbox_contains S resolved then Inr resolved else Inl escapes)"

text \<open>The walk up the parents of a new path, as reversed components: \<open>filepath.Dir\<close> drops the last
  component of a clean rooted path (\<open>dir_path_clean\<close> below).\<close>

fun secure_parent :: "tree \<Rightarrow> path_sandbox \<Rightarrow> string list \<Rightarrow> string option" where
  "secure_parent fs S parents =
     (case eval_symlinks fs (from_comps True (rev parents)) of
        Some resolved \<Rightarrow> if sandbox_contains S resolved then None else Some escapes
      | None \<Rightarrow> (case parents of [] \<Rightarrow> Some ''no such file or directory'' | c # ps \<Rightarrow> secure_parent fs S ps))"

declare secure_parent.simps [simp del]

definition secure_new_path :: "tree \<Rightarrow> path_sandbox \<Rightarrow> string \<Rightarrow> (string, string) result" where
  "secure_new_path fs S requested =
     bind_result (secure_lexical_path S requested) (\<lambda>p.
       case secure_parent fs S (rev (butlast (path_comps p))) of
         Some e \<Rightarrow> Inl e
       | None \<Rightarrow> Inr p)"

definition display_path :: "path_sandbox \<Rightarrow> string \<Rightarrow> string" where
  "display_path S p =
     (if \<not> within (ps_main S) p then p
      else case rel_path (ps_main S) p of None \<Rightarrow> p | Some r \<Rightarrow> r)"

section \<open>Files\<close>

definition pad_left :: "nat \<Rightarrow> string \<Rightarrow> string" where
  "pad_left n s = replicate (n - length s) CHR '' '' @ s"

definition limit_output :: "string \<Rightarrow> string" where
  "limit_output s = (if int (length s) > 1048576 then take 1048576 s else s)"

definition numbered_lines :: "int \<Rightarrow> int \<Rightarrow> string \<Rightarrow> string" where
  "numbered_lines offset limit content =
     (let rows = split_char CHR 0x0A (limit_output content);
          off = (if offset \<le> 0 then 1 else offset);
          lim = (if limit \<le> 0 then 500 else limit);
          start = min (nat (off - 1)) (length rows);
          stop = min (start + nat lim) (length rows)
      in concat (map (\<lambda>i. pad_left 6 (show_nat (Suc i)) @ [CHR 0x09] @ rows ! i @ [CHR 0x0A]) [start..<stop]))"

definition read_tool :: "tree \<Rightarrow> path_sandbox \<Rightarrow> string \<Rightarrow> int \<Rightarrow> int \<Rightarrow> (string, string) result" where
  "read_tool fs S path offset limit =
     bind_result (secure_existing_path fs S path) (\<lambda>p.
       case read_file fs p of
         None \<Rightarrow> Inl ''read''
       | Some content \<Rightarrow> Inr (numbered_lines offset limit content))"

definition write_tool :: "tree \<Rightarrow> path_sandbox \<Rightarrow> string \<Rightarrow> string \<Rightarrow> (string, string) result \<times> tree" where
  "write_tool fs S path content =
     (case secure_new_path fs S path of
        Inl e \<Rightarrow> (Inl e, fs)
      | Inr p \<Rightarrow>
         (case mkdir_all fs (dir_path p) of
            None \<Rightarrow> (Inl ''mkdir'', fs)
          | Some fs' \<Rightarrow>
             (case write_file fs' p content of
                None \<Rightarrow> (Inl ''write'', fs')
              | Some fs'' \<Rightarrow>
                  (Inr (''wrote '' @ show_nat (length content) @ '' bytes to '' @ display_path S p), fs''))))"

definition edit_tool ::
  "tree \<Rightarrow> path_sandbox \<Rightarrow> string \<Rightarrow> string \<Rightarrow> string \<Rightarrow> bool \<Rightarrow> (string, string) result \<times> tree" where
  "edit_tool fs S path old new replace_all =
     (if old = [] then (Inl ''old_text must not be empty'', fs)
      else case secure_existing_path fs S path of
        Inl e \<Rightarrow> (Inl e, fs)
      | Inr p \<Rightarrow>
         (case read_file fs p of
            None \<Rightarrow> (Inl ''read'', fs)
          | Some content \<Rightarrow>
             (let count = count_sub old content in
              if count = 0 then (Inl ''old_text was not found'', fs)
              else if count > 1 \<and> \<not> replace_all then (Inl ''old_text occurs more than once'', fs)
              else case write_file fs p (replace_sub (if replace_all then - 1 else 1) old new content) of
                None \<Rightarrow> (Inl ''write'', fs)
              | Some fs' \<Rightarrow>
                  (Inr (''updated '' @ display_path S p @ '' ('' @ show_nat count @ '' replacement(s))''), fs'))))"

section \<open>Searching\<close>

definition list_tool :: "tree \<Rightarrow> path_sandbox \<Rightarrow> string \<Rightarrow> (string, string) result" where
  "list_tool fs S path =
     bind_result (secure_existing_path fs S (if path = [] then ''.'' else path)) (\<lambda>p.
       case read_dir fs p of
         None \<Rightarrow> Inl ''readdir''
       | Some es \<Rightarrow> Inr (concat (map (\<lambda>(n, x). n @ (if x = Dir then ''/'' else []) @ [CHR 0x0A]) es)))"

definition walk_from :: "tree \<Rightarrow> string \<Rightarrow> (string list \<times> node) list" where
  "walk_from fs p =
     (case node_at fs (path_comps p) of None \<Rightarrow> [] | Some n \<Rightarrow> walk_dir fs (path_comps p) n)"

definition entry_name :: "string list \<Rightarrow> string" where
  "entry_name d = (if d = [] then ''/'' else last d)"

definition result_limit :: "int \<Rightarrow> nat" where
  "result_limit n = nat (if n \<le> 0 then 200 else n)"

definition find_tool ::
  "(string \<Rightarrow> string \<Rightarrow> bool) \<Rightarrow> tree \<Rightarrow> path_sandbox \<Rightarrow> string \<Rightarrow> string \<Rightarrow> int \<Rightarrow> (string, string) result" where
  "find_tool matches fs S path pattern max_results =
     bind_result (secure_existing_path fs S (if path = [] then ''.'' else path)) (\<lambda>start.
       let pat = (if pattern = [] then ''*'' else pattern);
           hit = (\<lambda>(d, n). let rel = display_path S (from_comps True d)
                           in if matches pat (entry_name d) \<or> matches pat rel
                              then [rel @ (if n = Dir then ''/'' else [])] else [])
       in Inr (join_with [CHR 0x0A]
            (take (result_limit max_results) (concat (map hit (walk_from fs start))))))"

text \<open>\<open>bufio.Scanner\<close>: lines without their end; a line that does not fit its buffer ends the scan.\<close>

definition drop_cr :: "string \<Rightarrow> string" where
  "drop_cr l = (if l \<noteq> [] \<and> last l = CHR 0x0D then butlast l else l)"

definition scan_lines :: "string \<Rightarrow> string list" where
  "scan_lines s =
     (let rows = split_char CHR 0x0A s;
          rows' = (if last rows = [] then butlast rows else rows)
      in map drop_cr (takeWhile (\<lambda>l. int (length l) < 65536) rows'))"

definition grep_file :: "(string \<Rightarrow> bool) \<Rightarrow> tree \<Rightarrow> path_sandbox \<Rightarrow> string list \<Rightarrow> string list" where
  "grep_file matches fs S d =
     (case read_file fs (from_comps True d) of
        None \<Rightarrow> []
      | Some content \<Rightarrow>
          map (\<lambda>(i, l). display_path S (from_comps True d) @ '':'' @ show_nat (Suc i) @ '':'' @ l)
            (filter (\<lambda>(i, l). matches l) (enumerate 0 (scan_lines (limit_output content)))))"

definition grep_tool ::
  "(string \<Rightarrow> (string \<Rightarrow> bool) option) \<Rightarrow> tree \<Rightarrow> path_sandbox \<Rightarrow> string \<Rightarrow> string \<Rightarrow> int \<Rightarrow> (string, string) result" where
  "grep_tool compile fs S path pattern max_results =
     (case compile pattern of
        None \<Rightarrow> Inl ''regexp''
      | Some matches \<Rightarrow>
          bind_result (secure_existing_path fs S (if path = [] then ''.'' else path)) (\<lambda>start.
            Inr (join_with [CHR 0x0A] (take (result_limit max_results)
              (concat (map (\<lambda>(d, n). if n = Dir then [] else grep_file matches fs S d) (walk_from fs start)))))))"

section \<open>Choosing tools\<close>

text \<open>\<open>BuiltinsWithOptions\<close>: the names of the tools it hands out, in the order asked for.\<close>

definition file_tool_names :: "string list" where
  "file_tool_names = [''read'', ''write'', ''edit'', ''ls'', ''find'', ''grep'']"

definition select_builtins ::
  "tree \<Rightarrow> string \<Rightarrow> string \<Rightarrow> string list \<Rightarrow> string list \<Rightarrow> (path_sandbox \<Rightarrow> string option) \<Rightarrow>
     (string, path_sandbox \<times> string list) result" where
  "select_builtins fs cwd main additional names executor =
     bind_result (new_path_sandbox fs cwd main additional) (\<lambda>S.
       let wanted = map trim_space names in
       if list_ex (\<lambda>n. n \<noteq> ''bash'' \<and> n \<notin> set file_tool_names) wanted then Inl ''unsupported tool''
       else if ''bash'' \<in> set wanted
       then (case executor S of Some e \<Rightarrow> Inl e | None \<Rightarrow> Inr (S, remdups wanted))
       else Inr (S, remdups wanted))"

end
