(* ===== verification/FileOps.thy ===== *)
theory FileOps
  imports FileTree
begin

text \<open>
  Single entries of a directory: what \<open>os.CreateTemp\<close>, \<open>os.Rename\<close>, \<open>os.Remove\<close> and \<open>os.Lstat\<close> do. A
  path is followed up to its last name, which is the entry itself, a link or not. Renaming is that of
  a file or link over a file, a link or nothing.
\<close>

section \<open>Calls\<close>

definition entry_location :: "tree \<Rightarrow> string \<Rightarrow> string list option" where
  "entry_location fs p =
     (let cs = split_char CHR ''/'' p
      in case resolve fs 40 [] (butlast cs) of
           None \<Rightarrow> None
         | Some d \<Rightarrow> if node_at fs d = Some Dir \<and> named (last cs) then Some (d @ [last cs]) else None)"

definition lstat_node :: "tree \<Rightarrow> string \<Rightarrow> node option" where
  "lstat_node fs p = (case entry_location fs p of None \<Rightarrow> None | Some l \<Rightarrow> node_at fs l)"

definition put_node :: "string list \<Rightarrow> node \<Rightarrow> tree \<Rightarrow> tree" where
  "put_node l n fs = AList.update l n fs"

definition drop_node :: "string list \<Rightarrow> tree \<Rightarrow> tree" where
  "drop_node l fs = AList.delete l fs"

text \<open>The name is one that \<open>os.CreateTemp\<close> has drawn: it takes another when one is in use.\<close>

definition create_temp :: "tree \<Rightarrow> string \<Rightarrow> string \<Rightarrow> (string \<times> string list) option" where
  "create_temp fs directory name =
     (let p = join_path [directory, name]
      in case entry_location fs p of
           None \<Rightarrow> None
         | Some l \<Rightarrow> if node_at fs l = None then Some (p, l) else None)"

definition rename_file :: "tree \<Rightarrow> string \<Rightarrow> string \<Rightarrow> tree option" where
  "rename_file fs p q =
     (case (entry_location fs p, entry_location fs q) of
        (Some a, Some b) \<Rightarrow>
          (case node_at fs a of
             None \<Rightarrow> None
           | Some n \<Rightarrow>
               if n = Dir \<or> node_at fs b = Some Dir then None
               else if a = b then Some fs else Some (put_node b n (drop_node a fs)))
      | _ \<Rightarrow> None)"

definition remove_file :: "tree \<Rightarrow> string \<Rightarrow> tree option" where
  "remove_file fs p =
     (case entry_location fs p of
        None \<Rightarrow> None
      | Some l \<Rightarrow> if node_at fs l = None \<or> node_at fs l = Some Dir then None else Some (drop_node l fs))"

text \<open>What is left of a path after a removal whose error is ignored.\<close>

definition discard_file :: "tree \<Rightarrow> string \<Rightarrow> tree" where
  "discard_file fs p = (case remove_file fs p of None \<Rightarrow> fs | Some fs' \<Rightarrow> fs')"

section \<open>What they change\<close>

text \<open>Two trees are the same when they agree on every location.\<close>

definition same_tree :: "tree \<Rightarrow> tree \<Rightarrow> bool" where
  "same_tree fs fs' \<longleftrightarrow> node_at fs = node_at fs'"

lemma same_tree_refl [simp]: "same_tree fs fs"
  by (simp add: same_tree_def)

lemma node_at_put: "l \<noteq> [] \<Longrightarrow> node_at (put_node l n fs) = (node_at fs)(l := Some n)"
  by (rule ext) (simp add: node_at_def put_node_def update_conv')

lemma node_at_drop: "l \<noteq> [] \<Longrightarrow> node_at (drop_node l fs) = (node_at fs)(l := None)"
  by (rule ext) (simp add: node_at_def drop_node_def delete_conv')

lemma drop_put: "l \<noteq> [] \<Longrightarrow> node_at fs l = None \<Longrightarrow> same_tree (drop_node l (put_node l n fs)) fs"
  by (simp add: same_tree_def node_at_put node_at_drop fun_upd_idem)

lemma real_dir_transfer:
  assumes "real_dir fs d" and "\<And>q. node_at fs q = Some Dir \<Longrightarrow> node_at fs' q = Some Dir"
  shows "real_dir fs' d"
  using assms by (simp add: real_dir_def)

lemma real_dir_put:
  assumes "real_dir fs d" and "l \<noteq> []" and "node_at fs l \<noteq> Some Dir"
  shows "real_dir (put_node l n fs) d"
  by (rule real_dir_transfer [OF assms(1)]) (use assms(2,3) in \<open>auto simp: node_at_put\<close>)

lemma real_dir_drop:
  assumes "real_dir fs d" and "l \<noteq> []" and "node_at fs l \<noteq> Some Dir"
  shows "real_dir (drop_node l fs) d"
  by (rule real_dir_transfer [OF assms(1)]) (use assms(2,3) in \<open>auto simp: node_at_drop\<close>)

text \<open>An entry of a real directory lies where its path says.\<close>

lemma entry_location_real:
  assumes "real_dir fs d" and "plain_comp n"
  shows "entry_location fs (from_comps True (d @ [n])) = Some (d @ [n])"
proof -
  have plain: "list_all plain_comp d" using assms(1) by (simp add: real_dir_def)
  have split: "split_char CHR ''/'' (from_comps True (d @ [n])) = [] # d @ [n]"
    using plain assms(2) by (simp add: real_location_split)
  have "resolve fs 40 [] d = Some ([] @ d)"
    by (rule resolve_straight) (simp_all add: real_dir_location assms(1))
  then have "resolve fs 40 [] ([] # d) = Some d" by (simp add: resolve_steps)
  moreover have "named n" using assms(2) by (simp add: plain_comp_def named_def)
  ultimately show ?thesis
    using real_dir_node [OF assms(1)] by (simp add: entry_location_def split butlast_append)
qed

lemma child_path:
  assumes "list_all plain_comp d" and "plain_comp n"
  shows "join_path [from_comps True d, n] = from_comps True (d @ [n])"
proof -
  have p: "clean_path (from_comps True d) = from_comps True d"
    by (simp add: clean_path_def comps_from_plain assms(1))
  from join_child [OF is_rooted_from_comps p, of n]
  have "join_path [from_comps True d, n] = from_comps True (path_comps (join_path [from_comps True d, n]))"
    by (metis clean_path_def)
  with join_child_comps [OF is_rooted_from_comps p assms(2)] show ?thesis
    by (simp add: comps_from_plain assms(1))
qed

lemma create_temp_real:
  assumes "real_dir fs d" and "plain_comp n"
  shows "create_temp fs (from_comps True d) n =
     (if node_at fs (d @ [n]) = None then Some (from_comps True (d @ [n]), d @ [n]) else None)"
  using assms child_path [OF _ assms(2), of d] entry_location_real [OF assms]
  by (simp add: create_temp_def real_dir_def)

lemma remove_file_real:
  assumes "real_dir fs d" and "plain_comp n" and "node_at fs (d @ [n]) \<noteq> None" and "node_at fs (d @ [n]) \<noteq> Some Dir"
  shows "remove_file fs (from_comps True (d @ [n])) = Some (drop_node (d @ [n]) fs)"
  using assms by (simp add: remove_file_def entry_location_real)

lemma rename_file_real:
  assumes "real_dir fs d" and "plain_comp a" and "plain_comp b" and "a \<noteq> b"
    and "node_at fs (d @ [a]) = Some n" and "n \<noteq> Dir" and "node_at fs (d @ [b]) \<noteq> Some Dir"
  shows "rename_file fs (from_comps True (d @ [a])) (from_comps True (d @ [b])) =
     Some (put_node (d @ [b]) n (drop_node (d @ [a]) fs))"
  using assms by (simp add: rename_file_def entry_location_real)

text \<open>A temporary file that takes the place of a file of its directory leaves nothing else behind.\<close>

lemma put_rename:
  assumes "real_dir fs d" and "plain_comp a" and "plain_comp b" and "node_at fs (d @ [a]) = None"
    and "node_at fs (d @ [b]) \<noteq> Some Dir" and "n \<noteq> Dir" and "a \<noteq> b"
  shows "\<exists>fs'. rename_file (put_node (d @ [a]) n fs) (from_comps True (d @ [a])) (from_comps True (d @ [b])) = Some fs' \<and>
      node_at fs' = (node_at fs)(d @ [b] := Some n)"
proof -
  let ?fs = "put_node (d @ [a]) n fs"
  have "real_dir ?fs d" by (rule real_dir_put) (use assms in simp_all)
  with assms have "rename_file ?fs (from_comps True (d @ [a])) (from_comps True (d @ [b])) =
      Some (put_node (d @ [b]) n (drop_node (d @ [a]) ?fs))"
    by (intro rename_file_real) (auto simp: node_at_put)
  moreover have "node_at (put_node (d @ [b]) n (drop_node (d @ [a]) ?fs)) = (node_at fs)(d @ [b] := Some n)"
    using assms by (auto simp: node_at_put node_at_drop)
  ultimately show ?thesis by blast
qed

lemma discard_put:
  assumes "real_dir fs d" and "plain_comp a" and "node_at fs (d @ [a]) = None" and "n \<noteq> Dir"
  shows "same_tree (discard_file (put_node (d @ [a]) n fs) (from_comps True (d @ [a]))) fs"
proof -
  have "real_dir (put_node (d @ [a]) n fs) d" by (rule real_dir_put) (use assms in simp_all)
  with assms have "remove_file (put_node (d @ [a]) n fs) (from_comps True (d @ [a])) =
      Some (drop_node (d @ [a]) (put_node (d @ [a]) n fs))"
    by (intro remove_file_real) (simp_all add: node_at_put)
  with assms show ?thesis by (simp add: discard_file_def drop_put)
qed

section \<open>Links to spend\<close>

text \<open>More links to spend do not change where a walk ends.\<close>

lemma resolve_enough: "resolve fs k d cs = Some r \<Longrightarrow> k \<le> m \<Longrightarrow> resolve fs m d cs = Some r"
proof (induction fs k d cs arbitrary: m rule: resolve.induct)
  case (2 fs k d c cs)
  note IH = "2.IH" and res = "2.prems"(1) and le = "2.prems"(2)
  show ?case
  proof (cases rule: walk_cases [of c _ fs d k])
    case dir
    with IH(3) res le show ?thesis by (simp add: resolve_steps named_def)
  next
    case (link t k')
    then obtain m' where m: "m = Suc m'" "k' \<le> m'" using le by (cases m) auto
    from link res have "resolve fs k' (if is_rooted t then [] else d) (split_char CHR ''/'' t @ cs) = Some r"
      by (simp add: resolve_steps)
    with IH(4) [of "Link t" t k' m'] link m show ?thesis by (simp add: resolve_steps named_def)
  qed (use IH(1,2) res le in \<open>auto simp: resolve_steps split: if_splits\<close>)
qed simp

section \<open>Names of entries\<close>

lemma dropWhile_name: "CHR ''/'' \<notin> set c \<Longrightarrow> dropWhile (\<lambda>x. x \<noteq> CHR ''/'') (rev c @ CHR ''/'' # xs) = CHR ''/'' # xs"
  by (subst dropWhile_append2) auto

text \<open>\<open>filepath.Dir\<close> drops the last component of a clean rooted path.\<close>

lemma dir_path_clean:
  assumes "list_all plain_comp cs"
  shows "dir_path (from_comps True cs) = from_comps True (butlast cs)"
proof (cases cs rule: rev_cases)
  case Nil
  then show ?thesis
    by (simp add: dir_path_def from_comps_def clean_path_def path_comps_def is_rooted_def)
next
  case (snoc cs' c)
  have c: "CHR ''/'' \<notin> set c" and plain: "list_all plain_comp cs'" using assms snoc by (simp_all add: plain_comp_def)
  show ?thesis
  proof (cases "cs' = []")
    case True
    then have "rev (from_comps True cs) = rev c @ [CHR ''/'']" using snoc by (simp add: from_comps_def)
    then have "dropWhile (\<lambda>x. x \<noteq> CHR ''/'') (rev (from_comps True cs)) = [CHR ''/'']"
      using dropWhile_name [OF c, of "[]"] by simp
    then show ?thesis using True snoc
      by (simp add: dir_path_def from_comps_def clean_path_def path_comps_def is_rooted_def)
  next
    case False
    then have "rev (from_comps True cs) = rev c @ CHR ''/'' # rev (from_comps True cs')"
      using snoc by (simp add: from_comps_def join_with_snoc)
    then have "rev (dropWhile (\<lambda>x. x \<noteq> CHR ''/'') (rev (from_comps True cs))) = from_comps True cs' @ ''/''"
      using dropWhile_name [OF c] by simp
    moreover have "is_rooted (from_comps True cs' @ ''/'')" by (simp add: rooted_append)
    ultimately show ?thesis using path_comps_slash [OF plain False] snoc
      by (simp add: dir_path_def clean_path_def)
  qed
qed

lemma show_nat_digits: "list_all is_ascii_digit (show_nat n)"
proof (induction n rule: show_nat.induct)
  case (1 n)
  have digit: "is_ascii_digit (char_of (48 + k))" if "k < 10" for k :: nat
    using that by (simp add: is_ascii_digit_def)
  have small: "n mod 10 < 10" by simp
  show ?case
    by (subst show_nat.simps) (use 1 digit [OF small] digit in auto)
qed

lemma plain_numbered:
  assumes "2 < length w" and "CHR ''/'' \<notin> set w"
  shows "plain_comp (w @ show_nat n)"
proof -
  have "CHR ''/'' \<notin> set (show_nat n)"
    using show_nat_digits [of n] by (auto simp: list_all_iff is_ascii_digit_def)
  moreover have short: "length v \<le> 2" if "v \<in> {[], ''.'', ''..''}" for v :: string using that by auto
  then have "w @ show_nat n \<notin> {[], ''.'', ''..''}"
    using short [of "w @ show_nat n"] assms(1) by (metis le_add1 length_append not_less order_trans)
  ultimately show ?thesis using assms(2) by (simp add: plain_comp_def)
qed

end
