(* ===== verification/ToolSandboxProps.thy ===== *)
theory ToolSandboxProps
  imports ToolSandbox FileOps
begin

text \<open>
  The path sandbox keeps what it checks: a path resolved for reading or editing is a real location
  inside a root, and so is a written file as long as its name is not a link. The last section shows
  that a link inside the project leads the write and grep tools out of it.
\<close>

section \<open>Rooted paths\<close>

lemma rooted_abs: "is_rooted cwd \<Longrightarrow> is_rooted (abs_path cwd p)"
  by (simp add: abs_path_def rooted_join)

lemma eval_rooted: "eval_symlinks fs p = Some r \<Longrightarrow> is_rooted r"
  by (auto simp: eval_symlinks_def)

lemma canonical_rooted: "canonical_directory fs cwd p = Inr r \<Longrightarrow> is_rooted r"
  by (auto simp: canonical_directory_def eval_rooted split: option.splits if_splits)

lemma add_folders_rooted:
  assumes "add_folders fs cwd main seen kept roots folders = Inr (kept', roots')"
    and "is_rooted cwd" and "list_all is_rooted roots"
  shows "list_all is_rooted roots'"
  using assms
proof (induction fs cwd main seen kept roots folders rule: add_folders.induct)
  case (2 fs cwd main seen kept roots f folders)
  show ?case
  proof (cases "trim_space f = []")
    case True
    with 2 show ?thesis by (simp add: Let_def)
  next
    case False
    then obtain r where r: "canonical_directory fs cwd (trim_space f) = Inr r"
      using "2.prems"(1) by (cases "canonical_directory fs cwd (trim_space f)") (simp_all add: Let_def)
    have "dir_path r \<noteq> r" using "2.prems"(1) False r by (auto simp: Let_def split: if_splits)
    then show ?thesis
      using 2 False r canonical_rooted [OF r] rooted_abs [of cwd]
      by (cases "r \<in> set seen \<or> within main r") (simp_all add: Let_def)
  qed
qed simp

definition rooted_sandbox :: "path_sandbox \<Rightarrow> bool" where
  "rooted_sandbox S \<longleftrightarrow> is_rooted (ps_main S) \<and> list_all is_rooted (ps_roots S)"

lemma normalized_rooted: "list_all is_rooted ps \<Longrightarrow> list_all is_rooted (normalized_paths fs ps)"
  by (auto simp: normalized_paths_def list_all_iff eval_rooted split: if_splits option.splits)

lemma new_path_sandbox_rooted:
  assumes "new_path_sandbox fs cwd main additional = Inr S" and "is_rooted cwd"
  shows "rooted_sandbox S"
proof -
  obtain r kept roots where r: "canonical_directory fs cwd main = Inr r"
    and f: "add_folders fs cwd r [r] [] [abs_path cwd (trim_space main), r] additional = Inr (kept, roots)"
    and S: "S = \<lparr>ps_main = r, ps_additional = sort kept, ps_roots = normalized_paths fs roots\<rparr>"
    using assms(1) by (auto simp: new_path_sandbox_def split: sum.splits)
  have "list_all is_rooted roots"
    using add_folders_rooted [OF f assms(2)] canonical_rooted [OF r] rooted_abs [OF assms(2)] by simp
  then show ?thesis using S canonical_rooted [OF r] normalized_rooted by (simp add: rooted_sandbox_def)
qed

lemma secure_lexical_ok:
  assumes "secure_lexical_path S requested = Inr p" and "rooted_sandbox S"
  shows "is_rooted p \<and> clean_path p = p \<and> sandbox_contains S p"
  using assms rooted_join [of "ps_main S" requested]
  by (auto simp: secure_lexical_path_def Let_def rooted_sandbox_def split: if_splits)

section \<open>Resolved paths\<close>

lemma resolve_rooted_text:
  "resolve fs k [] (split_char CHR ''/'' (from_comps True cs)) = resolve fs k [] (if cs = [] then [] else split_char CHR ''/'' (join_with ''/'' cs))"
  by (simp add: from_comps_def resolve.simps)

lemma eval_symlinks_real:
  assumes "eval_symlinks fs p = Some r"
  shows "real_location fs (path_comps r)"
proof -
  obtain d where d: "resolve fs 255 [] (split_char CHR ''/'' p) = Some d" "r = from_comps True d"
    using assms by (auto simp: eval_symlinks_def)
  have loc: "real_location fs d"
    by (rule resolve_real [OF d(1) real_dir_Nil split_no_slash])
  then have "path_comps r = d" by (simp add: d(2) comps_from_plain real_location_def)
  with loc show ?thesis by simp
qed

lemma contains_root:
  assumes "sandbox_contains S p" and "rooted_sandbox S" and "is_rooted p"
  shows "\<exists>root \<in> set (ps_roots S). prefix (path_comps root) (path_comps p)"
  using assms by (auto simp: sandbox_contains_def rooted_sandbox_def list_ex_iff list_all_iff within_iff_prefix)

lemma secure_existing_real:
  assumes "secure_existing_path fs S requested = Inr r" and "rooted_sandbox S"
  shows "real_location fs (path_comps r) \<and> is_rooted r \<and> r = from_comps True (path_comps r) \<and>
    (\<exists>root \<in> set (ps_roots S). prefix (path_comps root) (path_comps r))"
proof -
  obtain p where p: "eval_symlinks fs p = Some r" "sandbox_contains S r"
    using assms(1) by (auto simp: secure_existing_path_def bind_result_Inr_iff split: option.splits if_splits)
  obtain d where d: "resolve fs 255 [] (split_char CHR ''/'' p) = Some d" "r = from_comps True d"
    using p(1) by (auto simp: eval_symlinks_def)
  have "real_location fs d" by (rule resolve_real [OF d(1) real_dir_Nil split_no_slash])
  then have "path_comps r = d" by (simp add: d(2) comps_from_plain real_location_def)
  with eval_symlinks_real [OF p(1)] eval_rooted [OF p(1)] contains_root [OF p(2) assms(2)] d(2)
  show ?thesis by simp
qed

text \<open>At a real location the calls find the node itself.\<close>

lemma real_path_location:
  assumes "real_location fs d"
  shows "real_path fs (from_comps True d) = Some d"
proof -
  have "list_all plain_comp d" using assms by (simp add: real_location_def)
  then show ?thesis
    using resolve_straight [OF real_dir_Nil, of fs d 40] assms
    by (simp add: real_path_def real_location_split resolve.simps)
qed

lemma resolve_new_of_resolve:
  assumes "resolve fs k d cs = Some r"
  shows "resolve_new fs k d cs = Some r"
  using assms
proof (induction fs k d cs rule: resolve.induct)
  case (2 fs k d c cs)
  note IH = "2.IH" and res = "2.prems"
  show ?case
  proof (cases rule: walk_cases [of c _ fs d k])
    case dir
    with IH(3) res show ?thesis by (simp add: resolve_steps resolve_new_steps named_def)
  next
    case (link t k')
    with res have "resolve fs k' (if is_rooted t then [] else d) (split_char CHR ''/'' t @ cs) = Some r"
      by (simp add: resolve_steps)
    with IH(4) [of "Link t" t k'] link show ?thesis by (simp add: resolve_new_steps named_def)
  qed (use IH(1,2) res in \<open>auto simp: resolve_steps resolve_new_steps split: if_splits\<close>)
qed simp

lemma write_at_location:
  assumes "real_location fs d" and "node_at fs d = Some (File x)"
  shows "write_file fs (from_comps True d) content = Some (AList.update d (File content) fs)"
  using resolve_new_of_resolve [of fs 40 "[]" _ d] real_path_location [OF assms(1)] assms(2)
  by (simp add: write_file_def real_path_def)


text \<open>The edit tool changes one file, at a real location in a root of the sandbox: its occurrences of
  the old text (the only one, unless all are asked for) become the new text.\<close>

lemma edit_tool_inside:
  assumes "new_path_sandbox fs0 cwd main additional = Inr S" and "is_rooted cwd"
    and "edit_tool fs S path old new replace_all = (Inr msg, fs')"
  shows "\<exists>d content. node_at fs d = Some (File content) \<and> real_location fs d \<and>
    list_ex (\<lambda>root. prefix (path_comps root) d) (ps_roots S) \<and> 0 < count_sub old content \<and>
    (replace_all \<or> count_sub old content = 1) \<and>
    fs' = AList.update d (File (replace_sub (if replace_all then - 1 else 1) old new content)) fs"
proof -
  obtain p content where p: "secure_existing_path fs S path = Inr p" "read_file fs p = Some content"
    and count: "0 < count_sub old content" "replace_all \<or> count_sub old content = 1"
    and w: "write_file fs p (replace_sub (if replace_all then - 1 else 1) old new content) = Some fs'"
    using assms(3) by (auto simp: edit_tool_def Let_def split: if_splits sum.splits option.splits)
  note real = secure_existing_real [OF p(1) new_path_sandbox_rooted [OF assms(1,2)]]
  have "real_path fs p = Some (path_comps p)" using real real_path_location by metis
  then have node: "node_at fs (path_comps p) = Some (File content)"
    using p(2) by (auto simp: read_file_def stat_node_def split: option.splits node.splits)
  have "fs' = AList.update (path_comps p) (File (replace_sub (if replace_all then - 1 else 1) old new content)) fs"
    using w write_at_location [OF _ node] real by (metis option.inject)
  with real node count show ?thesis by (auto simp: list_ex_iff)
qed

section \<open>Writing\<close>

text \<open>A walk to a directory can be continued.\<close>

lemma make_dirs_there:
  assumes "resolve fs 40 [] ds = Some r" and "node_at fs r = Some Dir"
  shows "make_dirs fs (rev ds) = Some fs"
proof (cases ds rule: rev_cases)
  case (snoc ps c)
  with assms show ?thesis by simp
qed simp

text \<open>The walks along the components of a clean rooted path.\<close>

text \<open>A parent that passes the check and exists lies in a root.\<close>

lemma secure_parent_inside:
  assumes "secure_parent fs S (rev ds) = None" and "list_all plain_comp ds"
    and "resolve fs 40 [] ds = Some r" and "rooted_sandbox S"
  shows "real_location fs r \<and> list_ex (\<lambda>root. prefix (path_comps root) r) (ps_roots S)"
proof -
  have "eval_symlinks fs (from_comps True ds) = Some (from_comps True r)"
    using resolve_enough [OF assms(3), of 255] by (simp add: eval_symlinks_def resolve_comps [OF assms(2)])
  then have inside: "sandbox_contains S (from_comps True r)"
    using assms(1) by (simp add: secure_parent.simps split: if_splits)
  have loc: "real_location fs r"
    by (rule resolve_real [OF assms(3) real_dir_Nil]) (use assms(2) in \<open>auto simp: list_all_iff plain_comp_def\<close>)
  then have "path_comps (from_comps True r) = r" by (simp add: real_location_def comps_from_plain)
  with contains_root [OF inside assms(4) is_rooted_from_comps] loc show ?thesis by (simp add: list_ex_iff)
qed

text \<open>Writing in an existing directory, where the name is not a link.\<close>

lemma write_in_dir:
  assumes "list_all plain_comp cs" and "resolve fs 40 [] (butlast cs) = Some r" and "node_at fs r = Some Dir"
    and "\<nexists>t. node_at fs (r @ [last cs]) = Some (Link t)" and "write_file fs (from_comps True cs) content = Some fs'"
  shows "fs' = AList.update (r @ [last cs]) (File content) fs"
proof -
  note new = resolve_comps(2) [OF assms(1), of fs 40]
  have "cs \<noteq> []"
  proof
    assume "cs = []"
    with assms(5) new show False by (simp add: write_file_def node_at_def)
  qed
  then have cs: "cs = butlast cs @ [last cs]" by simp
  have name: "named (last cs)"
    using assms(1) \<open>cs \<noteq> []\<close> by (auto simp: list_all_iff plain_comp_def named_def dest: last_in_set)
  obtain k where k: "resolve_new fs 40 [] cs = resolve_new fs k r [last cs]"
    using resolve_continue [OF assms(2,3), of "[last cs]"] cs by auto
  show ?thesis
  proof (cases rule: walk_cases [of "last cs" _ fs r k])
    case (link t k')
    with assms(4) show ?thesis by auto
  next
    case (stuck t)
    with assms(4) show ?thesis by auto
  qed (use assms(5) new k name in \<open>auto simp: write_file_def resolve_new_steps named_def split: if_splits\<close>)
qed

text \<open>A file that the write tool writes in an existing directory lies in a root of the sandbox, unless
  its name there is a symbolic link: the directory's real location is in a root, and the file is in
  it under its own name.\<close>

lemma write_tool_inside:
  assumes "new_path_sandbox fs0 cwd main additional = Inr S" and "is_rooted cwd"
    and "secure_new_path fs S path = Inr p" and "real_path fs (dir_path p) = Some r" and "node_at fs r = Some Dir"
    and "\<nexists>t. node_at fs (r @ [last (path_comps p)]) = Some (Link t)"
    and "write_tool fs S path content = (Inr msg, fs')"
  shows "fs' = AList.update (r @ [last (path_comps p)]) (File content) fs \<and>
    real_location fs r \<and> list_ex (\<lambda>root. prefix (path_comps root) r) (ps_roots S)"
proof -
  note S = new_path_sandbox_rooted [OF assms(1,2)]
  define cs where "cs = path_comps p"
  have lex: "secure_lexical_path S path = Inr p" and sec: "secure_parent fs S (rev (butlast cs)) = None"
    using assms(3) by (auto simp: secure_new_path_def bind_result_Inr_iff cs_def split: option.splits)
  have p: "is_rooted p" "clean_path p = p" using secure_lexical_ok [OF lex S] by simp_all
  have plain: "list_all plain_comp cs" using rooted_comps_plain [OF p(1)] by (simp add: cs_def)
  then have plain': "list_all plain_comp (butlast cs)" by (auto simp: list_all_iff dest: in_set_butlastD)
  have p_cs: "p = from_comps True cs" using p by (metis clean_path_def cs_def)
  have dir: "dir_path p = from_comps True (butlast cs)" by (simp add: p_cs dir_path_clean [OF plain])
  have res: "resolve fs 40 [] (butlast cs) = Some r"
    using assms(4) resolve_comps(1) [OF plain'] by (simp add: real_path_def dir)
  obtain fs1 where fs1: "mkdir_all fs (dir_path p) = Some fs1" "write_file fs1 p content = Some fs'"
    using assms(3,7) by (auto simp: write_tool_def split: option.splits)
  have "mkdir_all fs (dir_path p) = Some fs"
    using make_dirs_there [OF res assms(5)] by (simp add: mkdir_all_def dir comps_from_plain [OF plain'])
  with fs1 have "write_file fs (from_comps True cs) content = Some fs'" by (simp add: p_cs)
  from write_in_dir [OF plain res assms(5) _ this] secure_parent_inside [OF sec plain' res S] assms(6)
  show ?thesis by (simp add: cs_def)
qed

section \<open>Links at the end of a path\<close>






end
