(* ===== verification/SkillText.thy ===== *)
theory SkillText
  imports GoText
begin

text \<open>
  The text side of skills: the frontmatter of a SKILL.md file (\<open>skills/frontmatter.go\<close>), explicit
  requests in user text (\<open>skills/invocation.go\<close>) and the catalog fragment of the prompt
  (\<open>skills/prompt.go\<close>).
\<close>

section \<open>Data\<close>

datatype severity = SeverityWarning | SeverityError

text \<open>A message is its template with the arguments.\<close>

record diagnostic =
  dg_severity :: severity
  dg_code :: string
  dg_path :: string
  dg_line :: nat
  dg_message :: "string list"

definition diag :: "severity \<Rightarrow> string \<Rightarrow> string \<Rightarrow> nat \<Rightarrow> string list \<Rightarrow> diagnostic" where
  "diag severity code path line message =
     \<lparr>dg_severity = severity, dg_code = code, dg_path = path, dg_line = line, dg_message = message\<rparr>"

record metadata =
  md_name :: string
  md_description :: string

record skill =
  sk_name :: string
  sk_description :: string
  sk_path :: string
  sk_directory :: string
  sk_root :: string
  sk_scope :: string
  sk_plugin :: string
  sk_enabled :: bool
  sk_disabled_reason :: string

definition enabled_skills :: "skill list \<Rightarrow> skill list" where
  "enabled_skills skills = filter sk_enabled skills"

text \<open>\<open>FindAny\<close> and \<open>Find\<close>.\<close>

definition find_any :: "skill list \<Rightarrow> string \<Rightarrow> skill option" where
  "find_any skills name = find (\<lambda>s. equal_fold_ascii (sk_name s) (trim_space name)) skills"

definition find_skill :: "skill list \<Rightarrow> string \<Rightarrow> skill option" where
  "find_skill skills name =
     (case find_any skills name of Some s \<Rightarrow> if sk_enabled s then Some s else None | None \<Rightarrow> None)"

section \<open>Names\<close>

definition is_name_byte :: "char \<Rightarrow> bool" where
  "is_name_byte c \<longleftrightarrow> is_alnum c \<or> c = CHR ''-'' \<or> c = CHR ''_''"

text \<open>\<open>^[A-Za-z0-9](?:[A-Za-z0-9_-]*[A-Za-z0-9])?$\<close>\<close>

definition compatible_name :: "string \<Rightarrow> bool" where
  "compatible_name s \<longleftrightarrow> s \<noteq> [] \<and> list_all is_name_byte s \<and> is_alnum (hd s) \<and> is_alnum (last s)"

section \<open>Frontmatter\<close>

definition leading_spaces :: "string \<Rightarrow> nat" where
  "leading_spaces s = length (takeWhile (\<lambda>c. c = CHR '' '') s)"

definition is_blank :: "string \<Rightarrow> bool" where
  "is_blank line \<longleftrightarrow> trim_space line = []"

text \<open>\<open>strconv.Unquote\<close> gets a literal that starts with a double quote.\<close>

definition parse_scalar :: "string \<Rightarrow> string option" where
  "parse_scalar raw =
     (case raw of
        [] \<Rightarrow> Some []
      | c # rest \<Rightarrow>
          if c = CHR 0x22 then unquote_body rest
          else if c = CHR 0x27 then
            (if rest = [] \<or> last rest \<noteq> CHR 0x27 then None
             else Some (replace_sub (- 1) [CHR 0x27, CHR 0x27] [CHR 0x27] (butlast rest)))
          else Some (trim_space (case find_sub '' #'' raw of None \<Rightarrow> raw | Some i \<Rightarrow> take i raw)))"

definition in_block :: "nat \<Rightarrow> string \<Rightarrow> bool" where
  "in_block parent line \<longleftrightarrow> is_blank line \<or> leading_spaces line > parent"

definition block_indent :: "nat \<Rightarrow> string list \<Rightarrow> nat" where
  "block_indent parent lines =
     (case map leading_spaces (filter (\<lambda>l. \<not> is_blank l) lines) of
        [] \<Rightarrow> parent + 1
      | n # ns \<Rightarrow> foldl min n ns)"

text \<open>The lines of a block and those after it.\<close>

definition read_block :: "string list \<Rightarrow> nat \<Rightarrow> string list \<times> string list" where
  "read_block lines parent =
     (let block = takeWhile (in_block parent) lines;
          indent = block_indent parent block
      in (map (\<lambda>l. if is_blank l then []
                   else trim_right_chars [CHR '' '', CHR 0x09] (if length l \<ge> indent then drop indent l else l)) block,
          dropWhile (in_block parent) lines))"

fun fold_lines :: "string \<Rightarrow> bool \<Rightarrow> string list \<Rightarrow> string" where
  "fold_lines result blank [] = result"
| "fold_lines result blank (l # ls) =
     (let line = trim_space l in
      if line = [] then fold_lines result True ls
      else fold_lines (result @ (if result = [] then [] else if blank then [CHR 0x0A] else '' '') @ line) False ls)"

definition fold_block :: "string list \<Rightarrow> string" where
  "fold_block lines = fold_lines [] False lines"

record front_fields =
  ff_values :: "string gomap"
  ff_lines :: "nat gomap"
  ff_issues :: "diagnostic list"

definition set_field :: "string \<Rightarrow> string \<Rightarrow> nat \<Rightarrow> front_fields \<Rightarrow> front_fields" where
  "set_field key value line f =
     f\<lparr>ff_values := AList.update key (trim_space value) (ff_values f),
       ff_lines := AList.update key line (ff_lines f)\<rparr>"

definition add_issue :: "diagnostic \<Rightarrow> front_fields \<Rightarrow> front_fields" where
  "add_issue d f = f\<lparr>ff_issues := ff_issues f @ [d]\<rparr>"

definition skipped_line :: "string \<Rightarrow> bool" where
  "skipped_line line \<longleftrightarrow>
     trim_space line = [] \<or> has_prefix (trim_space line) ''#'' \<or> leading_spaces line > 0"

lemma dropWhile_length: "length (dropWhile P xs) \<le> length xs"
  by (induction xs) auto

text \<open>The loop over the lines between the delimiters. \<open>n\<close> is the number of the first line.\<close>

function parse_fields :: "string \<Rightarrow> nat \<Rightarrow> string list \<Rightarrow> front_fields \<Rightarrow> front_fields" where
  "parse_fields path n lines f =
     (case lines of [] \<Rightarrow> f | line # rest \<Rightarrow>
      (if skipped_line line then parse_fields path (n + 1) rest f
       else if CHR '':'' \<notin> set line \<or> hd line = CHR '':'' then
         parse_fields path (n + 1) rest
           (add_issue (diag SeverityWarning ''malformed-field'' path n
              [''ignoring frontmatter line without a key/value separator'']) f)
       else
         (let key = trim_space (takeWhile (\<lambda>c. c \<noteq> CHR '':'') line);
              raw = trim_space (tl (dropWhile (\<lambda>c. c \<noteq> CHR '':'') line))
          in if key \<noteq> ''name'' \<and> key \<noteq> ''description'' then parse_fields path (n + 1) rest f
          else if map_of (ff_values f) key \<noteq> None then
            parse_fields path (n + 1) rest
              (add_issue (diag SeverityError ''duplicate-field'' path n
                 [''frontmatter field is specified more than once'', key]) f)
          else if raw \<in> {''|'', ''>'', ''|-'', ''>-''} then
            (case read_block rest (leading_spaces line) of (block, rest') \<Rightarrow>
               parse_fields path (n + 1 + (length rest - length rest')) rest'
                 (set_field key (if has_prefix raw ''>'' then fold_block block
                                 else join_with [CHR 0x0A] block) n f))
          else case parse_scalar raw of
            None \<Rightarrow>
              parse_fields path (n + 1) rest
                (add_issue (diag SeverityError ''invalid-scalar'' path n [''invalid value'', key]) f)
          | Some value \<Rightarrow> parse_fields path (n + 1) rest (set_field key value n f))))"
  by pat_completeness auto

termination
  by (relation "measure (\<lambda>(path, n, lines, f). length lines)")
     (auto simp: read_block_def Let_def less_Suc_eq_le dropWhile_length)

declare parse_fields.simps [simp del]

definition field :: "string \<Rightarrow> string gomap \<Rightarrow> string" where
  "field key values = (case map_of values key of None \<Rightarrow> [] | Some v \<Rightarrow> v)"

definition field_line :: "string \<Rightarrow> nat gomap \<Rightarrow> nat" where
  "field_line key lines = (case map_of lines key of None \<Rightarrow> 0 | Some n \<Rightarrow> n)"

definition validate_name_field :: "string \<Rightarrow> string \<Rightarrow> nat \<Rightarrow> diagnostic list" where
  "validate_name_field name path line =
     (if name = [] then [diag SeverityError ''missing-name'' path 0 [''frontmatter name is required'']]
      else if rune_count name > 64 then
        [diag SeverityError ''name-too-long'' path line [''skill name must be at most 64 characters'']]
      else if \<not> compatible_name name \<or> contains_sub name ''--'' then
        [diag SeverityError ''invalid-name'' path line
           [''skill name may contain only letters, numbers, hyphens, and underscores'']]
      else if name \<noteq> to_lower name \<or> contains_sub name ''_'' then
        [diag SeverityWarning ''nonstandard-name'' path line
           [''Agent Skills names should use lowercase letters, numbers, and hyphens'']]
      else [])"

definition validate_description_field :: "string \<Rightarrow> string \<Rightarrow> nat \<Rightarrow> diagnostic list" where
  "validate_description_field description path line =
     (if description = [] then
        [diag SeverityError ''missing-description'' path 0 [''frontmatter description is required'']]
      else if int (rune_count description) > 1024 then
        [diag SeverityError ''description-too-long'' path line
           [''skill description must be at most 1024 characters'']]
      else [])"

definition validate_metadata :: "metadata \<Rightarrow> string \<Rightarrow> nat gomap \<Rightarrow> diagnostic list" where
  "validate_metadata m path lines =
     validate_name_field (md_name m) path (field_line ''name'' lines) @
     validate_description_field (md_description m) path (field_line ''description'' lines)"

definition no_metadata :: metadata where
  "no_metadata = \<lparr>md_name = [], md_description = []\<rparr>"

definition front_lines :: "string \<Rightarrow> string list" where
  "front_lines contents =
     (let bom = [CHR 0xEF, CHR 0xBB, CHR 0xBF];
          text_part = (if has_prefix contents bom then drop 3 contents else contents)
      in split_char CHR 0x0A (replace_sub (- 1) [CHR 0x0D, CHR 0x0A] [CHR 0x0A] text_part))"

definition is_delimiter :: "string \<Rightarrow> bool" where
  "is_delimiter line \<longleftrightarrow> trim_space line = ''---''"

definition parse_frontmatter :: "string \<Rightarrow> string \<Rightarrow> metadata \<times> diagnostic list" where
  "parse_frontmatter contents path =
     (if \<not> utf8_valid contents then
        (no_metadata, [diag SeverityError ''invalid-utf8'' path 0 [''SKILL.md must contain valid UTF-8'']])
      else (let lines = front_lines contents in
        if \<not> is_delimiter (hd lines) then
          (no_metadata, [diag SeverityError ''missing-frontmatter'' path 1
             [''SKILL.md must start with YAML frontmatter delimited by ---'']])
        else if \<not> list_ex is_delimiter (tl lines) then
          (no_metadata, [diag SeverityError ''unterminated-frontmatter'' path 1
             [''frontmatter is missing its closing --- delimiter'']])
        else
          (let f = parse_fields path 2 (takeWhile (\<lambda>l. \<not> is_delimiter l) (tl lines))
                     \<lparr>ff_values = [], ff_lines = [], ff_issues = []\<rparr>;
               m = \<lparr>md_name = field ''name'' (ff_values f), md_description = field ''description'' (ff_values f)\<rparr>
           in (m, ff_issues f @ validate_metadata m path (ff_lines f)))))"

definition has_errors :: "diagnostic list \<Rightarrow> bool" where
  "has_errors issues \<longleftrightarrow> list_ex (\<lambda>d. dg_severity d = SeverityError) issues"

section \<open>Explicit requests\<close>

datatype invocation_syntax = SyntaxDollar | SyntaxCommand

record invocation =
  iv_name :: string
  iv_args :: string
  iv_syntax :: invocation_syntax
  iv_start :: nat
  iv_end :: nat

text \<open>The scan for dollar names at offset \<open>i\<close>; \<open>escaped\<close> tells whether a backslash is before it.\<close>

function dollar_invocations :: "bool \<Rightarrow> nat \<Rightarrow> string \<Rightarrow> invocation list" where
  "dollar_invocations escaped i s =
     (case s of [] \<Rightarrow> [] | c # rest \<Rightarrow>
      (let name = takeWhile is_name_byte rest in
       if c = CHR ''$'' \<and> \<not> escaped \<and> name \<noteq> [] \<and> length name \<le> 64 \<and>
          compatible_name name \<and> \<not> contains_sub name ''--''
       then \<lparr>iv_name = name, iv_args = [], iv_syntax = SyntaxDollar, iv_start = i, iv_end = i + 1 + length name\<rparr> #
            dollar_invocations False (i + 1 + length name) (drop (length name) rest)
       else dollar_invocations (c = CHR 0x5C) (i + 1) rest))"
  by pat_completeness auto
termination
  by (relation "measure (\<lambda>(escaped, i, s). length s)") auto

declare dollar_invocations.simps [simp del]

definition command_invocation :: "nat \<Rightarrow> string \<Rightarrow> invocation list" where
  "command_invocation offset line =
     (let command = trim_left_chars [CHR '' '', CHR 0x09] line;
          leading = length line - length command;
          rest = drop 7 command;
          name = takeWhile is_name_byte rest;
          after = dropWhile is_name_byte rest
      in if has_prefix command ''/skill:'' \<and> name \<noteq> [] \<and>
            (after = [] \<or> hd after = CHR '' '' \<or> hd after = CHR 0x09)
         then [\<lparr>iv_name = name, iv_args = trim_space after, iv_syntax = SyntaxCommand,
                iv_start = offset + leading, iv_end = offset + length line\<rparr>]
         else [])"

fun command_invocations :: "nat \<Rightarrow> string list \<Rightarrow> invocation list" where
  "command_invocations offset [] = []"
| "command_invocations offset (line # rest) =
     command_invocation offset line @ command_invocations (offset + length line + 1) rest"

definition detect_invocations :: "string \<Rightarrow> invocation list" where
  "detect_invocations s =
     sort_key iv_start (dollar_invocations False 0 s @ command_invocations 0 (split_char CHR 0x0A s))"

fun resolve_each :: "skill list \<Rightarrow> invocation list \<Rightarrow> invocation list \<times> diagnostic list" where
  "resolve_each skills [] = ([], [])"
| "resolve_each skills (v # vs) =
     (case resolve_each skills vs of (resolved, issues) \<Rightarrow>
        (case find_any skills (iv_name v) of
           None \<Rightarrow> (resolved, diag SeverityWarning ''unknown-invocation'' [] 0
                              [''unknown skill requested'', iv_name v] # issues)
         | Some s \<Rightarrow>
             if \<not> sk_enabled s then
               (resolved, diag SeverityWarning ''disabled-invocation'' (sk_path s) 0
                  [''disabled skill requested'', sk_name s] # issues)
             else (v\<lparr>iv_name := sk_name s\<rparr> # resolved, issues)))"

definition resolve_invocations :: "skill list \<Rightarrow> string \<Rightarrow> invocation list \<times> diagnostic list" where
  "resolve_invocations skills s = resolve_each skills (detect_invocations s)"

section \<open>The catalog fragment\<close>

definition max_catalog_chars :: int where
  "max_catalog_chars = 8000"

definition catalog_header :: string where
  "catalog_header =
     ''<available_skills>'' @ [CHR 0x0A] @
     ''Load a skill with the skill tool only when its instructions are needed.'' @ [CHR 0x0A]"

definition catalog_footer :: string where
  "catalog_footer = ''</available_skills>''"

definition catalog_line :: "skill \<Rightarrow> string" where
  "catalog_line s =
     ''- '' @ sk_name s @ '': '' @ join_with '' '' (text_fields (sk_description s)) @ [CHR 0x0A]"

definition omitted_line :: "nat \<Rightarrow> string" where
  "omitted_line n =
     ''- '' @ [CHR 0xE2, CHR 0x80, CHR 0xA6] @ '' '' @ show_nat n @
     '' more skill(s); use the skill tool to list them.'' @ [CHR 0x0A]"

text \<open>The loop over the lines that fit.\<close>

fun catalog_body :: "nat \<Rightarrow> string \<Rightarrow> string list \<Rightarrow> string" where
  "catalog_body limit body [] = truncate_runes (catalog_header @ body @ catalog_footer) limit"
| "catalog_body limit body (line # rest) =
     (if rune_count (catalog_header @ body @ line @ catalog_footer) \<le> limit
      then catalog_body limit (body @ line) rest
      else (let cand = catalog_header @ body @ omitted_line (Suc (length rest)) @ catalog_footer
            in if rune_count cand \<le> limit then cand
               else truncate_runes (catalog_header @ body @ catalog_footer) limit))"

definition effective_limit :: "int \<Rightarrow> nat" where
  "effective_limit limit = nat (if limit \<le> 0 \<or> limit > max_catalog_chars then max_catalog_chars else limit)"

definition catalog_text_limit :: "skill list \<Rightarrow> int \<Rightarrow> string" where
  "catalog_text_limit skills limit =
     (let n = effective_limit limit;
          lines = map catalog_line (enabled_skills skills);
          full = catalog_header @ concat lines @ catalog_footer
      in if lines = [] then
           truncate_runes (catalog_header @ ''(none)'' @ [CHR 0x0A] @ catalog_footer) n
         else if rune_count full \<le> n then full
         else catalog_body n [] lines)"

definition catalog_text :: "skill list \<Rightarrow> string" where
  "catalog_text skills = catalog_text_limit skills max_catalog_chars"

end
