(* ===== verification/SkillTextProps.thy ===== *)
theory SkillTextProps
  imports SkillText
begin

text \<open>
  Properties of the skill texts: metadata without errors is well formed, what a plain frontmatter
  says is what is read, requests are found where they stand, and the catalog fragment keeps its
  limit in characters.
\<close>

section \<open>Metadata\<close>

lemma has_errors_append [simp]: "has_errors (xs @ ys) \<longleftrightarrow> has_errors xs \<or> has_errors ys"
  by (simp add: has_errors_def)

lemma has_errors_Nil [simp]: "\<not> has_errors []"
  by (simp add: has_errors_def)

lemma has_errors_single [simp]: "has_errors [diag sev code path line message] \<longleftrightarrow> sev = SeverityError"
  by (simp add: has_errors_def diag_def)

lemma name_field_ok:
  "\<not> has_errors (validate_name_field name path line) \<longleftrightarrow>
     name \<noteq> [] \<and> rune_count name \<le> 64 \<and> compatible_name name \<and> \<not> contains_sub name ''--''"
  by (auto simp: validate_name_field_def)

lemma description_field_ok:
  "\<not> has_errors (validate_description_field d path line) \<longleftrightarrow> d \<noteq> [] \<and> rune_count d \<le> 1024"
  by (auto simp: validate_description_field_def)

definition good_metadata :: "metadata \<Rightarrow> bool" where
  "good_metadata m \<longleftrightarrow> compatible_name (md_name m) \<and> \<not> contains_sub (md_name m) ''--'' \<and>
     rune_count (md_name m) \<le> 64 \<and> md_description m \<noteq> [] \<and> rune_count (md_description m) \<le> 1024"

lemma parse_good:
  assumes "parse_frontmatter contents path = (m, issues)" and "\<not> has_errors issues"
  shows "good_metadata m"
proof -
  let ?f = "parse_fields path 2 (takeWhile (\<lambda>l. \<not> is_delimiter l) (tl (front_lines contents)))
      \<lparr>ff_values = [], ff_lines = [], ff_issues = []\<rparr>"
  have "issues = ff_issues ?f @ validate_metadata m path (ff_lines ?f)"
    using assms by (auto simp: parse_frontmatter_def Let_def split: if_splits)
  then show ?thesis
    using assms(2) by (simp add: validate_metadata_def name_field_ok description_field_ok good_metadata_def)
qed

text \<open>Metadata that is read without an error is well formed: the name has 1 to 64 characters, only
  letters, digits, hyphens and underscores, starts and ends with a letter or digit and has no two
  hyphens in a row; the description has 1 to 1024 characters.\<close>

lemma parsed_metadata_valid:
  assumes "parse_frontmatter contents path = (m, issues)" and "\<not> has_errors issues"
  shows "compatible_name (md_name m) \<and> \<not> contains_sub (md_name m) ''--'' \<and> rune_count (md_name m) \<le> 64 \<and>
    md_description m \<noteq> [] \<and> rune_count (md_description m) \<le> 1024"
  using parse_good [OF assms] by (simp add: good_metadata_def)

section \<open>Characters\<close>

definition good_rune :: "string \<Rightarrow> bool" where
  "good_rune r \<longleftrightarrow> r \<noteq> [] \<and> rune_len r = length r \<and> \<not> invalid_rune r"

lemma utf8_len_bound: "bs \<noteq> [] \<Longrightarrow> utf8_len bs \<le> length bs \<and> utf8_len bs \<le> 4"
  by (cases bs rule: utf8_len.cases) (auto split: list.splits)

lemma utf8_len_take: "bs \<noteq> [] \<Longrightarrow> utf8_len (take (utf8_len bs) bs) = utf8_len bs"
  by (cases bs rule: utf8_len.cases) (auto split: list.splits)

lemma utf8_len_append:
  assumes "bs \<noteq> []" and "utf8_len bs = length bs" and "length bs = 1 \<longrightarrow> hd bs < 128"
  shows "utf8_len (bs @ cs) = length bs"
proof -
  consider a where "bs = [a]" | a b where "bs = [a, b]" | a b c where "bs = [a, b, c]"
    | a b c d where "bs = [a, b, c, d]"
    using assms(1,2) utf8_len_bound [OF assms(1)]
    by (cases bs; cases "tl bs"; cases "tl (tl bs)"; cases "tl (tl (tl bs))") auto
  then show ?thesis
  proof cases
    case 1
    with assms(3) utf8_len_ascii [of a cs] show ?thesis by simp
  qed (use assms(2) in \<open>auto split: if_splits\<close>)
qed

lemma rune_len_take: "rune_len (take n s) = utf8_len (map of_char (take (min 4 n) s))"
  by (simp add: rune_len_def min.commute)

lemma rune_len_append: "good_rune r \<Longrightarrow> rune_len (r @ s) = length r"
proof -
  assume r: "good_rune r"
  then have ne: "map of_char r \<noteq> ([] :: nat list)" by (simp add: good_rune_def)
  have "rune_len r \<le> 4"
    using utf8_len_bound [of "map of_char (take 4 r)"] r by (simp add: rune_len_def good_rune_def)
  then have len: "length r \<le> 4" using r by (simp add: good_rune_def)
  then have "utf8_len (map of_char r @ map of_char (take (4 - length r) s)) = length (map of_char r :: nat list)"
    using r by (intro utf8_len_append) (auto simp: good_rune_def rune_len_def invalid_rune_def hd_map)
  with len show ?thesis by (simp add: rune_len_def)
qed

lemma runes_concat: "list_all good_rune rs \<Longrightarrow> runes (concat rs) = rs"
proof (induction rs)
  case (Cons r rs)
  then have "r \<noteq> []" by (simp add: good_rune_def)
  with Cons show ?case by (simp add: runes_Cons rune_len_append)
qed simp

lemma good_encoded: "r \<in> set (runes s) \<Longrightarrow> good_rune (encode_rune r)"
proof (induction s rule: runes.induct)
  case (1 s)
  show ?case
  proof (cases "s = []")
    case False
    with 1 consider "r = take (rune_len s) s" | "r \<in> set (runes (drop (rune_len s) s))"
      by (auto simp: runes_Cons)
    then show ?thesis
    proof cases
      case 1
      let ?bs = "map of_char (take 4 s) :: nat list"
      have ne: "?bs \<noteq> []" using False by simp
      have n: "rune_len s \<le> 4" "rune_len s \<le> length s"
        using utf8_len_bound [OF ne] by (simp_all add: rune_len_def)
      have "rune_len (take (rune_len s) s) = utf8_len (take (utf8_len ?bs) ?bs)"
        using n by (simp add: rune_len_def take_map min_def)
      then have "rune_len r = length r" using utf8_len_take [OF ne] n 1 by (simp add: rune_len_def)
      moreover have "r \<noteq> []" using 1 False by simp
      moreover have "good_rune [CHR 0xEF, CHR 0xBF, CHR 0xBD]" by code_simp
      ultimately show ?thesis by (auto simp: encode_rune_def good_rune_def)
    next
      case 2
      with "1.IH" False show ?thesis by blast
    qed
  qed (use 1 in simp)
qed

lemma truncate_count: "rune_count (truncate_runes s n) \<le> n"
proof -
  have "list_all good_rune (map encode_rune (take n (runes s)))"
    using good_encoded by (auto simp: list_all_iff dest: in_set_takeD)
  then have "runes (concat (map encode_rune (take n (runes s)))) = map encode_rune (take n (runes s))"
    by (rule runes_concat)
  then show ?thesis by (simp add: truncate_runes_def rune_count_def)
qed

lemma catalog_body_bounded: "rune_count (catalog_body limit body lines) \<le> limit"
  by (induction limit body lines rule: catalog_body.induct) (simp_all add: truncate_count Let_def)

text \<open>The catalog fragment of the prompt has at most the asked number of characters, and never more
  than 8000; when the whole list fits, it names every enabled skill with its description.\<close>

lemma catalog_text_bounded:
  "rune_count (catalog_text_limit skills limit) \<le> effective_limit limit \<and> effective_limit limit \<le> 8000 \<and>
   (if enabled_skills skills \<noteq> [] \<and>
       rune_count (catalog_header @ concat (map catalog_line (enabled_skills skills)) @ catalog_footer)
         \<le> effective_limit limit
    then catalog_text_limit skills limit =
      catalog_header @ concat (map catalog_line (enabled_skills skills)) @ catalog_footer
    else True)"
  by (auto simp: catalog_text_limit_def Let_def truncate_count catalog_body_bounded effective_limit_def
      max_catalog_chars_def)

section \<open>Requests\<close>

definition dollar_ok :: "string \<Rightarrow> nat \<Rightarrow> invocation \<Rightarrow> bool" where
  "dollar_ok s i v \<longleftrightarrow> iv_syntax v = SyntaxDollar \<and> i \<le> iv_start v \<and> iv_end v = iv_start v + 1 + length (iv_name v) \<and>
     iv_end v \<le> i + length s \<and> compatible_name (iv_name v) \<and> length (iv_name v) \<le> 64 \<and>
     take (1 + length (iv_name v)) (drop (iv_start v - i) s) = CHR ''$'' # iv_name v"

lemma dollar_ok_drop:
  assumes "dollar_ok (drop n s) (i + n) v" and "n \<le> length s"
  shows "dollar_ok s i v"
proof -
  have "drop (iv_start v - (i + n)) (drop n s) = drop (iv_start v - i) s"
    using assms by (simp add: dollar_ok_def add.commute)
  with assms show ?thesis by (auto simp: dollar_ok_def)
qed

lemma dollar_invocations_ok:
  "list_all (dollar_ok s i) (dollar_invocations escaped i s) \<and>
   sorted_wrt (\<lambda>u v. iv_end u \<le> iv_start v) (dollar_invocations escaped i s)"
proof (induction escaped i s rule: dollar_invocations.induct)
  case (1 escaped i s)
  show ?case
  proof (cases s)
    case Nil
    then show ?thesis by (simp add: dollar_invocations.simps)
  next
    case (Cons c rest)
    define name where "name = takeWhile is_name_byte rest"
    show ?thesis
    proof (cases "c = CHR ''$'' \<and> \<not> escaped \<and> name \<noteq> [] \<and> length name \<le> 64 \<and>
          compatible_name name \<and> \<not> contains_sub name ''--''")
      case True
      let ?v = "\<lparr>iv_name = name, iv_args = [], iv_syntax = SyntaxDollar, iv_start = i, iv_end = i + 1 + length name\<rparr>"
      let ?r = "dollar_invocations False (i + 1 + length name) (drop (length name) rest)"
      have eq: "dollar_invocations escaped i s = ?v # ?r"
        using True Cons by (simp add: dollar_invocations.simps name_def Let_def)
      have len: "length name \<le> length rest" by (simp add: name_def length_takeWhile_le)
      have IH: "list_all (dollar_ok (drop (length name) rest) (i + 1 + length name)) ?r"
        "sorted_wrt (\<lambda>u v. iv_end u \<le> iv_start v) ?r"
        using "1.IH"(1) [OF Cons] True by (simp_all add: name_def)
      have "take (length name) rest = name" unfolding name_def by (rule takeWhile_eq_take [symmetric])
      then have v: "dollar_ok s i ?v" using True Cons len by (simp add: dollar_ok_def)
      have "dollar_ok s i u" if "u \<in> set ?r" for u
        using dollar_ok_drop [of "1 + length name" s i u] IH(1) that Cons len by (simp add: list_all_iff)
      moreover have "iv_end ?v \<le> iv_start u" if "u \<in> set ?r" for u
        using IH(1) that by (auto simp: list_all_iff dollar_ok_def)
      ultimately show ?thesis unfolding eq using v IH(2) by (simp add: list_all_iff)
    next
      case False
      have eq: "dollar_invocations escaped i s = dollar_invocations (c = CHR 0x5C) (i + 1) rest"
        using False Cons by (subst dollar_invocations.simps) (auto simp: name_def Let_def)
      have IH: "list_all (dollar_ok rest (i + 1)) (dollar_invocations (c = CHR 0x5C) (i + 1) rest)"
        "sorted_wrt (\<lambda>u v. iv_end u \<le> iv_start v) (dollar_invocations (c = CHR 0x5C) (i + 1) rest)"
        using "1.IH"(2) [OF Cons refl] False by (simp_all add: name_def)
      have "dollar_ok s i u" if "u \<in> set (dollar_invocations (c = CHR 0x5C) (i + 1) rest)" for u
        using dollar_ok_drop [of 1 s i u] IH(1) that Cons by (simp add: list_all_iff)
      with IH(2) show ?thesis by (simp add: eq list_all_iff)
    qed
  qed
qed

text \<open>The requests of a line, wherever it is in the text.\<close>

definition command_ok :: "string \<Rightarrow> nat \<Rightarrow> invocation \<Rightarrow> bool" where
  "command_ok s i v \<longleftrightarrow> iv_syntax v = SyntaxCommand \<and> i \<le> iv_start v \<and> iv_start v < iv_end v \<and>
     iv_end v \<le> i + length s \<and>
     has_prefix (take (iv_end v - iv_start v) (drop (iv_start v - i) s)) (''/skill:'' @ iv_name v)"

lemma dropWhile_eq_drop: "dropWhile P s = drop (length s - length (dropWhile P s)) s"
  by (induction s) (auto simp: Suc_diff_le dropWhile_length)

lemma has_prefix_split: "has_prefix s p \<Longrightarrow> s = p @ drop (length p) s"
  by (metis has_prefix_def append_take_drop_id)

lemma has_prefix_appendI: "s = p @ r \<Longrightarrow> has_prefix s p"
  by (simp add: has_prefix_def)

lemma command_line_ok: "v \<in> set (command_invocation i line) \<Longrightarrow> command_ok line i v"
proof -
  assume v: "v \<in> set (command_invocation i line)"
  let ?c = "trim_left_chars [CHR '' '', CHR 0x09] line"
  let ?n = "takeWhile is_name_byte (drop 7 ?c)"
  have c: "?c = drop (length line - length ?c) line"
    unfolding trim_left_chars_def by (rule dropWhile_eq_drop)
  have le: "length ?c \<le> length line" by (simp add: trim_left_chars_def dropWhile_length)
  from v have pre: "has_prefix ?c ''/skill:''"
    and f: "iv_name v = ?n" "iv_syntax v = SyntaxCommand" "iv_start v = i + (length line - length ?c)" "iv_end v = i + length line"
    by (auto simp: command_invocation_def Let_def split: if_splits)
  have "length ''/skill:'' = 7" by simp
  with has_prefix_split [OF pre] have "?c = ''/skill:'' @ drop 7 ?c" by metis
  then have "?c = ''/skill:'' @ (?n @ dropWhile is_name_byte (drop 7 ?c))"
    by (simp only: takeWhile_dropWhile_id)
  then have "?c = (''/skill:'' @ ?n) @ dropWhile is_name_byte (drop 7 ?c)" by (simp only: append.assoc)
  then have "has_prefix ?c (''/skill:'' @ ?n)" by (rule has_prefix_appendI)
  moreover have "?c \<noteq> []" using pre by (auto simp: has_prefix_def)
  moreover from this have "0 < length ?c" by blast
  ultimately have "i \<le> iv_start v" "iv_start v < iv_end v" "iv_end v - iv_start v = length ?c"
    "iv_start v - i = length line - length ?c"
    using f(3,4) le by linarith+
  moreover have "drop (length line - length ?c) line = ?c" using c by (rule sym)
  ultimately show ?thesis
    using f(1,2,4) \<open>has_prefix ?c (''/skill:'' @ ?n)\<close> by (simp add: command_ok_def)
qed

lemma command_ok_more:
  assumes "command_ok line (i + length pre) v"
  shows "command_ok (pre @ line @ post) i v"
proof -
  have "iv_start v - i = length pre + (iv_start v - (i + length pre))" "i + length pre \<le> iv_start v"
    using assms by (auto simp: command_ok_def)
  moreover have "take (iv_end v - iv_start v) (drop (iv_start v - (i + length pre)) (line @ post)) =
      take (iv_end v - iv_start v) (drop (iv_start v - (i + length pre)) line)"
    using assms by (simp add: command_ok_def)
  ultimately show ?thesis using assms by (simp add: command_ok_def)
qed

lemma command_invocations_ok:
  "v \<in> set (command_invocations i lines) \<Longrightarrow> command_ok (join_with [CHR 0x0A] lines) i v"
proof (induction i lines rule: command_invocations.induct)
  case (2 i line rest)
  show ?case
  proof (cases "v \<in> set (command_invocation i line)")
    case True
    with command_line_ok have "command_ok line (i + length []) v" by simp
    from command_ok_more [OF this] show ?thesis by (cases rest) (metis append_Nil append_Nil2 join_with.simps(2), simp)
  next
    case False
    with 2 have "command_ok (join_with [CHR 0x0A] rest) (i + length line + 1) v" "rest \<noteq> []" by auto
    then show ?thesis
      using command_ok_more [of "join_with [CHR 0x0A] rest" i "line @ [CHR 0x0A]" v "[]"]
      by (cases rest) simp_all
  qed
qed simp

definition stands_at :: "string \<Rightarrow> invocation \<Rightarrow> bool" where
  "stands_at s v \<longleftrightarrow> iv_start v < iv_end v \<and> iv_end v \<le> length s \<and>
     (case iv_syntax v of
        SyntaxDollar \<Rightarrow> take (iv_end v - iv_start v) (drop (iv_start v) s) = CHR ''$'' # iv_name v \<and>
          compatible_name (iv_name v) \<and> length (iv_name v) \<le> 64
      | SyntaxCommand \<Rightarrow>
          has_prefix (take (iv_end v - iv_start v) (drop (iv_start v) s)) (''/skill:'' @ iv_name v))"

lemma dollar_stands: "dollar_ok s 0 v \<Longrightarrow> stands_at s v"
  by (simp add: dollar_ok_def stands_at_def)

lemma command_stands: "command_ok s 0 v \<Longrightarrow> stands_at s v"
  by (simp add: command_ok_def stands_at_def)

text \<open>Every explicit request is found where it stands: the requests come in the order of the text,
  and the text at a request's offsets is the dollar sign and the name, which is a well-formed skill
  name of at most 64 characters, or starts with the command and the name.\<close>

lemma requests_stand_in_text:
  "sorted (map iv_start (detect_invocations s)) \<and>
   list_all (stands_at s) (detect_invocations s)"
proof -
  have "stands_at s v" if "v \<in> set (detect_invocations s)" for v
  proof -
    from that consider "v \<in> set (dollar_invocations False 0 s)"
      | "v \<in> set (command_invocations 0 (split_char CHR 0x0A s))"
      by (auto simp: detect_invocations_def)
    then show ?thesis
    proof cases
      case 1
      with dollar_invocations_ok [of s 0 False] dollar_stands show ?thesis by (simp add: list_all_iff)
    next
      case 2
      with command_invocations_ok [OF 2] command_stands show ?thesis by simp
    qed
  qed
  then show ?thesis by (simp add: list_all_iff detect_invocations_def)
qed

end
