(* ===== verification/SkillCatalog.thy ===== *)
theory SkillCatalog
  imports SkillText FileTree
begin

text \<open>
  Discovering and loading skills (\<open>skills/rules.go\<close>, \<open>walk.go\<close>, \<open>discover.go\<close>, \<open>load.go\<close>,
  \<open>tool.go\<close>) in a file tree with links. \<open>sw_missing\<close> tells whether a failed \<open>Stat\<close> means that
  nothing is there.
\<close>

record skill_world =
  sw_tree :: tree
  sw_cwd :: string
  sw_missing :: "string \<Rightarrow> bool"

record path_rule =
  pr_path :: string
  pr_enabled :: bool

record plugin_root =
  pg_name :: string
  pg_path :: string

record skill_config =
  sc_global_roots :: "string list"
  sc_plugin_roots :: "plugin_root list"
  sc_project_dir :: string
  sc_path_rules :: "path_rule list"
  sc_enabled_paths :: "string list"
  sc_disabled_paths :: "string list"
  sc_max_skill_bytes :: int
  sc_allow_external :: bool

definition canonical :: "skill_world \<Rightarrow> string \<Rightarrow> string" where
  "canonical w path =
     (let p = trim_space path in
      if p = [] then []
      else (let a = abs_path (sw_cwd w) p
            in clean_path (case eval_symlinks (sw_tree w) a of None \<Rightarrow> a | Some r \<Rightarrow> r)))"

section \<open>Rules\<close>

record compiled_rule =
  cr_path :: string
  cr_enabled :: bool
  cr_order :: nat

definition same_path :: "string \<Rightarrow> string \<Rightarrow> bool" where
  "same_path a b \<longleftrightarrow> clean_path a = clean_path b"

definition contains_path :: "string \<Rightarrow> string \<Rightarrow> bool" where
  "contains_path parent child \<longleftrightarrow> same_path parent child \<or> within parent child"

fun add_rules :: "skill_world \<Rightarrow> bool \<Rightarrow> string list \<Rightarrow> compiled_rule list \<Rightarrow> compiled_rule list" where
  "add_rules w enabled [] rules = rules"
| "add_rules w enabled (p # ps) rules =
     (let n = canonical w p in
      add_rules w enabled ps
        (if n \<noteq> [] then rules @ [\<lparr>cr_path = n, cr_enabled = enabled, cr_order = length rules\<rparr>] else rules))"

definition compile_rules :: "skill_world \<Rightarrow> skill_config \<Rightarrow> compiled_rule list" where
  "compile_rules w c =
     fold (\<lambda>r. add_rules w (pr_enabled r) [pr_path r]) (sc_path_rules c)
       (add_rules w False (sc_disabled_paths c) (add_rules w True (sc_enabled_paths c) []))"

text \<open>The longer path wins, then the later rule.\<close>

datatype rule_rank = Rule_Rank nat nat

instantiation rule_rank :: linorder
begin

definition less_rule_rank :: "rule_rank \<Rightarrow> rule_rank \<Rightarrow> bool" where
  "less_rule_rank a b =
     (case (a, b) of (Rule_Rank l n, Rule_Rank l' n') \<Rightarrow> l < l' \<or> (l = l' \<and> n < n'))"

definition less_eq_rule_rank :: "rule_rank \<Rightarrow> rule_rank \<Rightarrow> bool" where
  "less_eq_rule_rank a b \<longleftrightarrow> a < b \<or> a = b"

instance
  by standard (auto simp: less_rule_rank_def less_eq_rule_rank_def split: rule_rank.splits)

end

definition rule_rank :: "compiled_rule \<Rightarrow> rule_rank" where
  "rule_rank r = Rule_Rank (length (cr_path r)) (cr_order r)"

definition rule_matches :: "string \<Rightarrow> string \<Rightarrow> compiled_rule \<Rightarrow> bool" where
  "rule_matches path directory r \<longleftrightarrow> contains_path (cr_path r) path \<or> contains_path (cr_path r) directory"

fun rule_winner :: "string \<Rightarrow> string \<Rightarrow> compiled_rule option \<Rightarrow> compiled_rule list \<Rightarrow> compiled_rule option" where
  "rule_winner path directory winner [] = winner"
| "rule_winner path directory winner (r # rs) =
     rule_winner path directory
       (if \<not> rule_matches path directory r then winner
        else case winner of
          None \<Rightarrow> Some r
        | Some v \<Rightarrow> if rule_rank v < rule_rank r then Some r else winner) rs"

definition rules_enabled :: "compiled_rule list \<Rightarrow> string \<Rightarrow> string \<Rightarrow> bool \<times> string" where
  "rules_enabled rules path directory =
     (case rule_winner path directory None rules of
        None \<Rightarrow> (True, [])
      | Some r \<Rightarrow> if cr_enabled r then (True, []) else (False, ''disabled by path rule '' @ cr_path r))"

section \<open>Roots\<close>

record root_spec =
  rs_path :: string
  rs_logical :: string
  rs_boundary :: string
  rs_scope :: string
  rs_plugin :: string
  rs_allow_external :: bool

definition stat_is_dir :: "skill_world \<Rightarrow> string \<Rightarrow> bool" where
  "stat_is_dir w p \<longleftrightarrow> stat_node (sw_tree w) p = Some Dir"

text \<open>The skill folders of one folder, and of a folder and all above it, as reversed components.\<close>

definition folder_roots :: "skill_world \<Rightarrow> bool \<Rightarrow> string \<Rightarrow> root_spec list" where
  "folder_roots w allow current =
     concat (map (\<lambda>rel.
       let path = join_path [current, rel] in
       if stat_is_dir w path
       then [\<lparr>rs_path = canonical w path, rs_logical = path, rs_boundary = canonical w current,
              rs_scope = ''project'', rs_plugin = [], rs_allow_external = allow\<rparr>] else [])
       [''.agents/skills'', ''.codex/skills'', ''.pi/skills''])"

fun ancestor_roots :: "skill_world \<Rightarrow> bool \<Rightarrow> string list \<Rightarrow> root_spec list" where
  "ancestor_roots w allow [] = folder_roots w allow ''/''"
| "ancestor_roots w allow (c # cs) =
     folder_roots w allow (from_comps True (rev (c # cs))) @ ancestor_roots w allow cs"

definition project_folder :: "skill_world \<Rightarrow> string \<Rightarrow> string" where
  "project_folder w dir =
     (let a = abs_path (sw_cwd w) dir;
          p = (case stat_node (sw_tree w) a of
                 None \<Rightarrow> a | Some n \<Rightarrow> if n = Dir then a else dir_path a)
      in case eval_symlinks (sw_tree w) p of None \<Rightarrow> p | Some r \<Rightarrow> r)"

fun dedupe_roots :: "(string \<times> string \<times> string) list \<Rightarrow> root_spec list \<Rightarrow> root_spec list" where
  "dedupe_roots seen [] = []"
| "dedupe_roots seen (r # rs) =
     (let key = (rs_scope r, rs_plugin r, rs_path r) in
      if key \<in> set seen then dedupe_roots seen rs else r # dedupe_roots (key # seen) rs)"

definition discovery_roots :: "skill_world \<Rightarrow> skill_config \<Rightarrow> root_spec list" where
  "discovery_roots w c =
     dedupe_roots []
       ((if sc_project_dir c = [] then []
         else ancestor_roots w (sc_allow_external c) (rev (path_comps (project_folder w (sc_project_dir c))))) @
        map (\<lambda>p. \<lparr>rs_path = canonical w p, rs_logical = p, rs_boundary = canonical w p, rs_scope = ''global'',
                   rs_plugin = [], rs_allow_external = sc_allow_external c\<rparr>) (sc_global_roots c) @
        map (\<lambda>g. \<lparr>rs_path = canonical w (pg_path g), rs_logical = pg_path g, rs_boundary = canonical w (pg_path g),
                   rs_scope = ''plugin'', rs_plugin = pg_name g, rs_allow_external = sc_allow_external c\<rparr>)
          (sc_plugin_roots c))"

section \<open>Walking a root\<close>

record skill_file =
  sf_path :: string
  sf_logical :: string

record walk_state =
  ws_visited :: "string list"
  ws_files :: "skill_file list"
  ws_issues :: "diagnostic list"

definition walk_issue :: "diagnostic \<Rightarrow> walk_state \<Rightarrow> walk_state" where
  "walk_issue d s = s\<lparr>ws_issues := ws_issues s @ [d]\<rparr>"

text \<open>The recursive walk with a bound on its depth; \<open>None\<close> when the bound is used up. The entries of a
  directory are looked at in order, each with what the ones before it have visited.\<close>

fun walk_skills :: "nat \<Rightarrow> skill_world \<Rightarrow> root_spec \<Rightarrow> string \<Rightarrow> walk_state \<Rightarrow> walk_state option" where
  "walk_skills 0 w root path s = None"
| "walk_skills (Suc k) w root path s =
     (let resolved = canonical w path in
      if \<not> rs_allow_external root \<and> \<not> contains_path (rs_path root) resolved then
        Some (walk_issue (diag SeverityWarning ''symlink-escape'' path 0
          [''ignoring symlinked directory outside the skill root'']) s)
      else if resolved \<in> set (ws_visited s) then Some s
      else (let s' = s\<lparr>ws_visited := resolved # ws_visited s\<rparr> in
        case read_dir (sw_tree w) path of
          None \<Rightarrow> Some (walk_issue (diag SeverityError ''directory-unreadable'' path 0
                    [''cannot read skill directory'']) s')
        | Some es \<Rightarrow>
            foldl (\<lambda>acc (name, n).
              case acc of None \<Rightarrow> None | Some t \<Rightarrow>
                (let child = join_path [path, name] in
                 case stat_node (sw_tree w) child of
                   None \<Rightarrow> Some (walk_issue (diag SeverityWarning ''entry-unavailable'' child 0
                             [''cannot inspect skill entry'']) t)
                 | Some Dir \<Rightarrow> walk_skills k w root child t
                 | Some m \<Rightarrow>
                     if name = ''SKILL.md'' then
                       Some (t\<lparr>ws_files := ws_files t @ [\<lparr>sf_path = canonical w child, sf_logical = child\<rparr>]\<rparr>)
                     else Some t)) (Some s') es))"

definition walk_skill_files :: "nat \<Rightarrow> skill_world \<Rightarrow> root_spec \<Rightarrow> (skill_file list \<times> diagnostic list) option" where
  "walk_skill_files k w root =
     (if rs_path root = [] then
        Some ([], [diag SeverityError ''empty-root'' [] 0 [''skill root path is empty'']])
      else if \<not> rs_allow_external root \<and> rs_boundary root \<noteq> [] \<and> \<not> contains_path (rs_boundary root) (rs_path root) then
        Some ([], [diag SeverityWarning ''symlink-root-escape'' (rs_logical root) 0
          [''ignoring project skill root symlinked outside the project ancestor'']])
      else case stat_node (sw_tree w) (rs_path root) of
        None \<Rightarrow> Some ([], [diag (if sw_missing w (rs_path root) then SeverityWarning else SeverityError)
                   ''root-unavailable'' (rs_path root) 0 [''cannot scan skill root'']])
      | Some Dir \<Rightarrow>
          map_option (\<lambda>s. (sort_key sf_logical (ws_files s), ws_issues s))
            (walk_skills k w root (rs_path root) \<lparr>ws_visited = [], ws_files = [], ws_issues = []\<rparr>)
      | Some n \<Rightarrow>
          if base_path (rs_path root) \<noteq> ''SKILL.md'' then
            Some ([], [diag SeverityError ''invalid-root'' (rs_path root) 0
              [''skill root must be a directory or SKILL.md file'']])
          else Some ([\<lparr>sf_path = canonical w (rs_path root), sf_logical = rs_path root\<rparr>], []))"

section \<open>Loading\<close>

definition read_bounded :: "skill_world \<Rightarrow> string \<Rightarrow> int \<Rightarrow> (diagnostic, string) result" where
  "read_bounded w path maximum =
     (case stat_node (sw_tree w) path of
        None \<Rightarrow> Inl (diag SeverityError ''file-unreadable'' path 0 [])
      | Some (File contents) \<Rightarrow>
          if int (length contents) > maximum then
            Inl (diag SeverityError ''file-too-large'' path 0 [''SKILL.md exceeds its limit''])
          else if \<not> utf8_valid contents \<or> CHR 0x00 \<in> set contents then
            Inl (diag SeverityError ''invalid-text'' path 0 [''SKILL.md must be UTF-8 text without NUL bytes''])
          else Inr contents
      | Some n \<Rightarrow> Inl (diag SeverityError ''not-regular-file'' path 0 [''SKILL.md is not a regular file'']))"

definition default_max_skill_bytes :: int where
  "default_max_skill_bytes = 1048576"

definition byte_limit :: "int \<Rightarrow> int" where
  "byte_limit n = (if n \<le> 0 then default_max_skill_bytes else n)"

datatype load_error = SkillNotFound string | SkillDisabled string string | PathChanged string
  | LoadFailed string diagnostic | SkillChanged string

definition load_skill :: "skill_world \<Rightarrow> int \<Rightarrow> skill list \<Rightarrow> string \<Rightarrow> (load_error, string) result" where
  "load_skill w max_bytes skills name =
     (case find_any skills name of
        None \<Rightarrow> Inl (SkillNotFound (trim_space name))
      | Some s \<Rightarrow>
          if \<not> sk_enabled s then Inl (SkillDisabled (sk_name s) (sk_disabled_reason s))
          else if canonical w (sk_path s) \<noteq> sk_path s then Inl (PathChanged (sk_name s))
          else (case read_bounded w (sk_path s) (byte_limit max_bytes) of
                  Inl d \<Rightarrow> Inl (LoadFailed (sk_name s) d)
                | Inr contents \<Rightarrow>
                    (case parse_frontmatter contents (sk_path s) of
                       (m, issues) \<Rightarrow>
                         if has_errors issues \<or> \<not> equal_fold_ascii (md_name m) (sk_name s)
                         then Inl (SkillChanged (sk_name s)) else Inr contents)))"

section \<open>Discovery\<close>

record skill_candidate =
  ca_path :: string
  ca_logical :: string
  ca_root :: root_spec
  ca_metadata :: metadata
  ca_directory :: string

text \<open>What one file of a root contributes.\<close>

definition scan_file ::
  "skill_world \<Rightarrow> int \<Rightarrow> root_spec \<Rightarrow> skill_file \<Rightarrow> skill_candidate list \<times> diagnostic list" where
  "scan_file w max_bytes root file =
     (case read_bounded w (sf_path file) max_bytes of
        Inl d \<Rightarrow> ([], [d])
      | Inr contents \<Rightarrow>
          (case parse_frontmatter contents (sf_logical file) of
             (m, issues) \<Rightarrow>
               if has_errors issues then ([], issues)
               else ([\<lparr>ca_path = sf_path file, ca_logical = sf_logical file, ca_root = root, ca_metadata = m,
                       ca_directory = dir_path (sf_path file)\<rparr>],
                     issues @
                     (if \<not> equal_fold_ascii (md_name m) (base_path (dir_path (sf_logical file)))
                      then [diag SeverityWarning ''directory-name-mismatch'' (sf_logical file) 0
                              [''skill name does not match directory'', md_name m,
                               base_path (dir_path (sf_logical file))]] else []))))"

fun scan_roots ::
  "nat \<Rightarrow> skill_world \<Rightarrow> int \<Rightarrow> root_spec list \<Rightarrow> (skill_candidate list \<times> diagnostic list) option" where
  "scan_roots k w max_bytes [] = Some ([], [])"
| "scan_roots k w max_bytes (r # rs) =
     (case walk_skill_files k w r of
        None \<Rightarrow> None
      | Some (files, issues) \<Rightarrow>
          map_option (\<lambda>(cs, ds).
            (let found = map (scan_file w max_bytes r) files
             in (concat (map fst found) @ cs, issues @ concat (map snd found) @ ds)))
            (scan_roots k w max_bytes rs))"

definition candidate_skill :: "compiled_rule list \<Rightarrow> skill_candidate \<Rightarrow> skill" where
  "candidate_skill rules c =
     (case rules_enabled rules (ca_path c) (ca_directory c) of
        (enabled, reason) \<Rightarrow>
          \<lparr>sk_name = md_name (ca_metadata c), sk_description = md_description (ca_metadata c),
           sk_path = ca_path c, sk_directory = ca_directory c, sk_root = rs_path (ca_root c),
           sk_scope = rs_scope (ca_root c), sk_plugin = rs_plugin (ca_root c),
           sk_enabled = enabled, sk_disabled_reason = reason\<rparr>)"

text \<open>The first candidate of a name wins; \<open>seen\<close> maps lower-case names to the winners' paths.\<close>

fun choose_skills ::
  "compiled_rule list \<Rightarrow> string gomap \<Rightarrow> skill_candidate list \<Rightarrow> skill list \<times> diagnostic list" where
  "choose_skills rules seen [] = ([], [])"
| "choose_skills rules seen (c # cs) =
     (let key = to_lower (md_name (ca_metadata c)) in
      case map_of seen key of
        Some winner \<Rightarrow>
          (case choose_skills rules seen cs of (ss, ds) \<Rightarrow>
             (ss, diag SeverityWarning ''duplicate-name'' (ca_logical c) 0
                    [''duplicate skill ignored'', md_name (ca_metadata c), winner] # ds))
      | None \<Rightarrow>
          (case choose_skills rules ((key, ca_path c) # seen) cs of (ss, ds) \<Rightarrow>
             (candidate_skill rules c # ss, ds)))"

datatype diag_rank = Diag_Rank string nat string

instantiation diag_rank :: linorder
begin

definition less_diag_rank :: "diag_rank \<Rightarrow> diag_rank \<Rightarrow> bool" where
  "less_diag_rank a b =
     (case (a, b) of (Diag_Rank p l c, Diag_Rank p' l' c') \<Rightarrow>
        if p \<noteq> p' then p < p' else if l \<noteq> l' then l < l' else c < c')"

definition less_eq_diag_rank :: "diag_rank \<Rightarrow> diag_rank \<Rightarrow> bool" where
  "less_eq_diag_rank a b \<longleftrightarrow> a < b \<or> a = b"

instance
  by standard (auto simp: less_diag_rank_def less_eq_diag_rank_def split: diag_rank.splits if_splits)

end

definition diag_rank :: "diagnostic \<Rightarrow> diag_rank" where
  "diag_rank d = Diag_Rank (dg_path d) (dg_line d) (dg_code d)"

definition discover :: "nat \<Rightarrow> skill_world \<Rightarrow> skill_config \<Rightarrow> (skill list \<times> diagnostic list) option" where
  "discover k w c =
     (case scan_roots k w (byte_limit (sc_max_skill_bytes c)) (discovery_roots w c) of
        None \<Rightarrow> None
      | Some (candidates, issues) \<Rightarrow>
          (case choose_skills (compile_rules w c) [] candidates of (ss, ds) \<Rightarrow>
             Some (sort_key (\<lambda>s. to_lower (sk_name s)) ss, sort_key diag_rank (issues @ ds))))"

section \<open>The skill tool\<close>

text \<open>\<open>Execute\<close> with decoded arguments.\<close>

datatype skill_tool_error = NameOnlyForLoad | NameRequired | UnsupportedAction string | LoadError load_error

definition skill_tool ::
  "skill_world \<Rightarrow> int \<Rightarrow> skill list \<Rightarrow> string \<Rightarrow> string \<Rightarrow> (skill_tool_error, string) result" where
  "skill_tool w max_bytes skills action name =
     (if action = ''list'' then (if name \<noteq> [] then Inl NameOnlyForLoad else Inr (catalog_text skills))
      else if action = ''load'' then
        (if name = [] then Inl NameRequired
         else map_sum LoadError id (load_skill w max_bytes skills name))
      else Inl (UnsupportedAction action))"

end
