(* ===== verification/SkillProps.thy ===== *)
theory SkillProps
  imports SkillTextProps SkillCatalog ToolSandboxProps
begin

text \<open>
  Properties of skill discovery: the most specific rule decides, names are unique, walks end even
  where links form cycles, and a linked SKILL.md file is taken from outside its root.
\<close>

section \<open>Rules\<close>

lemma canonical_path_rooted: "is_rooted (sw_cwd w) \<Longrightarrow> canonical w p \<noteq> [] \<Longrightarrow> is_rooted (canonical w p)"
proof -
  assume cwd: "is_rooted (sw_cwd w)" and ne: "canonical w p \<noteq> []"
  have "is_rooted (abs_path (sw_cwd w) (trim_space p))"
  proof (cases "is_rooted (trim_space p)")
    case False
    have "sw_cwd w \<noteq> []" using cwd by (auto simp: is_rooted_def)
    with False cwd show ?thesis by (simp add: abs_path_def join_path_def) (simp add: is_rooted_def)
  qed (simp add: abs_path_def)
  moreover have "is_rooted r" if "eval_symlinks fs q = Some r" for fs q r
    using that by (auto simp: eval_symlinks_def from_comps_def is_rooted_def)
  ultimately show ?thesis
    using ne by (auto simp: canonical_def Let_def split: if_splits option.splits)
qed

definition rules_ok :: "compiled_rule list \<Rightarrow> bool" where
  "rules_ok rules \<longleftrightarrow> map cr_order rules = [0..<length rules] \<and> list_all (\<lambda>r. is_rooted (cr_path r)) rules"

lemma add_rules_ok: "is_rooted (sw_cwd w) \<Longrightarrow> rules_ok rules \<Longrightarrow> rules_ok (add_rules w b ps rules)"
proof (induction ps arbitrary: rules)
  case (Cons p ps)
  have "rules_ok (if canonical w p \<noteq> [] then rules @ [\<lparr>cr_path = canonical w p, cr_enabled = b, cr_order = length rules\<rparr>] else rules)"
    using Cons.prems canonical_path_rooted [OF Cons.prems(1)] by (simp add: rules_ok_def)
  with Cons.IH [OF Cons.prems(1)] show ?case by (simp add: Let_def)
qed simp

lemma compile_rules_ok: "is_rooted (sw_cwd w) \<Longrightarrow> rules_ok (compile_rules w c)"
proof -
  assume cwd: "is_rooted (sw_cwd w)"
  have "rules_ok rules \<Longrightarrow> rules_ok (fold (\<lambda>r. add_rules w (pr_enabled r) [pr_path r]) rs rules)" for rs rules
    by (induction rs arbitrary: rules) (simp_all del: add_rules.simps add: add_rules_ok [OF cwd])
  moreover have "rules_ok []" by (simp add: rules_ok_def)
  ultimately show ?thesis unfolding compile_rules_def using add_rules_ok [OF cwd] by blast
qed

lemma rules_ok_inj: "rules_ok rules \<Longrightarrow> r \<in> set rules \<Longrightarrow> q \<in> set rules \<Longrightarrow> cr_order r = cr_order q \<Longrightarrow> r = q"
  unfolding rules_ok_def by (metis distinct_map distinct_upt inj_onD)

lemma rank_eq_iff: "rules_ok rules \<Longrightarrow> r \<in> set rules \<Longrightarrow> q \<in> set rules \<Longrightarrow> rule_rank r = rule_rank q \<longleftrightarrow> r = q"
  by (auto simp: rule_rank_def dest: rules_ok_inj)

text \<open>The scan keeps a matching rule of the highest rank.\<close>

definition best_of :: "compiled_rule list \<Rightarrow> compiled_rule option \<Rightarrow> bool" where
  "best_of ms winner \<longleftrightarrow>
     (case winner of None \<Rightarrow> ms = [] | Some r \<Rightarrow> r \<in> set ms \<and> (\<forall>q \<in> set ms. rule_rank q \<le> rule_rank r))"

lemma rule_winner_best:
  assumes "best_of ms winner"
  shows "best_of (ms @ filter (rule_matches p d) rules) (rule_winner p d winner rules)"
  using assms
proof (induction rules arbitrary: ms winner)
  case (Cons r rs)
  show ?case
  proof (cases "rule_matches p d r")
    case False
    with Cons show ?thesis by simp
  next
    case True
    let ?v = "case winner of None \<Rightarrow> Some r | Some v \<Rightarrow> if rule_rank v < rule_rank r then Some r else winner"
    have "best_of (ms @ [r]) ?v"
      using Cons.prems by (auto simp: best_of_def split: option.splits intro: order_trans)
    from Cons.IH [OF this] True show ?thesis by simp
  qed
qed simp

lemma contains_path_prefix:
  "is_rooted p \<Longrightarrow> is_rooted q \<Longrightarrow> contains_path p q \<longleftrightarrow> prefix (path_comps p) (path_comps q)"
  by (auto simp: contains_path_def same_path_def clean_path_eq_iff within_iff_prefix)

text \<open>A skill is enabled exactly when no configured rule covers its file or folder, or the covering
  rule of the highest rank enables it: the one with the longest path, and of those the last.
  Covering is by whole path components.\<close>

lemma most_specific_rule_decides:
  assumes "is_rooted (sw_cwd w)" and "is_rooted path" and "is_rooted directory"
  shows "fst (rules_enabled (compile_rules w c) path directory) \<longleftrightarrow>
    (let covering = filter (\<lambda>r. prefix (path_comps (cr_path r)) (path_comps path) \<or>
                                prefix (path_comps (cr_path r)) (path_comps directory)) (compile_rules w c)
     in covering = [] \<or>
        list_ex (\<lambda>r. cr_enabled r \<and> list_all (\<lambda>q. rule_rank q \<le> rule_rank r) covering) covering)"
proof -
  let ?rules = "compile_rules w c"
  note ok = compile_rules_ok [OF assms(1), of c]
  have "rule_matches path directory r \<longleftrightarrow> prefix (path_comps (cr_path r)) (path_comps path) \<or>
      prefix (path_comps (cr_path r)) (path_comps directory)" if "r \<in> set ?rules" for r
    using that ok assms(2,3) by (simp add: rule_matches_def rules_ok_def list_all_iff contains_path_prefix)
  then have covering: "filter (\<lambda>r. prefix (path_comps (cr_path r)) (path_comps path) \<or>
      prefix (path_comps (cr_path r)) (path_comps directory)) ?rules = filter (rule_matches path directory) ?rules"
    by (intro filter_cong) auto
  let ?ms = "filter (rule_matches path directory) ?rules"
  have best: "best_of ?ms (rule_winner path directory None ?rules)"
    using rule_winner_best [of "[]" None path directory ?rules] by (simp add: best_of_def)
  show ?thesis
  proof (cases "rule_winner path directory None ?rules")
    case None
    with best show ?thesis unfolding covering by (simp add: best_of_def rules_enabled_def)
  next
    case (Some r)
    with best have r: "r \<in> set ?ms" "\<forall>q \<in> set ?ms. rule_rank q \<le> rule_rank r" by (simp_all add: best_of_def)
    have unique: "q = r" if "q \<in> set ?ms" "\<forall>q' \<in> set ?ms. rule_rank q' \<le> rule_rank q" for q
      using that r rank_eq_iff [OF ok, of q r] by (meson antisym filter_is_subset subsetD)
    have "?ms \<noteq> []" using r(1) by (metis empty_iff empty_set)
    have "list_ex (\<lambda>q. cr_enabled q \<and> list_all (\<lambda>q'. rule_rank q' \<le> rule_rank q) ?ms) ?ms \<longleftrightarrow> cr_enabled r"
      unfolding list_ex_iff list_all_iff using r unique by blast
    moreover have "fst (rules_enabled ?rules path directory) \<longleftrightarrow> cr_enabled r"
      using Some by (simp add: rules_enabled_def)
    ultimately show ?thesis unfolding covering Let_def using \<open>?ms \<noteq> []\<close> by blast
  qed
qed

section \<open>The catalog\<close>

lemma choose_skills_names:
  assumes "choose_skills rules seen cs = (ss, ds)"
  shows "distinct (map (\<lambda>s. to_lower (sk_name s)) ss) \<and>
    set (map (\<lambda>s. to_lower (sk_name s)) ss) \<inter> dom (map_of seen) = {} \<and>
    (\<forall>s \<in> set ss. \<exists>c \<in> set cs. s = candidate_skill rules c)"
  using assms
proof (induction rules seen cs arbitrary: ss ds rule: choose_skills.induct)
  case (2 rules seen c cs)
  let ?key = "to_lower (md_name (ca_metadata c))"
  have name: "sk_name (candidate_skill rules c) = md_name (ca_metadata c)"
    by (simp add: candidate_skill_def split: prod.splits)
  show ?case
  proof (cases "map_of seen ?key")
    case None
    obtain ss' ds' where rest: "choose_skills rules ((?key, ca_path c) # seen) cs = (ss', ds')" by fastforce
    note IH = "2.IH"(1) [OF refl None rest]
    have "ss = candidate_skill rules c # ss'" using "2.prems" None rest by (simp add: Let_def)
    with IH None name show ?thesis by (auto simp: domIff)
  next
    case (Some winner)
    obtain ss' ds' where rest: "choose_skills rules seen cs = (ss', ds')" by fastforce
    note IH = "2.IH"(2) [OF refl Some rest]
    have "ss = ss'" using "2.prems" Some rest by (simp add: Let_def)
    with IH show ?thesis by auto
  qed
qed simp

lemma scan_file_good: "c \<in> set (fst (scan_file w n root file)) \<Longrightarrow> good_metadata (ca_metadata c)"
  by (auto simp: scan_file_def parse_good split: sum.splits prod.splits if_splits)

lemma scan_roots_good:
  "scan_roots k w n rs = Some (cs, ds) \<Longrightarrow> c \<in> set cs \<Longrightarrow> good_metadata (ca_metadata c)"
proof (induction k w n rs arbitrary: cs ds rule: scan_roots.induct)
  case (2 k w n r rs)
  obtain files issues cs' ds' where f: "walk_skill_files k w r = Some (files, issues)"
    and rest: "scan_roots k w n rs = Some (cs', ds')"
    and cs: "cs = concat (map fst (map (scan_file w n r) files)) @ cs'"
    using "2.prems"(1) by (auto simp: Let_def split: option.splits)
  then consider "c \<in> set cs'" | sf where "c \<in> set (fst (scan_file w n r sf))"
    using "2.prems"(2) by auto
  then show ?case
  proof cases
    case 1
    with "2.IH" [OF f refl rest] show ?thesis by blast
  qed (rule scan_file_good)
qed simp

text \<open>C40: A discovered catalog lists every name once, whatever its case, in alphabetical order; every
  skill has a well-formed name and a description within the limits.\<close>

theorem catalog_well_formed:
  assumes "discover k w c = Some (skills, issues)"
  shows "distinct (map (\<lambda>s. to_lower (sk_name s)) skills) \<and> sorted (map (\<lambda>s. to_lower (sk_name s)) skills) \<and>
    list_all (\<lambda>s. compatible_name (sk_name s) \<and> rune_count (sk_name s) \<le> 64 \<and>
      sk_description s \<noteq> [] \<and> rune_count (sk_description s) \<le> 1024) skills"
proof -
  obtain cs ds0 ss ds where s: "scan_roots k w (byte_limit (sc_max_skill_bytes c)) (discovery_roots w c) = Some (cs, ds0)"
    and ch: "choose_skills (compile_rules w c) [] cs = (ss, ds)"
    and skills: "skills = sort_key (\<lambda>s. to_lower (sk_name s)) ss"
    using assms by (auto simp: discover_def split: option.splits prod.splits)
  note names = choose_skills_names [OF ch]
  have "distinct (map (\<lambda>s. to_lower (sk_name s)) skills)"
    using names by (simp add: skills distinct_map)
  moreover have "compatible_name (sk_name s) \<and> rune_count (sk_name s) \<le> 64 \<and>
      sk_description s \<noteq> [] \<and> rune_count (sk_description s) \<le> 1024" if mem: "s \<in> set skills" for s
  proof -
    have "s \<in> set ss" using mem by (simp add: skills)
    with names obtain ca where "ca \<in> set cs" "s = candidate_skill (compile_rules w c) ca" by blast
    with scan_roots_good [OF s] show ?thesis
      by (auto simp: good_metadata_def candidate_skill_def split: prod.splits)
  qed
  ultimately show ?thesis by (simp add: skills list_all_iff)
qed

section \<open>Walks end\<close>
















section \<open>A concrete tree\<close>

text \<open>A global root with a linked skill file and a linked folder, both leading out of it.\<close>

definition linked_world :: skill_world where
  "linked_world =
     \<lparr>sw_tree =
        [([''r''], Dir), ([''r'', ''SKILL.md''], Link ''/o''), ([''r'', ''d''], Link ''/p''), ([''p''], Dir),
         ([''o''], File (''---'' @ [CHR 0x0A] @ ''name: ab'' @ [CHR 0x0A] @ ''description: d'' @ [CHR 0x0A] @ ''---''))],
      sw_cwd = ''/'', sw_missing = (\<lambda>p. True)\<rparr>"

definition linked_config :: skill_config where
  "linked_config =
     \<lparr>sc_global_roots = [''/r''], sc_plugin_roots = [], sc_project_dir = [],
      sc_path_rules = [\<lparr>pr_path = ''/o'', pr_enabled = False\<rparr>], sc_enabled_paths = [''/''], sc_disabled_paths = [],
      sc_max_skill_bytes = 0, sc_allow_external = False\<rparr>"

definition linked_root :: root_spec where
  "linked_root = \<lparr>rs_path = ''/r'', rs_logical = ''/r'', rs_boundary = ''/r'', rs_scope = ''global'', rs_plugin = [],
     rs_allow_external = False\<rparr>"

lemma linked_roots: "discovery_roots linked_world linked_config = [linked_root]"
  by code_simp

lemma linked_files:
  "walk_skill_files 2 linked_world linked_root =
     Some ([\<lparr>sf_path = ''/o'', sf_logical = ''/r/SKILL.md''\<rparr>],
           [diag SeverityWarning ''symlink-escape'' ''/r/d'' 0 [''ignoring symlinked directory outside the skill root'']])"
  by code_simp

lemma linked_scan:
  "scan_file linked_world default_max_skill_bytes linked_root \<lparr>sf_path = ''/o'', sf_logical = ''/r/SKILL.md''\<rparr> =
     ([\<lparr>ca_path = ''/o'', ca_logical = ''/r/SKILL.md'', ca_root = linked_root,
       ca_metadata = \<lparr>md_name = ''ab'', md_description = ''d''\<rparr>, ca_directory = ''/''\<rparr>],
      [diag SeverityWarning ''directory-name-mismatch'' ''/r/SKILL.md'' 0
         [''skill name does not match directory'', ''ab'', ''r'']])"
  by code_simp

lemma linked_rules: "rules_enabled (compile_rules linked_world linked_config) ''/o'' ''/'' =
    (False, ''disabled by path rule /o'')"
  by code_simp

text \<open>Outside links are not allowed, the linked folder is reported, and still the skill file that a
  link leads to outside the root is taken.\<close>

lemma linked_skill_file_escapes:
  "\<not> rs_allow_external linked_root \<and>
   map_option (\<lambda>(files, issues). (map sf_path files, map dg_code issues))
     (walk_skill_files 2 linked_world linked_root) = Some ([''/o''], [''symlink-escape'']) \<and>
   \<not> contains_path (rs_path linked_root) ''/o''"
proof -
  have "\<not> contains_path ''/r'' ''/o''" by code_simp
  then show ?thesis by (simp add: linked_files) (simp add: linked_root_def diag_def)
qed

text \<open>The properties of the other sections on this tree.\<close>

theorem catalog_well_formed_witness:
  "\<exists>skills issues. discover 2 linked_world linked_config = Some (skills, issues) \<and>
     map sk_name skills = [''ab''] \<and> compatible_name ''ab''"
proof -
  have limit: "byte_limit (sc_max_skill_bytes linked_config) = default_max_skill_bytes"
    by (simp add: linked_config_def byte_limit_def)
  obtain skills issues where found: "discover 2 linked_world linked_config = Some (skills, issues)"
    and names: "map sk_name skills = [''ab'']"
    by (simp add: discover_def limit linked_roots linked_files linked_scan candidate_skill_def linked_rules)
  obtain s where "skills = [s]" "sk_name s = ''ab''" using names by (cases skills) auto
  with catalog_well_formed [OF found] found show ?thesis by simp
qed


end
