(* ===== verification/EventHub.thy ===== *)
theory EventHub
  imports AgentLoop ThreadStore
begin

text \<open>
  The event fan-out of one conversation (\<open>daemon/manager_events.go\<close>): every event is stored in the
  conversation's database first and then offered to the channels of its subscribers, each of which
  holds 1024 events; an event that finds a channel full is dropped for that subscriber. Emissions
  of several goroutines may overlap, so an emission is three kinds of steps: storing, reading the
  subscribers under the lock, and one send for each channel. \<open>hb_got\<close> is what the subscribers have
  taken from their channels. The JSON encoder is an argument; its failure is \<open>None\<close>.
\<close>

section \<open>Events\<close>

datatype hub_data = LoopEvent event | UsageData usage | ThreadData thread | OtherData string

record hub_event =
  hv_type :: string
  hv_scope :: "string \<times> string"
  hv_conversation_id :: string
  hv_project_id :: string
  hv_chat_id :: string
  hv_thread_id :: string
  hv_sequence :: int
  hv_timestamp :: nat
  hv_data :: string

definition wire_event :: "thread \<Rightarrow> stored_event \<Rightarrow> hub_event" where
  "wire_event t e =
     \<lparr>hv_type = stored_event.ev_type e, hv_scope = (resource_kind t, t_id t), hv_conversation_id = t_id t,
      hv_project_id = (if resource_kind t = ''chat'' then [] else t_id t),
      hv_chat_id = (if resource_kind t = ''chat'' then t_id t else []),
      hv_thread_id = t_id t, hv_sequence = ev_sequence e, hv_timestamp = ev_created_at e, hv_data = ev_data e\<rparr>"

section \<open>State\<close>

record emission =
  em_event :: hub_event
  em_left :: "nat list option"

record ('m, 'e) hub =
  hb_thread :: thread
  hb_db :: "('m, 'e) thread_db"
  hb_subs :: "nat list"
  hb_next :: nat
  hb_chans :: "nat \<Rightarrow> hub_event list"
  hb_flight :: "emission list"
  hb_got :: "nat \<Rightarrow> hub_event list"

record ('m, 'e) hub_env =
  he_messages :: "(message, 'm) ops"
  he_events :: "(stored_event, 'e) ops"
  he_encode :: "hub_data \<Rightarrow> string option"

definition channel_size :: nat where
  "channel_size = 1024"

section \<open>Subscriptions\<close>

definition subscribe :: "('m, 'e) hub \<Rightarrow> nat \<times> ('m, 'e) hub" where
  "subscribe h =
     (let i = Suc (hb_next h)
      in (i, h\<lparr>hb_next := i, hb_subs := hb_subs h @ [i], hb_chans := (hb_chans h)(i := [])\<rparr>))"

definition cancel :: "nat \<Rightarrow> ('m, 'e) hub \<Rightarrow> ('m, 'e) hub" where
  "cancel i h = h\<lparr>hb_subs := filter (\<lambda>j. j \<noteq> i) (hb_subs h)\<rparr>"

definition receive :: "nat \<Rightarrow> ('m, 'e) hub \<Rightarrow> ('m, 'e) hub" where
  "receive i h =
     (case hb_chans h i of
        [] \<Rightarrow> h
      | e # es \<Rightarrow> h\<lparr>hb_chans := (hb_chans h)(i := es), hb_got := (hb_got h)(i := hb_got h i @ [e])\<rparr>)"

section \<open>Emitting\<close>

definition emit_store ::
  "('m, 'e) hub_env \<Rightarrow> nat \<Rightarrow> string \<Rightarrow> hub_data \<Rightarrow> ('m, 'e) hub \<Rightarrow> hub_event option \<times> ('m, 'e) hub" where
  "emit_store env now typ data h =
     (case he_encode env data of
        None \<Rightarrow> (None, h)
      | Some raw \<Rightarrow>
         (case append_event (he_events env) now (stored_event.make 0 typ raw 0) (db_events (hb_db h)) of
            Inl e \<Rightarrow> (None, h)
          | Inr (stored, tab) \<Rightarrow>
              (Some (wire_event (hb_thread h) stored), h\<lparr>hb_db := (hb_db h)\<lparr>db_events := tab\<rparr>\<rparr>)))"

definition send_to :: "hub_event \<Rightarrow> nat \<Rightarrow> ('m, 'e) hub \<Rightarrow> ('m, 'e) hub" where
  "send_to e i h =
     (if length (hb_chans h i) < channel_size
      then h\<lparr>hb_chans := (hb_chans h)(i := hb_chans h i @ [e])\<rparr> else h)"

text \<open>The whole of \<open>emit\<close>, with no other goroutine in between.\<close>

definition emit :: "('m, 'e) hub_env \<Rightarrow> nat \<Rightarrow> string \<Rightarrow> hub_data \<Rightarrow> ('m, 'e) hub \<Rightarrow> ('m, 'e) hub" where
  "emit env now typ data h =
     (case emit_store env now typ data h of
        (None, h') \<Rightarrow> h'
      | (Some e, h') \<Rightarrow> fold (send_to e) (hb_subs h') h')"

definition emit_resource_updated ::
  "('m, 'e) hub_env \<Rightarrow> nat \<Rightarrow> nat \<Rightarrow> thread \<Rightarrow> ('m, 'e) hub \<Rightarrow> ('m, 'e) hub" where
  "emit_resource_updated env now now' resource h =
     (if resource_kind resource = ''chat''
      then emit env now' ''conversation_updated'' (ThreadData resource)
             (emit env now ''chat_updated'' (ThreadData resource) h)
      else emit env now' ''thread_updated'' (ThreadData resource)
             (emit env now ''project_updated'' (ThreadData resource) h))"

section \<open>Overlapping emissions\<close>

datatype hub_action =
    Store nat string hub_data | Look nat | Send nat
  | Subscribe | Cancel nat | Receive nat

fun hub_step :: "('m, 'e) hub_env \<Rightarrow> hub_action \<Rightarrow> ('m, 'e) hub \<Rightarrow> ('m, 'e) hub option" where
  "hub_step env (Store now typ data) h =
     Some (case emit_store env now typ data h of
        (None, h') \<Rightarrow> h'
      | (Some e, h') \<Rightarrow> h'\<lparr>hb_flight := hb_flight h' @ [\<lparr>em_event = e, em_left = None\<rparr>]\<rparr>)"
| "hub_step env (Look j) h =
     (if j < length (hb_flight h) \<and> em_left (hb_flight h ! j) = None
      then Some (h\<lparr>hb_flight := (hb_flight h)[j := (hb_flight h ! j)\<lparr>em_left := Some (hb_subs h)\<rparr>]\<rparr>)
      else None)"
| "hub_step env (Send j) h =
     (if j < length (hb_flight h)
      then (case em_left (hb_flight h ! j) of
              Some (i # is) \<Rightarrow>
                Some ((send_to (em_event (hb_flight h ! j)) i h)
                        \<lparr>hb_flight := (hb_flight h)[j := (hb_flight h ! j)\<lparr>em_left := Some is\<rparr>]\<rparr>)
            | _ \<Rightarrow> None)
      else None)"
| "hub_step env Subscribe h = Some (snd (subscribe h))"
| "hub_step env (Cancel i) h = Some (cancel i h)"
| "hub_step env (Receive i) h = Some (receive i h)"

fun hub_run :: "('m, 'e) hub_env \<Rightarrow> hub_action list \<Rightarrow> ('m, 'e) hub \<Rightarrow> ('m, 'e) hub option" where
  "hub_run env [] h = Some h"
| "hub_run env (a # as) h = (case hub_step env a h of None \<Rightarrow> None | Some h' \<Rightarrow> hub_run env as h')"

section \<open>Events of a run\<close>

text \<open>The clock readings and the outcome of the metadata write in one call of the handler.\<close>

record handler_io =
  hi_message_now :: nat
  hi_event_now :: nat
  hi_update_now :: nat
  hi_usage_now :: nat
  hi_write :: "string option"

definition append_transcript ::
  "('m, 'e) hub_env \<Rightarrow> nat \<Rightarrow> event \<Rightarrow> ('m, 'e) hub \<Rightarrow> ('m, 'e) hub" where
  "append_transcript env now e h =
     (let reasoning = (event.ev_type e = ''reasoning_end'');
          kind = (if reasoning then ''reasoning'' else ''tool'');
          data = (case he_encode env (LoopEvent e) of None \<Rightarrow> [] | Some raw \<Rightarrow> raw)
      in case append_message (he_messages env) now
           \<lparr>ms_sequence = 0, ms_kind = kind, ms_role = kind,
            ms_content = (if reasoning then ev_text e else ev_output e), ms_data = data, ms_created_at = 0\<rparr>
           (db_messages (hb_db h)) of
           Inl err \<Rightarrow> h
         | Inr (m, tab) \<Rightarrow> h\<lparr>hb_db := (hb_db h)\<lparr>db_messages := tab\<rparr>\<rparr>)"

definition persist_thread :: "string option \<Rightarrow> nat \<Rightarrow> ('m, 'e) hub \<Rightarrow> ('m, 'e) hub" where
  "persist_thread write now h =
     h\<lparr>hb_db := snd (update_thread (\<lambda>stored. Inr (hb_thread h)) write now (hb_db h))\<rparr>"

definition add_run_usage ::
  "('m, 'e) hub_env \<Rightarrow> handler_io \<Rightarrow> usage \<Rightarrow> ('m, 'e) hub \<Rightarrow> ('m, 'e) hub" where
  "add_run_usage env io u h =
     (let total_usage = accumulate_usage (t_usage (hb_thread h)) u;
          h1 = h\<lparr>hb_thread := (hb_thread h)\<lparr>t_usage := total_usage\<rparr>\<rparr>;
          h2 = persist_thread (hi_write io) (hi_update_now io) h1
      in emit env (hi_usage_now io) ''usage_update'' (UsageData total_usage) h2)"

definition handle_loop_event ::
  "('m, 'e) hub_env \<Rightarrow> handler_io \<Rightarrow> event \<Rightarrow> ('m, 'e) hub \<Rightarrow> ('m, 'e) hub" where
  "handle_loop_event env io e h =
     (let h1 = (if event.ev_type e = ''tool_execution_end'' \<or> event.ev_type e = ''reasoning_end''
                then append_transcript env (hi_message_now io) e h else h);
          h2 = emit env (hi_event_now io) (event.ev_type e) (LoopEvent e) h1
      in case ev_usage e of
           Some u \<Rightarrow> if event.ev_type e = ''message_end'' \<and> usage_present u
                     then add_run_usage env io u h2 else h2
         | None \<Rightarrow> h2)"

section \<open>A connection's subscription\<close>

text \<open>\<open>serverClient\<close> (\<open>daemon/server_subscriptions.go\<close>) keeps one subscription for each conversation.
  The commands of a connection are handled one after the other.\<close>

definition client_subscribe :: "nat option \<Rightarrow> ('m, 'e) hub \<Rightarrow> nat option \<times> ('m, 'e) hub" where
  "client_subscribe s h =
     (case s of Some i \<Rightarrow> (s, h) | None \<Rightarrow> (case subscribe h of (i, h') \<Rightarrow> (Some i, h')))"

definition client_unsubscribe :: "nat option \<Rightarrow> ('m, 'e) hub \<Rightarrow> nat option \<times> ('m, 'e) hub" where
  "client_unsubscribe s h = (None, case s of None \<Rightarrow> h | Some i \<Rightarrow> cancel i h)"

end
