(* ===== verification/EventHubProps.thy ===== *)
theory EventHubProps
  imports EventHub "HOL-Library.Sublist"
begin

text \<open>
  What the fan-out promises its subscribers. While emissions do not overlap, a subscriber's channel
  is a refinement of the log: it yields the events stored since the subscription, in their order,
  without those that found the channel full. However emissions overlap, a subscriber gets only
  stored events, each at most once.
\<close>

section \<open>What a subscriber gets\<close>

definition delivered :: "('m, 'e) hub \<Rightarrow> nat \<Rightarrow> hub_event list" where
  "delivered h i = hb_got h i @ hb_chans h i"

definition hub_rows :: "('e \<Rightarrow> (int \<times> stored_event) list) \<Rightarrow> ('m, 'e) hub \<Rightarrow> (int \<times> stored_event) list" where
  "hub_rows rows h = rows (db_events (hb_db h))"

definition wire_row :: "thread \<Rightarrow> int \<times> stored_event \<Rightarrow> hub_event" where
  "wire_row t row = wire_event t ((snd row)\<lparr>ev_sequence := fst row\<rparr>)"

lemma wire_row_sequence [simp]: "hv_sequence (wire_row t row) = fst row"
  by (simp add: wire_row_def wire_event_def)

lemma send_to_fields [simp]:
  "hb_thread (send_to e i h) = hb_thread h" "hb_db (send_to e i h) = hb_db h" "hb_subs (send_to e i h) = hb_subs h"
  "hb_next (send_to e i h) = hb_next h" "hb_flight (send_to e i h) = hb_flight h" "hb_got (send_to e i h) = hb_got h"
  by (simp_all add: send_to_def)

lemma send_to_chans:
  "hb_chans (send_to e i h) j =
     (if j = i \<and> length (hb_chans h i) < channel_size then hb_chans h i @ [e] else hb_chans h j)"
  by (simp add: send_to_def)

lemma send_all_fields [simp]:
  "hb_thread (fold (send_to e) is h) = hb_thread h" "hb_db (fold (send_to e) is h) = hb_db h"
  "hb_subs (fold (send_to e) is h) = hb_subs h" "hb_next (fold (send_to e) is h) = hb_next h"
  "hb_flight (fold (send_to e) is h) = hb_flight h" "hb_got (fold (send_to e) is h) = hb_got h"
  by (induction "is" arbitrary: h) simp_all


lemma emit_store_cases:
  assumes "sequence_table (he_events env) rows"
  obtains (failed) "emit_store env now typ data h = (None, h)"
  | (stored) n r tab where "emit_store env now typ data h =
        (Some (wire_row (hb_thread h) (n, r)), h\<lparr>hb_db := (hb_db h)\<lparr>db_events := tab\<rparr>\<rparr>)"
      "rows tab = hub_rows rows h @ [(n, r)]"
proof (cases "he_encode env data")
  case (Some raw)
  let ?e = "stored_event.make 0 typ raw now"
  show ?thesis
  proof (cases "tb_insert (he_events env) ?e (db_events (hb_db h))")
    case (Inl err)
    with Some failed show ?thesis by (simp add: emit_store_def append_event_def stored_event.defs)
  next
    case (Inr res)
    obtain n tab where res: "res = (n, tab)" by fastforce
    have "rows tab = hub_rows rows h @ [(n, ?e)]"
      using assms Inr unfolding res sequence_table_def hub_rows_def by blast
    moreover have "emit_store env now typ data h =
        (Some (wire_row (hb_thread h) (n, ?e)), h\<lparr>hb_db := (hb_db h)\<lparr>db_events := tab\<rparr>\<rparr>)"
      using Some Inr by (simp add: emit_store_def append_event_def res wire_row_def stored_event.defs)
    ultimately show ?thesis using stored by blast
  qed
qed (use failed in \<open>simp add: emit_store_def\<close>)

section \<open>One emission after the other\<close>

datatype hub_op = Announce nat string hub_data | Join | Leave nat | Take nat

fun hub_apply :: "('m, 'e) hub_env \<Rightarrow> hub_op \<Rightarrow> ('m, 'e) hub \<Rightarrow> ('m, 'e) hub" where
  "hub_apply env (Announce now typ data) h = emit env now typ data h"
| "hub_apply env Join h = snd (subscribe h)"
| "hub_apply env (Leave i) h = cancel i h"
| "hub_apply env (Take i) h = receive i h"






section \<open>Overlapping emissions\<close>

text \<open>The channels that an emission may still send to.\<close>

definition em_pending :: "emission \<Rightarrow> nat \<Rightarrow> bool" where
  "em_pending m i \<longleftrightarrow> (case em_left m of None \<Rightarrow> True | Some is \<Rightarrow> i \<in> set is)"

definition em_sequence :: "emission \<Rightarrow> int" where
  "em_sequence m = hv_sequence (em_event m)"

lemma em_fields [simp]: "em_sequence (m\<lparr>em_left := x\<rparr>) = em_sequence m"
  by (simp add: em_sequence_def)

definition channels_ok :: "('m, 'e) hub \<Rightarrow> bool" where
  "channels_ok h \<longleftrightarrow> distinct (hb_subs h) \<and> (\<forall>i \<in> set (hb_subs h). i \<le> hb_next h) \<and>
     (\<forall>i > hb_next h. delivered h i = []) \<and>
     (\<forall>m \<in> set (hb_flight h). \<forall>is. em_left m = Some is \<longrightarrow> distinct is \<and> (\<forall>i \<in> set is. i \<le> hb_next h))"

definition stored_ok :: "('e \<Rightarrow> (int \<times> stored_event) list) \<Rightarrow> ('m, 'e) hub \<Rightarrow> bool" where
  "stored_ok rows h \<longleftrightarrow>
     (\<forall>m \<in> set (hb_flight h). em_event m \<in> wire_row (hb_thread h) ` set (hub_rows rows h)) \<and>
     (\<forall>i. set (delivered h i) \<subseteq> wire_row (hb_thread h) ` set (hub_rows rows h))"

definition once_ok :: "('m, 'e) hub \<Rightarrow> bool" where
  "once_ok h \<longleftrightarrow> distinct (map em_sequence (hb_flight h)) \<and>
     (\<forall>i. distinct (map hv_sequence (delivered h i))) \<and>
     (\<forall>m \<in> set (hb_flight h). \<forall>i. em_pending m i \<longrightarrow> (\<forall>e \<in> set (delivered h i). hv_sequence e \<noteq> em_sequence m))"

definition hub_ok :: "('e \<Rightarrow> (int \<times> stored_event) list) \<Rightarrow> ('m, 'e) hub \<Rightarrow> bool" where
  "hub_ok rows h \<longleftrightarrow> channels_ok h \<and> stored_ok rows h \<and> once_ok h"

lemma new_sequence:
  assumes "sequence_table ops rows" and "rows tab = rs @ [(n, r)]"
  shows "n \<notin> fst ` set rs"
proof -
  have "sorted_wrt (<) (map fst (rs @ [(n, r)]))"
    using assms by (metis sequence_table_def)
  then show ?thesis by (auto simp: sorted_wrt_append)
qed

lemma stored_sequences: "stored_ok rows h \<Longrightarrow> n \<notin> fst ` set (hub_rows rows h) \<Longrightarrow>
    (\<forall>m \<in> set (hb_flight h). em_sequence m \<noteq> n) \<and> (\<forall>i. \<forall>e \<in> set (delivered h i). hv_sequence e \<noteq> n)"
  by (force simp: stored_ok_def em_sequence_def)

lemma store_ok:
  assumes "sequence_table (he_events env) rows" and "hub_ok rows h" and "hub_step env (Store now ty data) h = Some h'"
  shows "hub_ok rows h' \<and> hb_thread h' = hb_thread h"
proof (cases rule: emit_store_cases [OF assms(1), of now ty data h])
  case 1
  with assms show ?thesis by simp
next
  case (2 n r tab)
  have h': "h' = h\<lparr>hb_db := (hb_db h)\<lparr>db_events := tab\<rparr>,
      hb_flight := hb_flight h @ [\<lparr>em_event = wire_row (hb_thread h) (n, r), em_left = None\<rparr>]\<rparr>"
    using assms(3) 2(1) by simp
  have fresh: "n \<notin> fst ` set (hub_rows rows h)" using new_sequence [OF assms(1) 2(2)] .
  note seqs = stored_sequences [OF _ fresh]
  have same: "delivered h' i = delivered h i" "hub_rows rows h' = hub_rows rows h @ [(n, r)]" for i
    using 2(2) by (simp_all add: h' delivered_def hub_rows_def)
  have "channels_ok h'" using assms(2) unfolding hub_ok_def channels_ok_def same by (auto simp: h')
  moreover have "stored_ok rows h'" using assms(2) unfolding hub_ok_def stored_ok_def same by (auto simp: h')
  moreover have "once_ok h'"
    using assms(2) seqs unfolding hub_ok_def once_ok_def same by (auto simp: h' em_sequence_def)
  ultimately show ?thesis by (simp add: hub_ok_def h')
qed

lemma set_update_cases: "x \<in> set (xs[j := y]) \<Longrightarrow> x = y \<or> x \<in> set xs"
  using set_update_subset_insert by fastforce

lemma flight_look_ok:
  assumes "hub_ok rows h" and "hub_step env (Look j) h = Some h'"
  shows "hub_ok rows h' \<and> hb_thread h' = hb_thread h"
proof -
  let ?m = "hb_flight h ! j"
  have j: "j < length (hb_flight h)" "em_left ?m = None"
    and h': "h' = h\<lparr>hb_flight := (hb_flight h)[j := ?m\<lparr>em_left := Some (hb_subs h)\<rparr>]\<rparr>"
    using assms(2) by (auto split: if_splits)
  have mem: "?m \<in> set (hb_flight h)" using j(1) by simp
  have seqs: "map em_sequence (hb_flight h') = map em_sequence (hb_flight h)"
    using j(1) by (simp add: h' map_update) (metis list_update_id nth_map length_map)
  have pend: "em_pending ?m i" for i using j(2) by (simp add: em_pending_def)
  have same: "delivered h' i = delivered h i" "hub_rows rows h' = hub_rows rows h" for i
    by (simp_all add: h' delivered_def hub_rows_def)
  have "channels_ok h'"
    using assms(1) mem unfolding hub_ok_def channels_ok_def same
    by (auto simp: h' dest!: set_update_cases)
  moreover have "stored_ok rows h'"
    using assms(1) mem unfolding hub_ok_def stored_ok_def same
    by (auto simp: h' dest!: set_update_cases)
  moreover have "once_ok h'"
    using assms(1) mem pend unfolding hub_ok_def once_ok_def same seqs
    by (auto simp: h' dest!: set_update_cases)
  ultimately show ?thesis by (simp add: hub_ok_def h')
qed

lemma send_ok:
  assumes "hub_ok rows h" and "hub_step env (Send j) h = Some h'"
  shows "hub_ok rows h' \<and> hb_thread h' = hb_thread h"
proof -
  let ?m = "hb_flight h ! j"
  obtain i "is" where j: "j < length (hb_flight h)" and left: "em_left ?m = Some (i # is)"
    and h': "h' = (send_to (em_event ?m) i h)\<lparr>hb_flight := (hb_flight h)[j := ?m\<lparr>em_left := Some is\<rparr>]\<rparr>"
    using assms(2) by (auto split: if_splits option.splits list.splits)
  have mem: "?m \<in> set (hb_flight h)" using j by simp
  have seqs: "map em_sequence (hb_flight h') = map em_sequence (hb_flight h)"
    using j by (simp add: h' map_update) (metis list_update_id nth_map length_map)
  have fields: "hb_thread h' = hb_thread h" "hub_rows rows h' = hub_rows rows h" "hb_subs h' = hb_subs h"
    "hb_next h' = hb_next h" "hb_flight h' = (hb_flight h)[j := ?m\<lparr>em_left := Some is\<rparr>]"
    by (simp_all add: h' hub_rows_def)
  have other: "k \<noteq> i \<Longrightarrow> delivered h' k = delivered h k" for k
    by (simp add: h' delivered_def send_to_chans)
  have here: "delivered h' i = delivered h i \<or> delivered h' i = delivered h i @ [em_event ?m]"
    by (simp add: h' delivered_def send_to_chans)
  then have sub: "set (delivered h' k) \<subseteq> insert (em_event ?m) (set (delivered h k))" for k
    using other [of k] by (cases "k = i") auto
  have ok: "channels_ok h" "stored_ok rows h" "once_ok h" using assms(1) by (simp_all add: hub_ok_def)
  have i: "i \<le> hb_next h" "i \<notin> set is" "em_pending ?m i"
    using ok(1) mem left by (force simp: channels_ok_def em_pending_def)+
  have "channels_ok h'"
    using ok(1) mem left i(1) other unfolding channels_ok_def fields
    by (auto dest!: set_update_cases)
  moreover have "stored_ok rows h'"
    using ok(2) mem sub unfolding stored_ok_def fields
    by (auto dest!: set_update_cases subsetD [OF sub])
  moreover have "once_ok h'"
    unfolding once_ok_def seqs
  proof (intro conjI allI ballI impI)
    show "distinct (map em_sequence (hb_flight h))" using ok(3) by (simp add: once_ok_def)
    have fresh: "hv_sequence e \<noteq> hv_sequence (em_event ?m)" if "e \<in> set (delivered h i)" for e
      using ok(3) mem i(3) that by (force simp: once_ok_def em_sequence_def)
    have "distinct (map hv_sequence (delivered h k))" for k using ok(3) by (simp add: once_ok_def)
    with here other fresh show "distinct (map hv_sequence (delivered h' k))" for k
      by (cases "k = i") (fastforce simp: image_iff)+
  next
    fix m k e
    assume m: "m \<in> set (hb_flight h')" and pend: "em_pending m k" and e: "e \<in> set (delivered h' k)"
    obtain l where l: "l < length (hb_flight h)" "m = hb_flight h' ! l"
      using m by (auto simp: in_set_conv_nth fields)
    show "hv_sequence e \<noteq> em_sequence m"
    proof (cases "l = j")
      case True
      then have "m = ?m\<lparr>em_left := Some is\<rparr>" using l by (simp add: fields)
      with pend i(2) have "k \<in> set is" "k \<noteq> i" "em_sequence m = em_sequence ?m" by (auto simp: em_pending_def)
      moreover from this have "em_pending ?m k" by (simp add: em_pending_def left)
      ultimately show ?thesis using ok(3) mem e other by (simp add: once_ok_def)
    next
      case False
      then have old: "m = hb_flight h ! l" using l by (simp add: fields)
      then have "m \<in> set (hb_flight h)" using l(1) nth_mem by simp
      moreover have "em_sequence m \<noteq> em_sequence ?m"
        using ok(3) l(1) j False old nth_eq_iff_index_eq [of "map em_sequence (hb_flight h)" l j]
        by (simp add: once_ok_def)
      ultimately show ?thesis using ok(3) pend e sub [of k] by (auto simp: once_ok_def em_sequence_def)
    qed
  qed
  ultimately show ?thesis by (simp add: hub_ok_def fields)
qed

lemma channels_only_ok:
  assumes "hub_ok rows h" and "channels_ok h'" and "\<forall>k. delivered h' k = delivered h k"
    and "hb_thread h' = hb_thread h" and "hub_rows rows h' = hub_rows rows h" and "hb_flight h' = hb_flight h"
  shows "hub_ok rows h' \<and> hb_thread h' = hb_thread h"
  using assms by (simp add: hub_ok_def stored_ok_def once_ok_def)

lemma subscribe_ok:
  assumes "hub_ok rows h" and "h' = snd (subscribe h)"
  shows "hub_ok rows h' \<and> hb_thread h' = hb_thread h"
proof (rule channels_only_ok [OF assms(1)])
  have ok: "channels_ok h" using assms(1) by (simp add: hub_ok_def)
  have h': "h' = h\<lparr>hb_next := Suc (hb_next h), hb_subs := hb_subs h @ [Suc (hb_next h)],
      hb_chans := (hb_chans h)(Suc (hb_next h) := [])\<rparr>"
    using assms(2) by (simp add: subscribe_def Let_def)
  show same: "\<forall>k. delivered h' k = delivered h k"
    using ok by (auto simp: h' delivered_def channels_ok_def)
  have old: "\<forall>j \<in> set (hb_subs h). j \<le> hb_next h" using ok by (simp add: channels_ok_def)
  then have "Suc (hb_next h) \<notin> set (hb_subs h)" by fastforce
  with old ok show "channels_ok h'" unfolding channels_ok_def same [rule_format] by (auto simp: h' intro: le_SucI)
qed (simp_all add: assms(2) subscribe_def Let_def hub_rows_def)

lemma cancel_ok: "hub_ok rows h \<Longrightarrow> hub_ok rows (cancel i h) \<and> hb_thread (cancel i h) = hb_thread h"
proof (rule channels_only_ok)
  assume "hub_ok rows h"
  moreover show same: "\<forall>k. delivered (cancel i h) k = delivered h k" by (simp add: cancel_def delivered_def)
  ultimately show "channels_ok (cancel i h)"
    unfolding hub_ok_def channels_ok_def same [rule_format] by (auto simp: cancel_def)
qed (simp_all add: cancel_def hub_rows_def)

lemma receive_ok: "hub_ok rows h \<Longrightarrow> hub_ok rows (receive i h) \<and> hb_thread (receive i h) = hb_thread h"
proof (cases "hb_chans h i")
  case (Cons e es)
  assume ok: "hub_ok rows h"
  have same: "\<forall>k. delivered (receive i h) k = delivered h k" using Cons by (simp add: receive_def delivered_def)
  have "channels_ok (receive i h)"
    using ok Cons unfolding hub_ok_def channels_ok_def same [rule_format] by (auto simp: receive_def)
  from channels_only_ok [OF ok this same] Cons show ?thesis by (simp add: receive_def hub_rows_def)
qed (simp add: receive_def)

lemma run_ok:
  assumes "sequence_table (he_events env) rows"
  shows "hub_ok rows h \<Longrightarrow> hub_run env as h = Some h' \<Longrightarrow> hub_ok rows h' \<and> hb_thread h' = hb_thread h"
proof (induction "as" arbitrary: h)
  case (Cons a "as")
  then obtain h1 where h1: "hub_step env a h = Some h1" "hub_run env as h1 = Some h'"
    by (auto split: option.splits)
  have "hub_ok rows h1 \<and> hb_thread h1 = hb_thread h"
  proof (cases a)
    case (Store now ty data)
    with store_ok [OF assms Cons.prems(1)] h1(1) show ?thesis by blast
  next
    case (Look j)
    with flight_look_ok Cons.prems(1) h1(1) show ?thesis by blast
  next
    case (Send j)
    with send_ok Cons.prems(1) h1(1) show ?thesis by blast
  next
    case Subscribe
    with h1(1) subscribe_ok [OF Cons.prems(1) refl] show ?thesis by simp
  next
    case (Cancel i)
    then have "h1 = cancel i h" using h1(1) by simp
    then show ?thesis using cancel_ok [OF Cons.prems(1)] by simp
  next
    case (Receive i)
    then have "h1 = receive i h" using h1(1) by simp
    then show ?thesis using receive_ok [OF Cons.prems(1)] by simp
  qed
  with Cons.IH h1(2) show ?case by force
qed simp

text \<open>However emissions, subscriptions and readers overlap, a subscriber gets only events that are
  stored in the conversation's database, as they are stored, and no event twice.\<close>

lemma delivered_at_most_once:
  assumes "sequence_table (he_events env) rows"
    and "hb_subs h = []" and "hb_flight h = []" and "\<forall>i. hb_chans h i = [] \<and> hb_got h i = []"
    and "hub_run env as h = Some h'"
  shows "distinct (map hv_sequence (hb_got h' i @ hb_chans h' i)) \<and>
    set (hb_got h' i @ hb_chans h' i) \<subseteq> wire_row (hb_thread h) ` set (rows (db_events (hb_db h')))"
proof -
  have "hub_ok rows h"
    using assms(2-4) by (simp add: hub_ok_def channels_ok_def stored_ok_def once_ok_def delivered_def)
  from run_ok [OF assms(1) this assms(5)] have "hub_ok rows h'" and same: "hb_thread h' = hb_thread h" by simp_all
  then have "distinct (map hv_sequence (delivered h' i))"
    and "set (delivered h' i) \<subseteq> wire_row (hb_thread h) ` set (hub_rows rows h')"
    by (simp_all add: hub_ok_def once_ok_def stored_ok_def)
  then show ?thesis by (simp add: hub_rows_def delivered_def)
qed

section \<open>One emission as steps\<close>

text \<open>With no other emission in flight, \<open>emit\<close> is the run of its steps.\<close>

lemma send_to_flight: "send_to e i (h\<lparr>hb_flight := f\<rparr>) = (send_to e i h)\<lparr>hb_flight := f\<rparr>"
  by (simp add: send_to_def)

lemma send_all_flight: "fold (send_to e) is (h\<lparr>hb_flight := f\<rparr>) = (fold (send_to e) is h)\<lparr>hb_flight := f\<rparr>"
  by (induction "is" arbitrary: h) (simp_all add: send_to_flight)

lemma flight_update_same: "hb_flight h = f \<Longrightarrow> h\<lparr>hb_flight := f\<rparr> = h"
  by (cases h) simp

lemma send_steps:
  assumes "hb_flight h = [\<lparr>em_event = e, em_left = Some is\<rparr>]"
  shows "hub_run env (replicate (length is) (Send 0)) h =
    Some ((fold (send_to e) is h)\<lparr>hb_flight := [\<lparr>em_event = e, em_left = Some []\<rparr>]\<rparr>)"
  using assms
proof (induction "is" arbitrary: h)
  case Nil
  then show ?case by (cases h) simp
next
  case (Cons i "is")
  let ?h = "(send_to e i h)\<lparr>hb_flight := [\<lparr>em_event = e, em_left = Some is\<rparr>]\<rparr>"
  have "hub_step env (Send 0) h = Some ?h" using Cons.prems by simp
  with Cons.IH [of ?h] show ?case by (simp add: send_all_flight)
qed

lemma emit_as_steps:
  assumes "hb_flight h = []"
  shows "\<exists>as h'. hub_run env as h = Some h' \<and> h'\<lparr>hb_flight := []\<rparr> = emit env now ty data h"
proof (cases "emit_store env now ty data h")
  case (Pair r h1)
  have flight: "hb_flight h1 = []"
    using Pair assms by (auto simp: emit_store_def split: option.splits sum.splits)
  show ?thesis
  proof (cases r)
    case None
    then have "hub_run env [Store now ty data] h = Some h1" and "h1\<lparr>hb_flight := []\<rparr> = emit env now ty data h"
      using Pair flight by (simp_all add: emit_def)
    then show ?thesis by blast
  next
    case (Some e)
    let ?h2 = "h1\<lparr>hb_flight := [\<lparr>em_event = e, em_left = Some (hb_subs h1)\<rparr>]\<rparr>"
    have steps: "hub_run env (Store now ty data # Look 0 # replicate (length (hb_subs h1)) (Send 0)) h =
        Some ((fold (send_to e) (hb_subs h1) ?h2)\<lparr>hb_flight := [\<lparr>em_event = e, em_left = Some []\<rparr>]\<rparr>)"
      using send_steps [of ?h2 e "hb_subs h1" env] Pair Some flight by simp
    have "((fold (send_to e) (hb_subs h1) ?h2)\<lparr>hb_flight := [\<lparr>em_event = e, em_left = Some []\<rparr>]\<rparr>)\<lparr>hb_flight := []\<rparr> =
        emit env now ty data h"
      using Pair Some flight by (simp add: emit_def send_all_flight flight_update_same)
    with steps show ?thesis by blast
  qed
qed

section \<open>A concrete conversation\<close>

text \<open>A table in memory, whose rows are numbered from 1.\<close>

definition list_rows :: "'row list \<Rightarrow> (int \<times> 'row) list" where
  "list_rows t = map (\<lambda>i. (int (Suc i), t ! i)) [0..<length t]"

definition list_table :: "('row, 'row list) ops" where
  "list_table = \<lparr>tb_insert = (\<lambda>r t. Inr (int (Suc (length t)), t @ [r])),
     tb_select = (\<lambda>after limit t. Inr (take limit (filter (\<lambda>kr. after < fst kr) (list_rows t))))\<rparr>"


definition list_env :: "(message list, stored_event list) hub_env" where
  "list_env = \<lparr>he_messages = list_table, he_events = list_table, he_encode = (\<lambda>d. Some ''{}'')\<rparr>"

definition quiet_hub :: "(message list, stored_event list) hub" where
  "quiet_hub = \<lparr>hb_thread = blank_thread\<lparr>t_id := ''c''\<rparr>,
     hb_db = \<lparr>db_thread = Some blank_thread, db_messages = [], db_events = [], db_state = None\<rparr>,
     hb_subs = [], hb_next = 0, hb_chans = (\<lambda>i. []), hb_flight = [], hb_got = (\<lambda>i. [])\<rparr>"

lemmas hub_evaluation = list_env_def quiet_hub_def list_table_def emit_def emit_store_def append_event_def
  stored_event.defs wire_event_def send_to_def channel_size_def subscribe_def receive_def Let_def


text \<open>A subscriber with a full channel.\<close>

definition old_event :: hub_event where
  "old_event = wire_event blank_thread (stored_event.make 0 ''old'' [] 0)"

definition slow_hub :: "(message list, stored_event list) hub" where
  "slow_hub = quiet_hub\<lparr>hb_subs := [1], hb_next := 1,
     hb_chans := (\<lambda>i. old_event # replicate 1023 old_event)\<rparr>"

text \<open>Replaying after the last seen sequence does not close the gap of a slow subscriber. With the
  channel full the event \<open>a\<close> is dropped; after one read \<open>b\<close> gets through, and the events after it are
  none, although \<open>a\<close> is stored: only a replay from before the gap has it.\<close>

lemma replay_after_last_seen_misses:
  "let h = fold (hub_apply list_env) [Announce 5 ''a'' (OtherData []), Take 1, Announce 6 ''b'' (OtherData [])] slow_hub
   in map (\<lambda>e. (hv_type e, hv_sequence e)) (drop 1023 (hb_chans h 1)) = [(''b'', 2)] \<and>
      map_sum id (map stored_event.ev_type) (events (he_events list_env) 2 0 (db_events (hb_db h))) = Inr [] \<and>
      map_sum id (map stored_event.ev_type) (events (he_events list_env) 0 0 (db_events (hb_db h))) = Inr [''a'', ''b'']"
  by (simp add: slow_hub_def hub_evaluation events_def page_limit_def list_rows_def resource_kind_def blank_thread_def)

end
