(* ===== verification/RunEvents.thy ===== *)
theory RunEvents
  imports AgentLoopProps EventHubProps
begin

text \<open>
  A run of the agent loop seen from the conversation: the daemon's handler turns every event of the
  run into a stored event, a transcript message or a usage update. The properties here compose the
  loop with the handler.
\<close>

section \<open>Usage in events\<close>

definition usage_given :: "obs list \<Rightarrow> bool" where
  "usage_given os \<longleftrightarrow> (\<forall>e \<in> set (events_of os). event.ev_type e = ''message_end'' \<longrightarrow> ev_usage e \<noteq> None)"

lemma usage_given_simps [simp]:
  "usage_given []" "usage_given (xs @ ys) \<longleftrightarrow> usage_given xs \<and> usage_given ys"
  "usage_given (AgentLoop.Emit e # xs) \<longleftrightarrow> (event.ev_type e = ''message_end'' \<longrightarrow> ev_usage e \<noteq> None) \<and> usage_given xs"
  "usage_given (Step r # xs) = usage_given xs" "usage_given (Exec n a # xs) = usage_given xs"
  by (auto simp: usage_given_def)

lemma on_model_events_given: "on_model_events n mid rid ms r = (es, r') \<Longrightarrow> usage_given (map AgentLoop.Emit es)"
  by (auto simp: usage_given_def dest!: on_model_events_types)

lemma execute_calls_given: "execute_calls c n calls w = (os, rs, w') \<Longrightarrow> usage_given os"
  by (induction calls arbitrary: w os rs w')
     (auto simp: execute_call_def invoke_tool_def tool_start_event_def tool_end_event_def
           split: prod.splits option.splits if_splits)

lemma model_half_given: "model_half c rid n ti w = (os, res, w') \<Longrightarrow> usage_given os"
  by (auto simp: model_half_def Let_def reasoning_event_def split: prod.splits sum.splits if_splits
           dest!: on_model_events_given)

lemma run_turn_given: "run_turn c rid n ti w = (os, out, w') \<Longrightarrow> usage_given os"
  by (auto simp: run_turn_def Let_def split: option.splits prod.splits sum.splits if_splits
           dest!: execute_calls_given model_half_given)

lemma run_steps_given: "run_steps c rid k n ti w = (os, res, w') \<Longrightarrow> usage_given os"
proof (induction k arbitrary: n ti w os res w')
  case (Suc k)
  obtain os1 out w1 where turn: "run_turn c rid n ti w = (os1, out, w1)"
    by (metis prod.exhaust)
  show ?case
  proof (cases out)
    case (Continue ti')
    obtain os2 res2 w2 where rest: "run_steps c rid k (Suc n) ti' w1 = (os2, res2, w2)"
      by (metis prod.exhaust)
    with Suc.prems turn Continue Suc.IH [OF rest] run_turn_given [OF turn] show ?thesis by auto
  qed (use Suc.prems turn run_turn_given [OF turn] in auto)
qed simp

lemma run_given: "run_with_images c k p imgs w = (os, res, w') \<Longrightarrow> usage_given os"
proof (cases c k p imgs w rule: run_with_images_cases)
  case (steps rid ti w1 os1 res1 w2)
  assume "run_with_images c k p imgs w = (os, res, w')"
  with steps run_steps_given [OF steps(1)] show ?thesis by auto
qed auto

section \<open>The handler\<close>

lemma emit_thread [simp]: "hb_thread (emit env now ty data h) = hb_thread h"
  by (auto simp: emit_def emit_store_def split: option.splits sum.splits)

lemma append_transcript_thread [simp]: "hb_thread (append_transcript env now e h) = hb_thread h"
  by (simp add: append_transcript_def Let_def split: sum.split prod.split)

lemma handle_loop_event_usage:
  "t_usage (hb_thread (handle_loop_event env io e h)) =
     (if event.ev_type e = ''message_end'' \<and> ev_usage e \<noteq> None
      then aggregate_usage (t_usage (hb_thread h)) (the (ev_usage e)) else t_usage (hb_thread h))"
  by (auto simp: handle_loop_event_def add_run_usage_def persist_thread_def Let_def accumulate_aggregate
      usage_absent_iff split: option.split)

definition handle_events ::
  "('m, 'e) hub_env \<Rightarrow> (handler_io \<times> event) list \<Rightarrow> ('m, 'e) hub \<Rightarrow> ('m, 'e) hub" where
  "handle_events env ies = fold (\<lambda>(io, e). handle_loop_event env io e) ies"

lemma handle_events_usage:
  assumes "\<forall>e \<in> set (map snd ies). event.ev_type e = ''message_end'' \<longrightarrow> ev_usage e \<noteq> None"
  shows "t_usage (hb_thread (handle_events env ies h)) =
    foldl aggregate_usage (t_usage (hb_thread h))
      (map (\<lambda>e. the (ev_usage e)) (filter (\<lambda>e. event.ev_type e = ''message_end'') (map snd ies)))"
  using assms
  by (induction ies arbitrary: h) (auto simp: handle_events_def handle_loop_event_usage)

text \<open>The tokens of a run are booked on its conversation: whatever the database does, handling the
  events of a run adds the usage of every model step to the conversation's counters, also when the
  run fails later; after a successful run they have grown by exactly what the run reports, modulo the
  width of the counters.\<close>

lemma run_usage_booked:
  assumes "run_with_images c k p imgs w = (os, res, w')" and "map snd ies = events_of os"
    and "before = t_usage (hb_thread h)" and "after = t_usage (hb_thread (handle_events env ies h))"
  shows "input_tokens after = input_tokens before + sum_list (map input_tokens (step_usages os)) \<and>
    output_tokens after = output_tokens before + sum_list (map output_tokens (step_usages os)) \<and>
    total_tokens after = total_tokens before + sum_list (map effective_total (step_usages os)) \<and>
    (case res of Inl e \<Rightarrow> True | Inr r \<Rightarrow>
       input_tokens after = input_tokens before + input_tokens (ar_usage r) \<and>
       output_tokens after = output_tokens before + output_tokens (ar_usage r) \<and>
       cache_read_tokens after = cache_read_tokens before + cache_read_tokens (ar_usage r) \<and>
       cache_write_tokens after = cache_write_tokens before + cache_write_tokens (ar_usage r) \<and>
       total_tokens after = total_tokens before + total_tokens (ar_usage r))"
proof -
  have "\<forall>e \<in> set (map snd ies). event.ev_type e = ''message_end'' \<longrightarrow> ev_usage e \<noteq> None"
    using run_given [OF assms(1)] unfolding assms(2) usage_given_def .
  then have after: "after = foldl aggregate_usage before (step_usages os)"
    using handle_events_usage [of ies env h] by (simp only: assms(2-4) step_usages_def)
  show ?thesis
  proof (cases res)
    case (Inr r)
    with run_reports_summed_usage [of c k p imgs w os r w'] assms(1) show ?thesis
      by (simp add: after foldl_aggregate_sums)
  qed (simp add: after foldl_aggregate_sums)
qed

definition quiet_handler :: handler_io where
  "quiet_handler = \<lparr>hi_message_now = 1, hi_event_now = 2, hi_update_now = 3, hi_usage_now = 4, hi_write = None\<rparr>"

end
