(* ===== verification/RuntimeFile.thy ===== *)
theory RuntimeFile
  imports ConfigTypes GoPaths
begin

text \<open>
  The daemon's runtime file (\<open>internal/lifecycle/runtime.go\<close>): its contents, their validation, the
  atomic write and the removal by instance, which moves the file into a quarantine before it looks at
  it. A removal is a sequence of steps between which other daemons may install their own state.
  \<open>net/url.Parse\<close> and the loopback test of \<open>net.IP\<close> are arguments.
\<close>

section \<open>Data\<close>

record runtime_state =
  rt_schema :: int
  rt_pid :: int
  rt_instance_id :: string
  rt_control_token :: string
  rt_version :: string
  rt_executable :: string
  rt_http_url :: string
  rt_started_at :: nat

record health =
  hl_service :: string
  hl_status :: string
  hl_version :: string
  hl_pid :: int
  hl_instance_id :: string

record lifecycle_paths =
  lp_base_dir :: string
  lp_run_dir :: string
  lp_runtime_file :: string
  lp_lock_file :: string
  lp_operation_lock_file :: string
  lp_log_dir :: string
  lp_log_file :: string

definition default_paths :: "string \<Rightarrow> lifecycle_paths" where
  "default_paths home =
     (let base = join_path [home, ''.dire-agent'']; run = join_path [base, ''run'']; logs = join_path [base, ''logs'']
      in \<lparr>lp_base_dir = base, lp_run_dir = run, lp_runtime_file = join_path [run, ''daemon.json''],
          lp_lock_file = join_path [run, ''lifecycle.lock''],
          lp_operation_lock_file = join_path [run, ''operation.lock''],
          lp_log_dir = logs, lp_log_file = join_path [logs, ''daemon.log'']\<rparr>)"

text \<open>Identifiers and tokens: bytes of the system's generator (\<open>Inl\<close> when it fails) in the URL-safe
  alphabet of base 64, without padding.\<close>

definition url_alphabet :: string where
  "url_alphabet = ''ABCDEFGHIJKLMNOPQRSTUVWXYZabcdefghijklmnopqrstuvwxyz0123456789-_''"

fun base64_url :: "nat list \<Rightarrow> string" where
  "base64_url [] = []"
| "base64_url [a] = [url_alphabet ! (a div 4), url_alphabet ! (a mod 4 * 16)]"
| "base64_url [a, b] =
     [url_alphabet ! (a div 4), url_alphabet ! (a mod 4 * 16 + b div 16), url_alphabet ! (b mod 16 * 4)]"
| "base64_url (a # b # c # bytes) =
     url_alphabet ! (a div 4) # url_alphabet ! (a mod 4 * 16 + b div 16) #
     url_alphabet ! (b mod 16 * 4 + c div 64) # url_alphabet ! (c mod 64) # base64_url bytes"

definition random_string :: "(nat \<Rightarrow> (string, nat list) result) \<Rightarrow> nat \<Rightarrow> (string, string) result" where
  "random_string read n = (case read n of Inl e \<Rightarrow> Inl e | Inr bytes \<Rightarrow> Inr (base64_url bytes))"

definition new_random_token :: "(nat \<Rightarrow> (string, nat list) result) \<Rightarrow> (string, string) result" where
  "new_random_token read = random_string read 32"

definition new_instance_id :: "(nat \<Rightarrow> (string, nat list) result) \<Rightarrow> (string, string) result" where
  "new_instance_id read = random_string read 18"

record url_parts =
  ur_scheme :: string
  ur_user :: bool
  ur_host :: string
  ur_hostname :: string
  ur_path :: string
  ur_query :: string
  ur_fragment :: string

record net_env =
  nt_parse :: "string \<Rightarrow> (string, url_parts) result"
  nt_print :: "url_parts \<Rightarrow> string"
  nt_loopback :: "string \<Rightarrow> bool"

section \<open>Validation\<close>

definition validate_loopback_url :: "net_env \<Rightarrow> string \<Rightarrow> string option" where
  "validate_loopback_url net raw =
     (case nt_parse net raw of
        Inl e \<Rightarrow> Some e
      | Inr u \<Rightarrow>
          first_error [
            reject (ur_scheme u \<noteq> ''http'') ''scheme must be http'',
            reject (ur_user u \<or> ur_host u = [] \<or> ur_query u \<noteq> [] \<or> ur_fragment u \<noteq> [])
              ''URL must be a plain loopback HTTP origin'',
            reject (ur_path u \<noteq> [] \<and> ur_path u \<noteq> ''/'') ''URL must not include a path'',
            reject (ur_hostname u \<noteq> ''localhost'' \<and> \<not> nt_loopback net (ur_hostname u)) ''host is not loopback''])"

definition endpoint_url :: "net_env \<Rightarrow> string \<Rightarrow> string \<Rightarrow> (string, string) result" where
  "endpoint_url net base endpoint =
     (case validate_loopback_url net base of
        Some e \<Rightarrow> Inl e
      | None \<Rightarrow> bind_result (nt_parse net base) (\<lambda>u. Inr (nt_print net (u\<lparr>ur_path := endpoint\<rparr>))))"

definition validate_runtime :: "net_env \<Rightarrow> runtime_state \<Rightarrow> string option" where
  "validate_runtime net s =
     first_error [
       reject (rt_schema s \<noteq> 1) ''unsupported runtime schema'',
       reject (rt_pid s \<le> 1) ''invalid daemon pid'',
       reject (length (rt_instance_id s) < 16) ''invalid daemon instance id'',
       reject (length (rt_control_token s) < 32) ''invalid daemon control token'',
       reject (trim_space (rt_version s) = []) ''daemon version is empty'',
       reject (\<not> is_abs (rt_executable s)) ''daemon executable path is not absolute'',
       reject (rt_started_at s = 0) ''daemon start time is empty'',
       validate_loopback_url net (rt_http_url s)]"

definition valid_health :: "health \<Rightarrow> string option" where
  "valid_health h =
     first_error [
       reject (hl_service h \<noteq> ''dire-agent'') ''unexpected service'',
       reject (hl_status h \<noteq> ''ok'') ''daemon status'',
       reject (hl_pid h \<le> 1) ''invalid health pid'',
       reject (length (hl_instance_id h) < 16) ''invalid health instance id'',
       reject (trim_space (hl_version h) = []) ''health version is empty'']"

definition match_identity :: "runtime_state \<Rightarrow> health \<Rightarrow> string option" where
  "match_identity s h =
     first_error [
       valid_health h,
       reject (hl_pid h \<noteq> rt_pid s) ''health pid does not match runtime pid'',
       reject (hl_instance_id h \<noteq> rt_instance_id s) ''health instance id does not match runtime state'',
       reject (hl_version h \<noteq> rt_version s) ''health version does not match runtime version'']"

section \<open>The file\<close>

text \<open>What \<open>Lstat\<close> and the decoder say of a file.\<close>

record runtime_entry =
  re_regular :: bool
  re_private :: bool
  re_decoded :: "(string, runtime_state) result"

datatype read_error = NotExist | ReadFailed string

record run_dir =
  rd_live :: "runtime_entry option"
  rd_temp :: "runtime_state option"
  rd_quarantine :: "runtime_entry option"

definition installed :: "runtime_state \<Rightarrow> runtime_entry" where
  "installed s = \<lparr>re_regular = True, re_private = True, re_decoded = Inr s\<rparr>"

definition read_runtime :: "net_env \<Rightarrow> runtime_entry option \<Rightarrow> (read_error, runtime_state) result" where
  "read_runtime net entry =
     (case entry of
        None \<Rightarrow> Inl NotExist
      | Some f \<Rightarrow>
          if \<not> re_regular f then Inl (ReadFailed ''runtime state is not a regular file'')
          else if \<not> re_private f then Inl (ReadFailed ''runtime state permissions are not private'')
          else (case re_decoded f of
                  Inl e \<Rightarrow> Inl (ReadFailed e)
                | Inr s \<Rightarrow> (case validate_runtime net s of Some e \<Rightarrow> Inl (ReadFailed e) | None \<Rightarrow> Inr s)))"

section \<open>Directories\<close>

record dir_stat =
  ds_is_dir :: bool
  ds_symlink :: bool
  ds_broad :: bool

record dir_io =
  di_stat :: "(read_error, dir_stat) result"
  di_mkdir :: "string option"
  di_stat_again :: "(read_error, dir_stat) result"
  di_chmod :: "string option"

definition inspect_dir :: "dir_io \<Rightarrow> (string, dir_stat) result" where
  "inspect_dir io =
     (case di_stat io of
        Inr s \<Rightarrow> Inr s
      | Inl (ReadFailed e) \<Rightarrow> Inl e
      | Inl NotExist \<Rightarrow>
          (case di_mkdir io of
             Some e \<Rightarrow> Inl e
           | None \<Rightarrow>
               (case di_stat_again io of
                  Inr s \<Rightarrow> Inr s | Inl NotExist \<Rightarrow> Inl ''no such directory'' | Inl (ReadFailed e) \<Rightarrow> Inl e)))"

definition ensure_private_dir :: "dir_io \<Rightarrow> string option" where
  "ensure_private_dir io =
     (case inspect_dir io of
        Inl e \<Rightarrow> Some e
      | Inr s \<Rightarrow> first_error [reject (\<not> ds_is_dir s \<or> ds_symlink s) ''private path is not a real directory'',
                             reject (ds_broad s) ''private directory permissions are too broad''])"

definition ensure_application_private_dir :: "dir_io \<Rightarrow> string option" where
  "ensure_application_private_dir io =
     (case inspect_dir io of
        Inl e \<Rightarrow> Some e
      | Inr s \<Rightarrow> first_error [reject (\<not> ds_is_dir s \<or> ds_symlink s) ''private path is not a real directory'',
                             di_chmod io])"

section \<open>Writing\<close>

record runtime_write_io =
  wi_dir :: dir_io
  wi_create :: "string option"
  wi_chmod :: "string option"
  wi_encode :: "string option"
  wi_sync :: "string option"
  wi_close :: "string option"
  wi_rename :: "string option"
  wi_chmod_live :: "string option"

definition write_runtime ::
  "net_env \<Rightarrow> runtime_write_io \<Rightarrow> runtime_state \<Rightarrow> run_dir \<Rightarrow> string option \<times> run_dir" where
  "write_runtime net io s d =
     (case first_error [validate_runtime net s, ensure_private_dir (wi_dir io), wi_create io, wi_chmod io,
             wi_encode io, wi_sync io, wi_close io] of
        Some e \<Rightarrow> (Some e, d\<lparr>rd_temp := None\<rparr>)
      | None \<Rightarrow>
          (case wi_rename io of
             Some e \<Rightarrow> (Some e, d\<lparr>rd_temp := None\<rparr>)
           | None \<Rightarrow> (wi_chmod_live io, d\<lparr>rd_live := Some (installed s), rd_temp := None\<rparr>)))"

section \<open>Removing\<close>

datatype removal =
    Preparing | Moving | Checking | Erasing | Linking "string option" | Discarding "string option"
  | Removed "(string, bool) result"

definition restore_failed :: "string option \<Rightarrow> string" where
  "restore_failed unread =
     (case unread of
        None \<Rightarrow> ''restore runtime state for a different instance''
      | Some e \<Rightarrow> ''read quarantined runtime state: '' @ e @ '' (also failed to restore it)'')"

text \<open>One step of \<open>RemoveRuntimeIfInstance\<close> with the outcome of its system call.
  \<open>Preparing\<close> makes the quarantine directory; its failure because the run directory does not exist
  is \<open>NotExist\<close>. \<open>Linking\<close> with no error is a link made or refused because the live name exists.\<close>

definition remove_step ::
  "net_env \<Rightarrow> string \<Rightarrow> read_error option \<Rightarrow> removal \<Rightarrow> run_dir \<Rightarrow> removal \<times> run_dir" where
  "remove_step net i io pc d =
     (case pc of
        Preparing \<Rightarrow>
          if i = [] then (Removed (Inl ''instance id is empty''), d)
          else (case io of
                  None \<Rightarrow> (Moving, d)
                | Some NotExist \<Rightarrow> (Removed (Inr False), d)
                | Some (ReadFailed e) \<Rightarrow> (Removed (Inl e), d))
      | Moving \<Rightarrow>
          (case io of
             Some (ReadFailed e) \<Rightarrow> (Removed (Inl e), d)
           | _ \<Rightarrow> (case rd_live d of
                     None \<Rightarrow> (Removed (Inr False), d)
                   | Some f \<Rightarrow> (Checking, d\<lparr>rd_live := None, rd_quarantine := Some f\<rparr>)))
      | Checking \<Rightarrow>
          (case read_runtime net (rd_quarantine d) of
             Inr s \<Rightarrow> (if rt_instance_id s = i then Erasing else Linking None, d)
           | Inl NotExist \<Rightarrow> (Linking (Some ''no such file''), d)
           | Inl (ReadFailed e) \<Rightarrow> (Linking (Some e), d))
      | Erasing \<Rightarrow>
          (case io of
             None \<Rightarrow> (Removed (Inr True), d\<lparr>rd_quarantine := None\<rparr>)
           | Some e \<Rightarrow> (Removed (Inl ''remove quarantined runtime state''), d))
      | Linking unread \<Rightarrow>
          (case io of
             Some e \<Rightarrow> (Removed (Inl (restore_failed unread)), d)
           | None \<Rightarrow>
              (case rd_live d of
                 Some f \<Rightarrow> (Discarding unread, d)
               | None \<Rightarrow> (Discarding unread, d\<lparr>rd_live := rd_quarantine d\<rparr>)))
      | Discarding unread \<Rightarrow>
          (case io of
             None \<Rightarrow> (Removed (case unread of None \<Rightarrow> Inr False | Some e \<Rightarrow> Inl e), d\<lparr>rd_quarantine := None\<rparr>)
           | Some e \<Rightarrow> (Removed (Inl (restore_failed unread)), d))
      | Removed r \<Rightarrow> (pc, d))"

text \<open>The removal alone: at most five steps.\<close>

fun remove_run :: "net_env \<Rightarrow> string \<Rightarrow> read_error option list \<Rightarrow> removal \<times> run_dir \<Rightarrow> removal \<times> run_dir" where
  "remove_run net i [] s = s"
| "remove_run net i (io # ios) (pc, d) = remove_run net i ios (remove_step net i io pc d)"

definition remove_runtime_if_instance ::
  "net_env \<Rightarrow> string \<Rightarrow> (nat \<Rightarrow> read_error option) \<Rightarrow> run_dir \<Rightarrow> removal \<times> run_dir" where
  "remove_runtime_if_instance net i outcomes d = remove_run net i (map outcomes [0..<5]) (Preparing, d)"

text \<open>The removal among other daemons that install their state.\<close>

datatype dir_action = Remove_Step "read_error option" | Install runtime_state

fun dir_act :: "net_env \<Rightarrow> string \<Rightarrow> dir_action \<Rightarrow> removal \<times> run_dir \<Rightarrow> removal \<times> run_dir" where
  "dir_act net i (Remove_Step io) (pc, d) = remove_step net i io pc d"
| "dir_act net i (Install s) (pc, d) = (pc, d\<lparr>rd_live := Some (installed s)\<rparr>)"

end
