(* ===== verification/RuntimeFileProps.thy ===== *)
theory RuntimeFileProps
  imports RuntimeFile
begin

text \<open>
  The runtime file keeps what other daemons write: the removal of one instance's state never loses the
  state of another, however the two overlap.
\<close>

section \<open>Removal\<close>

text \<open>What should be live: the state installed last, or the file that was there.\<close>

definition newest :: "dir_action list \<Rightarrow> runtime_entry option \<Rightarrow> runtime_entry option" where
  "newest as live = foldl (\<lambda>f a. case a of Install s \<Rightarrow> Some (installed s) | Remove_Step io \<Rightarrow> f) live as"

definition belongs :: "net_env \<Rightarrow> string \<Rightarrow> runtime_entry option \<Rightarrow> bool" where
  "belongs net i f \<longleftrightarrow> (case read_runtime net f of Inr s \<Rightarrow> rt_instance_id s = i | Inl e \<Rightarrow> False)"

definition moved_ok :: "run_dir \<Rightarrow> runtime_entry option \<Rightarrow> bool" where
  "moved_ok d f \<longleftrightarrow> rd_quarantine d \<noteq> None \<and> (if rd_live d = None then rd_quarantine d = f else rd_live d = f)"

definition removal_ok :: "net_env \<Rightarrow> string \<Rightarrow> runtime_entry option \<Rightarrow> removal \<times> run_dir \<Rightarrow> bool" where
  "removal_ok net i f x =
     (case x of (pc, d) \<Rightarrow>
        (case pc of
           Preparing \<Rightarrow> rd_live d = f
         | Moving \<Rightarrow> rd_live d = f
         | Checking \<Rightarrow> moved_ok d f
         | Erasing \<Rightarrow> moved_ok d f \<and> belongs net i (rd_quarantine d)
         | Linking unread \<Rightarrow> moved_ok d f \<and> \<not> belongs net i (rd_quarantine d)
         | Discarding unread \<Rightarrow> rd_live d = f
         | Removed (Inl e) \<Rightarrow> True
         | Removed (Inr b) \<Rightarrow> rd_live d = f \<or> (rd_live d = None \<and> belongs net i f)))"

lemma install_ok: "removal_ok net i f (pc, d) \<Longrightarrow> removal_ok net i (Some (installed s)) (dir_act net i (Install s) (pc, d))"
  by (cases pc) (auto simp: removal_ok_def moved_ok_def split: sum.splits)

lemma remove_step_ok: "removal_ok net i f (pc, d) \<Longrightarrow> removal_ok net i f (remove_step net i io pc d)"
proof (cases pc)
  case Checking
  assume ok: "removal_ok net i f (pc, d)"
  then show ?thesis using Checking
    by (auto simp: removal_ok_def remove_step_def belongs_def split: sum.splits read_error.splits)
next
  case Erasing
  assume ok: "removal_ok net i f (pc, d)"
  then show ?thesis using Erasing
    by (cases d; cases io) (auto simp: removal_ok_def remove_step_def moved_ok_def split: if_splits option.splits)
next
  case (Linking unread)
  assume ok: "removal_ok net i f (pc, d)"
  then show ?thesis using Linking
    by (cases d; cases io) (auto simp: removal_ok_def remove_step_def moved_ok_def split: if_splits option.splits)
qed (auto simp: removal_ok_def remove_step_def moved_ok_def split: option.splits read_error.splits sum.splits)

lemma removal_run_ok:
  "removal_ok net i f x \<Longrightarrow> removal_ok net i (newest as f) (foldl (\<lambda>y a. dir_act net i a y) x as)"
proof (induction as arbitrary: f x)
  case (Cons a as)
  obtain pc d where x: "x = (pc, d)" by fastforce
  show ?case
  proof (cases a)
    case (Remove_Step io)
    with Cons.IH [OF remove_step_ok] Cons.prems x show ?thesis by (simp add: newest_def)
  next
    case (Install s)
    with Cons.IH [OF install_ok] Cons.prems x show ?thesis by (simp add: newest_def)
  qed
qed (simp add: newest_def)

text \<open>C27: The removal of one instance's runtime file cannot erase the state of another daemon: however
  installations fall between its steps, when it ends without an error the live file is the newest
  state, or there is none and the newest state belongs to the instance to be removed.\<close>

theorem removal_keeps_other_daemons:
  assumes "foldl (\<lambda>y a. dir_act net i a y) (Preparing, d) as = (Removed (Inr b), d')"
  shows "rd_live d' = newest as (rd_live d) \<or>
    (rd_live d' = None \<and> belongs net i (newest as (rd_live d)))"
proof -
  have "removal_ok net i (rd_live d) (Preparing, d)" by (simp add: removal_ok_def)
  from removal_run_ok [OF this, of as] assms show ?thesis by (simp add: removal_ok_def)
qed

text \<open>A removal of instance \<open>old\<close> that meets the state of a newer daemon, which installs it after the
  move.\<close>

definition plain_net :: net_env where
  "plain_net = \<lparr>nt_parse = (\<lambda>s. Inr \<lparr>ur_scheme = ''http'', ur_user = False, ur_host = ''localhost:7331'',
       ur_hostname = ''localhost'', ur_path = [], ur_query = [], ur_fragment = []\<rparr>),
     nt_print = (\<lambda>u. ''http://localhost:7331'' @ ur_path u), nt_loopback = (\<lambda>h. False)\<rparr>"

definition sample_state :: "string \<Rightarrow> runtime_state" where
  "sample_state i = \<lparr>rt_schema = 1, rt_pid = 7, rt_instance_id = i @ ''-0123456789abcdef'',
     rt_control_token = ''0123456789abcdef0123456789abcdef'', rt_version = ''1'', rt_executable = ''/bin/d'',
     rt_http_url = ''http://localhost:7331'', rt_started_at = 1\<rparr>"

theorem removal_keeps_other_daemons_witness:
  "\<exists>d'. foldl (\<lambda>y a. dir_act plain_net ''old-0123456789abcdef'' a y)
      (Preparing, \<lparr>rd_live = Some (installed (sample_state ''mid'')), rd_temp = None, rd_quarantine = None\<rparr>)
      [Remove_Step None, Remove_Step None, Install (sample_state ''new''), Remove_Step None, Remove_Step None,
       Remove_Step None] = (Removed (Inr False), d') \<and>
    rd_live d' = Some (installed (sample_state ''new''))"
proof -
  let ?d = "\<lparr>rd_live = Some (installed (sample_state ''mid'')), rd_temp = None, rd_quarantine = None\<rparr>"
  let ?as = "[Remove_Step None, Remove_Step None, Install (sample_state ''new''), Remove_Step None, Remove_Step None,
       Remove_Step None]"
  have valid: "validate_runtime plain_net (sample_state ''mid'') = None" by code_simp
  have other: "rt_instance_id (sample_state ''mid'') \<noteq> ''old-0123456789abcdef''" by (simp add: sample_state_def)
  obtain d' where run: "foldl (\<lambda>y a. dir_act plain_net ''old-0123456789abcdef'' a y) (Preparing, ?d) ?as =
      (Removed (Inr False), d')"
    by (simp add: remove_step_def read_runtime_def installed_def valid other)
  have "\<not> belongs plain_net ''old-0123456789abcdef'' (Some (installed (sample_state ''new'')))" by code_simp
  with removal_keeps_other_daemons [OF run] have "rd_live d' = Some (installed (sample_state ''new''))"
    by (simp add: newest_def)
  with run show ?thesis by blast
qed

end
