(* ===== verification/Supervisor.thy ===== *)
theory Supervisor
  imports RuntimeFile
begin

text \<open>
  The supervisor of the daemon (\<open>internal/lifecycle/supervisor.go\<close> and the Unix part of it,
  \<open>os_unix.go\<close>): start, stop and status of the one daemon of a user. The world it runs in is a
  parameter \<open>'w\<close> with the operations of the record \<open>sys\<close>; what the supervisor does to it is written to
  a trace. A loop that waits is a partial function: \<open>None\<close> is a call that never returns.
\<close>

section \<open>The world\<close>

datatype kill_outcome = Kill_Ok | Kill_Denied | Kill_No_Process | Kill_Error string

datatype flock_outcome = Flock_Held | Flock_Busy | Flock_Error string

record launch =
  ln_executable :: string
  ln_args :: "string list"
  ln_dir :: string
  ln_env :: string

record http_reply =
  hr_status :: int
  hr_health :: "(string, health) result"
  hr_close :: "string option"

text \<open>\<open>sy_select deadline pause\<close> waits for the earlier of the end of the context and the pause:
  \<open>Some\<close> is the context's error. A request fails with an error when it is not answered, when its URL
  cannot be parsed and when the answer is a redirection.\<close>

record 'w sys =
  sy_net :: net_env
  sy_request_uri :: "string \<Rightarrow> string option"
  sy_dir :: "string \<Rightarrow> 'w \<Rightarrow> dir_io \<times> 'w"
  sy_open_lock :: "string \<Rightarrow> 'w \<Rightarrow> string option \<times> 'w"
  sy_flock :: "string \<Rightarrow> 'w \<Rightarrow> flock_outcome \<times> 'w"
  sy_unlock :: "string \<Rightarrow> 'w \<Rightarrow> 'w"
  sy_read :: "'w \<Rightarrow> runtime_entry option \<times> 'w"
  sy_remove :: "string \<Rightarrow> 'w \<Rightarrow> (read_error, bool) result \<times> 'w"
  sy_kill :: "int \<Rightarrow> 'w \<Rightarrow> kill_outcome \<times> 'w"
  sy_get :: "nat option \<Rightarrow> string \<Rightarrow> 'w \<Rightarrow> (string, http_reply) result \<times> 'w"
  sy_post :: "nat option \<Rightarrow> string \<Rightarrow> string \<Rightarrow> 'w \<Rightarrow> (string, http_reply) result \<times> 'w"
  sy_random :: "nat \<Rightarrow> 'w \<Rightarrow> (string, nat list) result \<times> 'w"
  sy_open_log :: "'w \<Rightarrow> string option \<times> 'w"
  sy_launch :: "launch \<Rightarrow> 'w \<Rightarrow> (string, int) result \<times> 'w"
  sy_cancelled :: "'w \<Rightarrow> string option"
  sy_now :: "'w \<Rightarrow> nat"
  sy_select :: "nat option \<Rightarrow> nat \<Rightarrow> 'w \<Rightarrow> string option \<times> 'w"

datatype effect =
    Acquired string | Released string | Probed string | Posted string string
  | Launched launch int | Removing string

record 'w machine =
  mc_world :: 'w
  mc_trace :: "effect list"

definition noted :: "effect \<Rightarrow> 'w \<Rightarrow> 'w machine \<Rightarrow> 'w machine" where
  "noted e w m = \<lparr>mc_world = w, mc_trace = mc_trace m @ [e]\<rparr>"

section \<open>The supervisor\<close>

record supervisor =
  sv_home :: string
  sv_executable :: string
  sv_address :: string
  sv_paths :: lifecycle_paths
  sv_has_client :: bool
  sv_start_timeout :: int
  sv_stop_timeout :: int
  sv_poll_interval :: int
  sv_has_checker :: bool

definition default_address :: string where
  "default_address = ''127.0.0.1:7331''"

text \<open>Times are milliseconds; \<open>home\<close> and \<open>executable\<close> are the values resolved from the user and the
  process when the arguments are empty, already made absolute.\<close>

definition new_supervisor :: "string \<Rightarrow> string \<Rightarrow> supervisor" where
  "new_supervisor home executable =
     \<lparr>sv_home = home, sv_executable = executable, sv_address = default_address, sv_paths = default_paths home,
      sv_has_client = True, sv_start_timeout = 12000, sv_stop_timeout = 10000, sv_poll_interval = 75,
      sv_has_checker = True\<rparr>"

definition default_http_url :: "supervisor \<Rightarrow> string" where
  "default_http_url sv = ''http://'' @ sv_address sv"

definition validate_supervisor :: "'w sys \<Rightarrow> supervisor option \<Rightarrow> string option" where
  "validate_supervisor sys s =
     (case s of
        None \<Rightarrow> Some ''lifecycle supervisor is nil''
      | Some sv \<Rightarrow>
          first_error [
            reject (sv_home sv = [] \<or> \<not> is_abs (sv_home sv)) ''supervisor home must be an absolute path'',
            reject (sv_executable sv = [] \<or> \<not> is_abs (sv_executable sv))
              ''supervisor executable must be an absolute path'',
            sy_request_uri sys (default_http_url sv),
            validate_loopback_url (sy_net sys) (default_http_url sv),
            reject (\<not> sv_has_client sv) ''supervisor HTTP client is nil'',
            reject (sv_start_timeout sv \<le> 0 \<or> sv_stop_timeout sv \<le> 0 \<or> sv_poll_interval sv \<le> 0)
              ''supervisor timeouts must be positive'',
            reject (\<not> sv_has_checker sv) ''supervisor process checker is nil''])"

fun ensure_dirs :: "'w sys \<Rightarrow> string list \<Rightarrow> 'w machine \<Rightarrow> string option \<times> 'w machine" where
  "ensure_dirs sys [] m = (None, m)"
| "ensure_dirs sys (d # ds) m =
     (case sy_dir sys d (mc_world m) of
        (io, w) \<Rightarrow>
          (case ensure_application_private_dir io of
             Some e \<Rightarrow> (Some e, m\<lparr>mc_world := w\<rparr>)
           | None \<Rightarrow> ensure_dirs sys ds (m\<lparr>mc_world := w\<rparr>)))"

definition ensure_directories :: "'w sys \<Rightarrow> supervisor \<Rightarrow> 'w machine \<Rightarrow> string option \<times> 'w machine" where
  "ensure_directories sys sv m =
     ensure_dirs sys [lp_base_dir (sv_paths sv), lp_run_dir (sv_paths sv), lp_log_dir (sv_paths sv)] m"

definition os_process_alive :: "int \<Rightarrow> kill_outcome \<Rightarrow> (string, bool) result" where
  "os_process_alive pid outcome =
     (if pid \<le> 1 then Inl ''invalid pid''
      else (case outcome of
              Kill_Ok \<Rightarrow> Inr True | Kill_Denied \<Rightarrow> Inr True | Kill_No_Process \<Rightarrow> Inr False
            | Kill_Error e \<Rightarrow> Inl e))"

definition process_alive :: "'w sys \<Rightarrow> int \<Rightarrow> 'w machine \<Rightarrow> (string, bool) result \<times> 'w machine" where
  "process_alive sys pid m =
     (case sy_kill sys pid (mc_world m) of (outcome, w) \<Rightarrow> (os_process_alive pid outcome, m\<lparr>mc_world := w\<rparr>))"

definition read_state ::
  "'w sys \<Rightarrow> 'w machine \<Rightarrow> (read_error, runtime_state) result \<times> 'w machine" where
  "read_state sys m =
     (case sy_read sys (mc_world m) of (f, w) \<Rightarrow> (read_runtime (sy_net sys) f, m\<lparr>mc_world := w\<rparr>))"

section \<open>The lock\<close>

text \<open>The file is asked for every 25 ms until it is held, the request fails or the context ends.\<close>

partial_function (option) lock_loop ::
  "'w sys \<Rightarrow> string \<Rightarrow> 'w machine \<Rightarrow> (string option \<times> 'w machine) option" where
  "lock_loop sys path m =
     (case sy_flock sys path (mc_world m) of
        (Flock_Held, w) \<Rightarrow> Some (None, noted (Acquired path) w m)
      | (Flock_Error e, w) \<Rightarrow> Some (Some e, m\<lparr>mc_world := w\<rparr>)
      | (Flock_Busy, w) \<Rightarrow>
          (case sy_select sys None 25 w of
             (Some e, w') \<Rightarrow> Some (Some e, m\<lparr>mc_world := w'\<rparr>)
           | (None, w') \<Rightarrow> lock_loop sys path (m\<lparr>mc_world := w'\<rparr>)))"

declare lock_loop.simps [code]

definition acquire_file_lock ::
  "'w sys \<Rightarrow> string \<Rightarrow> 'w machine \<Rightarrow> (string option \<times> 'w machine) option" where
  "acquire_file_lock sys path m =
     (case sy_open_lock sys path (mc_world m) of
        (Some e, w) \<Rightarrow> Some (Some e, m\<lparr>mc_world := w\<rparr>)
      | (None, w) \<Rightarrow> lock_loop sys path (m\<lparr>mc_world := w\<rparr>))"

definition release_lock :: "'w sys \<Rightarrow> string \<Rightarrow> 'w machine \<Rightarrow> 'w machine" where
  "release_lock sys path m = noted (Released path) (sy_unlock sys path (mc_world m)) m"

definition acquire_operation_lock ::
  "'w sys \<Rightarrow> supervisor \<Rightarrow> 'w machine \<Rightarrow> (string option \<times> 'w machine) option" where
  "acquire_operation_lock sys sv m =
     (case validate_supervisor sys (Some sv) of
        Some e \<Rightarrow> Some (Some e, m)
      | None \<Rightarrow>
          (case ensure_directories sys sv m of
             (Some e, m') \<Rightarrow> Some (Some e, m')
           | (None, m') \<Rightarrow> acquire_file_lock sys (lp_operation_lock_file (sv_paths sv)) m'))"

section \<open>Health\<close>

definition fetch_health ::
  "'w sys \<Rightarrow> nat option \<Rightarrow> string \<Rightarrow> 'w machine \<Rightarrow> (string, health) result \<times> 'w machine" where
  "fetch_health sys deadline base m =
     (case endpoint_url (sy_net sys) base ''/healthz'' of
        Inl e \<Rightarrow> (Inl e, m)
      | Inr u \<Rightarrow>
          (case sy_get sys deadline u (mc_world m) of
             (r, w) \<Rightarrow>
               (bind_result r (\<lambda>p.
                  if hr_status p \<noteq> 200 then Inl ''health endpoint returned HTTP''
                  else bind_result (hr_health p) (\<lambda>h.
                    case valid_health h of Some e \<Rightarrow> Inl e | None \<Rightarrow> Inr h)),
                noted (Probed u) w m)))"

definition remove_state ::
  "'w sys \<Rightarrow> runtime_state \<Rightarrow> 'w machine \<Rightarrow> (read_error, bool) result \<times> 'w machine" where
  "remove_state sys s m =
     (case sy_remove sys (rt_instance_id s) (mc_world m) of
        (r, w) \<Rightarrow> (r, noted (Removing (rt_instance_id s)) w m))"

definition error_text :: "read_error \<Rightarrow> string" where
  "error_text e = (case e of NotExist \<Rightarrow> ''no such file'' | ReadFailed t \<Rightarrow> t)"

definition deadline_after :: "'w sys \<Rightarrow> int \<Rightarrow> 'w machine \<Rightarrow> nat option" where
  "deadline_after sys timeout m = Some (sy_now sys (mc_world m) + nat timeout)"

section \<open>Start\<close>

text \<open>An outcome: whether a process was launched, respectively a daemon was asked to stop, and the
  error. What the runtime file says of a daemon that is there decides the call, unless its process is
  gone.\<close>

type_synonym outcome = "bool \<times> string option"

definition existing_daemon :: "'w sys \<Rightarrow> 'w machine \<Rightarrow> outcome option \<times> 'w machine" where
  "existing_daemon sys m =
     (case read_state sys m of
        (Inl NotExist, m1) \<Rightarrow> (None, m1)
      | (Inl (ReadFailed e), m1) \<Rightarrow> (Some (False, Some e), m1)
      | (Inr s, m1) \<Rightarrow>
          (case process_alive sys (rt_pid s) m1 of
             (Inl e, m2) \<Rightarrow> (Some (False, Some e), m2)
           | (Inr False, m2) \<Rightarrow>
               (case remove_state sys s m2 of
                  (Inl e, m3) \<Rightarrow> (Some (False, Some (''remove stale runtime state: '' @ error_text e)), m3)
                | (Inr b, m3) \<Rightarrow> (None, m3))
           | (Inr True, m2) \<Rightarrow>
               (case fetch_health sys None (rt_http_url s) m2 of
                  (Inl e, m3) \<Rightarrow> (Some (False, Some (''identity could not be verified: '' @ e)), m3)
                | (Inr h, m3) \<Rightarrow>
                    (Some (False, map_option (\<lambda>e. ''refusing to replace daemon: '' @ e) (match_identity s h)), m3))))"

definition unmanaged_daemon :: "'w sys \<Rightarrow> supervisor \<Rightarrow> 'w machine \<Rightarrow> health option \<times> 'w machine" where
  "unmanaged_daemon sys sv m =
     (case fetch_health sys None (default_http_url sv) m of
        (Inl e, m') \<Rightarrow> (None, m')
      | (Inr h, m') \<Rightarrow> (if valid_health h = None then Some h else None, m'))"

definition launch_command :: "supervisor \<Rightarrow> string \<Rightarrow> string \<Rightarrow> launch" where
  "launch_command sv i tok =
     \<lparr>ln_executable = sv_executable sv,
      ln_args = [''daemon'', ''-runtime-file'', lp_runtime_file (sv_paths sv), ''-instance-id'', i,
        ''-addr'', sv_address sv],
      ln_dir = sv_home sv, ln_env = ''DIRE_AGENT_CONTROL_TOKEN='' @ tok\<rparr>"

definition draw :: "'w sys \<Rightarrow> nat \<Rightarrow> 'w machine \<Rightarrow> (string, string) result \<times> 'w machine" where
  "draw sys n m = (case sy_random sys n (mc_world m) of (r, w) \<Rightarrow> (random_string (\<lambda>_. r) n, m\<lparr>mc_world := w\<rparr>))"

definition launch_daemon ::
  "'w sys \<Rightarrow> supervisor \<Rightarrow> 'w machine \<Rightarrow> (string, string \<times> string \<times> int) result \<times> 'w machine" where
  "launch_daemon sys sv m =
     (case draw sys 18 m of
        (Inl e, m1) \<Rightarrow> (Inl e, m1)
      | (Inr i, m1) \<Rightarrow>
          (case draw sys 32 m1 of
             (Inl e, m2) \<Rightarrow> (Inl e, m2)
           | (Inr tok, m2) \<Rightarrow>
               (case sy_open_log sys (mc_world m2) of
                  (Some e, w) \<Rightarrow> (Inl e, m2\<lparr>mc_world := w\<rparr>)
                | (None, w) \<Rightarrow>
                    (case sy_launch sys (launch_command sv i tok) w of
                       (Inl e, w') \<Rightarrow> (Inl (''start daemon: '' @ e), m2\<lparr>mc_world := w'\<rparr>)
                     | (Inr pid, w') \<Rightarrow>
                         (Inr (i, tok, pid), noted (Launched (launch_command sv i tok) pid) w' m2)))))"

text \<open>One round of the loop that waits for the launched daemon.\<close>

definition child_check :: "'w sys \<Rightarrow> int \<Rightarrow> 'w machine \<Rightarrow> outcome option \<times> 'w machine" where
  "child_check sys pid m =
     (case process_alive sys pid m of
        (Inl e, m') \<Rightarrow> (Some (True, Some e), m')
      | (Inr False, m') \<Rightarrow> (Some (True, Some ''daemon exited during startup''), m')
      | (Inr True, m') \<Rightarrow> (None, m'))"

definition start_round ::
  "'w sys \<Rightarrow> nat option \<Rightarrow> string \<Rightarrow> string \<Rightarrow> int \<Rightarrow> 'w machine \<Rightarrow> outcome option \<times> 'w machine" where
  "start_round sys deadline i tok pid m =
     (case read_state sys m of
        (Inl NotExist, m1) \<Rightarrow> child_check sys pid m1
      | (Inl (ReadFailed e), m1) \<Rightarrow>
          (Some (True, Some (''read daemon runtime state during startup: '' @ e)), m1)
      | (Inr s, m1) \<Rightarrow>
          if rt_instance_id s \<noteq> i \<or> rt_pid s \<noteq> pid \<or> rt_control_token s \<noteq> tok
          then (Some (True, Some ''another daemon replaced the runtime state during startup''), m1)
          else (case fetch_health sys deadline (rt_http_url s) m1 of
                  (Inl e, m2) \<Rightarrow> child_check sys pid m2
                | (Inr h, m2) \<Rightarrow>
                    if match_identity s h = None then (Some (True, None), m2) else child_check sys pid m2))"

text \<open>The loop of \<open>Start\<close> and that of \<open>Stop\<close>: a round, then a pause or the end of the context.\<close>

partial_function (option) poll_loop ::
  "'w sys \<Rightarrow> nat option \<Rightarrow> nat \<Rightarrow> string \<Rightarrow> ('w machine \<Rightarrow> outcome option \<times> 'w machine) \<Rightarrow> 'w machine \<Rightarrow>
   (outcome \<times> 'w machine) option" where
  "poll_loop sys deadline interval failure round m =
     (case round m of
        (Some r, m') \<Rightarrow> Some (r, m')
      | (None, m') \<Rightarrow>
          (case sy_select sys deadline interval (mc_world m') of
             (Some e, w) \<Rightarrow> Some ((True, Some (failure @ e)), m'\<lparr>mc_world := w\<rparr>)
           | (None, w) \<Rightarrow> poll_loop sys deadline interval failure round (m'\<lparr>mc_world := w\<rparr>)))"

declare poll_loop.simps [code]

definition start_loop ::
  "'w sys \<Rightarrow> supervisor \<Rightarrow> nat option \<Rightarrow> string \<Rightarrow> string \<Rightarrow> int \<Rightarrow> 'w machine \<Rightarrow> (outcome \<times> 'w machine) option" where
  "start_loop sys sv deadline i tok pid m =
     poll_loop sys deadline (nat (sv_poll_interval sv)) ''daemon did not become healthy: ''
       (start_round sys deadline i tok pid) m"

definition start_held :: "'w sys \<Rightarrow> supervisor \<Rightarrow> 'w machine \<Rightarrow> (outcome \<times> 'w machine) option" where
  "start_held sys sv m =
     (case existing_daemon sys m of
        (Some r, m1) \<Rightarrow> Some (r, m1)
      | (None, m1) \<Rightarrow>
          (case unmanaged_daemon sys sv m1 of
             (Some h, m2) \<Rightarrow> Some ((False, None), m2)
           | (None, m2) \<Rightarrow>
               (case sy_cancelled sys (mc_world m2) of
                  Some e \<Rightarrow> Some ((False, Some e), m2)
                | None \<Rightarrow>
                    (case launch_daemon sys sv m2 of
                       (Inl e, m3) \<Rightarrow> Some ((False, Some e), m3)
                     | (Inr (i, tok, pid), m3) \<Rightarrow>
                         start_loop sys sv (deadline_after sys (sv_start_timeout sv) m3) i tok pid m3))))"

text \<open>The checks and the lock that \<open>Start\<close> and \<open>Stop\<close> share, the lock released on every return.\<close>

definition with_lock ::
  "'w sys \<Rightarrow> supervisor option \<Rightarrow> (supervisor \<Rightarrow> 'w machine \<Rightarrow> (outcome \<times> 'w machine) option) \<Rightarrow>
   'w machine \<Rightarrow> (outcome \<times> 'w machine) option" where
  "with_lock sys s body m =
     (case (validate_supervisor sys s, s) of
        (Some e, _) \<Rightarrow> Some ((False, Some e), m)
      | (None, None) \<Rightarrow> Some ((False, None), m)
      | (None, Some sv) \<Rightarrow>
          (case ensure_directories sys sv m of
             (Some e, m1) \<Rightarrow> Some ((False, Some e), m1)
           | (None, m1) \<Rightarrow>
               Option.bind (acquire_file_lock sys (lp_lock_file (sv_paths sv)) m1) (\<lambda>(err, m2).
                 case err of
                   Some e \<Rightarrow> Some ((False, Some e), m2)
                 | None \<Rightarrow>
                     map_option (\<lambda>(r, m3). (r, release_lock sys (lp_lock_file (sv_paths sv)) m3)) (body sv m2))))"

definition start :: "'w sys \<Rightarrow> supervisor option \<Rightarrow> 'w machine \<Rightarrow> (outcome \<times> 'w machine) option" where
  "start sys s m = with_lock sys s (start_held sys) m"

section \<open>Stop\<close>

definition post_shutdown ::
  "'w sys \<Rightarrow> nat option \<Rightarrow> string \<Rightarrow> string \<Rightarrow> 'w machine \<Rightarrow> (string, http_reply) result \<times> 'w machine" where
  "post_shutdown sys deadline u tok m =
     (case sy_post sys deadline u tok (mc_world m) of (r, w) \<Rightarrow> (r, noted (Posted u tok) w m))"

definition stop_round :: "'w sys \<Rightarrow> runtime_state \<Rightarrow> 'w machine \<Rightarrow> outcome option \<times> 'w machine" where
  "stop_round sys s m =
     (case process_alive sys (rt_pid s) m of
        (Inl e, m1) \<Rightarrow> (Some (True, Some e), m1)
      | (Inr True, m1) \<Rightarrow> (None, m1)
      | (Inr False, m1) \<Rightarrow>
          (case remove_state sys s m1 of
             (Inl (ReadFailed e), m2) \<Rightarrow>
               (Some (True, Some (''remove stopped daemon runtime state: '' @ e)), m2)
           | (_, m2) \<Rightarrow> (Some (True, None), m2)))"

definition stop_loop ::
  "'w sys \<Rightarrow> supervisor \<Rightarrow> nat option \<Rightarrow> runtime_state \<Rightarrow> 'w machine \<Rightarrow> (outcome \<times> 'w machine) option" where
  "stop_loop sys sv deadline s m =
     poll_loop sys deadline (nat (sv_poll_interval sv)) ''daemon did not stop: '' (stop_round sys s) m"

text \<open>The request: refused unless the daemon proves its identity; \<open>Inr\<close> is an accepted request.\<close>

definition request_stop ::
  "'w sys \<Rightarrow> nat option \<Rightarrow> runtime_state \<Rightarrow> 'w machine \<Rightarrow> (outcome, unit) result \<times> 'w machine" where
  "request_stop sys deadline s m =
     (case fetch_health sys deadline (rt_http_url s) m of
        (Inl e, m1) \<Rightarrow> (Inl (False, Some (''refusing to stop: identity could not be verified: '' @ e)), m1)
      | (Inr h, m1) \<Rightarrow>
          (case match_identity s h of
             Some e \<Rightarrow> (Inl (False, Some (''refusing to stop: '' @ e)), m1)
           | None \<Rightarrow>
               (case endpoint_url (sy_net sys) (rt_http_url s) ''/control/shutdown'' of
                  Inl e \<Rightarrow> (Inl (False, Some e), m1)
                | Inr u \<Rightarrow>
                    (case post_shutdown sys deadline u (rt_control_token s) m1 of
                       (Inl e, m2) \<Rightarrow> (Inl (False, Some (''request daemon shutdown: '' @ e)), m2)
                     | (Inr p, m2) \<Rightarrow>
                         if hr_status p < 200 \<or> 300 \<le> hr_status p
                         then (Inl (False, Some ''daemon rejected shutdown''), m2)
                         else (case hr_close p of
                                 Some e \<Rightarrow> (Inl (True, Some (''close shutdown response: '' @ e)), m2)
                               | None \<Rightarrow> (Inr (), m2))))))"

definition stop_held :: "'w sys \<Rightarrow> supervisor \<Rightarrow> 'w machine \<Rightarrow> (outcome \<times> 'w machine) option" where
  "stop_held sys sv m =
     (case read_state sys m of
        (Inl NotExist, m1) \<Rightarrow>
          (case unmanaged_daemon sys sv m1 of
             (Some h, m2) \<Rightarrow> Some ((False, Some ''daemon is running without supervisor state''), m2)
           | (None, m2) \<Rightarrow> Some ((False, sy_cancelled sys (mc_world m2)), m2))
      | (Inl (ReadFailed e), m1) \<Rightarrow> Some ((False, Some (''read daemon runtime state: '' @ e)), m1)
      | (Inr s, m1) \<Rightarrow>
          (case process_alive sys (rt_pid s) m1 of
             (Inl e, m2) \<Rightarrow> Some ((False, Some e), m2)
           | (Inr False, m2) \<Rightarrow>
               (case remove_state sys s m2 of
                  (Inl e, m3) \<Rightarrow> Some ((False, Some (''remove stale runtime state: '' @ error_text e)), m3)
                | (Inr b, m3) \<Rightarrow> Some ((False, None), m3))
           | (Inr True, m2) \<Rightarrow>
               (let deadline = deadline_after sys (sv_stop_timeout sv) m2
                in case request_stop sys deadline s m2 of
                     (Inl r, m3) \<Rightarrow> Some (r, m3)
                   | (Inr u, m3) \<Rightarrow> stop_loop sys sv deadline s m3)))"

definition stop :: "'w sys \<Rightarrow> supervisor option \<Rightarrow> 'w machine \<Rightarrow> (outcome \<times> 'w machine) option" where
  "stop sys s m = with_lock sys s (stop_held sys) m"

section \<open>Status\<close>

record status =
  st_running :: bool
  st_managed :: bool
  st_pid :: int
  st_version :: string
  st_http_url :: string
  st_log_file :: string
  st_instance_id :: string
  st_healthy :: bool
  st_stale :: bool
  st_detail :: string

definition no_status :: status where
  "no_status =
     \<lparr>st_running = False, st_managed = False, st_pid = 0, st_version = [], st_http_url = [], st_log_file = [],
      st_instance_id = [], st_healthy = False, st_stale = False, st_detail = []\<rparr>"

definition managed_status ::
  "'w sys \<Rightarrow> runtime_state \<Rightarrow> status \<Rightarrow> 'w machine \<Rightarrow> (status \<times> string option) \<times> 'w machine" where
  "managed_status sys s base m =
     (let r = base\<lparr>st_managed := True, st_pid := rt_pid s, st_version := rt_version s, st_http_url := rt_http_url s,
          st_instance_id := rt_instance_id s\<rparr>
      in case process_alive sys (rt_pid s) m of
           (Inl e, m1) \<Rightarrow> ((r, Some e), m1)
         | (Inr False, m1) \<Rightarrow>
             ((r\<lparr>st_stale := True, st_detail := ''stale runtime state; process is not alive''\<rparr>, None), m1)
         | (Inr True, m1) \<Rightarrow>
             (case fetch_health sys None (rt_http_url s) m1 of
                (Inl e, m2) \<Rightarrow>
                  ((r\<lparr>st_detail := ''process is alive but health check failed: '' @ e\<rparr>, None), m2)
              | (Inr h, m2) \<Rightarrow>
                  (case match_identity s h of
                     Some e \<Rightarrow>
                       ((r\<lparr>st_detail := ''process is alive but identity does not match: '' @ e\<rparr>, None), m2)
                   | None \<Rightarrow>
                       ((r\<lparr>st_running := True, st_healthy := True, st_detail := ''running''\<rparr>, None), m2))))"

definition daemon_status ::
  "'w sys \<Rightarrow> supervisor option \<Rightarrow> 'w machine \<Rightarrow> (status \<times> string option) \<times> 'w machine" where
  "daemon_status sys v m =
     (case (validate_supervisor sys v, v) of
        (Some e, _) \<Rightarrow> ((no_status, Some e), m)
      | (None, None) \<Rightarrow> ((no_status, None), m)
      | (None, Some sv) \<Rightarrow>
          (let base = no_status\<lparr>st_log_file := lp_log_file (sv_paths sv)\<rparr>
           in case read_state sys m of
                (Inl (ReadFailed e), m1) \<Rightarrow> ((base, Some (''read daemon runtime state: '' @ e)), m1)
              | (Inl NotExist, m1) \<Rightarrow>
                  (case unmanaged_daemon sys sv m1 of
                     (None, m2) \<Rightarrow> ((base, None), m2)
                   | (Some h, m2) \<Rightarrow>
                       ((base\<lparr>st_running := True, st_healthy := True, st_pid := hl_pid h, st_version := hl_version h,
                           st_http_url := default_http_url sv, st_instance_id := hl_instance_id h,
                           st_detail := ''running without supervisor state''\<rparr>, None), m2))
              | (Inr s, m1) \<Rightarrow> managed_status sys s base m1))"

definition is_running ::
  "'w sys \<Rightarrow> supervisor option \<Rightarrow> 'w machine \<Rightarrow> (bool \<times> string option) \<times> 'w machine" where
  "is_running sys v m = (case daemon_status sys v m of ((st, e), m') \<Rightarrow> ((st_running st, e), m'))"

end
