(* ===== verification/SupervisorProps.thy ===== *)
theory SupervisorProps
  imports Supervisor RuntimeFileProps
begin

text \<open>
  What the supervisor does to the world: which effects its operations have, in which order, and that its
  loops end when the clock runs.
\<close>

section \<open>Traces\<close>

definition quiet :: "effect \<Rightarrow> bool" where
  "quiet e = (case e of Probed u \<Rightarrow> True | Removing i \<Rightarrow> True | _ \<Rightarrow> False)"

definition is_probe :: "effect \<Rightarrow> bool" where
  "is_probe e = (case e of Probed u \<Rightarrow> True | _ \<Rightarrow> False)"

definition extends :: "(effect \<Rightarrow> bool) \<Rightarrow> 'w machine \<Rightarrow> 'w machine \<Rightarrow> bool" where
  "extends P m m' \<longleftrightarrow> (\<exists>es. mc_trace m' = mc_trace m @ es \<and> list_all P es)"

definition launches :: "effect list \<Rightarrow> (launch \<times> int) list" where
  "launches es = List.map_filter (\<lambda>e. case e of Launched c p \<Rightarrow> Some (c, p) | _ \<Rightarrow> None) es"

definition posts :: "effect list \<Rightarrow> (string \<times> string) list" where
  "posts es = List.map_filter (\<lambda>e. case e of Posted u t \<Rightarrow> Some (u, t) | _ \<Rightarrow> None) es"

lemma launches_simps [simp]:
  "launches [] = []" "launches (es @ fs) = launches es @ launches fs"
  "launches (Launched c p # es) = (c, p) # launches es" "launches (Posted u t # es) = launches es"
  "launches (Acquired l # es) = launches es" "launches (Released l # es) = launches es"
  "launches (Probed u # es) = launches es" "launches (Removing i # es) = launches es"
  by (simp_all add: launches_def map_filter_def)

lemma posts_simps [simp]:
  "posts [] = []" "posts (es @ fs) = posts es @ posts fs"
  "posts (Launched c p # es) = posts es" "posts (Posted u t # es) = (u, t) # posts es"
  "posts (Acquired l # es) = posts es" "posts (Released l # es) = posts es"
  "posts (Probed u # es) = posts es" "posts (Removing i # es) = posts es"
  by (simp_all add: posts_def map_filter_def)

lemma quiet_none: "list_all quiet es \<Longrightarrow> launches es = [] \<and> posts es = []"
  by (induction es) (auto simp: quiet_def split: effect.splits)

lemma quiet_simps [simp]: "quiet (Probed u)" "quiet (Removing i)"
  by (simp_all add: quiet_def)

lemma is_probe_simps [simp]: "is_probe (Probed u)" "\<not> is_probe (Removing i)"
  by (simp_all add: is_probe_def)

lemma extends_refl [simp, intro]: "extends P m m"
  by (simp add: extends_def)

lemma extends_trans [trans]: "extends P m m' \<Longrightarrow> extends P m' m'' \<Longrightarrow> extends P m m''"
  by (fastforce simp: extends_def)

lemma extends_world [simp]:
  "extends P m (m'\<lparr>mc_world := w\<rparr>) = extends P m m'" "extends P (m\<lparr>mc_world := w\<rparr>) m' = extends P m m'"
  by (simp_all add: extends_def)

lemma extends_noted [simp]: "P e \<Longrightarrow> extends P m (noted e w m)"
  by (auto simp: extends_def noted_def)

lemma trace_noted [simp]: "mc_trace (noted e w m) = mc_trace m @ [e]" "mc_world (noted e w m) = w"
  by (simp_all add: noted_def)

section \<open>The pieces\<close>

lemma process_alive_trace: "process_alive sys pid m = (r, m') \<Longrightarrow> extends P m m'"
  by (auto simp: process_alive_def split: prod.splits)

lemma read_state_trace: "read_state sys m = (r, m') \<Longrightarrow> extends P m m'"
  by (auto simp: read_state_def split: prod.splits)

lemma fetch_health_trace: "fetch_health sys d base m = (r, m') \<Longrightarrow> (\<And>u. P (Probed u)) \<Longrightarrow> extends P m m'"
  by (auto simp: fetch_health_def split: sum.splits prod.splits)

lemma remove_state_trace: "remove_state sys s m = (r, m') \<Longrightarrow> extends quiet m m'"
  by (auto simp: remove_state_def split: prod.splits)

lemma draw_trace: "draw sys n m = (r, m') \<Longrightarrow> extends P m m'"
  by (auto simp: draw_def split: prod.splits)

lemmas quiet_pieces = process_alive_trace [where P = quiet] read_state_trace [where P = quiet] remove_state_trace
  draw_trace [where P = quiet] fetch_health_trace [where P = quiet, simplified]

lemma unmanaged_trace: "unmanaged_daemon sys sv m = (r, m') \<Longrightarrow> (\<And>u. P (Probed u)) \<Longrightarrow> extends P m m'"
  by (auto simp: unmanaged_daemon_def dest: fetch_health_trace split: sum.splits prod.splits)

lemma existing_trace: "existing_daemon sys m = (r, m') \<Longrightarrow> extends quiet m m'"
  by (auto simp: existing_daemon_def dest!: quiet_pieces intro: extends_trans
      split: sum.splits prod.splits read_error.splits bool.splits)

lemma existing_not_launched: "existing_daemon sys m = (Some r, m') \<Longrightarrow> \<not> fst r"
  by (auto simp: existing_daemon_def split: sum.splits prod.splits read_error.splits bool.splits)

lemma child_trace: "child_check sys pid m = (r, m') \<Longrightarrow> extends P m m'"
  by (auto simp: child_check_def dest!: process_alive_trace split: sum.splits prod.splits bool.splits)

lemma child_launched: "child_check sys pid m = (Some r, m') \<Longrightarrow> fst r \<and> snd r \<noteq> None"
  by (auto simp: child_check_def split: sum.splits prod.splits bool.splits)

lemma start_round_trace: "start_round sys d i tok pid m = (r, m') \<Longrightarrow> extends quiet m m'"
  by (auto simp: start_round_def dest!: quiet_pieces child_trace [where P = quiet] intro: extends_trans
      split: sum.splits prod.splits read_error.splits if_splits)

lemma start_round_launched: "start_round sys d i tok pid m = (Some r, m') \<Longrightarrow> fst r"
  by (auto simp: start_round_def dest!: child_launched split: sum.splits prod.splits read_error.splits if_splits)

lemma launch_trace:
  "launch_daemon sys sv m = (r, m') \<Longrightarrow>
     case r of Inl e \<Rightarrow> mc_trace m' = mc_trace m
     | Inr (i, tok, pid) \<Rightarrow> mc_trace m' = mc_trace m @ [Launched (launch_command sv i tok) pid]"
  by (auto simp: launch_daemon_def draw_def split: sum.splits prod.splits option.splits)

section \<open>The loops\<close>

text \<open>A turn of a loop: the round ends it, the context ends it, or the loop goes on.\<close>

lemma poll_turn_cases:
  assumes "(case round m of
        (Some r, m') \<Rightarrow> Some (r, m')
      | (None, m') \<Rightarrow>
          (case sy_select sys d k (mc_world m') of
             (Some e, w) \<Rightarrow> Some ((True, Some (f @ e)), m'\<lparr>mc_world := w\<rparr>)
           | (None, w) \<Rightarrow> loop (m'\<lparr>mc_world := w\<rparr>))) = Some x"
  obtains (returned) m' where "round m = (Some (fst x), m')" "snd x = m'"
    | (ended) m' e w where "round m = (None, m')" "x = ((True, Some (f @ e)), m'\<lparr>mc_world := w\<rparr>)"
    | (again) m' w where "round m = (None, m')" "loop (m'\<lparr>mc_world := w\<rparr>) = Some x"
proof (cases "round m")
  case (Pair r m')
  show ?thesis
  proof (cases r)
    case (Some o1)
    with assms Pair show ?thesis by (intro returned [of m']) auto
  next
    case r: None
    obtain e w where sel: "sy_select sys d k (mc_world m') = (e, w)" by fastforce
    show ?thesis
    proof (cases e)
      case (Some t)
      with assms Pair r sel show ?thesis by (intro ended [of m' t w]) auto
    next
      case None
      with assms Pair r sel show ?thesis by (intro again [of m' w]) auto
    qed
  qed
qed

lemma poll_trace:
  assumes "poll_loop sys d k f round m = Some x" and "\<And>m r m'. round m = (r, m') \<Longrightarrow> extends P m m'"
  shows "extends P m (snd x)"
  using assms
proof (induction rule: poll_loop.raw_induct [rotated, consumes 1, case_names turn])
  case (turn loop sys d k f round m x)
  from turn(2) show ?case
  proof (cases rule: poll_turn_cases)
    case (again m' w)
    from turn(1) [OF again(2) turn(3)] turn(3) [OF again(1)] show ?thesis by (auto intro: extends_trans)
  qed (use turn(3) in auto)
qed

text \<open>What a loop returns is the result of its last round, unless the context ended.\<close>

lemma poll_result:
  assumes "poll_loop sys d k f round m = Some x"
  shows "(\<exists>m1. round m1 = (Some (fst x), snd x)) \<or> (\<exists>t. fst x = (True, Some t))"
  using assms
proof (induction rule: poll_loop.raw_induct [rotated, consumes 1, case_names turn])
  case (turn loop sys d k f round m x)
  from turn(2) show ?case
  proof (cases rule: poll_turn_cases)
    case (again m' w)
    from turn(1) [OF again(2)] show ?thesis .
  qed auto
qed

lemma start_loop_trace:
  assumes "start_loop sys sv d i tok pid m = Some (r, m')"
  shows "extends quiet m m' \<and> fst r"
proof -
  note loop = assms [unfolded start_loop_def]
  from poll_trace [OF loop, of quiet] start_round_trace have "extends quiet m m'" by fastforce
  moreover from poll_result [OF loop] start_round_launched have "fst r" by fastforce
  ultimately show ?thesis ..
qed

section \<open>The lock\<close>

lemma lock_loop_trace:
  assumes "lock_loop sys path m = Some x"
  shows "mc_trace (snd x) = mc_trace m @ (if fst x = None then [Acquired path] else [])"
  using assms
proof (induction rule: lock_loop.raw_induct [rotated, consumes 1, case_names turn])
  case (turn loop sys path m x)
  obtain o1 w where flock: "sy_flock sys path (mc_world m) = (o1, w)" by fastforce
  show ?case
  proof (cases o1)
    case Flock_Busy
    obtain e w' where sel: "sy_select sys None 25 w = (e, w')" by fastforce
    show ?thesis
    proof (cases e)
      case None
      with turn(2) flock Flock_Busy sel have "loop sys path (m\<lparr>mc_world := w'\<rparr>) = Some x" by simp
      from turn(1) [OF this] show ?thesis by simp
    qed (use turn(2) flock Flock_Busy sel in auto)
  qed (use turn(2) flock in auto)
qed

lemma ensure_dirs_trace: "mc_trace (snd (ensure_dirs sys ds m)) = mc_trace m"
  by (induction sys ds m rule: ensure_dirs.induct) (auto split: prod.splits option.splits)

lemma ensure_directories_trace: "ensure_directories sys sv m = (e, m') \<Longrightarrow> mc_trace m' = mc_trace m"
  unfolding ensure_directories_def by (drule arg_cong [where f = snd]) (metis ensure_dirs_trace snd_conv)

lemma acquire_trace:
  "acquire_file_lock sys path m = Some (e, m') \<Longrightarrow>
     mc_trace m' = mc_trace m @ (if e = None then [Acquired path] else [])"
  by (auto simp: acquire_file_lock_def dest!: lock_loop_trace split: prod.splits option.splits)

lemma with_lock_cases:
  assumes "with_lock sys s body m = Some (r, m')"
  obtains (refused) "mc_trace m' = mc_trace m" "\<not> fst r"
    | (held) sv m1 m2 l where "s = Some sv" "l = lp_lock_file (sv_paths sv)" "validate_supervisor sys s = None"
        "mc_trace m1 = mc_trace m @ [Acquired l]" "body sv m1 = Some (r, m2)"
        "m' = release_lock sys l m2"
proof (cases s)
  case None
  with assms refused show ?thesis by (auto simp: with_lock_def validate_supervisor_def)
next
  case (Some sv)
  show ?thesis
  proof (cases "validate_supervisor sys s")
    case invalid: (Some e)
    with assms refused show ?thesis by (auto simp: with_lock_def)
  next
    case valid: None
    let ?l = "lp_lock_file (sv_paths sv)"
    obtain e1 m0 where dirs: "ensure_directories sys sv m = (e1, m0)" by fastforce
    note m0 = ensure_directories_trace [OF dirs]
    show ?thesis
    proof (cases e1)
      case (Some t)
      with assms valid \<open>s = Some sv\<close> dirs m0 refused show ?thesis by (auto simp: with_lock_def)
    next
      case None
      with assms valid \<open>s = Some sv\<close> dirs obtain e2 m1 where lock: "acquire_file_lock sys ?l m0 = Some (e2, m1)"
        and rest: "(case e2 of Some e \<Rightarrow> Some ((False, Some e), m1)
            | None \<Rightarrow> map_option (\<lambda>(r, m3). (r, release_lock sys ?l m3)) (body sv m1)) = Some (r, m')"
        by (auto simp: with_lock_def bind_eq_Some_conv)
      note m1 = acquire_trace [OF lock]
      show ?thesis
      proof (cases e2)
        case (Some t)
        with rest m0 m1 refused show ?thesis by auto
      next
        case None
        with rest m0 m1 held [OF \<open>s = Some sv\<close> refl valid, of m1] show ?thesis by auto
      qed
    qed
  qed
qed

section \<open>Start\<close>

lemma start_held_cases:
  assumes "start_held sys sv m = Some (r, m')"
  obtains (kept) "extends quiet m m'" "\<not> fst r"
    | (launched) es m3 i tok pid d where "list_all quiet es"
        "mc_trace m3 = mc_trace m @ es @ [Launched (launch_command sv i tok) pid]"
        "start_loop sys sv d i tok pid m3 = Some (r, m')"
proof -
  obtain r1 m1 where existing: "existing_daemon sys m = (r1, m1)" by fastforce
  obtain r2 m2 where unmanaged: "unmanaged_daemon sys sv m1 = (r2, m2)" by fastforce
  obtain r3 m3 where launch: "launch_daemon sys sv m2 = (r3, m3)" by fastforce
  from existing_trace [OF existing] have q1: "extends quiet m m1" .
  from unmanaged_trace [OF unmanaged] have "extends quiet m1 m2" by simp
  with q1 have q2: "extends quiet m m2" by (rule extends_trans)
  show ?thesis
  proof (cases r1)
    case (Some o1)
    with assms existing q1 existing_not_launched [of sys m o1 m1] show ?thesis
      by (intro kept) (auto simp: start_held_def)
  next
    case r1: None
    show ?thesis
    proof (cases "r2 = None \<and> sy_cancelled sys (mc_world m2) = None")
      case False
      with assms existing unmanaged r1 q2 show ?thesis
        by (intro kept) (auto simp: start_held_def split: option.splits)
    next
      case r2: True
      show ?thesis
      proof (cases r3)
        case (Inl e)
        with launch_trace [OF launch] q2 assms existing unmanaged r1 r2 launch show ?thesis
          by (intro kept) (auto simp: start_held_def extends_def)
      next
        case (Inr l)
        obtain i tok pid where l: "l = (i, tok, pid)" by (cases l) auto
        with assms existing unmanaged r1 r2 launch Inr
        have "start_loop sys sv (deadline_after sys (sv_start_timeout sv) m3) i tok pid m3 = Some (r, m')"
          by (simp add: start_held_def)
        moreover from q2 obtain es where "mc_trace m2 = mc_trace m @ es" "list_all quiet es"
          by (auto simp: extends_def)
        ultimately show ?thesis
          using launched [of es m3 i tok pid] launch_trace [OF launch] Inr l by simp
      qed
    qed
  qed
qed



text \<open>What the supervisor learned: a state it read, a health answer it got, a process it found gone.\<close>

definition stored :: "'w sys \<Rightarrow> runtime_state \<Rightarrow> bool" where
  "stored sys s \<longleftrightarrow> (\<exists>w f w'. sy_read sys w = (f, w') \<and> read_runtime (sy_net sys) f = Inr s)"

definition answered :: "'w sys \<Rightarrow> string \<Rightarrow> health \<Rightarrow> bool" where
  "answered sys base h \<longleftrightarrow>
     (\<exists>d u w p w'. endpoint_url (sy_net sys) base ''/healthz'' = Inr u \<and> sy_get sys d u w = (Inr p, w') \<and>
        hr_status p = 200 \<and> hr_health p = Inr h)"

definition gone :: "'w sys \<Rightarrow> int \<Rightarrow> bool" where
  "gone sys pid \<longleftrightarrow> (\<exists>w w'. sy_kill sys pid w = (Kill_No_Process, w'))"

lemma read_state_stored: "read_state sys m = (Inr s, m') \<Longrightarrow> stored sys s"
  by (auto simp: read_state_def stored_def split: prod.splits)

lemma fetch_health_answered: "fetch_health sys d base m = (Inr h, m') \<Longrightarrow> answered sys base h \<and> valid_health h = None"
  by (auto simp: fetch_health_def answered_def bind_result_Inr_iff split: sum.splits prod.splits if_splits option.splits)

lemma process_gone: "process_alive sys pid m = (Inr False, m') \<Longrightarrow> gone sys pid"
  by (auto simp: process_alive_def os_process_alive_def gone_def split: prod.splits if_splits kill_outcome.splits)

lemma start_round_verified:
  "start_round sys d i tok pid m = (Some (True, None), m') \<Longrightarrow>
     \<exists>s h. stored sys s \<and> rt_instance_id s = i \<and> rt_pid s = pid \<and> rt_control_token s = tok \<and>
       answered sys (rt_http_url s) h \<and> match_identity s h = None"
  by (auto simp: start_round_def dest!: read_state_stored fetch_health_answered dest: child_launched
      split: prod.splits sum.splits read_error.splits if_splits)

text \<open>When \<open>Start\<close> says that it launched a daemon and reports no error, that daemon is up: the runtime
  file holds the identity and the token of the launch and the process's own number, and a health
  answer from the loopback URL in the file matches it.\<close>

lemma start_success_is_verified:
  assumes "start sys s m = Some ((True, None), m')"
  shows "\<exists>sv i tok pid st h es. s = Some sv \<and> mc_trace m' = mc_trace m @ es \<and>
    launches es = [(launch_command sv i tok, pid)] \<and> stored sys st \<and> rt_instance_id st = i \<and> rt_pid st = pid \<and>
    rt_control_token st = tok \<and> answered sys (rt_http_url st) h \<and> match_identity st h = None"
  using assms [unfolded start_def]
proof (cases rule: with_lock_cases)
  case (held sv m1 m2 l)
  from held(5) show ?thesis
  proof (cases rule: start_held_cases)
    case (launched es m3 i tok pid d)
    from poll_result [OF launched(3) [unfolded start_loop_def]] obtain m4 where
      "start_round sys d i tok pid m4 = (Some (True, None), m2)" by auto
    from start_round_verified [OF this] obtain st h where verified:
      "stored sys st" "rt_instance_id st = i" "rt_pid st = pid" "rt_control_token st = tok"
      "answered sys (rt_http_url st) h" "match_identity st h = None" by blast
    from start_loop_trace [OF launched(3)] obtain fs where "mc_trace m2 = mc_trace m3 @ fs" "list_all quiet fs"
      by (auto simp: extends_def)
    then have "mc_trace m' = mc_trace m @ ([Acquired l] @ es @ [Launched (launch_command sv i tok) pid] @ fs @ [Released l])"
      and "launches ([Acquired l] @ es @ [Launched (launch_command sv i tok) pid] @ fs @ [Released l]) =
        [(launch_command sv i tok, pid)]"
      using held launched quiet_none [of es] quiet_none [of fs] by (auto simp: release_lock_def)
    with verified held(1) show ?thesis by blast
  qed simp
qed simp

section \<open>Stop\<close>

lemma stop_round_trace: "stop_round sys st m = (r, m') \<Longrightarrow> extends quiet m m'"
  by (auto simp: stop_round_def dest!: quiet_pieces intro: extends_trans
      split: sum.splits prod.splits bool.splits read_error.splits)

lemma stop_round_result:
  "stop_round sys st m = (Some r, m') \<Longrightarrow> fst r \<and> (snd r = None \<longrightarrow> gone sys (rt_pid st))"
  by (auto simp: stop_round_def dest!: process_gone split: sum.splits prod.splits bool.splits read_error.splits)

lemma stop_loop_summary:
  assumes "stop_loop sys sv d st m = Some (r, m')"
  shows "extends quiet m m' \<and> fst r \<and> (snd r = None \<longrightarrow> gone sys (rt_pid st))"
proof -
  note loop = assms [unfolded stop_loop_def]
  from poll_trace [OF loop, of quiet] stop_round_trace have "extends quiet m m'" by fastforce
  moreover from poll_result [OF loop] stop_round_result [of sys st _ r] have
    "fst r \<and> (snd r = None \<longrightarrow> gone sys (rt_pid st))" by fastforce
  ultimately show ?thesis ..
qed

text \<open>The one request to stop: to whom it goes and what it carries.\<close>

definition entitled :: "'w sys \<Rightarrow> runtime_state \<Rightarrow> string \<Rightarrow> bool" where
  "entitled sys st u \<longleftrightarrow> stored sys st \<and> endpoint_url (sy_net sys) (rt_http_url st) ''/control/shutdown'' = Inr u \<and>
     (\<exists>h. answered sys (rt_http_url st) h \<and> match_identity st h = None)"

lemma request_stop_cases:
  assumes "request_stop sys d st m = (r, m')" and "stored sys st"
  obtains (refused) x where "r = Inl (False, x)" "extends quiet m m'"
    | (posted) u m1 where "entitled sys st u" "extends quiet m m1"
        "mc_trace m' = mc_trace m1 @ [Posted u (rt_control_token st)]"
        "\<And>x. r = Inl x \<Longrightarrow> snd x \<noteq> None"
proof -
  obtain h1 m1 where health: "fetch_health sys d (rt_http_url st) m = (h1, m1)" by fastforce
  from fetch_health_trace [OF health] have quiet: "extends quiet m m1" by simp
  show ?thesis
  proof (cases h1)
    case (Inl e)
    with assms health quiet refused show ?thesis by (auto simp: request_stop_def)
  next
    case (Inr h)
    note answered = fetch_health_answered [OF health [unfolded Inr]]
    show ?thesis
    proof (cases "match_identity st h = None \<and> (\<exists>u. endpoint_url (sy_net sys) (rt_http_url st) ''/control/shutdown'' = Inr u)")
      case False
      with assms health Inr quiet refused show ?thesis
        by (auto simp: request_stop_def split: option.splits sum.splits)
    next
      case True
      then obtain u where u: "endpoint_url (sy_net sys) (rt_http_url st) ''/control/shutdown'' = Inr u" by blast
      with True answered assms(2) have "entitled sys st u" unfolding entitled_def by blast
      with assms(1) health Inr u True quiet posted show ?thesis
        by (auto simp: request_stop_def post_shutdown_def split: sum.splits prod.splits if_splits option.splits)
    qed
  qed
qed

lemma stop_held_cases:
  assumes "stop_held sys sv m = Some (r, m')"
  obtains (kept) "extends quiet m m'" "\<not> fst r"
    | (asked) st u es fs where "entitled sys st u" "list_all quiet es" "list_all quiet fs"
        "mc_trace m' = mc_trace m @ es @ [Posted u (rt_control_token st)] @ fs"
        "snd r = None \<Longrightarrow> fst r \<and> gone sys (rt_pid st)"
proof -
  obtain r1 m1 where read: "read_state sys m = (r1, m1)" by fastforce
  note q1 = read_state_trace [OF read, of quiet]
  show ?thesis
  proof (cases r1)
    case (Inl e)
    obtain r2 m2 where unmanaged: "unmanaged_daemon sys sv m1 = (r2, m2)" by fastforce
    from unmanaged_trace [OF unmanaged] have "extends quiet m1 m2" by simp
    with q1 have "extends quiet m m2" by (rule extends_trans)
    with assms read Inl unmanaged q1 show ?thesis
      by (intro kept) (auto simp: stop_held_def split: option.splits read_error.splits)
  next
    case (Inr st)
    obtain r2 m2 where alive: "process_alive sys (rt_pid st) m1 = (r2, m2)" by fastforce
    from q1 process_alive_trace [OF alive] have q2: "extends quiet m m2" by (rule extends_trans)
    show ?thesis
    proof (cases "r2 = Inr True")
      case False
      with assms read Inr alive q2 show ?thesis
        by (intro kept) (auto simp: stop_held_def dest!: remove_state_trace intro: extends_trans
            split: sum.splits prod.splits bool.splits)
    next
      case r2: True
      let ?d = "deadline_after sys (sv_stop_timeout sv) m2"
      obtain r3 m3 where request: "request_stop sys ?d st m2 = (r3, m3)" by fastforce
      from read_state_stored [OF read [unfolded Inr]] have "stored sys st" .
      from request this show ?thesis
      proof (cases rule: request_stop_cases)
        case (refused x)
        with assms read Inr alive r2 request q2 show ?thesis
          by (intro kept) (auto simp: stop_held_def intro: extends_trans)
      next
        case (posted u m4)
        from q2 posted(2) have "extends quiet m m4" by (rule extends_trans)
        then obtain es where es: "mc_trace m4 = mc_trace m @ es" "list_all quiet es" by (auto simp: extends_def)
        show ?thesis
        proof (cases r3)
          case (Inl x)
          with assms read \<open>r1 = Inr st\<close> alive r2 request have "x = r" "m3 = m'" by (simp_all add: stop_held_def)
          with posted Inl es asked [of st u es "[]"] show ?thesis by auto
        next
          case (Inr y)
          with assms read \<open>r1 = Inr st\<close> alive r2 request have "stop_loop sys sv ?d st m3 = Some (r, m')"
            by (simp add: stop_held_def)
          from stop_loop_summary [OF this] posted es asked [of st u es] show ?thesis by (auto simp: extends_def)
        qed
      qed
    qed
  qed
qed

text \<open>C4: \<open>Stop\<close> sends at most one request, and only to the shutdown endpoint of the loopback URL of a
  runtime state whose identity a health answer from that same URL matched; it carries that state's own
  token. A daemon is reported as asked only if the request went out, success is reported only after the
  process was found gone, and nothing is ever launched.\<close>

theorem stop_posts_only_to_verified_daemon:
  assumes "stop sys s m = Some (r, m')"
  shows "\<exists>es. mc_trace m' = mc_trace m @ es \<and> launches es = [] \<and>
    (if posts es = [] then \<not> fst r
     else \<exists>st u. posts es = [(u, rt_control_token st)] \<and> entitled sys st u \<and>
       (snd r = None \<longrightarrow> fst r \<and> gone sys (rt_pid st)))"
  using assms [unfolded stop_def]
proof (cases rule: with_lock_cases)
  case refused
  then show ?thesis by auto
next
  case (held sv m1 m2 l)
  from held(5) show ?thesis
  proof (cases rule: stop_held_cases)
    case kept
    then obtain fs where "mc_trace m2 = mc_trace m1 @ fs" "list_all quiet fs" by (auto simp: extends_def)
    with held kept quiet_none [of fs] show ?thesis
      by (intro exI [of _ "[Acquired l] @ fs @ [Released l]"]) (auto simp: release_lock_def)
  next
    case (asked st u es fs)
    with held quiet_none [of es] quiet_none [of fs] show ?thesis
      by (intro exI [of _ "[Acquired l] @ es @ [Posted u (rt_control_token st)] @ fs @ [Released l]"])
        (auto simp: release_lock_def)
  qed
qed

section \<open>Status\<close>

lemmas probing_pieces = process_alive_trace [where P = is_probe] read_state_trace [where P = is_probe]
  fetch_health_trace [where P = is_probe, simplified] unmanaged_trace [where P = is_probe, simplified]

lemma unmanaged_answered:
  "unmanaged_daemon sys sv m = (Some h, m') \<Longrightarrow> answered sys (default_http_url sv) h \<and> valid_health h = None"
  by (auto simp: unmanaged_daemon_def dest!: fetch_health_answered split: sum.splits prod.splits if_splits)

lemma match_identity_valid: "match_identity s h = None \<Longrightarrow>
    valid_health h = None \<and> hl_pid h = rt_pid s \<and> hl_instance_id h = rt_instance_id s \<and> hl_version h = rt_version s"
  by (simp add: match_identity_def)

definition confirmed :: "'w sys \<Rightarrow> status \<Rightarrow> bool" where
  "confirmed sys st \<longleftrightarrow> (\<exists>h. answered sys (st_http_url st) h \<and> valid_health h = None \<and> hl_pid h = st_pid st \<and>
     hl_instance_id h = st_instance_id st \<and> hl_version h = st_version st)"

lemma managed_status_summary:
  assumes "managed_status sys s base m = ((st, e), m')" and "\<not> st_running base" and "\<not> st_stale base"
  shows "extends is_probe m m' \<and> (st_running st \<longrightarrow> e = None \<and> \<not> st_stale st \<and> confirmed sys st)"
proof -
  obtain r1 m1 where alive: "process_alive sys (rt_pid s) m = (r1, m1)" by fastforce
  obtain r2 m2 where health: "fetch_health sys None (rt_http_url s) m1 = (r2, m2)" by fastforce
  note t1 = probing_pieces(1) [OF alive]
  with probing_pieces(3) [OF health] have t2: "extends is_probe m m2" by (blast intro: extends_trans)
  show ?thesis
  proof (cases "r1 = Inr True")
    case False
    with assms alive t1 show ?thesis by (auto simp: managed_status_def Let_def split: sum.splits bool.splits)
  next
    case True
    with assms alive health t2 fetch_health_answered [of sys None "rt_http_url s" m1 _ m2] show ?thesis
      by (auto simp: managed_status_def Let_def confirmed_def dest!: match_identity_valid split: sum.splits option.splits)
  qed
qed

text \<open>Asking for the status changes nothing: the only effects are health requests. A daemon is
  reported as running only when a health answer from the reported URL is valid and carries the reported
  process, version and instance, with no error and no stale state.\<close>

lemma status_only_looks:
  assumes "daemon_status sys v m = ((st, e), m')"
  shows "(\<exists>es. mc_trace m' = mc_trace m @ es \<and> list_all is_probe es) \<and>
    (st_running st \<longrightarrow> e = None \<and> \<not> st_stale st \<and> confirmed sys st)"
proof (cases "validate_supervisor sys v = None \<and> v \<noteq> None")
  case False
  with assms show ?thesis
    by (auto simp: daemon_status_def no_status_def validate_supervisor_def split: option.splits)
next
  case True
  then obtain sv where v: "v = Some sv" and valid: "validate_supervisor sys (Some sv) = None" by auto
  obtain r1 m1 where read: "read_state sys m = (r1, m1)" by fastforce
  note t1 = probing_pieces(2) [OF read]
  have "extends is_probe m m' \<and> (st_running st \<longrightarrow> e = None \<and> \<not> st_stale st \<and> confirmed sys st)"
  proof (cases r1)
    case (Inl err)
    obtain r2 m2 where unmanaged: "unmanaged_daemon sys sv m1 = (r2, m2)" by fastforce
    from t1 probing_pieces(4) [OF unmanaged] have "extends is_probe m m2" by (rule extends_trans)
    with assms v valid read Inl unmanaged t1 unmanaged_answered [of sys sv m1 _ m2] show ?thesis
      by (auto simp: daemon_status_def Let_def no_status_def confirmed_def split: read_error.splits option.splits)
  next
    case (Inr s)
    with assms v valid read have "managed_status sys s (no_status\<lparr>st_log_file := lp_log_file (sv_paths sv)\<rparr>) m1 = ((st, e), m')"
      by (simp add: daemon_status_def Let_def)
    from managed_status_summary [OF this] t1 show ?thesis by (auto simp: no_status_def intro: extends_trans)
  qed
  then show ?thesis by (simp add: extends_def)
qed

section \<open>The calls return\<close>

text \<open>What the loops need of the world: no operation turns the clock back, a pause that is over has
  passed, and a context whose deadline has passed is over.\<close>

definition clock_runs :: "'w sys \<Rightarrow> bool" where
  "clock_runs sys \<longleftrightarrow>
     (\<forall>w. sy_now sys w \<le> sy_now sys (snd (sy_read sys w))) \<and>
     (\<forall>p w. sy_now sys w \<le> sy_now sys (snd (sy_kill sys p w))) \<and>
     (\<forall>d u w. sy_now sys w \<le> sy_now sys (snd (sy_get sys d u w))) \<and>
     (\<forall>i w. sy_now sys w \<le> sy_now sys (snd (sy_remove sys i w))) \<and>
     (\<forall>d k w w'. sy_select sys d k w = (None, w') \<longrightarrow> sy_now sys w + k \<le> sy_now sys w') \<and>
     (\<forall>t k w. t \<le> sy_now sys w \<longrightarrow> fst (sy_select sys (Some t) k w) \<noteq> None)"

abbreviation now :: "'w sys \<Rightarrow> 'w machine \<Rightarrow> nat" where
  "now sys m \<equiv> sy_now sys (mc_world m)"

lemma poll_returns:
  assumes "clock_runs sys" and "0 < k" and step: "\<And>m r m'. round m = (r, m') \<Longrightarrow> now sys m \<le> now sys m'"
  shows "\<exists>x. poll_loop sys (Some t) k f round m = Some x"
proof (induction "t - now sys m" arbitrary: m rule: less_induct)
  case less
  obtain r m' where round: "round m = (r, m')" by fastforce
  obtain e w where sel: "sy_select sys (Some t) k (mc_world m') = (e, w)" by fastforce
  show ?case
  proof (cases "r = None \<and> e = None")
    case False
    with round sel show ?thesis by (subst poll_loop.simps) (auto split: option.splits)
  next
    case True
    with sel assms(1) have "\<not> t \<le> now sys m'" and "now sys m' + k \<le> sy_now sys w"
      unfolding clock_runs_def by (metis fst_conv, blast)
    with step [OF round] assms(2) have "t - sy_now sys w < t - now sys m" by linarith
    with less [of "m'\<lparr>mc_world := w\<rparr>"] True round sel show ?thesis
      by (subst poll_loop.simps) simp
  qed
qed

lemma clock_pieces:
  assumes "clock_runs sys"
  shows "process_alive sys pid m = (r1, m') \<Longrightarrow> now sys m \<le> now sys m'"
    and "read_state sys m = (r2, m') \<Longrightarrow> now sys m \<le> now sys m'"
    and "fetch_health sys d base m = (r3, m') \<Longrightarrow> now sys m \<le> now sys m'"
    and "remove_state sys s m = (r4, m') \<Longrightarrow> now sys m \<le> now sys m'"
  using assms unfolding clock_runs_def
  by (auto simp: process_alive_def read_state_def fetch_health_def remove_state_def split: prod.splits sum.splits)
    (metis snd_conv)+

lemma start_round_clock:
  assumes "clock_runs sys" and "start_round sys d i tok pid m = (r, m')"
  shows "now sys m \<le> now sys m'"
  using assms(2) clock_pieces [OF assms(1)]
  by (auto simp: start_round_def child_check_def intro: order_trans
      split: prod.splits sum.splits read_error.splits bool.splits if_splits) (meson order_trans)+

lemma stop_round_clock:
  assumes "clock_runs sys" and "stop_round sys st m = (r, m')"
  shows "now sys m \<le> now sys m'"
  using assms(2) clock_pieces [OF assms(1)]
  by (auto simp: stop_round_def split: prod.splits sum.splits bool.splits read_error.splits) (meson order_trans)+

lemma start_held_returns:
  assumes "clock_runs sys" and "0 < sv_poll_interval sv"
  shows "\<exists>x. start_held sys sv m = Some x"
proof -
  have "\<exists>x. start_loop sys sv (deadline_after sys (sv_start_timeout sv) m3) i tok pid m3 = Some x" for i tok pid m3
    using poll_returns [of sys "nat (sv_poll_interval sv)"] start_round_clock [OF assms(1)] assms
    by (simp add: start_loop_def deadline_after_def)
  then show ?thesis by (auto simp: start_held_def split: prod.splits option.splits sum.splits)
qed

lemma stop_held_returns:
  assumes "clock_runs sys" and "0 < sv_poll_interval sv"
  shows "\<exists>x. stop_held sys sv m = Some x"
proof -
  have "\<exists>x. stop_loop sys sv (deadline_after sys (sv_stop_timeout sv) m2) st m3 = Some x" for st m2 m3
    using poll_returns [of sys "nat (sv_poll_interval sv)"] stop_round_clock [OF assms(1)] assms
    by (simp add: stop_loop_def deadline_after_def)
  then show ?thesis
    by (auto simp: stop_held_def Let_def split: prod.splits option.splits sum.splits read_error.splits bool.splits)
qed

lemma with_lock_returns:
  assumes "\<And>path m. lock_loop sys path m \<noteq> None"
    and "\<And>sv m. validate_supervisor sys (Some sv) = None \<Longrightarrow> \<exists>x. body sv m = Some x"
  shows "\<exists>x. with_lock sys s body m = Some x"
proof (cases "validate_supervisor sys s = None \<and> s \<noteq> None")
  case False
  then show ?thesis by (auto simp: with_lock_def split: option.splits)
next
  case True
  then obtain sv where s: "s = Some sv" "validate_supervisor sys (Some sv) = None" by auto
  obtain e m1 where dirs: "ensure_directories sys sv m = (e, m1)" by fastforce
  have "\<exists>y. acquire_file_lock sys path m1 = Some y" for path
    using assms(1) by (auto simp: acquire_file_lock_def split: prod.splits option.splits)
  then obtain e2 m2 where lock: "acquire_file_lock sys (lp_lock_file (sv_paths sv)) m1 = Some (e2, m2)"
    by (metis surj_pair)
  obtain r m3 where "body sv m2 = Some (r, m3)" using assms(2) s(2) by (metis surj_pair)
  with s dirs lock show ?thesis by (auto simp: with_lock_def split: option.splits)
qed

text \<open>C28: \<open>Start\<close> and \<open>Stop\<close> return whatever the daemon, the runtime file and the network do, once the
  lifecycle lock is served and the clock runs: their polling cannot outlive the start or stop timeout.\<close>

theorem start_and_stop_return:
  assumes "clock_runs sys" and "\<And>path m. lock_loop sys path m \<noteq> None"
  shows "(\<exists>x. start sys s m = Some x) \<and> (\<exists>y. stop sys s m = Some y)"
proof -
  have poll: "0 < sv_poll_interval sv" if "validate_supervisor sys (Some sv) = None" for sv
    using that by (simp add: validate_supervisor_def)
  show ?thesis unfolding start_def stop_def
    using with_lock_returns [OF assms(2), where body = "start_held sys"] start_held_returns [OF assms(1) poll]
      with_lock_returns [OF assms(2), where body = "stop_held sys"] stop_held_returns [OF assms(1) poll]
    by blast
qed

section \<open>A computer\<close>

text \<open>A world for the instances: the runtime file, whether the daemon it describes runs, and the clock.
  The daemon answers at its URL with its own identity, writes its runtime file when it starts and exits
  when it is asked to.\<close>

record computer =
  cp_file :: "runtime_state option"
  cp_alive :: bool
  cp_clock :: nat

definition plain_io :: dir_io where
  "plain_io = \<lparr>di_stat = Inr \<lparr>ds_is_dir = True, ds_symlink = False, ds_broad = False\<rparr>, di_mkdir = None,
     di_stat_again = Inl NotExist, di_chmod = None\<rparr>"

definition reply_of :: "computer \<Rightarrow> (string, http_reply) result" where
  "reply_of c = (case cp_file c of
      None \<Rightarrow> Inl ''connection refused''
    | Some s \<Rightarrow> if cp_alive c
        then Inr \<lparr>hr_status = 200, hr_health = Inr \<lparr>hl_service = ''dire-agent'', hl_status = ''ok'',
            hl_version = rt_version s, hl_pid = rt_pid s, hl_instance_id = rt_instance_id s\<rparr>, hr_close = None\<rparr>
        else Inl ''connection refused'')"

definition started :: "launch \<Rightarrow> runtime_state" where
  "started c = \<lparr>rt_schema = 1, rt_pid = 7, rt_instance_id = ln_args c ! 4,
     rt_control_token = drop 25 (ln_env c), rt_version = ''1'', rt_executable = ln_executable c,
     rt_http_url = ''http://localhost:7331'', rt_started_at = 1\<rparr>"

definition office :: "computer sys" where
  "office =
     \<lparr>sy_net = plain_net, sy_request_uri = (\<lambda>u. None), sy_dir = (\<lambda>d c. (plain_io, c)),
      sy_open_lock = (\<lambda>p c. (None, c)), sy_flock = (\<lambda>p c. (Flock_Held, c)), sy_unlock = (\<lambda>p c. c),
      sy_read = (\<lambda>c. (map_option installed (cp_file c), c)),
      sy_remove = (\<lambda>i c. (Inr (cp_file c \<noteq> None), c\<lparr>cp_file := None\<rparr>)),
      sy_kill = (\<lambda>p c. (if cp_alive c then Kill_Ok else Kill_No_Process, c)),
      sy_get = (\<lambda>d u c. (reply_of c, c)),
      sy_post = (\<lambda>d u t c. (bind_result (reply_of c) (\<lambda>p. Inr (p\<lparr>hr_status := 202\<rparr>)), c\<lparr>cp_alive := False\<rparr>)),
      sy_random = (\<lambda>n c. (Inr (replicate n 0), c)), sy_open_log = (\<lambda>c. (None, c)),
      sy_launch = (\<lambda>l c. (Inr 7, c\<lparr>cp_file := Some (started l), cp_alive := True\<rparr>)),
      sy_cancelled = (\<lambda>c. None), sy_now = cp_clock,
      sy_select = (\<lambda>d k c. case d of
          Some t \<Rightarrow> (if t \<le> cp_clock c then (Some ''deadline exceeded'', c) else (None, c\<lparr>cp_clock := cp_clock c + k\<rparr>))
        | None \<Rightarrow> (None, c\<lparr>cp_clock := cp_clock c + k\<rparr>))\<rparr>"

definition office_supervisor :: supervisor where
  "office_supervisor = new_supervisor ''/home/u'' ''/bin/dire-agent''"


definition busy :: "computer machine" where
  "busy = \<lparr>mc_world = \<lparr>cp_file = Some (sample_state ''old''), cp_alive = True, cp_clock = 0\<rparr>, mc_trace = []\<rparr>"


lemma office_stop: "map_option fst (stop office (Some office_supervisor) busy) = Some (True, None)"
  by code_simp


theorem stop_posts_only_to_verified_daemon_witness:
  "\<exists>m' st u. stop office (Some office_supervisor) busy = Some ((True, None), m') \<and>
     posts (mc_trace m') = [(u, rt_control_token st)] \<and> entitled office st u"
proof -
  from office_stop obtain m' where run: "stop office (Some office_supervisor) busy = Some ((True, None), m')" by auto
  from stop_posts_only_to_verified_daemon [OF run] obtain es where es: "mc_trace m' = mc_trace busy @ es"
    "if posts es = [] then \<not> fst (True, None :: string option)
     else \<exists>st u. posts es = [(u, rt_control_token st)] \<and> entitled office st u \<and>
       (snd (True, None :: string option) = None \<longrightarrow> fst (True, None :: string option) \<and> gone office (rt_pid st))"
    by blast
  then have "posts es \<noteq> []" by auto
  with es obtain st u where "posts es = [(u, rt_control_token st)]" "entitled office st u" by auto
  with run es(1) show ?thesis by (auto simp: busy_def)
qed

lemma office_clock: "clock_runs office"
  by (auto simp: clock_runs_def office_def split: option.splits if_splits)

lemma office_lock: "lock_loop office path m \<noteq> None"
  by (subst lock_loop.simps) (simp add: office_def)

theorem start_and_stop_return_witness:
  "(\<exists>x. start office (Some office_supervisor) busy = Some x) \<and> (\<exists>y. stop office (Some office_supervisor) busy = Some y)"
  by (rule start_and_stop_return [OF office_clock office_lock])

end
