(* ===== verification/ProjectProxy.thy ===== *)
theory ProjectProxy
  imports GoText
begin

text \<open>
  The reverse proxy to the servers of a project (\<open>daemon/project_proxy.go\<close>): the public route, the choice
  of the upstream path, and the rewriting of headers, cookies and texts so that root-relative URLs stay
  below the public prefix. Regular expressions, URL and media type parsing and \<open>strings.ToLower\<close> of a whole
  page are arguments; the lower case of header values and cookie attributes is ASCII.
\<close>

section \<open>Routes\<close>

record proxy_route =
  pr_port :: nat
  pr_prefix :: string
  pr_upstream :: string
  pr_needs_slash :: bool

datatype proxy_mode = Strip_Prefix | Preserve_Prefix

definition project_server_path :: string where
  "project_server_path = ''/project/server/''"

definition project_proxy_bootstrap :: string where
  "project_proxy_bootstrap = ''__dire_agent_project_proxy.js''"

definition max_project_rewrite_bytes :: nat where
  "max_project_rewrite_bytes = 67108864"

definition decimal_value :: "string \<Rightarrow> nat" where
  "decimal_value s = foldl (\<lambda>n c. 10 * n + (of_char c - 48)) 0 s"

text \<open>A number beyond 64 bits, which \<open>strconv.Atoi\<close> refuses, is refused as beyond 65535.\<close>

definition parse_project_proxy_route :: "string \<Rightarrow> (string, proxy_route) result" where
  "parse_project_proxy_route path =
     (if path = ''/project/server'' \<or> path = project_server_path then Inl ''project server URL requires a port''
      else if \<not> has_prefix path project_server_path then Inl ''invalid project server URL''
      else
        let remainder = drop (length project_server_path) path;
            port_text = takeWhile (\<lambda>c. c \<noteq> CHR ''/'') remainder;
            rest = dropWhile (\<lambda>c. c \<noteq> CHR ''/'') remainder;
            port = decimal_value port_text
        in if port_text = [] then Inl ''project server URL requires a port''
           else if \<not> list_all is_ascii_digit port_text then Inl ''project server port must be numeric''
           else if port < 1 \<or> 65535 < port then Inl ''project server port must be between 1 and 65535''
           else if show_nat port \<noteq> port_text then Inl ''project server port must use canonical decimal notation''
           else Inr \<lparr>pr_port = port, pr_prefix = project_server_path @ port_text,
                      pr_upstream = (if rest = [] then ''/'' else rest), pr_needs_slash = (rest = [])\<rparr>)"

section \<open>Texts\<close>

definition slice :: "string \<Rightarrow> nat \<Rightarrow> nat \<Rightarrow> string" where
  "slice s a b = take (b - a) (drop a s)"

definition path_has_proxy_prefix :: "string \<Rightarrow> string \<Rightarrow> bool" where
  "path_has_proxy_prefix path prefix \<longleftrightarrow> has_prefix path prefix \<and>
     (let rest = drop (length prefix) path in rest = [] \<or> hd rest \<in> set ''/?#'' \<union> {CHR 0x27, CHR 0x22, CHR 0x60} \<union> set '')&> '')"

definition inserted_prefix :: "string \<Rightarrow> string \<Rightarrow> string" where
  "inserted_prefix path prefix = (if \<not> has_prefix path ''//'' \<and> \<not> path_has_proxy_prefix path prefix then prefix else [])"

fun insert_at_matches :: "string \<Rightarrow> string \<Rightarrow> nat \<Rightarrow> (nat \<times> nat) list \<Rightarrow> string" where
  "insert_at_matches s prefix from [] = drop from s"
| "insert_at_matches s prefix from ((a, b) # matches) =
     (if b \<le> a then insert_at_matches s prefix from matches
      else slice s from a @ inserted_prefix (drop a s) prefix @ slice s a b @ insert_at_matches s prefix b matches)"

definition insert_prefix_at_matches :: "(string \<Rightarrow> (nat \<times> nat) list) \<Rightarrow> string \<Rightarrow> string \<Rightarrow> string" where
  "insert_prefix_at_matches pattern s prefix = insert_at_matches s prefix 0 (pattern s)"

function rewrite_unquoted_root_marker :: "string \<Rightarrow> string \<Rightarrow> string \<Rightarrow> string" where
  "rewrite_unquoted_root_marker s marker prefix =
     (case find_sub (marker @ ''/'') s of
        None \<Rightarrow> s
      | Some i \<Rightarrow>
          let p = i + length marker
          in take p s @ inserted_prefix (drop p s) prefix @ ''/'' @
             rewrite_unquoted_root_marker (drop (Suc p) s) marker prefix)"
  by pat_completeness auto
termination
proof (relation "measure (\<lambda>(s, marker, prefix). length s)")
  fix s marker prefix :: string and i p
  assume "find_sub (marker @ ''/'') s = Some i" "p = i + length marker"
  with find_sub_bound [of "marker @ ''/''" s i] show
    "((drop (Suc p) s, marker, prefix), s, marker, prefix) \<in> measure (\<lambda>(s, marker, prefix). length s)" by simp
qed simp

declare rewrite_unquoted_root_marker.simps [simp del]

text \<open>One marker of \<open>restoreViteHMRModuleIDs\<close>: the quoted paths in the arguments of its calls lose the
  prefix.\<close>

definition strip_quoted :: "string \<Rightarrow> string \<Rightarrow> string" where
  "strip_quoted prefix arguments =
     foldl (\<lambda>s q. replace_sub (- 1) (q # prefix @ ''/'') (q # ''/'') s) arguments [CHR 0x27, CHR 0x22, CHR 0x60]"

function restore_marker :: "string \<Rightarrow> string \<Rightarrow> string \<Rightarrow> string" where
  "restore_marker marker prefix s =
     (case find_sub marker s of
        None \<Rightarrow> s
      | Some i \<Rightarrow>
          let start = i + length marker
          in (case find_sub '')'' (drop start s) of
                None \<Rightarrow> s
              | Some e \<Rightarrow> take start s @ strip_quoted prefix (slice s start (start + e)) @ '')'' @
                  restore_marker marker prefix (drop (Suc (start + e)) s)))"
  by pat_completeness auto
termination
proof (relation "measure (\<lambda>(marker, prefix, s). length s)")
  fix s marker prefix :: string and i start e
  assume "find_sub marker s = Some i" "start = i + length marker" "find_sub '')'' (drop start s) = Some e"
  with find_sub_bound [of "'')''" "drop start s" e] show
    "((marker, prefix, drop (Suc (start + e)) s), marker, prefix, s) \<in> measure (\<lambda>(marker, prefix, s). length s)" by simp
qed simp

declare restore_marker.simps [simp del]

definition restore_vite_hmr_module_ids :: "string \<Rightarrow> string \<Rightarrow> string" where
  "restore_vite_hmr_module_ids s prefix =
     foldl (\<lambda>t marker. restore_marker marker prefix t) s [''__vite__createHotContext('', ''import.meta.hot.accept('']"

definition is_quote :: "char \<Rightarrow> bool" where
  "is_quote c \<longleftrightarrow> c \<in> {CHR 0x27, CHR 0x22, CHR 0x60}"

text \<open>Whether the prefix goes in after a quote that is followed by \<open>s\<close>.\<close>

definition quoted_root :: "string \<Rightarrow> string \<Rightarrow> bool" where
  "quoted_root prefix s \<longleftrightarrow>
     s \<noteq> [] \<and> hd s = CHR ''/'' \<and> \<not> (tl s \<noteq> [] \<and> hd (tl s) \<in> {CHR ''/'', CHR ''>''}) \<and>
     \<not> (has_prefix s prefix \<and>
        (let rest = drop (length prefix) s in rest = [] \<or> hd rest \<in> set ''/?#'' \<or> is_quote (hd rest)))"

fun rewrite_quoted_root_paths :: "string \<Rightarrow> string \<Rightarrow> string" where
  "rewrite_quoted_root_paths [] prefix = []"
| "rewrite_quoted_root_paths (c # s) prefix =
     c # (if is_quote c \<and> quoted_root prefix s then prefix else []) @ rewrite_quoted_root_paths s prefix"

definition replace_loopback_origins :: "string \<Rightarrow> string \<Rightarrow> nat \<Rightarrow> string" where
  "replace_loopback_origins s replacement port =
     foldl (\<lambda>t origin. replace_sub (- 1) (origin @ show_nat port) replacement t) s
       [''http://127.0.0.1:'', ''http://localhost:'', ''http://[::1]:'', ''ws://127.0.0.1:'', ''ws://localhost:'',
        ''ws://[::1]:'']"

definition trim_chars :: "string \<Rightarrow> string \<Rightarrow> string" where
  "trim_chars ws s = trim_left_chars ws (trim_right_chars ws s)"

definition is_loopback_host :: "string \<Rightarrow> bool" where
  "is_loopback_host host \<longleftrightarrow> trim_chars ''[]'' (to_lower host) \<in> {''localhost'', ''127.0.0.1'', ''::1''}"

definition ensure_leading_slash :: "string \<Rightarrow> string" where
  "ensure_leading_slash s = (if s = [] then ''/'' else if has_prefix s ''/'' then s else CHR ''/'' # s)"

section \<open>URLs, cookies and headers\<close>

record web_url =
  wu_scheme :: string
  wu_host :: string
  wu_hostname :: string
  wu_port :: string
  wu_path :: string

record proxy_env =
  pe_script :: string
  pe_lower :: "string \<Rightarrow> string"
  pe_root_attributes :: "string \<Rightarrow> (nat \<times> nat) list"
  pe_imports :: "string \<Rightarrow> (nat \<times> nat) list"
  pe_parse :: "string \<Rightarrow> (string, web_url) result"
  pe_print :: "web_url \<Rightarrow> string"
  pe_media_type :: "string \<Rightarrow> (string, string) result"

definition effective_url_port :: "web_url \<Rightarrow> nat" where
  "effective_url_port u =
     (if wu_port u \<noteq> [] then decimal_value (wu_port u)
      else if wu_scheme u = ''https'' \<or> wu_scheme u = ''wss'' then 443 else 80)"

definition is_loopback_origin :: "proxy_env \<Rightarrow> string \<Rightarrow> nat \<Rightarrow> bool" where
  "is_loopback_origin env s port \<longleftrightarrow>
     (case pe_parse env s of
        Inl e \<Rightarrow> False
      | Inr u \<Rightarrow> is_loopback_host (wu_hostname u) \<and> effective_url_port u = port)"

definition below_prefix :: "string \<Rightarrow> string \<Rightarrow> bool" where
  "below_prefix prefix path \<longleftrightarrow> path = prefix \<or> has_prefix path (prefix @ ''/'')"

definition rewrite_project_response_url :: "proxy_env \<Rightarrow> string \<Rightarrow> string \<Rightarrow> string \<Rightarrow> nat \<Rightarrow> string" where
  "rewrite_project_response_url env s origin prefix port =
     (let trimmed = trim_space s
      in if has_prefix trimmed ''/'' \<and> \<not> has_prefix trimmed ''//''
         then (if below_prefix prefix trimmed then s else prefix @ trimmed)
         else (case pe_parse env trimmed of
                 Inl e \<Rightarrow> replace_loopback_origins s (origin @ prefix) port
               | Inr u \<Rightarrow>
                   if wu_scheme u \<noteq> [] \<and> is_loopback_host (wu_hostname u) \<and> effective_url_port u = port
                   then (case pe_parse env origin of
                           Inl e \<Rightarrow> s
                         | Inr p \<Rightarrow> pe_print env (u\<lparr>wu_scheme := wu_scheme p, wu_host := wu_host p,
                             wu_path := prefix @ ensure_leading_slash (wu_path u)\<rparr>))
                   else replace_loopback_origins s (origin @ prefix) port))"

definition cookie_path :: "string \<Rightarrow> string \<Rightarrow> string" where
  "cookie_path prefix raw =
     (let path = (if raw = [] then ''/'' else raw);
          rooted = (if has_prefix path ''/'' then path else CHR ''/'' # path)
      in if rooted \<noteq> prefix \<and> \<not> has_prefix rooted (prefix @ ''/'') then prefix @ rooted else rooted)"

fun cookie_attributes :: "string \<Rightarrow> string list \<Rightarrow> string list \<times> bool" where
  "cookie_attributes prefix [] = ([], False)"
| "cookie_attributes prefix (part # parts) =
     (let attribute = trim_space part; lower = to_lower attribute;
          (rest, saw) = cookie_attributes prefix parts
      in if has_prefix lower ''path=''
         then ((''Path='' @ cookie_path prefix (trim_space (drop 5 attribute))) # rest, True)
         else if has_prefix lower ''domain=''
         then (if is_loopback_host (trim_chars ''.'' (trim_space (drop 7 attribute))) then rest else attribute # rest, saw)
         else (attribute # rest, saw))"

definition rewrite_project_cookie :: "string \<Rightarrow> string \<Rightarrow> string" where
  "rewrite_project_cookie s prefix =
     (let parts = split_char (CHR '';'') s; (attributes, saw) = cookie_attributes prefix (tl parts)
      in join_with ''; ''
           (trim_space (hd parts) # attributes @ (if saw then [] else [''Path='' @ prefix @ ''/''])))"

text \<open>A header maps a canonical name to its values.\<close>

type_synonym header = "string \<Rightarrow> string list"

definition header_get :: "string \<Rightarrow> header \<Rightarrow> string" where
  "header_get name h = (case h name of [] \<Rightarrow> [] | v # vs \<Rightarrow> v)"

definition header_set :: "string \<Rightarrow> string \<Rightarrow> header \<Rightarrow> header" where
  "header_set name v h = h(name := [v])"

definition header_del :: "string \<Rightarrow> header \<Rightarrow> header" where
  "header_del name h = h(name := [])"

definition header_map :: "(string \<Rightarrow> string) \<Rightarrow> string \<Rightarrow> header \<Rightarrow> header" where
  "header_map f name h = h(name := map f (h name))"

definition rewrite_project_request_header ::
  "string \<Rightarrow> string \<Rightarrow> string \<Rightarrow> string \<Rightarrow> header \<Rightarrow> header" where
  "rewrite_project_request_header name public_origin target prefix h =
     (let v = header_get name h
      in if v = [] then h
         else if v = public_origin then header_set name target h
         else header_set name (replace_sub (- 1) (public_origin @ prefix) target v) h)"

definition mounted_value :: "string \<Rightarrow> string \<Rightarrow> nat \<Rightarrow> string \<Rightarrow> string" where
  "mounted_value origin prefix port s =
     replace_sub (- 1) ''</'' (''<'' @ prefix @ ''/'')
       (rewrite_quoted_root_paths (replace_loopback_origins s (origin @ prefix) port) prefix)"

definition rewrite_project_response_headers ::
  "proxy_env \<Rightarrow> string \<Rightarrow> string \<Rightarrow> string \<Rightarrow> nat \<Rightarrow> header \<Rightarrow> header" where
  "rewrite_project_response_headers env target origin prefix port h =
     (let h1 = fold (header_map (\<lambda>s. rewrite_project_response_url env s origin prefix port))
                 [''Location'', ''Content-Location''] h;
          h2 = fold (header_map (mounted_value origin prefix port))
                 [''Link'', ''Refresh'', ''Content-Security-Policy'', ''Content-Security-Policy-Report-Only'',
                  ''Report-To'', ''Nel''] h1;
          allowed = header_get ''Access-Control-Allow-Origin'' h2;
          h3 = (if allowed \<noteq> [] \<and> allowed \<noteq> ''*'' \<and> (is_loopback_origin env allowed port \<or> allowed = target)
                then header_set ''Access-Control-Allow-Origin'' origin h2 else h2);
          h4 = header_map (\<lambda>s. rewrite_project_cookie s prefix) ''Set-Cookie'' h3
      in header_set ''Cache-Control'' ''no-store'' h4)"

section \<open>Bodies\<close>

definition rewritable_proxy_content_type :: "proxy_env \<Rightarrow> string \<Rightarrow> bool" where
  "rewritable_proxy_content_type env s =
     (case pe_media_type env s of
        Inl e \<Rightarrow> False
      | Inr t \<Rightarrow>
          t \<noteq> ''text/event-stream'' \<and> t \<noteq> ''text/x-component'' \<and>
          (has_prefix t ''text/'' \<or> contains_sub t ''javascript'' \<or> contains_sub t ''json'' \<or> contains_sub t ''xml'' \<or>
           t = ''application/manifest+json''))"

definition rewrite_html_root_attributes :: "proxy_env \<Rightarrow> string \<Rightarrow> string \<Rightarrow> string" where
  "rewrite_html_root_attributes env s prefix = insert_prefix_at_matches (pe_root_attributes env) s prefix"

definition rewrite_javascript_imports :: "proxy_env \<Rightarrow> string \<Rightarrow> string \<Rightarrow> string" where
  "rewrite_javascript_imports env s prefix = insert_prefix_at_matches (pe_imports env) s prefix"

definition rewrite_urls :: "proxy_env \<Rightarrow> string \<Rightarrow> string \<Rightarrow> string \<Rightarrow> string \<Rightarrow> string" where
  "rewrite_urls env text prefix media upstream =
     (if media = ''text/html''
      then rewrite_javascript_imports env (rewrite_html_root_attributes env text prefix) prefix
      else if contains_sub media ''javascript'' \<and> upstream = ''/@vite/client''
      then restore_vite_hmr_module_ids (rewrite_quoted_root_paths text prefix) prefix
      else if contains_sub media ''javascript'' then rewrite_javascript_imports env text prefix
      else if media = ''text/css'' then rewrite_unquoted_root_marker text ''url('' prefix
      else if media = ''application/manifest+json'' then rewrite_quoted_root_paths text prefix
      else text)"

text \<open>A double-quoted attribute, and the two script elements of the bootstrap.\<close>

definition quoted :: "string \<Rightarrow> string" where
  "quoted s = CHR 0x22 # s @ [CHR 0x22]"

definition bootstrap_markup :: "proxy_env \<Rightarrow> string \<Rightarrow> string" where
  "bootstrap_markup env prefix =
     ''<meta name='' @ quoted ''dire-agent-proxy-prefix'' @ '' content='' @ quoted prefix @ ''>'' @
     ''<script src='' @ quoted (prefix @ ''/'' @ project_proxy_bootstrap) @ ''></script>'' @
     ''<script>'' @ replace_sub (- 1) ''</script'' (''<'' @ [CHR 0x5C] @ ''/script'') (pe_script env) @ ''</script>''"

text \<open>Where the bootstrap goes: behind the first head tag, found in the lower case of the page but cut from
  the page itself. \<open>None\<close> is the panic of a slice whose bound lies outside the page.\<close>

definition insert_bootstrap :: "(string \<Rightarrow> string) \<Rightarrow> string \<Rightarrow> string \<Rightarrow> string option" where
  "insert_bootstrap lower bootstrap text =
     (case find_sub ''<head'' (lower text) of
        None \<Rightarrow> Some (bootstrap @ text)
      | Some head \<Rightarrow>
          if length text < head then None
          else (case find_sub ''>'' (drop head text) of
                  None \<Rightarrow> Some (bootstrap @ text)
                | Some close \<Rightarrow> Some (take (head + close + 1) text @ bootstrap @ drop (head + close + 1) text)))"

definition rewrite_proxy_text ::
  "proxy_env \<Rightarrow> string \<Rightarrow> string \<Rightarrow> string \<Rightarrow> string \<Rightarrow> bool \<Rightarrow> string option" where
  "rewrite_proxy_text env contents prefix media upstream urls =
     (let text = (if urls then rewrite_urls env contents prefix media upstream else contents)
      in if media \<noteq> ''text/html'' then Some text
         else insert_bootstrap (pe_lower env) (bootstrap_markup env prefix) text)"

record proxy_response =
  px_status :: int
  px_body :: "(string, string) result option"
  px_header :: header

definition media_type_of :: "proxy_env \<Rightarrow> string \<Rightarrow> string" where
  "media_type_of env s = (case pe_media_type env s of Inl e \<Rightarrow> [] | Inr t \<Rightarrow> t)"

text \<open>The body is \<open>None\<close> when there is none and \<open>Inl\<close> when reading or closing it fails. The outer
  \<open>None\<close> is a panic, the inner \<open>Inl\<close> the error that becomes a bad gateway.\<close>

definition rewrite_project_response_body ::
  "proxy_env \<Rightarrow> string \<Rightarrow> string \<Rightarrow> proxy_mode \<Rightarrow> proxy_response \<Rightarrow> (string, proxy_response) result option" where
  "rewrite_project_response_body env prefix upstream mode r =
     (let media = media_type_of env (header_get ''Content-Type'' (px_header r));
          encoding = trim_space (header_get ''Content-Encoding'' (px_header r))
      in if px_status r = 101 \<or> px_body r = None \<or>
            \<not> rewritable_proxy_content_type env (header_get ''Content-Type'' (px_header r)) then Some (Inr r)
         else if mode = Preserve_Prefix \<and> media \<noteq> ''text/html'' then Some (Inr r)
         else if has_prefix upstream ''/_next/'' \<and> media \<noteq> ''text/html'' \<and> media \<noteq> ''text/css'' then Some (Inr r)
         else if encoding \<noteq> [] \<and> \<not> equal_fold_ascii encoding ''identity'' then Some (Inr r)
         else (case the (px_body r) of
                 Inl e \<Rightarrow> Some (Inl e)
               | Inr contents \<Rightarrow>
                   if max_project_rewrite_bytes < length contents then Some (Inr r)
                   else map_option (\<lambda>text. Inr
                          (r\<lparr>px_body := Some (Inr text),
                             px_header := header_del ''Etag'' (header_del ''Content-Md5'' (header_del ''Content-Encoding''
                               (header_set ''Content-Length'' (show_nat (length text)) (px_header r))))\<rparr>))
                          (rewrite_proxy_text env contents prefix media upstream (mode = Strip_Prefix))))"

section \<open>The handler\<close>

text \<open>A request as the server got it, its hop-by-hop headers already removed by the reverse proxy of the
  standard library: \<open>hq_peer\<close> is the address of the connection, \<open>hq_host_port\<close> the port of the host.\<close>

record proxy_request =
  hq_method :: string
  hq_path :: string
  hq_query :: string
  hq_uri :: string
  hq_host :: string
  hq_host_port :: "string option"
  hq_tls :: bool
  hq_peer :: "string option"
  hq_header :: header

record forward =
  fw_address :: string
  fw_path :: string
  fw_header :: header

datatype proxy_answer =
    Answer_Error int string
  | Answer_Redirect string
  | Answer_Script "string option"
  | Answer_Forward forward proxy_mode

definition request_origin :: "proxy_request \<Rightarrow> string" where
  "request_origin rq = (if hq_tls rq then ''https'' else ''http'') @ ''://'' @ hq_host rq"

record probe =
  pb_status :: int
  pb_powered_by :: string
  pb_vary :: string

text \<open>The modes of the ports already probed; the first mode stored for a port stays.\<close>

definition detect_project_proxy_mode ::
  "(string, probe) result \<Rightarrow> nat \<Rightarrow> (nat \<rightharpoonup> proxy_mode) \<Rightarrow> proxy_mode \<times> (nat \<rightharpoonup> proxy_mode)" where
  "detect_project_proxy_mode probed port modes =
     (case modes port of
        Some mode \<Rightarrow> (mode, modes)
      | None \<Rightarrow>
          let mode = (case probed of
                 Inl e \<Rightarrow> Strip_Prefix
               | Inr p \<Rightarrow>
                   if pb_status p < 400 \<and>
                      (contains_sub (to_lower (pb_powered_by p)) ''next.js'' \<or>
                       contains_sub (to_lower (pb_vary p)) ''next-router'' \<or> contains_sub (to_lower (pb_vary p)) ''rsc'')
                   then Preserve_Prefix else Strip_Prefix)
          in (mode, modes(port \<mapsto> mode)))"

definition forwarded_headers :: "proxy_request \<Rightarrow> string \<Rightarrow> header" where
  "forwarded_headers rq prefix =
     (let h0 = fold header_del [''Forwarded'', ''X-Forwarded-For'', ''X-Forwarded-Host'', ''X-Forwarded-Proto'',
                 ''X-Forwarded-Prefix''] (hq_header rq);
          h1 = (case hq_peer rq of None \<Rightarrow> h0 | Some a \<Rightarrow> header_set ''X-Forwarded-For'' a h0);
          h2 = header_set ''X-Forwarded-Host'' (hq_host rq) h1;
          h3 = header_set ''X-Forwarded-Proto'' (if hq_tls rq then ''https'' else ''http'') h2;
          h4 = header_set ''X-Forwarded-Uri'' (hq_uri rq) (header_set ''X-Forwarded-Prefix'' prefix h3)
      in case hq_host_port rq of None \<Rightarrow> h4 | Some port \<Rightarrow> header_set ''X-Forwarded-Port'' port h4)"

definition upstream_path :: "proxy_mode \<Rightarrow> proxy_route \<Rightarrow> string" where
  "upstream_path mode r =
     (if mode = Preserve_Prefix
      then pr_prefix r @ (if pr_upstream r \<noteq> ''/'' then pr_upstream r else [])
      else pr_upstream r)"

definition forward_request :: "proxy_request \<Rightarrow> proxy_route \<Rightarrow> proxy_mode \<Rightarrow> forward" where
  "forward_request rq r mode =
     (let address = ''127.0.0.1:'' @ show_nat (pr_port r);
          target = ''http://'' @ address;
          origin = request_origin rq;
          h1 = rewrite_project_request_header ''Origin'' origin target (pr_prefix r) (forwarded_headers rq (pr_prefix r));
          h2 = rewrite_project_request_header ''Referer'' origin
                 (if mode = Preserve_Prefix then target @ pr_prefix r else target) (pr_prefix r) h1
      in \<lparr>fw_address = address, fw_path = upstream_path mode r,
          fw_header = fold header_del [''Accept-Encoding'', ''If-Modified-Since'', ''If-None-Match''] h2\<rparr>)"

definition serve_project_proxy_bootstrap :: "string \<Rightarrow> proxy_request \<Rightarrow> proxy_answer" where
  "serve_project_proxy_bootstrap script rq =
     (if hq_method rq \<noteq> ''GET'' \<and> hq_method rq \<noteq> ''HEAD'' then Answer_Error 405 ''method not allowed''
      else Answer_Script (if hq_method rq = ''GET'' then Some script else None))"

definition handle_project_server ::
  "proxy_env \<Rightarrow> nat \<Rightarrow> (string, probe) result \<Rightarrow> (nat \<rightharpoonup> proxy_mode) \<Rightarrow> proxy_request \<Rightarrow>
   proxy_answer \<times> (nat \<rightharpoonup> proxy_mode)" where
  "handle_project_server env blocked probed modes rq =
     (case parse_project_proxy_route (hq_path rq) of
        Inl e \<Rightarrow> (Answer_Error 400 e, modes)
      | Inr r \<Rightarrow>
          if pr_needs_slash r
          then (Answer_Redirect (pr_prefix r @ ''/'' @ (if hq_query rq \<noteq> [] then ''?'' @ hq_query rq else [])), modes)
          else if blocked \<noteq> 0 \<and> pr_port r = blocked
          then (Answer_Error 403 ''refusing to proxy to the Dire Agent daemon port'', modes)
          else if pr_upstream r = ''/'' @ project_proxy_bootstrap
          then (serve_project_proxy_bootstrap (pe_script env) rq, modes)
          else (case detect_project_proxy_mode probed (pr_port r) modes of
                  (mode, modes') \<Rightarrow> (Answer_Forward (forward_request rq r mode) mode, modes')))"

text \<open>The answer of the project's server, as \<open>ModifyResponse\<close> passes it on.\<close>

definition modify_response ::
  "proxy_env \<Rightarrow> proxy_request \<Rightarrow> proxy_route \<Rightarrow> proxy_mode \<Rightarrow> proxy_response \<Rightarrow> (string, proxy_response) result option" where
  "modify_response env rq r mode response =
     rewrite_project_response_body env (pr_prefix r) (pr_upstream r) mode
       (response\<lparr>px_header := rewrite_project_response_headers env (''http://127.0.0.1:'' @ show_nat (pr_port r))
          (request_origin rq) (pr_prefix r) (pr_port r) (px_header response)\<rparr>)"

end
