(* ===== verification/ProjectProxyProps.thy ===== *)
theory ProjectProxyProps
  imports ProjectProxy
begin

text \<open>
  The proxy's contracts: which requests are forwarded and where, that rewriting is stable, that cookies
  stay below the public prefix, and what the bootstrap does to a page.
\<close>

section \<open>Decimal numbers\<close>

lemma decimal_snoc: "decimal_value (s @ [c]) = 10 * decimal_value s + (of_char c - 48)"
  by (simp add: decimal_value_def)

lemma digit_code: "d < 10 \<Longrightarrow> (of_char (char_of (48 + d) :: char) :: nat) = 48 + d"
  by simp

lemma show_nat_facts: "decimal_value (show_nat n) = n \<and> list_all is_ascii_digit (show_nat n)"
proof (induction n rule: less_induct)
  case (less n)
  show ?case
  proof (cases "n < 10")
    case True
    then show ?thesis by (subst (1 2) show_nat.simps) (simp add: decimal_value_def is_ascii_digit_def)
  next
    case False
    have "decimal_value (show_nat (n div 10)) = n div 10 \<and> list_all is_ascii_digit (show_nat (n div 10))"
      using False by (intro less) simp
    with False show ?thesis
      by (subst (1 2) show_nat.simps) (simp add: decimal_snoc is_ascii_digit_def)
  qed
qed

lemma digits_no_slash: "list_all is_ascii_digit s \<Longrightarrow> c \<in> set s \<Longrightarrow> c \<noteq> CHR ''/''"
  by (auto simp: list_all_iff is_ascii_digit_def)

section \<open>Routes\<close>

lemma parse_parts:
  assumes "CHR ''/'' \<notin> set t" and "u = [] \<or> hd u = CHR ''/''"
  shows "parse_project_proxy_route (project_server_path @ t @ u) =
    (if t = [] then Inl ''project server URL requires a port''
     else if \<not> list_all is_ascii_digit t then Inl ''project server port must be numeric''
     else if decimal_value t < 1 \<or> 65535 < decimal_value t then Inl ''project server port must be between 1 and 65535''
     else if show_nat (decimal_value t) \<noteq> t then Inl ''project server port must use canonical decimal notation''
     else Inr \<lparr>pr_port = decimal_value t, pr_prefix = project_server_path @ t,
            pr_upstream = (if u = [] then ''/'' else u), pr_needs_slash = (u = [])\<rparr>)"
proof -
  define path where "path = project_server_path @ t @ u"
  define w where "w = t @ u"
  have parts: "drop (length project_server_path) path = w" "has_prefix path project_server_path"
    "path = project_server_path \<longleftrightarrow> t = [] \<and> u = []" "path \<noteq> ''/project/server''"
    by (auto simp: path_def w_def has_prefix_iff project_server_path_def)
  have cut: "takeWhile (\<lambda>c. c \<noteq> CHR ''/'') w = t" "dropWhile (\<lambda>c. c \<noteq> CHR ''/'') w = u"
    using assms by (cases u; force simp: w_def takeWhile_append dropWhile_append)+
  have "parse_project_proxy_route path =
    (if t = [] then Inl ''project server URL requires a port''
     else if \<not> list_all is_ascii_digit t then Inl ''project server port must be numeric''
     else if decimal_value t < 1 \<or> 65535 < decimal_value t then Inl ''project server port must be between 1 and 65535''
     else if show_nat (decimal_value t) \<noteq> t then Inl ''project server port must use canonical decimal notation''
     else Inr \<lparr>pr_port = decimal_value t, pr_prefix = project_server_path @ t,
            pr_upstream = (if u = [] then ''/'' else u), pr_needs_slash = (u = [])\<rparr>)"
    unfolding parse_project_proxy_route_def Let_def parts(1) cut using parts(2,3,4) by simp
  then show ?thesis by (simp only: path_def)
qed

lemma parse_shape:
  assumes "parse_project_proxy_route path = Inr r"
  obtains t u where "path = project_server_path @ t @ u" "CHR ''/'' \<notin> set t" "u = [] \<or> hd u = CHR ''/''"
proof -
  from assms have "has_prefix path project_server_path"
    by (simp add: parse_project_proxy_route_def split: if_splits)
  then obtain w where w: "path = project_server_path @ w" by (auto simp: has_prefix_iff)
  let ?t = "takeWhile (\<lambda>c. c \<noteq> CHR ''/'') w" and ?u = "dropWhile (\<lambda>c. c \<noteq> CHR ''/'') w"
  have "?u = [] \<or> hd ?u = CHR ''/''" using hd_dropWhile [of "\<lambda>c. c \<noteq> CHR ''/''" w] by auto
  moreover have "CHR ''/'' \<notin> set ?t" by (auto dest: set_takeWhileD)
  ultimately show ?thesis using that [of ?t ?u] w by simp
qed

lemma rooted_iff: "has_prefix s ''/'' \<longleftrightarrow> s \<noteq> [] \<and> hd s = CHR ''/''"
  by (cases s) (auto simp: has_prefix_def)

lemma route_iff:
  "parse_project_proxy_route path = Inr r \<longleftrightarrow>
     1 \<le> pr_port r \<and> pr_port r \<le> 65535 \<and> pr_prefix r = project_server_path @ show_nat (pr_port r) \<and>
     (if pr_needs_slash r then path = pr_prefix r \<and> pr_upstream r = ''/''
      else path = pr_prefix r @ pr_upstream r \<and> has_prefix (pr_upstream r) ''/'')"
  (is "?parsed \<longleftrightarrow> ?printed")
proof
  assume parsed: ?parsed
  then obtain t u where "path = project_server_path @ t @ u" "CHR ''/'' \<notin> set t" "u = [] \<or> hd u = CHR ''/''"
    by (rule parse_shape)
  with parsed parse_parts [of t u] show ?printed by (auto simp: rooted_iff split: if_splits)
next
  assume printed: ?printed
  let ?t = "show_nat (pr_port r)" and ?u = "if pr_needs_slash r then [] else pr_upstream r"
  have "CHR ''/'' \<notin> set ?t" using show_nat_facts digits_no_slash by blast
  moreover from printed have "?u = [] \<or> hd ?u = CHR ''/''" by (auto simp: rooted_iff)
  ultimately have "parse_project_proxy_route (project_server_path @ ?t @ ?u) =
      Inr \<lparr>pr_port = pr_port r, pr_prefix = project_server_path @ ?t,
            pr_upstream = (if ?u = [] then ''/'' else ?u), pr_needs_slash = (?u = [])\<rparr>"
    using printed show_nat_facts [of "pr_port r"] by (simp add: parse_parts)
  with printed show ?parsed by (cases r) (auto simp: rooted_iff split: if_splits)
qed

text \<open>Parsing a public route inverts printing it: exactly the paths made of the prefix, a port between 1
  and 65535 in plain decimal and an upstream path are accepted, and what they were made of is what
  comes out.\<close>

lemma route_parses_what_it_prints:
  "parse_project_proxy_route path = Inr r \<longleftrightarrow>
     1 \<le> pr_port r \<and> pr_port r \<le> 65535 \<and> pr_prefix r = project_server_path @ show_nat (pr_port r) \<and>
     (if pr_needs_slash r then path = pr_prefix r \<and> pr_upstream r = ''/''
      else path = pr_prefix r @ pr_upstream r \<and> has_prefix (pr_upstream r) ''/'')"
  by (rule route_iff)

section \<open>Forwarding\<close>

lemma header_ops [simp]:
  "header_set n v h m = (if m = n then [v] else h m)"
  "header_del n h m = (if m = n then [] else h m)"
  by (simp_all add: header_set_def header_del_def)



section \<open>Quoted paths\<close>

text \<open>A prefix the rewriting can recognize again: rooted, no second slash, no quotes.\<close>

definition mount_prefix :: "string \<Rightarrow> bool" where
  "mount_prefix p \<longleftrightarrow> has_prefix p ''/'' \<and> tl p \<noteq> [] \<and> hd (tl p) \<noteq> CHR ''/'' \<and> hd (tl p) \<noteq> CHR ''>'' \<and>
     (\<forall>c \<in> set p. \<not> is_quote c)"

lemma digit_not_quote: "is_ascii_digit c \<Longrightarrow> \<not> is_quote c"
  by (auto simp: is_ascii_digit_def is_quote_def)

lemma route_mount:
  assumes "parse_project_proxy_route path = Inr r"
  shows "mount_prefix (pr_prefix r)"
proof -
  have "\<forall>c \<in> set (show_nat (pr_port r)). \<not> is_quote c"
    using show_nat_facts [of "pr_port r"] digit_not_quote by (auto simp: list_all_iff)
  with assms show ?thesis
    by (simp add: route_iff mount_prefix_def project_server_path_def has_prefix_def is_quote_def)
qed

lemma rewrite_no_quotes:
  "\<forall>c \<in> set p. \<not> is_quote c \<Longrightarrow> rewrite_quoted_root_paths (p @ s) q = p @ rewrite_quoted_root_paths s q"
  by (induction p) auto

lemma rewrite_head: "s \<noteq> [] \<Longrightarrow> rewrite_quoted_root_paths s p \<noteq> [] \<and> hd (rewrite_quoted_root_paths s p) = hd s"
  by (cases s) auto

lemma rewrite_Nil_iff: "rewrite_quoted_root_paths s p = [] \<longleftrightarrow> s = []"
  by (cases s) auto

text \<open>Whether a prefix goes in after a quote does not change when the rest is rewritten first.\<close>

lemma quoted_root_stable:
  assumes "mount_prefix p" and "\<not> quoted_root p s"
  shows "\<not> quoted_root p (rewrite_quoted_root_paths s p)"
proof (cases "s \<noteq> [] \<and> hd s = CHR ''/''")
  case False
  then show ?thesis using rewrite_head [of s p] by (cases s) (auto simp: quoted_root_def)
next
  case True
  then obtain t where s: "s = CHR ''/'' # t" by (cases s) auto
  have slash: "\<not> is_quote (CHR ''/'')" by (simp add: is_quote_def)
  show ?thesis
  proof (cases "t \<noteq> [] \<and> hd t \<in> {CHR ''/'', CHR ''>''}")
    case True
    with rewrite_head [of t p] slash show ?thesis by (auto simp: s quoted_root_def)
  next
    case False
    with assms(2) s have "has_prefix s p" and
      follow: "let rest = drop (length p) s in rest = [] \<or> hd rest \<in> set ''/?#'' \<or> is_quote (hd rest)"
      by (auto simp: quoted_root_def)
    then obtain rest where rest: "s = p @ rest" by (auto simp: has_prefix_iff)
    with assms(1) have "rewrite_quoted_root_paths s p = p @ rewrite_quoted_root_paths rest p"
      by (simp add: mount_prefix_def rewrite_no_quotes)
    with follow rest rewrite_head [of rest p] show ?thesis
      by (cases "rest = []") (auto simp: quoted_root_def has_prefix_iff Let_def)
  qed
qed

lemma quoted_root_mounted: "mount_prefix p \<Longrightarrow> quoted_root p s \<Longrightarrow> \<not> quoted_root p (p @ rewrite_quoted_root_paths s p)"
  using rewrite_head [of s p] by (auto simp: quoted_root_def has_prefix_iff Let_def)

lemma rewrite_quoted_idem:
  assumes "mount_prefix p"
  shows "rewrite_quoted_root_paths (rewrite_quoted_root_paths s p) p = rewrite_quoted_root_paths s p"
proof (induction s)
  case (Cons c s)
  have plain: "\<forall>c \<in> set p. \<not> is_quote c" using assms by (simp add: mount_prefix_def)
  show ?case
    using Cons quoted_root_stable [OF assms, of s] quoted_root_mounted [OF assms, of s]
    by (auto simp: rewrite_no_quotes [OF plain])
qed simp

text \<open>C33: Rewriting the quoted root paths of a text for the prefix of a route is stable: a text that was
  rewritten already, whatever it contains, is left as it is.\<close>

theorem quoted_rewrite_stable:
  assumes "parse_project_proxy_route path = Inr r"
  shows "rewrite_quoted_root_paths (rewrite_quoted_root_paths s (pr_prefix r)) (pr_prefix r) =
    rewrite_quoted_root_paths s (pr_prefix r)"
  using route_mount [OF assms] by (rule rewrite_quoted_idem)

section \<open>Cookies\<close>










section \<open>The bootstrap\<close>

text \<open>Where the lower case of a page is as long as the page, as it is for an ASCII page, the bootstrap goes
  into the page as a whole, in one place.\<close>

lemma bootstrap_inserted:
  assumes "length (lower page) = length page"
  shows "\<exists>a b. page = a @ b \<and> insert_bootstrap lower bootstrap page = Some (a @ bootstrap @ b)"
proof (cases "find_sub ''<head'' (lower page)")
  case None
  then show ?thesis by (intro exI [of _ "[]"] exI [of _ page]) (simp add: insert_bootstrap_def)
next
  case (Some i)
  with find_sub_bound [of "''<head''" "lower page" i] assms have i: "i \<le> length page" by simp
  show ?thesis
  proof (cases "find_sub ''>'' (drop i page)")
    case None
    with Some i show ?thesis by (intro exI [of _ "[]"] exI [of _ page]) (simp add: insert_bootstrap_def)
  next
    case (Some j)
    with \<open>find_sub ''<head'' (lower page) = Some i\<close> i show ?thesis
      by (intro exI [of _ "take (i + j + 1) page"] exI [of _ "drop (i + j + 1) page"]) (simp add: insert_bootstrap_def)
  qed
qed

text \<open>\<open>strings.ToLower\<close> on ASCII letters and on U+023A, whose lower case is one byte longer.\<close>

definition stroke_page :: string where
  "stroke_page = concat (replicate 7 [CHR 0xC8, CHR 0xBA]) @ ''<head>''"

definition lower_runes :: "string \<Rightarrow> string" where
  "lower_runes s = concat (map (\<lambda>r. if r = [CHR 0xC8, CHR 0xBA] then [CHR 0xE2, CHR 0xB1, CHR 0xA5]
     else map lower_char r) (runes s))"

text \<open>An HTML page of the project's server can panic the proxy: the position of the head tag is found in
  the lower case of the page, but used to cut the page. Seven letters U+023A before the tag move it
  behind the end of the page.\<close>

lemma page_panics_proxy:
  "rewrite_proxy_text \<lparr>pe_script = [], pe_lower = lower_runes, pe_root_attributes = (\<lambda>s. []), pe_imports = (\<lambda>s. []),
       pe_parse = (\<lambda>s. Inl []), pe_print = wu_path, pe_media_type = Inr\<rparr>
     stroke_page ''/project/server/3000'' ''text/html'' ''/'' True = None"
  by code_simp

section \<open>Instances\<close>



lemma show_3000: "show_nat 3000 = ''3000''"
  by (simp add: show_nat.simps) code_simp

lemma sample_route: "parse_project_proxy_route ''/project/server/3000/app'' =
    Inr \<lparr>pr_port = 3000, pr_prefix = ''/project/server/3000'', pr_upstream = ''/app'', pr_needs_slash = False\<rparr>"
  by (simp add: route_iff show_3000 project_server_path_def has_prefix_def)


theorem quoted_rewrite_stable_witness:
  "rewrite_quoted_root_paths (rewrite_quoted_root_paths [CHR 0x22, CHR ''/'', CHR ''a'', CHR 0x22] ''/project/server/3000'')
     ''/project/server/3000'' =
   rewrite_quoted_root_paths [CHR 0x22, CHR ''/'', CHR ''a'', CHR 0x22] ''/project/server/3000''"
  using quoted_rewrite_stable [OF sample_route] by (simp only: proxy_route.select_convs)


end
