(* ===== verification/DaemonHttp.thy ===== *)
theory DaemonHttp
  imports RuntimeFile FileTree GoText ThreadStore AgentLoop
begin

text \<open>
  The HTTP side of the daemon (\<open>daemon/server.go\<close>): routing, health, authenticated shutdown, the web
  interface's files and attachments; and the images of a prompt (\<open>daemon/attachments.go\<close>), decoded, kept
  below the project's folder and served from there. Base 64 and content types are arguments.
\<close>

section \<open>Routing\<close>

datatype http_handler =
    Health_Handler | Shutdown_Handler | Socket_Handler | Attachment_Handler | Terminal_Handler
  | Project_Server_Handler | Web_Handler

record http_server =
  hs_has_manager :: bool
  hs_has_web :: bool
  hs_proxy_enabled :: bool
  hs_health :: health
  hs_control_token :: string
  hs_has_shutdown :: bool

text \<open>The patterns of the \<open>ServeMux\<close>, for a path it does not redirect to a cleaner one.\<close>

definition server_handler :: "http_server \<Rightarrow> string \<Rightarrow> http_handler option" where
  "server_handler s path =
     (if path = ''/healthz'' then Some Health_Handler
      else if path = ''/control/shutdown'' \<and> hs_control_token s \<noteq> [] \<and> hs_has_shutdown s then Some Shutdown_Handler
      else if path = ''/ws'' then Some Socket_Handler
      else if has_prefix path ''/attachments/'' then Some Attachment_Handler
      else if path = ''/terminal'' then Some Terminal_Handler
      else if hs_proxy_enabled s \<and> (path = ''/project/server'' \<or> has_prefix path ''/project/server/'')
      then Some Project_Server_Handler
      else if hs_has_web s then Some Web_Handler else None)"

section \<open>Health and shutdown\<close>

definition handle_health :: "int \<Rightarrow> string \<Rightarrow> http_server \<Rightarrow> string \<Rightarrow> (int, health) result" where
  "handle_health pid version s meth =
     (if meth \<noteq> ''GET'' \<and> meth \<noteq> ''HEAD'' then Inl 405
      else
        let h = hs_health s;
            h1 = (if hl_service h = [] then h\<lparr>hl_service := ''dire-agent''\<rparr> else h);
            h2 = (if hl_status h1 = [] then h1\<lparr>hl_status := ''ok''\<rparr> else h1);
            h3 = (if hl_version h2 = [] then h2\<lparr>hl_version := version\<rparr> else h2)
        in Inr (if hl_pid h3 \<le> 0 then h3\<lparr>hl_pid := pid\<rparr> else h3))"

text \<open>The status, and whether the shutdown function is called.\<close>

definition handle_shutdown :: "http_server \<Rightarrow> string \<Rightarrow> string \<Rightarrow> int \<times> bool" where
  "handle_shutdown s meth authorization =
     (if meth \<noteq> ''POST'' then (405, False)
      else
        let provided = trim_space (trim_prefix authorization ''Bearer '')
        in if provided = authorization \<or> provided \<noteq> hs_control_token s then (401, False) else (202, True))"

section \<open>The web interface\<close>

text \<open>\<open>fs.ValidPath\<close>\<close>

definition valid_fs_path :: "string \<Rightarrow> bool" where
  "valid_fs_path name \<longleftrightarrow> utf8_valid name \<and>
     (name = ''.'' \<or> list_all (\<lambda>c. c \<noteq> [] \<and> c \<noteq> ''.'' \<and> c \<noteq> ''..'') (split_char (CHR ''/'') name))"

definition web_ui_path :: "string \<Rightarrow> string option" where
  "web_ui_path path =
     (if path = [] \<or> path = ''/'' then Some ''index.html''
      else let name = trim_prefix path ''/'' in if valid_fs_path name then Some name else None)"

definition accepts_html :: "string \<Rightarrow> bool" where
  "accepts_html accept \<longleftrightarrow> accept = [] \<or> contains_sub accept ''text/html'' \<or> contains_sub accept ''*/*''"

definition path_ext :: "string \<Rightarrow> string" where
  "path_ext s =
     (let b = rev (takeWhile (\<lambda>c. c \<noteq> CHR ''/'') (rev s))
      in if CHR ''.'' \<in> set b then CHR ''.'' # rev (takeWhile (\<lambda>c. c \<noteq> CHR ''.'') (rev b)) else [])"

datatype web_answer = Web_Status int | Web_File string string

text \<open>The embedded files: the kind of each name (\<open>Some True\<close> is a regular file) and its contents.\<close>

record web_fs =
  wf_stat :: "string \<Rightarrow> bool option"
  wf_readable :: "string \<Rightarrow> bool"

definition serve_web_ui_file :: "web_fs \<Rightarrow> string \<Rightarrow> bool \<Rightarrow> web_answer" where
  "serve_web_ui_file fs name fallback =
     (if \<not> wf_readable fs name then Web_Status 404
      else if wf_stat fs name \<noteq> Some True then Web_Status 404
      else Web_File name
        (if name = ''index.html'' \<or> fallback then ''no-cache''
         else if has_prefix name ''assets/'' then ''public, max-age=31536000, immutable''
         else ''public, max-age=3600''))"

definition handle_web_ui :: "web_fs \<Rightarrow> string \<Rightarrow> string \<Rightarrow> string \<Rightarrow> web_answer" where
  "handle_web_ui fs meth path accept =
     (if meth \<noteq> ''GET'' \<and> meth \<noteq> ''HEAD'' then Web_Status 405
      else (case web_ui_path path of
              None \<Rightarrow> Web_Status 404
            | Some name \<Rightarrow>
                (case wf_stat fs name of
                   Some True \<Rightarrow> serve_web_ui_file fs name False
                 | Some False \<Rightarrow> Web_Status 404
                 | None \<Rightarrow>
                     if has_prefix name ''assets/'' \<or> path_ext name \<noteq> [] \<or> \<not> accepts_html accept then Web_Status 404
                     else serve_web_ui_file fs ''index.html'' True)))"

section \<open>Serving attachments\<close>

text \<open>\<open>os.Lstat\<close>: links on the way are followed, one at the end is not.\<close>

definition lstat_node :: "tree \<Rightarrow> string \<Rightarrow> node option" where
  "lstat_node fs p =
     (let cs = path_comps p
      in if cs = [] then Some Dir
         else (case resolve fs 40 [] (butlast cs) of
                 None \<Rightarrow> None
               | Some d \<Rightarrow> if node_at fs d = Some Dir then node_at fs (d @ [last cs]) else None))"

definition safe_attachment_directory :: "tree \<Rightarrow> string \<Rightarrow> bool" where
  "safe_attachment_directory fs p \<longleftrightarrow> lstat_node fs p = Some Dir"

fun find_attachment :: "tree \<Rightarrow> string \<Rightarrow> string \<Rightarrow> string list \<Rightarrow> string option" where
  "find_attachment fs root name [] = None"
| "find_attachment fs root name (directory # directories) =
     (let namespace = join_path [root, directory]; attachments = join_path [namespace, ''attachments'']
      in if \<not> safe_attachment_directory fs namespace \<or> \<not> safe_attachment_directory fs attachments
         then find_attachment fs root name directories
         else (case lstat_node fs (join_path [attachments, name]) of
                 Some (File content) \<Rightarrow> Some (join_path [attachments, name])
               | _ \<Rightarrow> find_attachment fs root name directories))"

definition existing_attachment_path :: "tree \<Rightarrow> string \<Rightarrow> string \<Rightarrow> string option" where
  "existing_attachment_path fs root name = find_attachment fs root name [''.dire-agent'', ''.goagent'']"

datatype attachment_answer = Attachment_Status int | Attachment_Served string string string

text \<open>\<open>project\<close> finds a project's folder by id, \<open>content_type\<close> tells the type from the path's extension
  or the first bytes.\<close>

definition handle_attachment ::
  "http_server \<Rightarrow> (string \<Rightarrow> string option) \<Rightarrow> (string \<Rightarrow> string \<Rightarrow> string) \<Rightarrow> tree \<Rightarrow> string \<Rightarrow> string \<Rightarrow>
   attachment_answer" where
  "handle_attachment s project content_type fs meth path =
     (if \<not> hs_has_manager s then Attachment_Status 503
      else if meth \<noteq> ''GET'' \<and> meth \<noteq> ''HEAD'' then Attachment_Status 405
      else (case split_char (CHR ''/'') (trim_prefix path ''/attachments/'') of
              [i, name] \<Rightarrow>
                if i = [] \<or> name = [] \<or> base_path name \<noteq> name then Attachment_Status 404
                else (case project i of
                        None \<Rightarrow> Attachment_Status 404
                      | Some cwd \<Rightarrow>
                          (case existing_attachment_path fs cwd name of
                             None \<Rightarrow> Attachment_Status 404
                           | Some p \<Rightarrow>
                               (case read_file fs p of
                                  None \<Rightarrow> Attachment_Status 404
                                | Some content \<Rightarrow>
                                    if has_prefix (content_type p content) ''image/''
                                    then Attachment_Served p (content_type p content) content
                                    else Attachment_Status 415)))
            | _ \<Rightarrow> Attachment_Status 404))"

section \<open>Images of a prompt\<close>

record image_attachment =
  ia_name :: string
  ia_mime_type :: string
  ia_data :: string
  ia_file :: string
  ia_size :: nat

record decoded_image =
  di_name :: string
  di_mime_type :: string
  di_data :: string

definition max_image_attachments :: nat where "max_image_attachments = 4"
definition max_image_bytes :: nat where "max_image_bytes = 5242880"
definition max_image_total_bytes :: nat where "max_image_total_bytes = 10485760"

definition image_extension :: "string \<Rightarrow> string option" where
  "image_extension mime =
     (if mime = ''image/png'' then Some ''.png''
      else if mime = ''image/jpeg'' then Some ''.jpg''
      else if mime = ''image/webp'' then Some ''.webp''
      else if mime = ''image/gif'' then Some ''.gif'' else None)"

text \<open>The base 64 text of an attachment: a data URL is cut behind its first comma.\<close>

definition encoded_part :: "string \<Rightarrow> string" where
  "encoded_part data =
     (let s = trim_space data
      in if has_prefix s ''data:'' \<and> CHR '','' \<in> set s then tl (dropWhile (\<lambda>c. c \<noteq> CHR '','') s) else s)"

definition decode_image ::
  "(string \<Rightarrow> string option) \<Rightarrow> image_attachment \<Rightarrow> nat \<Rightarrow> (string, decoded_image) result" where
  "decode_image decode a before =
     (let mime = to_lower (trim_space (ia_mime_type a));
          name = (if trim_space (ia_name a) = [] then ''pasted-image'' else trim_space (ia_name a))
      in if image_extension mime = None then Inl ''unsupported image type''
         else (case decode (encoded_part (ia_data a)) of
                 None \<Rightarrow> Inl ''image data is not valid base64''
               | Some data \<Rightarrow>
                   if data = [] then Inl ''image attachment is empty''
                   else if max_image_bytes < length data then Inl ''each image must be 5 MiB or smaller''
                   else if max_image_total_bytes < before + length data
                   then Inl ''image attachments must total 10 MiB or less''
                   else if 200 < rune_count name then Inl ''image name must be 200 characters or fewer''
                   else Inr \<lparr>di_name = name, di_mime_type = mime, di_data = data\<rparr>))"

fun decode_images ::
  "(string \<Rightarrow> string option) \<Rightarrow> image_attachment list \<Rightarrow> nat \<Rightarrow> (string, decoded_image list) result" where
  "decode_images decode [] before = Inr []"
| "decode_images decode (a # as) before =
     bind_result (decode_image decode a before) (\<lambda>d.
       bind_result (decode_images decode as (before + length (di_data d))) (\<lambda>ds. Inr (d # ds)))"

definition decode_image_attachments ::
  "(string \<Rightarrow> string option) \<Rightarrow> image_attachment list \<Rightarrow> (string, decoded_image list) result" where
  "decode_image_attachments decode as =
     (if max_image_attachments < length as then Inl ''at most 4 images may be attached''
      else decode_images decode as 0)"

definition unsafe_attachment_dir :: "tree \<Rightarrow> string \<Rightarrow> bool" where
  "unsafe_attachment_dir fs p \<longleftrightarrow> (case lstat_node fs p of None \<Rightarrow> False | Some n \<Rightarrow> n \<noteq> Dir)"

definition make_sandbox_attachment_directory :: "tree \<Rightarrow> string \<Rightarrow> string \<Rightarrow> (string, tree) result" where
  "make_sandbox_attachment_directory fs root directory =
     (if unsafe_attachment_dir fs (join_path [root, ''.dire-agent'']) \<or> unsafe_attachment_dir fs directory
      then Inl ''attachment path is not a safe directory''
      else (case mkdir_all fs directory of
              None \<Rightarrow> Inl ''create attachment directory''
            | Some fs' \<Rightarrow> Inr fs'))"

text \<open>\<open>ids\<close> are the outcomes of \<open>newAttachmentID\<close>, one for each image; \<open>None\<close> is a failure.\<close>

fun store_images ::
  "string \<Rightarrow> string option list \<Rightarrow> decoded_image list \<Rightarrow> tree \<Rightarrow> string list \<Rightarrow>
   (string, (image_attachment \<times> image_input) list) result \<times> tree \<times> string list" where
  "store_images directory ids [] fs written = (Inr [], fs, written)"
| "store_images directory [] (d # ds) fs written = (Inl ''create attachment id'', fs, written)"
| "store_images directory (None # ids) (d # ds) fs written = (Inl ''create attachment id'', fs, written)"
| "store_images directory (Some i # ids) (d # ds) fs written =
     (let name = i @ (case image_extension (di_mime_type d) of None \<Rightarrow> [] | Some e \<Rightarrow> e);
          p = join_path [directory, name]
      in case write_file fs p (di_data d) of
           None \<Rightarrow> (Inl ''persist image attachment'', fs, written)
         | Some fs' \<Rightarrow>
             (case store_images directory ids ds fs' (written @ [p]) of
                (r, s) \<Rightarrow>
                  (bind_result r (\<lambda>ps. Inr
                     ((\<lparr>ia_name = di_name d, ia_mime_type = di_mime_type d, ia_data = [], ia_file = name,
                        ia_size = length (di_data d)\<rparr>,
                       \<lparr>im_name = di_name d, im_mime_type = di_mime_type d, im_data = di_data d\<rparr>) # ps)), s)))"

definition remove_at :: "tree \<Rightarrow> string \<Rightarrow> tree" where
  "remove_at fs p =
     (case resolve fs 40 [] (butlast (path_comps p)) of
        None \<Rightarrow> fs
      | Some d \<Rightarrow> AList.delete (d @ [last (path_comps p)]) fs)"

definition persist_image_attachments ::
  "thread \<Rightarrow> string option list \<Rightarrow> decoded_image list \<Rightarrow> tree \<Rightarrow>
   (string, (image_attachment \<times> image_input) list) result \<times> tree" where
  "persist_image_attachments project ids images fs =
     (if images = [] then (Inr [], fs)
      else if resource_kind project \<noteq> ''project'' \<or> is_subagent project \<or> trim_space (t_cwd project) = []
      then (Inl ''image attachments require a top-level project sandbox'', fs)
      else
        let directory = join_path [t_cwd project, ''.dire-agent'', ''attachments'']
        in case make_sandbox_attachment_directory fs (t_cwd project) directory of
             Inl e \<Rightarrow> (Inl e, fs)
           | Inr fs1 \<Rightarrow>
               (case store_images directory ids images fs1 [] of
                  (Inr ps, fs2, written) \<Rightarrow> (Inr ps, fs2)
                | (Inl e, fs2, written) \<Rightarrow> (Inl e, foldl remove_at fs2 written)))"

end
