(* ===== verification/DaemonHttpProps.thy ===== *)
theory DaemonHttpProps
  imports DaemonHttp
begin

text \<open>
  Who may shut the daemon down, what the bounds on images guarantee, and where attachments come from.
\<close>

section \<open>Shutdown\<close>

lemma alphabet_distinct: "distinct url_alphabet" "length url_alphabet = 64"
  unfolding url_alphabet_def by code_simp+

lemma alphabet_no_space: "n < 64 \<Longrightarrow> \<not> is_space_byte (url_alphabet ! n)"
proof -
  have "list_all (\<lambda>c. \<not> is_space_byte c) url_alphabet" unfolding url_alphabet_def is_space_byte_def by code_simp
  then show "n < 64 \<Longrightarrow> \<not> is_space_byte (url_alphabet ! n)"
    by (simp add: list_all_iff alphabet_distinct(2))
qed

lemma base64_url_no_space: "\<forall>b \<in> set bytes. b < 256 \<Longrightarrow> \<forall>c \<in> set (base64_url bytes). \<not> is_space_byte c"
proof (induction bytes rule: base64_url.induct)
  case (4 a b c bytes)
  then have "a div 4 < 64" "a mod 4 * 16 + b div 16 < 64" "b mod 16 * 4 + c div 64 < 64" "c mod 64 < 64" by auto
  with 4 alphabet_no_space show ?case by simp
next
  case (2 a)
  then have "a div 4 < 64" "a mod 4 * 16 < 64" by auto
  with alphabet_no_space show ?case by simp
next
  case (3 a b)
  then have "a div 4 < 64" "a mod 4 * 16 + b div 16 < 64" "b mod 16 * 4 < 64" by auto
  with alphabet_no_space show ?case by simp
qed simp

lemma trim_unspaced: "\<forall>c \<in> set s. \<not> is_space_byte c \<Longrightarrow> trim_space s = s"
proof -
  assume plain: "\<forall>c \<in> set s. \<not> is_space_byte c"
  have fixed: "trim_by ws t = t" if sub: "set t \<subseteq> set s" "set (concat ws) \<subseteq> set (concat space_runes)" for ws t
  proof (rule trim_by_fixed)
    have "\<not> (w \<noteq> [] \<and> has_prefix t w)" if w: "w \<in> set ws" for w
    proof
      assume p: "w \<noteq> [] \<and> has_prefix t w"
      then have "hd w \<in> set t" by (cases w) (auto simp: has_prefix_iff)
      with sub(1) plain have "\<not> is_space_byte (hd w)" by auto
      moreover from p w sub(2) have "hd w \<in> set (concat space_runes)" by (metis UN_I hd_in_set set_concat subsetD)
      ultimately show False by (auto simp: is_space_byte_def)
    qed
    then show "find (\<lambda>w. w \<noteq> [] \<and> has_prefix t w) ws = None" by (auto simp: find_None_iff)
  qed
  show ?thesis unfolding trim_space_def trim_left_space_def trim_right_space_def
    by (simp add: fixed)
qed

text \<open>The request by which \<open>Stop\<close> presents a generated control token is accepted by the daemon exactly
  when the token is the daemon's own; nothing else in the header's place is: without the bearer
  scheme, with another method or with another token no shutdown happens.\<close>

lemma shutdown_accepts_own_token:
  assumes "new_random_token read = Inr t" and "\<And>n bytes. read n = Inr bytes \<Longrightarrow> \<forall>b \<in> set bytes. b < 256"
  shows "(handle_shutdown s ''POST'' (''Bearer '' @ t) = (202, True) \<longleftrightarrow> t = hs_control_token s) \<and>
    (hs_control_token s = t \<longrightarrow> \<not> snd (handle_shutdown s meth t) \<and>
       (snd (handle_shutdown s meth authorization) \<longrightarrow> meth = ''POST'' \<and>
          trim_space (trim_prefix authorization ''Bearer '') = t \<and> authorization \<noteq> t))"
proof -
  from assms obtain bytes where t: "t = base64_url bytes" "\<forall>b \<in> set bytes. b < 256"
    by (auto simp: new_random_token_def random_string_def split: sum.splits)
  then have plain: "\<forall>c \<in> set t. \<not> is_space_byte c" by (simp add: base64_url_no_space)
  have "is_space_byte (CHR '' '')" unfolding is_space_byte_def by code_simp
  with plain have "\<not> has_prefix t ''Bearer ''" by (auto simp: has_prefix_iff)
  with plain have bare: "trim_space (trim_prefix t ''Bearer '') = t" by (simp add: trim_prefix_def trim_unspaced)
  have "trim_space (trim_prefix (''Bearer '' @ t) ''Bearer '') = t"
    using plain by (simp add: trim_prefix_def has_prefix_def trim_unspaced)
  with bare show ?thesis by (auto simp: handle_shutdown_def Let_def)
qed

section \<open>Images\<close>

definition good_image :: "decoded_image \<Rightarrow> bool" where
  "good_image d \<longleftrightarrow> image_extension (di_mime_type d) \<noteq> None \<and> di_data d \<noteq> [] \<and>
     length (di_data d) \<le> max_image_bytes \<and> di_name d \<noteq> [] \<and> rune_count (di_name d) \<le> 200"

lemma decode_image_good:
  "decode_image decode a before = Inr d \<Longrightarrow>
     good_image d \<and> before + length (di_data d) \<le> max_image_total_bytes \<and> decode (encoded_part (ia_data a)) = Some (di_data d)"
  by (auto simp: decode_image_def Let_def good_image_def split: if_splits option.splits)

lemma decode_images_good:
  "decode_images decode as before = Inr ds \<Longrightarrow> before \<le> max_image_total_bytes \<Longrightarrow>
     list_all good_image ds \<and> before + sum_list (map (length \<circ> di_data) ds) \<le> max_image_total_bytes \<and>
     map (\<lambda>a. decode (encoded_part (ia_data a))) as = map (Some \<circ> di_data) ds"
proof (induction decode as before arbitrary: ds rule: decode_images.induct)
  case (2 decode a as before)
  from "2.prems"(1) obtain d es where d: "decode_image decode a before = Inr d" "ds = d # es"
    "decode_images decode as (before + length (di_data d)) = Inr es"
    by (auto simp: bind_result_Inr_iff)
  with "2.IH" [OF d(3)] decode_image_good [OF d(1)] show ?case by simp
qed simp

text \<open>Images that pass the checks are at most four, each of a known type, not empty and at most 5 MiB,
  together at most 10 MiB, each with a name of 1 to 200 characters; and their bytes are those the
  attachments decode to, in order.\<close>

lemma decoded_images_bounded:
  assumes "decode_image_attachments decode as = Inr ds"
  shows "length ds \<le> 4 \<and> list_all good_image ds \<and> sum_list (map (length \<circ> di_data) ds) \<le> 10 * 1024 * 1024 \<and>
    map (\<lambda>a. decode (encoded_part (ia_data a))) as = map (Some \<circ> di_data) ds"
proof -
  from assms have "length as \<le> 4" and run: "decode_images decode as 0 = Inr ds"
    by (auto simp: decode_image_attachments_def max_image_attachments_def split: if_splits)
  moreover from decode_images_good [OF run] have
    "map (\<lambda>a. decode (encoded_part (ia_data a))) as = map (Some \<circ> di_data) ds" by simp
  moreover from this have "length as = length ds" by (metis length_map)
  ultimately show ?thesis using decode_images_good [OF run] by (simp add: max_image_total_bytes_def)
qed

section \<open>Attachments\<close>

lemma resolve_goes_on:
  assumes "resolve fs k d cs = Some r" and "node_at fs r = Some Dir"
  shows "\<exists>k'. resolve fs k d (cs @ ds) = resolve fs k' r ds"
  using assms
proof (induction fs k d cs rule: resolve.induct)
  case (2 fs k d c cs)
  note IH = "2.IH" and res = "2.prems"(1) and r = "2.prems"(2)
  show ?case
  proof (cases rule: walk_cases [of c _ fs d k])
    case dir
    with IH(3) res r show ?thesis by (simp add: resolve_steps named_def)
  next
    case (link t k')
    with res have "resolve fs k' (if is_rooted t then [] else d) (split_char CHR ''/'' t @ cs) = Some r"
      by (simp add: resolve_steps)
    with IH(4) [of "Link t" t k'] link r show ?thesis by (simp add: resolve_steps named_def)
  qed (use IH(1,2) res r in \<open>auto simp: resolve_steps split: if_splits\<close>)
qed auto

text \<open>A directory that \<open>Lstat\<close> sees below a path is no link.\<close>

lemma lstat_child:
  assumes "is_rooted p" and "clean_path p = p" and "plain_comp c" and "lstat_node fs (join_path [p, c]) = Some n"
  shows "\<exists>d. resolve fs 40 [] (path_comps p) = Some d \<and> node_at fs d = Some Dir \<and> node_at fs (d @ [c]) = Some n"
  using assms(4) join_child_comps [OF assms(1-3)]
  by (auto simp: lstat_node_def Let_def split: option.splits if_splits)

lemma resolve_child:
  assumes "resolve fs 40 [] cs = Some d" and "node_at fs d = Some Dir" and "plain_comp c"
    and "node_at fs (d @ [c]) = Some n" and "n = Dir \<or> (\<exists>x. n = File x)"
  shows "resolve fs 40 [] (cs @ [c]) = Some (d @ [c])"
proof -
  from resolve_goes_on [OF assms(1,2), of "[c]"] obtain k' where "resolve fs 40 [] (cs @ [c]) = resolve fs k' d [c]" by blast
  moreover have "resolve fs k' d [c] = Some (d @ [c])"
    using assms(3-5) resolve_steps(4,5) [of c fs d] by (auto simp: plain_comp_def named_def)
  ultimately show ?thesis by simp
qed

definition attachment_of :: "tree \<Rightarrow> string \<Rightarrow> string \<Rightarrow> string \<Rightarrow> bool" where
  "attachment_of fs cwd name content \<longleftrightarrow>
     (\<exists>d directory. resolve fs 40 [] (path_comps cwd) = Some d \<and> directory \<in> {''.dire-agent'', ''.goagent''} \<and>
        plain_comp name \<and> node_at fs (d @ [directory]) = Some Dir \<and>
        node_at fs (d @ [directory, ''attachments'']) = Some Dir \<and>
        node_at fs (d @ [directory, ''attachments'', name]) = Some (File content))"

lemma names_plain: "plain_comp ''.dire-agent''" "plain_comp ''.goagent''" "plain_comp ''attachments''"
  by (simp_all add: plain_comp_def)

lemma join_with_append:
  "ws \<noteq> [] \<Longrightarrow> vs \<noteq> [] \<Longrightarrow> join_with sep (ws @ vs) = join_with sep ws @ sep @ join_with sep vs"
proof (induction sep ws rule: join_with.induct)
  case (2 sep w)
  then show ?case by (cases vs) auto
qed auto

lemma join_all_comps:
  assumes "is_rooted p" and "clean_path p = p" and "names \<noteq> []" and "\<forall>w \<in> set names. CHR ''/'' \<notin> set w"
  shows "path_comps (join_path (p # names)) = clean_comps True (rev (path_comps p)) names"
proof -
  let ?cs = "path_comps p"
  have plain: "list_all plain_comp ?cs" using rooted_comps_plain [OF assms(1)] .
  have p: "p = from_comps True ?cs" using assms(1,2) by (metis clean_path_def)
  have join: "join_with ''/'' (p # names) = p @ ''/'' @ join_with ''/'' names" using assms(3) by (cases names) auto
  have split: "split_char (CHR ''/'') (join_with ''/'' names) = names" by (rule split_join_char [OF assms(3,4)])
  have "split_char (CHR ''/'') (p @ ''/'' @ join_with ''/'' names) = [] # (if ?cs = [] then [[]] else ?cs) @ names"
  proof (cases "?cs = []")
    case True
    with p have "p = ''/''" by (simp add: from_comps_def)
    then have "p @ ''/'' @ join_with ''/'' names = CHR ''/'' # CHR ''/'' # join_with ''/'' names" by simp
    with True split show ?thesis by simp
  next
    case False
    then have "p @ ''/'' @ join_with ''/'' names = CHR ''/'' # join_with ''/'' (?cs @ names)"
      using assms(3) by (subst p) (simp add: from_comps_def join_with_append)
    moreover have "split_char (CHR ''/'') (join_with ''/'' (?cs @ names)) = ?cs @ names"
      using plain assms(3,4) by (intro split_join_char) (auto simp: list_all_iff plain_comp_def)
    ultimately show ?thesis using False by simp
  qed
  then have "path_comps (p @ ''/'' @ join_with ''/'' names) = clean_comps True [] (?cs @ names)"
    using assms(1) by (cases "?cs = []") (simp_all add: path_comps_def is_rooted_def)
  also have "\<dots> = clean_comps True (rev ?cs) names" using plain by (simp add: clean_comps_plain_append)
  finally have "path_comps (join_with ''/'' (p # names)) = clean_comps True (rev ?cs) names" by (simp only: join)
  then show ?thesis using assms(1) by (cases p) (auto simp: join_path_def is_rooted_def)
qed

lemmas join_comps = join_all_comps [where names = "[name]" for name, simplified]

text \<open>Only a plain name can be a file of the directory: dot and dot-dot are directories again.\<close>

lemma attachment_found:
  assumes "is_rooted cwd" and "clean_path cwd = cwd" and "directory \<in> {''.dire-agent'', ''.goagent''}"
    and "safe_attachment_directory fs (join_path [cwd, directory])"
    and "safe_attachment_directory fs (join_path [join_path [cwd, directory], ''attachments''])"
    and "lstat_node fs (join_path [join_path [join_path [cwd, directory], ''attachments''], name]) = Some (File content)"
    and "name \<noteq> []" and "CHR ''/'' \<notin> set name"
  shows "attachment_of fs cwd name content \<and>
    read_file fs (join_path [join_path [join_path [cwd, directory], ''attachments''], name]) = Some content"
proof -
  let ?n = "join_path [cwd, directory]"
  let ?a = "join_path [?n, ''attachments'']"
  have dir: "plain_comp directory" using assms(3) names_plain by auto
  note n = join_child [OF assms(1,2), of directory]
  note a = join_child [OF n, of "''attachments''"]
  from lstat_child [OF assms(1,2) dir] assms(4) obtain d where d: "resolve fs 40 [] (path_comps cwd) = Some d"
    "node_at fs d = Some Dir" "node_at fs (d @ [directory]) = Some Dir"
    by (auto simp: safe_attachment_directory_def)
  have rn: "resolve fs 40 [] (path_comps ?n) = Some (d @ [directory])"
    using resolve_child [OF d(1,2) dir d(3)] join_child_comps [OF assms(1,2) dir] by simp
  from lstat_child [OF n names_plain(3), of fs Dir] assms(5) rn have at: "node_at fs (d @ [directory, ''attachments'']) = Some Dir"
    by (auto simp: safe_attachment_directory_def)
  have ra: "resolve fs 40 [] (path_comps ?a) = Some (d @ [directory, ''attachments''])"
    using resolve_child [OF rn d(3) names_plain(3)] at join_child_comps [OF n names_plain(3)] by simp
  have ca: "path_comps ?a = path_comps cwd @ [directory, ''attachments'']"
    using join_child_comps [OF n names_plain(3)] join_child_comps [OF assms(1,2) dir] by simp
  have "plain_comp name"
  proof (rule ccontr)
    assume "\<not> plain_comp name"
    with assms(7,8) consider "name = ''.''" | "name = ''..''" by (auto simp: plain_comp_def)
    then show False
    proof cases
      case 1
      with join_comps [OF a assms(8)] ca have "path_comps (join_path [?a, name]) = path_comps cwd @ [directory, ''attachments'']"
        by simp
      with assms(6) rn at join_child_comps [OF assms(1,2) dir] d(3) show False
        by (simp add: lstat_node_def Let_def butlast_append)
    next
      case 2
      with join_comps [OF a assms(8)] ca have "path_comps (join_path [?a, name]) = path_comps cwd @ [directory]" by simp
      with assms(6) d show False by (simp add: lstat_node_def Let_def)
    qed
  qed
  from lstat_child [OF a this assms(6)] ra have found: "node_at fs (d @ [directory, ''attachments'', name]) = Some (File content)"
    by auto
  have comps: "path_comps (join_path [?a, name]) = path_comps ?a @ [name]" using join_child_comps [OF a \<open>plain_comp name\<close>] .
  have "resolve fs 40 [] (path_comps ?a @ [name]) = Some (d @ [directory, ''attachments'', name])"
    using resolve_child [OF ra at \<open>plain_comp name\<close>] found by simp
  moreover have "join_path [?a, name] = from_comps True (path_comps ?a @ [name])"
    using join_child [OF a, of name] comps by (metis clean_path_def)
  moreover have "list_all plain_comp (path_comps ?a @ [name])"
    using rooted_comps_plain [OF a(1)] \<open>plain_comp name\<close> by simp
  ultimately have "read_file fs (join_path [?a, name]) = Some content"
    using found resolve_comps(1) [of "path_comps ?a @ [name]" fs 40]
    by (simp add: read_file_def stat_node_def real_path_def)
  with d at found assms(3) \<open>plain_comp name\<close> show ?thesis unfolding attachment_of_def by blast
qed

lemma find_attachment_found:
  assumes "is_rooted cwd" and "clean_path cwd = cwd" and "set ds \<subseteq> {''.dire-agent'', ''.goagent''}"
    and "find_attachment fs cwd name ds = Some p" and "name \<noteq> []" and "CHR ''/'' \<notin> set name"
  shows "\<exists>content. attachment_of fs cwd name content \<and> read_file fs p = Some content"
  using assms(3,4)
proof (induction ds)
  case (Cons d ds)
  let ?p = "join_path [join_path [join_path [cwd, d], ''attachments''], name]"
  show ?case
  proof (cases "safe_attachment_directory fs (join_path [cwd, d]) \<and>
      safe_attachment_directory fs (join_path [join_path [cwd, d], ''attachments'']) \<and>
      (\<exists>content. lstat_node fs ?p = Some (File content))")
    case True
    then obtain content where found: "lstat_node fs ?p = Some (File content)" by blast
    from True found Cons.prems(2) have "p = ?p" by (simp add: Let_def)
    with True found attachment_found [OF assms(1,2), of d fs name content] Cons.prems(1) assms(5,6) show ?thesis by auto
  next
    case False
    with Cons.prems(2) have "find_attachment fs cwd name ds = Some p"
      by (auto simp: Let_def split: if_splits option.splits node.splits)
    with Cons.IH Cons.prems(1) show ?thesis by simp
  qed
qed simp

text \<open>C29: What the attachment endpoint serves is an image file that lies, under the name the URL gives, in
  the attachments directory of the project's own folder: neither that name nor the two directories can
  be links or lead anywhere else.\<close>

theorem served_attachment_stays_in_project:
  assumes "handle_attachment s project content_type fs meth path = Attachment_Served p t content"
    and "\<And>i cwd. project i = Some cwd \<Longrightarrow> is_rooted cwd \<and> clean_path cwd = cwd"
  shows "\<exists>i cwd name. trim_prefix path ''/attachments/'' = i @ ''/'' @ name \<and> project i = Some cwd \<and>
    attachment_of fs cwd name content \<and> has_prefix t ''image/''"
proof -
  from assms(1) obtain i name cwd where parts: "split_char (CHR ''/'') (trim_prefix path ''/attachments/'') = [i, name]"
    "name \<noteq> []" "project i = Some cwd" "existing_attachment_path fs cwd name = Some p"
    "read_file fs p = Some content" "has_prefix t ''image/''"
    by (auto simp: handle_attachment_def split: if_splits list.splits option.splits)
  have "CHR ''/'' \<notin> set name" using split_char_no_sep [of name "CHR ''/''" "trim_prefix path ''/attachments/''"] parts(1) by simp
  with find_attachment_found [of cwd "[''.dire-agent'', ''.goagent'']" fs name p] assms(2) [OF parts(3)] parts
  have "attachment_of fs cwd name content" by (auto simp: existing_attachment_path_def)
  moreover have "trim_prefix path ''/attachments/'' = i @ ''/'' @ name"
    using join_split_char [of "CHR ''/''" "trim_prefix path ''/attachments/''"] parts(1) by simp
  ultimately show ?thesis using parts by blast
qed

definition project_tree :: tree where
  "project_tree = [([''p''], Dir), ([''p'', ''.dire-agent''], Dir), ([''p'', ''.dire-agent'', ''attachments''], Dir),
     ([''p'', ''.dire-agent'', ''attachments'', ''image_1.png''], File ''png'')]"

definition plain_server :: http_server where
  "plain_server = \<lparr>hs_has_manager = True, hs_has_web = False, hs_proxy_enabled = False,
     hs_health = \<lparr>hl_service = [], hl_status = [], hl_version = [], hl_pid = 0, hl_instance_id = []\<rparr>,
     hs_control_token = [], hs_has_shutdown = False\<rparr>"

theorem served_attachment_stays_in_project_witness:
  "handle_attachment plain_server (\<lambda>i. if i = ''x'' then Some ''/p'' else None) (\<lambda>p c. ''image/png'') project_tree ''GET''
     ''/attachments/x/image_1.png'' = Attachment_Served ''/p/.dire-agent/attachments/image_1.png'' ''image/png'' ''png'' \<and>
   attachment_of project_tree ''/p'' ''image_1.png'' ''png''"
proof -
  have run: "handle_attachment plain_server (\<lambda>i. if i = ''x'' then Some ''/p'' else None) (\<lambda>p c. ''image/png'') project_tree ''GET''
     ''/attachments/x/image_1.png'' = Attachment_Served ''/p/.dire-agent/attachments/image_1.png'' ''image/png'' ''png''"
    by code_simp
  have clean: "is_rooted ''/p'' \<and> clean_path ''/p'' = ''/p''" by code_simp
  have trim: "trim_prefix ''/attachments/x/image_1.png'' ''/attachments/'' = ''x/image_1.png''" by code_simp
  have "\<exists>i cwd name. trim_prefix ''/attachments/x/image_1.png'' ''/attachments/'' = i @ ''/'' @ name \<and>
      (if i = ''x'' then Some ''/p'' else None) = Some cwd \<and>
      attachment_of project_tree cwd name ''png'' \<and> has_prefix ''image/png'' ''image/''"
    by (rule served_attachment_stays_in_project [OF run]) (use clean in \<open>auto split: if_splits\<close>)
  with run trim show ?thesis by (auto split: if_splits)
qed

section \<open>From prompt to page\<close>

text \<open>A tree that has all entries of another resolves all its paths.\<close>

definition keeps_nodes :: "tree \<Rightarrow> tree \<Rightarrow> bool" where
  "keeps_nodes fs fs' \<longleftrightarrow> (\<forall>q n. node_at fs q = Some n \<longrightarrow> node_at fs' q = Some n)"

lemma keeps_nodesD: "keeps_nodes fs fs' \<Longrightarrow> node_at fs q = Some n \<Longrightarrow> node_at fs' q = Some n"
  by (auto simp: keeps_nodes_def)

lemma keeps_nodes_refl [simp]: "keeps_nodes fs fs"
  by (simp add: keeps_nodes_def)

lemma keeps_nodes_trans: "keeps_nodes fs fs' \<Longrightarrow> keeps_nodes fs' fs'' \<Longrightarrow> keeps_nodes fs fs''"
  by (simp add: keeps_nodes_def)

lemma node_at_update: "q \<noteq> [] \<Longrightarrow> node_at (AList.update q n fs) p = (if p = q then Some n else node_at fs p)"
  by (simp add: node_at_def update_conv')

lemma keeps_nodes_add: "node_at fs q = None \<Longrightarrow> keeps_nodes fs (AList.update q n fs)"
  by (cases "q = []") (auto simp: keeps_nodes_def node_at_update, simp add: node_at_def)

lemma resolve_keeps: "resolve fs k d cs = Some r \<Longrightarrow> keeps_nodes fs fs' \<Longrightarrow> resolve fs' k d cs = Some r"
proof (induction fs k d cs rule: resolve.induct)
  case (2 fs k d c cs)
  note IH = "2.IH" and res = "2.prems"(1) and keeps = "2.prems"(2)
  note same = keeps_nodesD [OF keeps, of "d @ [c]"]
  show ?case
  proof (cases rule: walk_cases [of c _ fs d k])
    case dir
    with IH(3) res keeps same show ?thesis by (simp add: resolve_steps named_def)
  next
    case (leaf x)
    with res same show ?thesis by (simp add: resolve_steps)
  next
    case (link t k')
    with res have "resolve fs k' (if is_rooted t then [] else d) (split_char CHR ''/'' t @ cs) = Some r"
      by (simp add: resolve_steps)
    with IH(4) [of "Link t" t k'] link keeps same show ?thesis by (simp add: resolve_steps named_def)
  qed (use IH(1,2) res keeps in \<open>auto simp: resolve_steps\<close>)
qed auto

text \<open>The project's folder at a real place, with its directory of attachments.\<close>

definition has_room :: "tree \<Rightarrow> string \<Rightarrow> string list \<Rightarrow> bool" where
  "has_room fs cwd d \<longleftrightarrow> resolve fs 40 [] (path_comps cwd) = Some d \<and> node_at fs d = Some Dir \<and>
     node_at fs (d @ [''.dire-agent'']) = Some Dir \<and> node_at fs (d @ [''.dire-agent'', ''attachments'']) = Some Dir"

lemma room_keeps: "has_room fs cwd d \<Longrightarrow> keeps_nodes fs fs' \<Longrightarrow> has_room fs' cwd d"
  by (auto simp: has_room_def dest: resolve_keeps keeps_nodesD)

definition attachment_path :: "string \<Rightarrow> string \<Rightarrow> string" where
  "attachment_path cwd name = join_path [join_path [join_path [cwd, ''.dire-agent''], ''attachments''], name]"

lemma room_finds:
  assumes "has_room fs cwd d" and "is_rooted cwd" and "clean_path cwd = cwd" and "plain_comp name"
    and "node_at fs (d @ [''.dire-agent'', ''attachments'', name]) = Some (File content)"
  shows "existing_attachment_path fs cwd name = Some (attachment_path cwd name) \<and>
    read_file fs (attachment_path cwd name) = Some content"
proof -
  let ?n = "join_path [cwd, ''.dire-agent'']" and ?a = "join_path [join_path [cwd, ''.dire-agent''], ''attachments'']"
  note n = join_child [OF assms(2,3), of "''.dire-agent''"]
  note a = join_child [OF n, of "''attachments''"]
  note room = assms(1) [unfolded has_room_def]
  have cn: "path_comps ?n = path_comps cwd @ [''.dire-agent'']" by (rule join_child_comps [OF assms(2,3) names_plain(1)])
  have ca: "path_comps ?a = path_comps cwd @ [''.dire-agent''] @ [''attachments'']"
    using join_child_comps [OF n names_plain(3)] cn by simp
  have cp: "path_comps (join_path [?a, name]) = (path_comps cwd @ [''.dire-agent''] @ [''attachments'']) @ [name]"
    using join_child_comps [OF a assms(4)] ca by simp
  have rn: "resolve fs 40 [] (path_comps ?n) = Some (d @ [''.dire-agent''])"
    using resolve_child [of fs "path_comps cwd" d] names_plain room cn by simp
  then have ra: "resolve fs 40 [] (path_comps ?a) = Some (d @ [''.dire-agent'', ''attachments''])"
    using resolve_child [OF rn _ names_plain(3), of Dir] room ca cn by simp
  have "lstat_node fs ?n = Some Dir" using room cn by (simp add: lstat_node_def Let_def)
  moreover have "lstat_node fs ?a = Some Dir" using room ca rn cn by (simp add: lstat_node_def Let_def butlast_append)
  moreover have lstat: "lstat_node fs (join_path [?a, name]) = Some (File content)"
    using room cp ra ca assms(5) by (simp add: lstat_node_def Let_def butlast_append)
  ultimately have "existing_attachment_path fs cwd name = Some (attachment_path cwd name)"
    by (simp add: existing_attachment_path_def Let_def safe_attachment_directory_def attachment_path_def)
  moreover have "name \<noteq> []" "CHR ''/'' \<notin> set name" using assms(4) by (auto simp: plain_comp_def)
  ultimately show ?thesis
    using attachment_found [OF assms(2,3), of "''.dire-agent''" fs name content] lstat
      \<open>lstat_node fs ?n = Some Dir\<close> \<open>lstat_node fs ?a = Some Dir\<close>
    by (simp add: safe_attachment_directory_def attachment_path_def)
qed

lemma plain_images: "list_all plain_comp [''.dire-agent'', ''attachments'']"
  using names_plain by simp

lemma attachment_directory_comps:
  assumes "is_rooted cwd" and "clean_path cwd = cwd"
  shows "path_comps (join_path [cwd, ''.dire-agent'', ''attachments'']) = path_comps cwd @ [''.dire-agent'', ''attachments'']"
    and "is_rooted (join_path [cwd, ''.dire-agent'', ''attachments''])"
    and "clean_path (join_path [cwd, ''.dire-agent'', ''attachments'']) = join_path [cwd, ''.dire-agent'', ''attachments'']"
proof -
  have "CHR ''/'' \<notin> set ''.dire-agent''" "CHR ''/'' \<notin> set ''attachments''" by simp_all
  then show "path_comps (join_path [cwd, ''.dire-agent'', ''attachments'']) = path_comps cwd @ [''.dire-agent'', ''attachments'']"
    using join_all_comps [OF assms, of "[''.dire-agent'', ''attachments'']"] by simp
  have "join_path [cwd, ''.dire-agent'', ''attachments''] = clean_path (cwd @ ''/.dire-agent/attachments'')"
    using assms(1) by (auto simp: join_path_def is_rooted_def)
  moreover have "is_rooted (cwd @ ''/.dire-agent/attachments'')" using assms(1) by (rule rooted_append)
  ultimately show "is_rooted (join_path [cwd, ''.dire-agent'', ''attachments''])"
    "clean_path (join_path [cwd, ''.dire-agent'', ''attachments'']) = join_path [cwd, ''.dire-agent'', ''attachments'']"
    by simp_all
qed

text \<open>The directory is made below the project's folder unless it is there.\<close>

lemma make_step:
  assumes "resolve fs 40 [] cs = Some d" and "node_at fs d = Some Dir" and "plain_comp c"
    and "\<And>n. node_at fs (d @ [c]) = Some n \<Longrightarrow> n = Dir"
    and "make_dirs fs (rev cs) = Some fs" and "make_dirs fs (c # rev cs) = Some fs'"
  shows "keeps_nodes fs fs' \<and> node_at fs' (d @ [c]) = Some Dir \<and> (\<forall>p. p \<noteq> d @ [c] \<longrightarrow> node_at fs' p = node_at fs p)"
proof (cases "node_at fs (d @ [c])")
  case None
  from resolve_goes_on [OF assms(1,2), of "[c]"] obtain k' where k: "resolve fs 40 [] (cs @ [c]) = resolve fs k' d [c]" by blast
  also have "\<dots> = None" using None assms(3) resolve_steps(3) [of c fs d k' "[]"] by (simp add: plain_comp_def named_def)
  finally have "make_dir fs cs c = Some fs'" using assms(5,6) by simp
  then have "fs' = AList.update (d @ [c]) Dir fs" using assms(1,2) None by (simp add: make_dir_def)
  then show ?thesis using keeps_nodes_add [OF None] by (simp add: node_at_update)
next
  case (Some n)
  with assms(4) have dir: "node_at fs (d @ [c]) = Some Dir" by simp
  then have "resolve fs 40 [] (cs @ [c]) = Some (d @ [c])" using resolve_child [OF assms(1-3)] by simp
  with dir assms(6) show ?thesis by simp
qed

lemma room_made:
  assumes made: "make_sandbox_attachment_directory fs cwd (join_path [cwd, ''.dire-agent'', ''attachments'']) = Inr fs'"
    and cwd: "is_rooted cwd" "clean_path cwd = cwd"
    and d: "resolve fs 40 [] (path_comps cwd) = Some d" "node_at fs d = Some Dir"
  shows "has_room fs' cwd d \<and> keeps_nodes fs fs' \<and>
    (\<forall>p. p \<noteq> d @ [''.dire-agent''] \<and> p \<noteq> d @ [''.dire-agent'', ''attachments''] \<longrightarrow> node_at fs' p = node_at fs p)"
proof -
  let ?cs = "path_comps cwd" and ?da = "''.dire-agent''" and ?at = "''attachments''"
  note dc = attachment_directory_comps(1) [OF cwd]
  from made have safe: "\<not> unsafe_attachment_dir fs (join_path [cwd, ?da])"
    "\<not> unsafe_attachment_dir fs (join_path [cwd, ?da, ?at])" and dirs: "make_dirs fs (?at # ?da # rev ?cs) = Some fs'"
    by (auto simp: make_sandbox_attachment_directory_def mkdir_all_def dc split: if_splits option.splits)
  have da: "n = Dir" if "node_at fs (d @ [?da]) = Some n" for n
    using safe(1) that d join_child_comps [OF cwd names_plain(1)]
    by (auto simp: unsafe_attachment_dir_def lstat_node_def Let_def)
  show ?thesis
  proof (cases "\<exists>r n. resolve fs 40 [] (?cs @ [?da, ?at]) = Some r \<and> node_at fs r = Some n")
    case True
    then obtain r n where r: "resolve fs 40 [] (?cs @ [?da, ?at]) = Some r" "node_at fs r = Some n" by blast
    with dirs have same: "fs' = fs" by (auto split: option.splits node.splits)
    from resolve_goes_on [OF d, of "[?da, ?at]"] r obtain k' where k: "resolve fs k' d [?da, ?at] = Some r" by metis
    then have node: "node_at fs (d @ [?da]) = Some Dir"
      using da resolve_steps(3) [of ?da fs d k' "[?at]"] names_plain(1)
      by (cases "node_at fs (d @ [?da])") (auto simp: plain_comp_def named_def)
    then have rn: "resolve fs 40 [] (?cs @ [?da]) = Some (d @ [?da])" using resolve_child [OF d names_plain(1)] by simp
    from k node have k2: "resolve fs k' (d @ [?da]) [?at] = Some r"
      using resolve_steps(4) [of ?da fs d k' "[?at]"] names_plain(1) by (simp add: plain_comp_def named_def)
    then have "node_at fs (d @ [?da, ?at]) \<noteq> None"
      using resolve_steps(3) [of ?at fs "d @ [?da]" k' "[]"] names_plain(3) by (auto simp: plain_comp_def named_def)
    moreover have "n = Dir" if "node_at fs (d @ [?da, ?at]) = Some n" for n
      using safe(2) that rn node dc by (auto simp: unsafe_attachment_dir_def lstat_node_def Let_def butlast_append)
    ultimately show ?thesis using same d node by (auto simp: has_room_def)
  next
    case False
    with dirs obtain fs1 where fs1: "make_dirs fs (?da # rev ?cs) = Some fs1" "make_dir fs1 (?cs @ [?da]) ?at = Some fs'"
      by (fastforce split: option.splits)
    have "make_dirs fs (rev ?cs) = Some fs"
    proof (cases "?cs" rule: rev_cases)
      case (snoc ps c)
      with d show ?thesis by simp
    qed simp
    from make_step [OF d names_plain(1) da this fs1(1)] have step: "keeps_nodes fs fs1" "node_at fs1 (d @ [?da]) = Some Dir"
      "\<forall>p. p \<noteq> d @ [?da] \<longrightarrow> node_at fs1 p = node_at fs p"
      by auto
    have d1: "resolve fs1 40 [] ?cs = Some d" "node_at fs1 d = Some Dir"
      using d step(1) by (auto dest: resolve_keeps keeps_nodesD)
    have "resolve fs1 40 [] (?cs @ [?da]) = Some (d @ [?da])" using resolve_child [OF d1 names_plain(1) step(2)] by simp
    with fs1(2) have "node_at fs1 (d @ [?da, ?at]) = None" "fs' = AList.update (d @ [?da, ?at]) Dir fs1"
      by (auto simp: make_dir_def split: if_splits)
    with keeps_nodes_add [of fs1 "d @ [?da, ?at]" Dir] step d1 show ?thesis
      by (auto simp: has_room_def node_at_update dest: resolve_keeps keeps_nodesD intro: keeps_nodes_trans)
  qed
qed

lemma image_written:
  assumes room: "has_room fs cwd d" and cwd: "is_rooted cwd" "clean_path cwd = cwd" and name: "plain_comp name"
    and fresh: "node_at fs (d @ [''.dire-agent'', ''attachments'', name]) = None"
    and wrote: "write_file fs (join_path [join_path [cwd, ''.dire-agent'', ''attachments''], name]) content = Some fs'"
  shows "fs' = AList.update (d @ [''.dire-agent'', ''attachments'', name]) (File content) fs"
proof -
  let ?cs = "path_comps cwd @ [''.dire-agent'', ''attachments'', name]"
  let ?r = "d @ [''.dire-agent'', ''attachments'']"
  note dir = attachment_directory_comps [OF cwd]
  have comps: "path_comps (join_path [join_path [cwd, ''.dire-agent'', ''attachments''], name]) = ?cs"
    using join_child_comps [OF dir(2,3) name] dir(1) by simp
  then have p: "join_path [join_path [cwd, ''.dire-agent'', ''attachments''], name] = from_comps True ?cs"
    using join_child [OF dir(2,3), of name] by (metis clean_path_def)
  have plain: "list_all plain_comp ?cs" using rooted_comps_plain [OF cwd(1)] names_plain name by simp
  note at = room [unfolded has_room_def]
  from at have "resolve fs 40 [] (path_comps cwd @ [''.dire-agent'']) = Some (d @ [''.dire-agent''])"
    using resolve_child [of fs "path_comps cwd" d] names_plain by simp
  with at have "resolve fs 40 [] (path_comps cwd @ [''.dire-agent'', ''attachments'']) = Some ?r"
    using resolve_child [of fs "path_comps cwd @ [''.dire-agent'']" "d @ [''.dire-agent'']" "''attachments''" Dir] names_plain
    by simp
  with at resolve_continue [of fs 40 "[]" "path_comps cwd @ [''.dire-agent'', ''attachments'']" ?r "[name]"] obtain k' where
    "resolve_new fs 40 [] ?cs = resolve_new fs k' ?r [name]" by auto
  moreover have "resolve_new fs k' ?r [name] = Some (?r @ [name])"
    using resolve_new_steps(3) [of name fs ?r k' "[]"] fresh name by (simp add: plain_comp_def named_def)
  ultimately have "resolve_new fs 40 [] (split_char (CHR ''/'') (from_comps True ?cs)) = Some (?r @ [name])"
    using resolve_comps(2) [OF plain, of fs 40] by simp
  with wrote p fresh show ?thesis by (simp add: write_file_def)
qed

text \<open>The names the images get, and what is left of a failed identifier.\<close>

definition image_names :: "string option list \<Rightarrow> decoded_image list \<Rightarrow> string list" where
  "image_names ids ds = map2 (\<lambda>i d. the i @ the (image_extension (di_mime_type d))) ids ds"

lemma store_images_stored:
  assumes "store_images (join_path [cwd, ''.dire-agent'', ''attachments'']) ids ds fs written = (Inr ps, fs', written')"
    and "has_room fs cwd d" and "is_rooted cwd" and "clean_path cwd = cwd" and "list_all good_image ds"
    and "list_all plain_comp (image_names ids ds)" and "distinct (image_names ids ds)"
    and "\<forall>n \<in> set (image_names ids ds). node_at fs (d @ [''.dire-agent'', ''attachments'', n]) = None"
  shows "keeps_nodes fs fs' \<and> map (\<lambda>(a, im). ia_file a) ps = image_names (take (length ds) ids) ds \<and>
    map (\<lambda>(a, im). im_data im) ps = map di_data ds \<and>
    list_all (\<lambda>(a, im). node_at fs' (d @ [''.dire-agent'', ''attachments'', ia_file a]) = Some (File (im_data im)) \<and>
      plain_comp (ia_file a)) ps"
  using assms
proof (induction "join_path [cwd, ''.dire-agent'', ''attachments'']" ids ds fs written arbitrary: ps rule: store_images.induct)
  case (4 i ids x ds fs written)
  let ?name = "i @ the (image_extension (di_mime_type x))"
  let ?q = "\<lambda>n. d @ [''.dire-agent'', ''attachments'', n]"
  from 4(6) obtain e where ext: "image_extension (di_mime_type x) = Some e" by (auto simp: good_image_def)
  have names: "image_names (Some i # ids) (x # ds) = ?name # image_names ids ds" by (simp add: image_names_def)
  from 4(2) ext obtain fs1 ps1 where wrote: "write_file fs (join_path [join_path [cwd, ''.dire-agent'', ''attachments''], ?name]) (di_data x) = Some fs1"
    and rest: "store_images (join_path [cwd, ''.dire-agent'', ''attachments'']) ids ds fs1
        (written @ [join_path [join_path [cwd, ''.dire-agent'', ''attachments''], ?name]]) = (Inr ps1, fs', written')"
    and ps: "ps = (\<lparr>ia_name = di_name x, ia_mime_type = di_mime_type x, ia_data = [], ia_file = ?name,
                   ia_size = length (di_data x)\<rparr>,
                  \<lparr>im_name = di_name x, im_mime_type = di_mime_type x, im_data = di_data x\<rparr>) # ps1"
    by (auto simp: Let_def bind_result_Inr_iff split: option.splits prod.splits)
  have fresh: "node_at fs (?q ?name) = None" "plain_comp ?name" using 4(7,9) names by auto
  have fs1: "fs1 = AList.update (?q ?name) (File (di_data x)) fs"
    by (rule image_written [OF 4(3-5) fresh(2,1) wrote])
  have keeps: "keeps_nodes fs fs1" using keeps_nodes_add [OF fresh(1)] fs1 by simp
  have others: "\<forall>n \<in> set (image_names ids ds). node_at fs1 (?q n) = None"
    using 4(8,9) names by (auto simp: fs1 node_at_update)
  have IH: "keeps_nodes fs1 fs' \<and> map (\<lambda>(a, im). ia_file a) ps1 = image_names (take (length ds) ids) ds \<and>
    map (\<lambda>(a, im). im_data im) ps1 = map di_data ds \<and>
    list_all (\<lambda>(a, im). node_at fs' (?q (ia_file a)) = Some (File (im_data im)) \<and> plain_comp (ia_file a)) ps1"
    by (rule 4(1)) (use ext wrote rest 4 names others room_keeps [OF 4(3) keeps] in auto)
  have "node_at fs1 (?q ?name) = Some (File (di_data x))" by (simp add: fs1 node_at_update)
  with IH have "node_at fs' (?q ?name) = Some (File (di_data x))" by (auto dest: keeps_nodesD)
  with IH ps keeps fresh(2) show ?case by (auto simp: image_names_def intro: keeps_nodes_trans)
qed (auto simp: image_names_def)

text \<open>C30: The images of an accepted prompt survive the way to disk and back: each is stored below the
  project's folder under its own new name, and reading the attachment of that name finds that file with
  the bytes that went to the model.\<close>

theorem stored_images_are_served:
  assumes "persist_image_attachments project ids images fs = (Inr ps, fs')" and "images \<noteq> []"
    and "list_all good_image images"
    and "is_rooted (t_cwd project)" and "clean_path (t_cwd project) = t_cwd project"
    and "resolve fs 40 [] (path_comps (t_cwd project)) = Some d" and "node_at fs d = Some Dir"
    and "list_all plain_comp (image_names ids images)" and "distinct (image_names ids images)"
    and "\<forall>n \<in> set (image_names ids images). node_at fs (d @ [''.dire-agent'', ''attachments'', n]) = None"
  shows "map (\<lambda>(a, im). im_data im) ps = map di_data images \<and>
    list_all (\<lambda>(a, im). \<exists>p. existing_attachment_path fs' (t_cwd project) (ia_file a) = Some p \<and>
      read_file fs' p = Some (im_data im)) ps"
proof -
  let ?cwd = "t_cwd project" and ?q = "\<lambda>n. d @ [''.dire-agent'', ''attachments'', n]"
  from assms(1,2) obtain fs1 w where
    made: "make_sandbox_attachment_directory fs ?cwd (join_path [?cwd, ''.dire-agent'', ''attachments'']) = Inr fs1" and
    stored: "store_images (join_path [?cwd, ''.dire-agent'', ''attachments'']) ids images fs1 [] = (Inr ps, fs', w)"
    by (auto simp: persist_image_attachments_def Let_def split: if_splits sum.splits prod.splits)
  from room_made [OF made assms(4-7)] have room: "has_room fs1 ?cwd d" by blast
  have fresh: "\<forall>n \<in> set (image_names ids images). node_at fs1 (?q n) = None"
    using room_made [OF made assms(4-7)] assms(8,10) by (auto simp: list_all_iff)
  note result = store_images_stored [OF stored room assms(4,5,3,8,9) fresh]
  then have "has_room fs' ?cwd d" using room room_keeps by blast
  from room_finds [OF this assms(4,5)] result show ?thesis by (auto simp: list_all_iff)
qed

definition picture :: decoded_image where
  "picture = \<lparr>di_name = ''a'', di_mime_type = ''image/png'', di_data = ''png''\<rparr>"

definition folder_project :: thread where
  "folder_project = blank_thread\<lparr>t_kind := ''project'', t_cwd := ''/p''\<rparr>"

theorem stored_images_are_served_witness:
  "\<exists>ps fs'. persist_image_attachments folder_project [Some ''image_1''] [picture] [([''p''], Dir)] = (Inr ps, fs') \<and>
     map (\<lambda>(a, im). im_data im) ps = [''png''] \<and>
     list_all (\<lambda>(a, im). \<exists>p. existing_attachment_path fs' ''/p'' (ia_file a) = Some p \<and>
       read_file fs' p = Some (im_data im)) ps"
proof -
  have ended: "case persist_image_attachments folder_project [Some ''image_1''] [picture] [([''p''], Dir)] of
      (Inl e, fs) \<Rightarrow> False | (Inr ps, fs) \<Rightarrow> True" by code_simp
  then obtain ps fs' where run: "persist_image_attachments folder_project [Some ''image_1''] [picture] [([''p''], Dir)] = (Inr ps, fs')"
    by (auto split: sum.splits prod.splits)
  have "rune_count ''a'' = 1" by code_simp
  then have good: "list_all good_image [picture]" by (simp add: good_image_def picture_def image_extension_def max_image_bytes_def)
  have cwd: "is_rooted (t_cwd folder_project)" "clean_path (t_cwd folder_project) = t_cwd folder_project"
    "resolve [([''p''], Dir)] 40 [] (path_comps (t_cwd folder_project)) = Some [''p'']"
    "node_at [([''p''], Dir)] [''p''] = Some Dir" by code_simp+
  have names: "image_names [Some ''image_1''] [picture] = [''image_1.png'']" by code_simp
  from stored_images_are_served [OF run _ good cwd] names have
    "map (\<lambda>(a, im). im_data im) ps = map di_data [picture] \<and>
     list_all (\<lambda>(a, im). \<exists>p. existing_attachment_path fs' (t_cwd folder_project) (ia_file a) = Some p \<and>
       read_file fs' p = Some (im_data im)) ps"
    by (simp add: plain_comp_def node_at_def)
  with run show ?thesis by (simp add: picture_def folder_project_def)
qed

end
