(* ===== verification/McpClient.thy ===== *)
theory McpClient
  imports GoText AgentLoop
begin

text \<open>
  The client of MCP servers, package \<open>mcpclient\<close>: configuration, safe errors, flattened results, the
  runtime of each server with its session, generation and tool list, and calls by model name.

  Sessions are an arbitrary type; what a session answers, URL parsing and the JSON codec are arguments
  (\<open>mcp_env\<close>). The locked sections of the code are the operations below; \<open>client_step\<close> interleaves
  them. Timeouts act through the answers of sessions only, and times are readings of a clock. Maps
  are iterated in an order that is an argument where it matters.
\<close>

section \<open>Names\<close>

definition mcp_name_char :: "char \<Rightarrow> bool" where
  "mcp_name_char c \<longleftrightarrow> is_alnum c \<or> c \<in> set ''_-.''"

definition validate_mcp_name :: "string \<Rightarrow> string option" where
  "validate_mcp_name name =
     (if name = [] then Some ''cannot be empty''
      else if 128 < length name then Some ''cannot exceed 128 bytes''
      else reject (\<not> list_all mcp_name_char name) ''contains unsupported character'')"

definition mcp_model_name :: "string \<Rightarrow> string \<Rightarrow> (string, string) result" where
  "mcp_model_name server tool =
     (case validate_mcp_name server of
        Some e \<Rightarrow> Inl (''server name: '' @ e)
      | None \<Rightarrow> (case validate_mcp_name tool of
                   Some e \<Rightarrow> Inl (''tool name: '' @ e)
                 | None \<Rightarrow> Inr (''mcp__'' @ server @ ''__'' @ tool)))"

section \<open>Configuration\<close>

record server_config =
  xc_name :: string
  xc_enabled :: bool
  xc_trusted :: bool
  xc_transport :: string
  xc_command :: string
  xc_arguments :: "string list"
  xc_environment :: "string gomap"
  xc_inherit_environment :: bool
  xc_working_directory :: string
  xc_endpoint :: string
  xc_headers :: "string gomap"
  xc_max_retries :: int
  xc_disable_sse :: bool
  xc_sandboxed :: bool
  xc_connect_timeout :: int
  xc_list_timeout :: int
  xc_call_timeout :: int

text \<open>A parsed URL: user and password, the values of the query, and the text without them.\<close>

record mcp_url =
  xu_scheme :: string
  xu_host :: string
  xu_user :: "(string \<times> string option) option"
  xu_query :: "string list"
  xu_safe :: string

definition validate_server_config :: "(string \<Rightarrow> mcp_url option) \<Rightarrow> server_config \<Rightarrow> string option" where
  "validate_server_config parse c =
     first_error [
       map_option (\<lambda>e. ''server name: '' @ e) (validate_mcp_name (xc_name c)),
       reject (xc_connect_timeout c < 0 \<or> xc_list_timeout c < 0 \<or> xc_call_timeout c < 0) ''timeouts cannot be negative'',
       (if xc_transport c = ''stdio'' then
          first_error [
            reject (trim_space (xc_command c) = []) ''stdio command is required'',
            check_all (\<lambda>(key, v). first_error [
              reject (key = [] \<or> CHR ''='' \<in> set key \<or> CHR 0x00 \<in> set key) ''invalid environment key'',
              reject (CHR 0x00 \<in> set v) ''environment value contains NUL'']) (xc_environment c)]
        else if xc_transport c = ''streamable_http'' then
          first_error [
            (case parse (xc_endpoint c) of
               None \<Rightarrow> Some ''streamable HTTP endpoint must be an http or https URL''
             | Some u \<Rightarrow> reject (xu_host u = [] \<or> xu_scheme u \<noteq> ''http'' \<and> xu_scheme u \<noteq> ''https'')
                            ''streamable HTTP endpoint must be an http or https URL''),
            check_all (\<lambda>(name, v). first_error [
              reject (name = [] \<or> CHR 0x0D \<in> set name \<or> CHR 0x0A \<in> set name) ''invalid HTTP header name'',
              reject (CHR 0x0D \<in> set v \<or> CHR 0x0A \<in> set v) ''HTTP header contains a newline'']) (xc_headers c)]
        else Some ''unsupported transport'')]"

record client_options =
  op_client_name :: string
  op_client_version :: string
  op_connect_timeout :: int
  op_list_timeout :: int
  op_call_timeout :: int
  op_max_result_bytes :: int
  op_max_structured_bytes :: int

text \<open>Durations are in nanoseconds.\<close>

definition normalize_options :: "client_options \<Rightarrow> client_options" where
  "normalize_options opts =
     \<lparr>op_client_name = (if op_client_name opts = [] then ''dire-agent'' else op_client_name opts),
      op_client_version = (if op_client_version opts = [] then ''dev'' else op_client_version opts),
      op_connect_timeout = (if op_connect_timeout opts \<le> 0 then 15 * 10 ^ 9 else op_connect_timeout opts),
      op_list_timeout = (if op_list_timeout opts \<le> 0 then 15 * 10 ^ 9 else op_list_timeout opts),
      op_call_timeout = (if op_call_timeout opts \<le> 0 then 60 * 10 ^ 9 else op_call_timeout opts),
      op_max_result_bytes = (if op_max_result_bytes opts \<le> 0 then 65536 else op_max_result_bytes opts),
      op_max_structured_bytes = (if op_max_structured_bytes opts \<le> 0 then 16384 else op_max_structured_bytes opts)\<rparr>"

section \<open>Truncation and safe errors\<close>

function drop_invalid :: "string \<Rightarrow> string" where
  "drop_invalid s = (if s = [] \<or> utf8_valid s then s else drop_invalid (butlast s))"
  by auto
termination by (relation "measure length") auto

declare drop_invalid.simps [simp del]

definition ellipsis :: string where
  "ellipsis = [CHR 0xE2, CHR 0x80, CHR 0xA6]"

definition truncate_utf8 :: "string \<Rightarrow> int \<Rightarrow> string \<times> bool" where
  "truncate_utf8 s limit =
     (if limit \<le> 0 \<or> int (length s) \<le> limit then (s, False)
      else if limit < int (length ellipsis) then (replicate (nat limit) (CHR ''.''), True)
      else (drop_invalid (take (nat limit - length ellipsis) s) @ ellipsis, True))"

datatype raw_error = Raw_Canceled | Raw_Deadline | Raw_Error string

datatype mcp_error =
    Ctx_Canceled
  | Ctx_Deadline
  | Safe_Error string string string
  | Err_Closed
  | Err_Disabled string
  | Err_Untrusted string
  | Err_Not_Connected string
  | Err_Unknown_Tool string
  | Err_Plain string

text \<open>The message shown for an error; the quoting of a server's name changes nothing.\<close>

fun mcp_error_text :: "mcp_error \<Rightarrow> string" where
  "mcp_error_text Ctx_Canceled = ''context canceled''"
| "mcp_error_text Ctx_Deadline = ''context deadline exceeded''"
| "mcp_error_text (Safe_Error server operation message) =
     ''MCP server '' @ [CHR 0x22] @ server @ [CHR 0x22] @ '' '' @ operation @ '': '' @ message"
| "mcp_error_text Err_Closed = ''MCP client is closed''"
| "mcp_error_text (Err_Disabled n) = ''MCP server is disabled: '' @ n"
| "mcp_error_text (Err_Untrusted n) = ''MCP server is not trusted: '' @ n"
| "mcp_error_text (Err_Not_Connected n) = ''MCP server is not connected: '' @ n"
| "mcp_error_text (Err_Unknown_Tool n) = ''unknown MCP tool: '' @ n"
| "mcp_error_text (Err_Plain e) = e"

definition safe_endpoint :: "(string \<Rightarrow> mcp_url option) \<Rightarrow> string \<Rightarrow> string" where
  "safe_endpoint parse raw = (case parse raw of None \<Rightarrow> ''[redacted endpoint]'' | Some u \<Rightarrow> xu_safe u)"

definition config_secrets :: "(string \<Rightarrow> mcp_url option) \<Rightarrow> server_config \<Rightarrow> string list" where
  "config_secrets parse c = map snd (xc_environment c) @ map snd (xc_headers c) @
     (case parse (xc_endpoint c) of
        None \<Rightarrow> []
      | Some u \<Rightarrow> (case xu_user u of
                    None \<Rightarrow> []
                  | Some (user, password) \<Rightarrow> user # (case password of None \<Rightarrow> [] | Some p \<Rightarrow> [p])) @ xu_query u)"

definition longest_first :: "string list \<Rightarrow> string list" where
  "longest_first = sort_key (\<lambda>s. - int (length s))"

definition redact_secrets :: "string list \<Rightarrow> string \<Rightarrow> string" where
  "redact_secrets secrets message =
     foldl (\<lambda>m s. if s = [] then m else replace_sub (-1) s ''[redacted]'' m) message secrets"

definition safe_message :: "(string \<Rightarrow> mcp_url option) \<Rightarrow> server_config \<Rightarrow> string \<Rightarrow> string" where
  "safe_message parse c message =
     (let m = (if xc_endpoint c \<noteq> [] then replace_sub (-1) (xc_endpoint c) (safe_endpoint parse (xc_endpoint c)) message
               else message)
      in fst (truncate_utf8 (redact_secrets (longest_first (config_secrets parse c)) m) 1024))"

definition safe_error :: "(string \<Rightarrow> mcp_url option) \<Rightarrow> server_config \<Rightarrow> string \<Rightarrow> raw_error \<Rightarrow> mcp_error" where
  "safe_error parse c operation e =
     (case e of
        Raw_Canceled \<Rightarrow> Ctx_Canceled
      | Raw_Deadline \<Rightarrow> Ctx_Deadline
      | Raw_Error message \<Rightarrow> Safe_Error (xc_name c) operation (safe_message parse c message))"

section \<open>Results\<close>

text \<open>A value that is encoded as JSON on demand: none, its text, or the error of the encoder.\<close>

datatype json_value = Json_None | Json_Text string | Json_Bad string

datatype mcp_content =
    Text_Content string
  | Image_Content string nat
  | Audio_Content string nat
  | Resource_Link string string string
  | Nil_Content
  | Other_Content "string option"

fun flatten_content :: "mcp_content \<Rightarrow> string" where
  "flatten_content (Text_Content t) = t"
| "flatten_content (Image_Content mime n) = ''[image: '' @ mime @ '', '' @ show_nat n @ '' encoded bytes]''"
| "flatten_content (Audio_Content mime n) = ''[audio: '' @ mime @ '', '' @ show_nat n @ '' encoded bytes]''"
| "flatten_content (Resource_Link name title uri) =
     (let label = (if name = [] then title else name)
      in if label = [] then ''[resource: '' @ uri @ '']'' else ''[resource: '' @ label @ '' ('' @ uri @ '')]'')"
| "flatten_content Nil_Content = ''[empty MCP content]''"
| "flatten_content (Other_Content encoded) =
     (case encoded of None \<Rightarrow> ''[MCP content could not be encoded]'' | Some s \<Rightarrow> s)"

record call_result =
  cr_content :: "mcp_content list"
  cr_structured :: json_value
  cr_is_error :: bool

record mcp_result =
  mr_output :: string
  mr_is_error :: bool
  mr_truncated :: bool

definition tool_failed :: string where
  "tool_failed = ''MCP tool reported an error''"

definition flatten_result :: "call_result \<Rightarrow> int \<Rightarrow> int \<Rightarrow> mcp_result" where
  "flatten_result r max_bytes max_structured =
     (let parts = filter (\<lambda>p. p \<noteq> []) (map flatten_content (cr_content r));
          (structured, cut1) =
            (case cr_structured r of
               Json_None \<Rightarrow> ([], False)
             | Json_Bad e \<Rightarrow> ([''[structured content could not be encoded]''], False)
             | Json_Text s \<Rightarrow> (case truncate_utf8 s max_structured of
                               (t, c) \<Rightarrow> ([''Structured content:'' @ [CHR 0x0A] @ t], c)));
          joined = join_with [CHR 0x0A] (parts @ structured);
          (output, cut2) = truncate_utf8 (if cr_is_error r \<and> joined = [] then tool_failed else joined) max_bytes
      in \<lparr>mr_output = output, mr_is_error = cr_is_error r, mr_truncated = cut1 \<or> cut2\<rparr>)"

section \<open>State\<close>

record tool_status =
  ts_server :: string
  ts_name :: string
  ts_model_name :: string
  ts_description :: string
  ts_available :: bool
  ts_last_error :: string
  ts_last_called :: nat

record discovered_tool =
  dt_remote_name :: string
  dt_model_name :: string
  dt_definition :: tool_definition
  dt_status :: tool_status

record server_status =
  sv_name :: string
  sv_transport :: string
  sv_enabled :: bool
  sv_trusted :: bool
  sv_state :: string
  sv_tool_count :: nat
  sv_resources :: bool
  sv_prompts :: bool
  sv_protocol_version :: string
  sv_server_name :: string
  sv_server_version :: string
  sv_last_error :: string
  sv_connected_at :: nat
  sv_refreshed_at :: nat

record 's server_runtime =
  sr_config :: server_config
  sr_session :: "'s option"
  sr_generation :: "64 word"
  sr_status :: server_status
  sr_tools :: "discovered_tool gomap"

record 's mcp_client =
  cl_closed :: bool
  cl_servers :: "'s server_runtime gomap"
  cl_options :: client_options

text \<open>What a session answers: its initialization, the pages of its tool list at a time, and calls.\<close>

record capabilities =
  ca_tools :: bool
  ca_resources :: bool
  ca_prompts :: bool

record init_result =
  in_protocol :: string
  in_capabilities :: "capabilities option"
  in_server :: "(string \<times> string) option"

record remote_tool =
  rm_name :: string
  rm_description :: string
  rm_schema :: json_value

record 'a page =
  pg_items :: "'a list"
  pg_next :: string

record 's mcp_env =
  me_parse :: "string \<Rightarrow> mcp_url option"
  me_is_object :: "string \<Rightarrow> bool"
  me_decode :: "string \<Rightarrow> (string, string) result"
  me_init :: "'s \<Rightarrow> init_result option"
  me_list :: "'s \<Rightarrow> nat \<Rightarrow> nat \<Rightarrow> string \<Rightarrow> (raw_error, remote_tool option page option) result"
  me_resources :: "'s \<Rightarrow> bool"
  me_prompts :: "'s \<Rightarrow> bool"

section \<open>Creation\<close>

definition new_server_runtime :: "server_config \<Rightarrow> 's server_runtime" where
  "new_server_runtime c =
     \<lparr>sr_config = c, sr_session = None, sr_generation = 0,
      sr_status = \<lparr>sv_name = xc_name c, sv_transport = xc_transport c, sv_enabled = xc_enabled c, sv_trusted = xc_trusted c,
        sv_state = (if \<not> xc_enabled c then ''disabled'' else if \<not> xc_trusted c then ''untrusted'' else ''disconnected''),
        sv_tool_count = 0, sv_resources = False, sv_prompts = False, sv_protocol_version = [], sv_server_name = [],
        sv_server_version = [], sv_last_error = [], sv_connected_at = 0, sv_refreshed_at = 0\<rparr>,
      sr_tools = []\<rparr>"

fun add_servers ::
  "(string \<Rightarrow> mcp_url option) \<Rightarrow> server_config list \<Rightarrow> 's server_runtime gomap \<Rightarrow>
   (string \<times> string, 's server_runtime gomap) result" where
  "add_servers parse [] servers = Inr servers"
| "add_servers parse (c # cs) servers =
     (case validate_server_config parse c of
        Some e \<Rightarrow> Inl (xc_name c, e)
      | None \<Rightarrow>
          if map_of servers (xc_name c) \<noteq> None then Inl (xc_name c, ''duplicate server name'')
          else add_servers parse cs (AList.update (xc_name c) (new_server_runtime c) servers))"

definition new_client ::
  "(string \<Rightarrow> mcp_url option) \<Rightarrow> server_config list \<Rightarrow> client_options \<Rightarrow> (string \<times> string, 's mcp_client) result" where
  "new_client parse configs opts =
     bind_result (add_servers parse configs []) (\<lambda>servers.
       Inr \<lparr>cl_closed = False, cl_servers = servers, cl_options = normalize_options opts\<rparr>)"

definition server_names :: "'s mcp_client \<Rightarrow> string list" where
  "server_names c = sort_key (\<lambda>n. n) (map fst (cl_servers c))"

section \<open>Locked sections of a server's runtime\<close>

definition on_server :: "string \<Rightarrow> ('s server_runtime \<Rightarrow> 's server_runtime) \<Rightarrow> 's mcp_client \<Rightarrow> 's mcp_client" where
  "on_server name f c = c\<lparr>cl_servers := map_vals (\<lambda>n r. if n = name then f r else r) (cl_servers c)\<rparr>"

definition set_state :: "string \<Rightarrow> string \<Rightarrow> 's server_runtime \<Rightarrow> 's server_runtime" where
  "set_state state message r = r\<lparr>sr_status := (sr_status r)\<lparr>sv_state := state, sv_last_error := message\<rparr>\<rparr>"

definition noted_init :: "init_result option \<Rightarrow> server_status \<Rightarrow> server_status" where
  "noted_init i st =
     (case i of
        None \<Rightarrow> st
      | Some x \<Rightarrow>
          let st1 = st\<lparr>sv_protocol_version := in_protocol x\<rparr>;
              st2 = (case in_capabilities x of
                       None \<Rightarrow> st1
                     | Some ca \<Rightarrow> st1\<lparr>sv_resources := ca_resources ca, sv_prompts := ca_prompts ca\<rparr>)
          in (case in_server x of
                None \<Rightarrow> st2
              | Some (n, v) \<Rightarrow> st2\<lparr>sv_server_name := n, sv_server_version := v\<rparr>))"

definition install_session :: "'s mcp_env \<Rightarrow> 's \<Rightarrow> nat \<Rightarrow> 's server_runtime \<Rightarrow> 's server_runtime" where
  "install_session env session now r =
     r\<lparr>sr_session := Some session, sr_generation := sr_generation r + 1, sr_tools := [],
       sr_status := noted_init (me_init env session) ((sr_status r)
         \<lparr>sv_state := ''ready'', sv_last_error := [], sv_tool_count := 0, sv_connected_at := now\<rparr>)\<rparr>"

definition install_tools ::
  "64 word \<Rightarrow> discovered_tool gomap \<Rightarrow> nat \<Rightarrow> 's server_runtime \<Rightarrow> bool \<times> 's server_runtime" where
  "install_tools generation tools now r =
     (if sr_session r = None \<or> sr_generation r \<noteq> generation then (False, r)
      else (True, r\<lparr>sr_tools := tools, sr_status := (sr_status r)
        \<lparr>sv_state := ''ready'', sv_last_error := [], sv_tool_count := length tools, sv_refreshed_at := now\<rparr>\<rparr>))"

definition close_runtime :: "'s server_runtime \<Rightarrow> 's server_runtime" where
  "close_runtime r =
     r\<lparr>sr_session := None, sr_generation := sr_generation r + 1,
       sr_status := (sr_status r)\<lparr>sv_state := ''closed''\<rparr>,
       sr_tools := map_vals (\<lambda>n d. d\<lparr>dt_status := (dt_status d)\<lparr>ts_available := False\<rparr>\<rparr>) (sr_tools r)\<rparr>"

text \<open>The closed client, and the sessions to close.\<close>

definition close_client :: "'s mcp_client \<Rightarrow> 's mcp_client \<times> 's list" where
  "close_client c =
     (if cl_closed c then (c, [])
      else (c\<lparr>cl_closed := True, cl_servers := map_vals (\<lambda>n. close_runtime) (cl_servers c)\<rparr>,
            concat (map (\<lambda>(n, r). case sr_session r of None \<Rightarrow> [] | Some s \<Rightarrow> [s]) (cl_servers c))))"

section \<open>Tool lists\<close>

fun list_pages ::
  "(nat \<Rightarrow> string \<Rightarrow> (raw_error, 'a page option) result) \<Rightarrow> nat \<Rightarrow> nat \<Rightarrow> string \<Rightarrow> string list \<Rightarrow> 'a list \<Rightarrow>
   (raw_error, 'a list) result" where
  "list_pages answer 0 n cursor seen items = Inl (Raw_Error ''tools/list exceeded 1000 pages'')"
| "list_pages answer (Suc left) n cursor seen items =
     (case answer n cursor of
        Inl e \<Rightarrow> Inl e
      | Inr None \<Rightarrow> Inl (Raw_Error ''tools/list returned no result'')
      | Inr (Some p) \<Rightarrow>
          if pg_next p = [] then Inr (items @ pg_items p)
          else if pg_next p \<in> set seen then Inl (Raw_Error ''tools/list repeated a pagination cursor'')
          else list_pages answer left (Suc n) (pg_next p) (pg_next p # seen) (items @ pg_items p))"

definition list_all_tools :: "'s mcp_env \<Rightarrow> 's \<Rightarrow> nat \<Rightarrow> (raw_error, remote_tool option list) result" where
  "list_all_tools env session now = list_pages (me_list env session now) 1000 0 [] [] []"

definition tool_parameters :: "'s mcp_env \<Rightarrow> json_value \<Rightarrow> (string, string) result" where
  "tool_parameters env schema =
     (case schema of
        Json_None \<Rightarrow> Inr (''{'' @ [CHR 0x22] @ ''type'' @ [CHR 0x22] @ '':'' @ [CHR 0x22] @ ''object'' @ [CHR 0x22] @ ''}'')
      | Json_Text s \<Rightarrow> if me_is_object env s then Inr s else Inl ''input schema is not a JSON object''
      | Json_Bad e \<Rightarrow> Inl (''input schema: '' @ e))"

definition new_discovered_tool ::
  "'s mcp_env \<Rightarrow> string \<Rightarrow> remote_tool option \<Rightarrow> (string, discovered_tool) result" where
  "new_discovered_tool env server tool =
     (case tool of
        None \<Rightarrow> Inl ''server returned a null tool''
      | Some t \<Rightarrow>
          bind_result (mcp_model_name server (rm_name t)) (\<lambda>model.
            case tool_parameters env (rm_schema t) of
              Inl e \<Rightarrow> Inl (''tool '' @ rm_name t @ '' '' @ e)
            | Inr parameters \<Rightarrow> Inr
                \<lparr>dt_remote_name = rm_name t, dt_model_name = model,
                 dt_definition = \<lparr>td_name = model, td_description = rm_description t, td_parameters = parameters\<rparr>,
                 dt_status = \<lparr>ts_server = server, ts_name = rm_name t, ts_model_name = model,
                   ts_description = rm_description t, ts_available = True, ts_last_error = [], ts_last_called = 0\<rparr>\<rparr>))"

fun discover_tools ::
  "'s mcp_env \<Rightarrow> string \<Rightarrow> remote_tool option list \<Rightarrow> discovered_tool gomap \<Rightarrow> (string, discovered_tool gomap) result" where
  "discover_tools env server [] found = Inr found"
| "discover_tools env server (t # ts) found =
     bind_result (new_discovered_tool env server t) (\<lambda>d.
       if map_of found (dt_model_name d) \<noteq> None then Inl (''duplicate tool name '' @ dt_remote_name d)
       else discover_tools env server ts (found @ [(dt_model_name d, d)]))"

text \<open>The tools of a session as a refresh that asks now would find them.\<close>

definition refreshed_tools ::
  "'s mcp_env \<Rightarrow> server_config \<Rightarrow> 's \<Rightarrow> nat \<Rightarrow> (mcp_error, discovered_tool gomap) result" where
  "refreshed_tools env c session now =
     (if (\<exists>i \<in> set_option (me_init env session). \<exists>ca \<in> set_option (in_capabilities i). \<not> ca_tools ca) then Inr []
      else (case list_all_tools env session now of
              Inl e \<Rightarrow> Inl (safe_error (me_parse env) c ''listing tools'' e)
            | Inr tools \<Rightarrow>
                (case discover_tools env (xc_name c) tools [] of
                   Inl e \<Rightarrow> Inl (safe_error (me_parse env) c ''reading tool metadata'' (Raw_Error e))
                 | Inr found \<Rightarrow> Inr found)))"

definition refresh_session ::
  "'s mcp_env \<Rightarrow> string \<Rightarrow> 's \<Rightarrow> 64 word \<Rightarrow> nat \<Rightarrow> 's mcp_client \<Rightarrow> mcp_error option \<times> 's mcp_client" where
  "refresh_session env name session generation now c =
     (case map_of (cl_servers c) name of
        None \<Rightarrow> (Some (Err_Plain ''MCP server is not configured''), c)
      | Some r \<Rightarrow>
          (case refreshed_tools env (sr_config r) session now of
             Inl e \<Rightarrow> (Some e, on_server name (set_state ''degraded'' (mcp_error_text e)) c)
           | Inr tools \<Rightarrow>
               if fst (install_tools generation tools now r)
               then (None, on_server name (\<lambda>r. snd (install_tools generation tools now r)) c)
               else (Some (Err_Not_Connected ''session changed while listing tools''), c)))"


section \<open>Connecting\<close>

definition get_server :: "'s mcp_client \<Rightarrow> string \<Rightarrow> (mcp_error, 's server_runtime) result" where
  "get_server c name =
     (case map_of (cl_servers c) name of
        None \<Rightarrow> Inl (Err_Plain (''MCP server '' @ name @ '' is not configured''))
      | Some r \<Rightarrow> Inr r)"

definition connect_refusal :: "'s mcp_client \<Rightarrow> string \<Rightarrow> mcp_error option" where
  "connect_refusal c name =
     (case get_server c name of
        Inl e \<Rightarrow> Some e
      | Inr r \<Rightarrow>
          if \<not> xc_enabled (sr_config r) then Some (Err_Disabled name)
          else if \<not> xc_trusted (sr_config r) then Some (Err_Untrusted name)
          else if cl_closed c then Some Err_Closed else None)"

definition connection_failure ::
  "'s mcp_env \<Rightarrow> string \<Rightarrow> string \<Rightarrow> raw_error \<Rightarrow> 's mcp_client \<Rightarrow> mcp_error option \<times> 's mcp_client" where
  "connection_failure env name operation raw c =
     (case get_server c name of
        Inl e \<Rightarrow> (Some e, c)
      | Inr r \<Rightarrow> (let e = safe_error (me_parse env) (sr_config r) operation raw
                 in (Some e, on_server name (set_state ''error'' (mcp_error_text e)) c)))"

text \<open>The old session to close and the new generation, unless the client was closed meanwhile.\<close>

definition client_install_session ::
  "'s mcp_env \<Rightarrow> string \<Rightarrow> 's \<Rightarrow> nat \<Rightarrow> 's mcp_client \<Rightarrow> ('s option \<times> 64 word \<times> 's mcp_client) option" where
  "client_install_session env name session now c =
     (if cl_closed c then None
      else (case map_of (cl_servers c) name of
              None \<Rightarrow> None
            | Some r \<Rightarrow> Some (sr_session r, sr_generation (install_session env session now r),
                on_server name (install_session env session now) c)))"

text \<open>\<open>made\<close> is the error of the transport factory, \<open>connected\<close> what the connector returns; the last
  component are the sessions that were closed.\<close>

definition connect_server ::
  "'s mcp_env \<Rightarrow> raw_error option \<Rightarrow> (raw_error, 's) result \<Rightarrow> nat \<Rightarrow> string \<Rightarrow> 's mcp_client \<Rightarrow>
   mcp_error option \<times> 's mcp_client \<times> 's list" where
  "connect_server env made connected now name c =
     (case connect_refusal c name of
        Some e \<Rightarrow> (Some e, c, [])
      | None \<Rightarrow>
          let c1 = on_server name (set_state ''connecting'' []) c
          in case made of
               Some raw \<Rightarrow> (case connection_failure env name ''creating transport'' raw c1 of (e, c2) \<Rightarrow> (e, c2, []))
             | None \<Rightarrow>
                 (case connected of
                    Inl raw \<Rightarrow> (case connection_failure env name ''connecting'' raw c1 of (e, c2) \<Rightarrow> (e, c2, []))
                  | Inr session \<Rightarrow>
                      (case client_install_session env name session now c1 of
                         None \<Rightarrow> (Some Err_Closed, c1, [session])
                       | Some (old, generation, c2) \<Rightarrow>
                           (case refresh_session env name session generation now c2 of
                              (e, c3) \<Rightarrow> (e, c3, (case old of None \<Rightarrow> [] | Some s \<Rightarrow> [s]))))))"

text \<open>\<open>Connect\<close>: every enabled and trusted server, with the errors of those that fail.\<close>

fun connect_each ::
  "'s mcp_env \<Rightarrow> (string \<Rightarrow> raw_error option) \<Rightarrow> (string \<Rightarrow> (raw_error, 's) result) \<Rightarrow> nat \<Rightarrow> string list \<Rightarrow>
   's mcp_client \<Rightarrow> mcp_error list \<times> 's mcp_client" where
  "connect_each env made connected now [] c = ([], c)"
| "connect_each env made connected now (name # names) c =
     (case map_of (cl_servers c) name of
        None \<Rightarrow> connect_each env made connected now names c
      | Some r \<Rightarrow>
          if \<not> xc_enabled (sr_config r) \<or> \<not> xc_trusted (sr_config r)
          then connect_each env made connected now names c
          else (case connect_server env (made name) (connected name) now name c of
                  (e, c1, closed) \<Rightarrow>
                    (case connect_each env made connected now names c1 of
                       (es, c2) \<Rightarrow> ((case e of None \<Rightarrow> es | Some x \<Rightarrow> x # es), c2))))"

definition connect_client ::
  "'s mcp_env \<Rightarrow> (string \<Rightarrow> raw_error option) \<Rightarrow> (string \<Rightarrow> (raw_error, 's) result) \<Rightarrow> nat \<Rightarrow>
   's mcp_client \<Rightarrow> mcp_error list \<times> 's mcp_client" where
  "connect_client env made connected now c = connect_each env made connected now (server_names c) c"

text \<open>What \<open>RefreshServer\<close> reads under the lock before it asks the session.\<close>

definition refresh_start :: "string \<Rightarrow> 's mcp_client \<Rightarrow> (mcp_error, 's \<times> 64 word) result" where
  "refresh_start name c =
     (if cl_closed c then Inl Err_Closed
      else bind_result (get_server c name) (\<lambda>r.
        case sr_session r of None \<Rightarrow> Inl (Err_Not_Connected name) | Some s \<Rightarrow> Inr (s, sr_generation r)))"

section \<open>Calls\<close>

text \<open>\<open>order\<close> is the order in which Go iterates the map of servers.\<close>

fun find_mcp_tool ::
  "string list \<Rightarrow> 's mcp_client \<Rightarrow> string \<Rightarrow> (string \<times> 's server_runtime \<times> discovered_tool) option" where
  "find_mcp_tool [] c model = None"
| "find_mcp_tool (n # order) c model =
     (case map_of (cl_servers c) n of
        None \<Rightarrow> find_mcp_tool order c model
      | Some r \<Rightarrow> (case map_of (sr_tools r) model of
                    None \<Rightarrow> find_mcp_tool order c model
                  | Some d \<Rightarrow> Some (n, r, d)))"

definition record_call :: "string \<Rightarrow> nat \<Rightarrow> string \<Rightarrow> string \<Rightarrow> 's server_runtime \<Rightarrow> 's server_runtime" where
  "record_call model now message state r =
     (if sv_state (sr_status r) = ''closed'' then r
      else r\<lparr>sr_tools := map_vals (\<lambda>n d. if n = model
               then d\<lparr>dt_status := (dt_status d)\<lparr>ts_last_called := now, ts_last_error := message\<rparr>\<rparr> else d) (sr_tools r),
             sr_status := (sr_status r)
               \<lparr>sv_state := state, sv_last_error := (if state = ''degraded'' then message else [])\<rparr>\<rparr>)"

text \<open>The first component is the request that went to a session: server, session, remote tool and
  arguments. \<open>answer\<close> is what the session returns; \<open>None\<close> is a missing result.\<close>

definition call_tool ::
  "'s mcp_env \<Rightarrow> string list \<Rightarrow> ('s \<Rightarrow> string \<Rightarrow> string \<Rightarrow> (raw_error, call_result option) result) \<Rightarrow> nat \<Rightarrow>
   string \<Rightarrow> string \<Rightarrow> 's mcp_client \<Rightarrow>
   (string \<times> 's \<times> string \<times> string) option \<times> (mcp_error, mcp_result) result \<times> 's mcp_client" where
  "call_tool env order answer now model raw c =
     (if cl_closed c then (None, Inl Err_Closed, c)
      else (case find_mcp_tool order c model of
              None \<Rightarrow> (None, Inl (Err_Unknown_Tool model), c)
            | Some (name, r, d) \<Rightarrow>
                (case (if raw = [] \<or> raw = ''null'' then Inr ''{}'' else me_decode env raw) of
                   Inl e \<Rightarrow> (None, Inl (Err_Plain (''MCP tool '' @ model @ '' arguments: '' @ e)), c)
                 | Inr arguments \<Rightarrow>
                     (case sr_session r of
                        None \<Rightarrow> (None, Inl (Err_Not_Connected name), c)
                      | Some s \<Rightarrow>
                          (Some (name, s, dt_remote_name d, arguments),
                           (case answer s (dt_remote_name d) arguments of
                              Inl raw_err \<Rightarrow>
                                let e = safe_error (me_parse env) (sr_config r) ''calling tool'' raw_err
                                in (Inl e, on_server name (record_call model now (mcp_error_text e) ''degraded'') c)
                            | Inr None \<Rightarrow>
                                let e = safe_error (me_parse env) (sr_config r) ''calling tool''
                                          (Raw_Error ''tools/call returned no result'')
                                in (Inl e, on_server name (record_call model now (mcp_error_text e) ''degraded'') c)
                            | Inr (Some response) \<Rightarrow>
                                let result = flatten_result response (op_max_result_bytes (cl_options c))
                                               (op_max_structured_bytes (cl_options c))
                                in (Inr result, on_server name
                                      (record_call model now (if mr_is_error result then tool_failed else []) ''ready'') c)))))))"

text \<open>What the agent loop gets from \<open>Execute\<close>: the output and the error.\<close>

definition agent_tool_execute :: "(mcp_error, mcp_result) result \<Rightarrow> string \<times> string option" where
  "agent_tool_execute result =
     (case result of
        Inl e \<Rightarrow> ([], Some (mcp_error_text e))
      | Inr r \<Rightarrow> if mr_is_error r
                 then (if mr_output r = tool_failed then [] else mr_output r, Some tool_failed)
                 else (mr_output r, None))"

section \<open>Snapshots\<close>

definition agent_tools :: "string list \<Rightarrow> 's mcp_client \<Rightarrow> tool_definition gomap" where
  "agent_tools order c =
     foldl (\<lambda>m n. case map_of (cl_servers c) n of
                    None \<Rightarrow> m
                  | Some r \<Rightarrow> foldl (\<lambda>m (model, d). if ts_available (dt_status d)
                                        then AList.update model (dt_definition d) m else m) m (sr_tools r)) [] order"

definition server_statuses :: "'s mcp_client \<Rightarrow> server_status list" where
  "server_statuses c = map (\<lambda>n. sr_status (the (map_of (cl_servers c) n))) (server_names c)"

definition tool_statuses :: "'s mcp_client \<Rightarrow> tool_status list" where
  "tool_statuses c = sort_key ts_model_name
     (concat (map (\<lambda>n. map (dt_status \<circ> snd) (sr_tools (the (map_of (cl_servers c) n)))) (server_names c)))"

definition context_tool_name :: "string \<Rightarrow> string \<Rightarrow> string" where
  "context_tool_name server operation = ''mcpctx__'' @ server @ ''__'' @ operation"

text \<open>The server and the operation behind each context tool.\<close>

definition context_operations :: "'s mcp_env \<Rightarrow> 's server_runtime \<Rightarrow> string list" where
  "context_operations env r =
     (case sr_session r of
        None \<Rightarrow> []
      | Some s \<Rightarrow>
          (case me_init env s of
             None \<Rightarrow> []
           | Some i \<Rightarrow>
               (case in_capabilities i of
                  None \<Rightarrow> []
                | Some ca \<Rightarrow>
                    (if ca_resources ca \<and> me_resources env s then [''list_resources'', ''read_resource''] else []) @
                    (if ca_prompts ca \<and> me_prompts env s then [''list_prompts'', ''get_prompt''] else []))))"

definition context_tools :: "'s mcp_env \<Rightarrow> 's mcp_client \<Rightarrow> (string \<times> string) gomap" where
  "context_tools env c =
     foldl (\<lambda>m n. foldl (\<lambda>m op. AList.update (context_tool_name n op) (n, op) m) m
                    (context_operations env (the (map_of (cl_servers c) n)))) [] (server_names c)"

section \<open>Interleaving\<close>

text \<open>The steps of concurrent operations on one client. A refresh that was announced or follows a
  connection is pending between reading the session and installing the list.\<close>

record 's client_run =
  lr_client :: "'s mcp_client"
  lr_pending :: "(string \<times> 's \<times> 64 word) list"

datatype 's client_event =
    Ev_Connecting string
  | Ev_Connect_Failed string string raw_error
  | Ev_Connected string 's nat
  | Ev_Refresh_Starts string
  | Ev_Refreshed nat nat
  | Ev_Called string string nat string string
  | Ev_Failed string mcp_error
  | Ev_Closed

fun client_step :: "'s mcp_env \<Rightarrow> 's client_run \<Rightarrow> 's client_event \<Rightarrow> 's client_run" where
  "client_step env l (Ev_Connecting name) =
     (if connect_refusal (lr_client l) name \<noteq> None then l
      else l\<lparr>lr_client := on_server name (set_state ''connecting'' []) (lr_client l)\<rparr>)"
| "client_step env l (Ev_Connect_Failed name operation raw) =
     l\<lparr>lr_client := snd (connection_failure env name operation raw (lr_client l))\<rparr>"
| "client_step env l (Ev_Connected name session now) =
     (if connect_refusal (lr_client l) name \<noteq> None then l
      else (case client_install_session env name session now (lr_client l) of
              None \<Rightarrow> l
            | Some (old, generation, c) \<Rightarrow>
                l\<lparr>lr_client := c, lr_pending := lr_pending l @ [(name, session, generation)]\<rparr>))"
| "client_step env l (Ev_Refresh_Starts name) =
     (case refresh_start name (lr_client l) of
        Inl e \<Rightarrow> l
      | Inr (session, generation) \<Rightarrow> l\<lparr>lr_pending := lr_pending l @ [(name, session, generation)]\<rparr>)"
| "client_step env l (Ev_Refreshed k now) =
     (if k < length (lr_pending l)
      then (case lr_pending l ! k of
              (name, session, generation) \<Rightarrow>
                l\<lparr>lr_client := snd (refresh_session env name session generation now (lr_client l)),
                  lr_pending := List.take k (lr_pending l) @ drop (Suc k) (lr_pending l)\<rparr>)
      else l)"
| "client_step env l (Ev_Called name model now message state) =
     l\<lparr>lr_client := on_server name (record_call model now message state) (lr_client l)\<rparr>"
| "client_step env l (Ev_Failed name e) =
     l\<lparr>lr_client := on_server name (set_state ''degraded'' (mcp_error_text e)) (lr_client l)\<rparr>"
| "client_step env l Ev_Closed = l\<lparr>lr_client := fst (close_client (lr_client l))\<rparr>"

definition client_history :: "'s mcp_env \<Rightarrow> 's mcp_client \<Rightarrow> 's client_event list \<Rightarrow> 's client_run" where
  "client_history env c evs = foldl (client_step env) \<lparr>lr_client = c, lr_pending = []\<rparr> evs"

end
