(* ===== verification/McpContext.thy ===== *)
theory McpContext
  imports McpClient
begin

text \<open>
  Resources and prompts of MCP servers (\<open>mcpclient/context.go\<close>, \<open>context_tools.go\<close>) and the transports
  (\<open>transport.go\<close>, \<open>internal/sandboxenv\<close>): the environment of a server's process, redirects, headers and
  the limit of responses. What a session answers and JSON are arguments.
\<close>

section \<open>Data\<close>

record resource_info =
  ri_uri :: string
  ri_name :: string
  ri_title :: string
  ri_description :: string
  ri_mime_type :: string

text \<open>A remote resource's content: URI, MIME type, text and the number of bytes of its blob.\<close>

record remote_content =
  rc_uri :: string
  rc_mime_type :: string
  rc_text :: string
  rc_blob :: nat

record resource_content =
  rs_uri :: string
  rs_mime_type :: string
  rs_text :: string
  rs_blob_bytes :: nat
  rs_truncated :: bool

record prompt_argument =
  pa_name :: string
  pa_description :: string
  pa_required :: bool

record remote_prompt =
  rp_name :: string
  rp_title :: string
  rp_description :: string
  rp_arguments :: "prompt_argument option list"

record prompt_info =
  po_name :: string
  po_title :: string
  po_description :: string
  po_arguments :: "prompt_argument list"

record remote_messages =
  rg_description :: string
  rg_messages :: "(string \<times> mcp_content) option list"

record prompt_result =
  pt_description :: string
  pt_output :: string
  pt_truncated :: bool

text \<open>What a session answers to the requests for context; \<open>None\<close> is a missing result.\<close>

record 's context_env =
  ce_mcp :: "'s mcp_env"
  ce_resources :: "'s \<Rightarrow> nat \<Rightarrow> string \<Rightarrow> (raw_error, resource_info option page option) result"
  ce_read :: "'s \<Rightarrow> string \<Rightarrow> (raw_error, remote_content option list option) result"
  ce_prompts :: "'s \<Rightarrow> nat \<Rightarrow> string \<Rightarrow> (raw_error, remote_prompt option page option) result"
  ce_get :: "'s \<Rightarrow> string \<Rightarrow> string gomap \<Rightarrow> (raw_error, remote_messages option) result"

definition max_context_items :: nat where
  "max_context_items = 10000"

section \<open>Listing\<close>

text \<open>The items of a page are added one by one until the list is full.\<close>

fun add_items :: "('a \<Rightarrow> 'b) \<Rightarrow> nat \<Rightarrow> 'a option list \<Rightarrow> 'b list \<Rightarrow> 'b list \<times> bool" where
  "add_items f limit [] found = (found, False)"
| "add_items f limit (None # items) found = add_items f limit items found"
| "add_items f limit (Some x # items) found =
     (if limit \<le> length (found @ [f x]) then (found @ [f x], True) else add_items f limit items (found @ [f x]))"

fun list_context ::
  "('a \<Rightarrow> 'b) \<Rightarrow> string \<Rightarrow> (nat \<Rightarrow> string \<Rightarrow> (raw_error, 'a option page option) result) \<Rightarrow> nat \<Rightarrow> nat \<Rightarrow> string \<Rightarrow>
   string list \<Rightarrow> 'b list \<Rightarrow> (raw_error, 'b list) result" where
  "list_context f what answer 0 n cursor seen found = Inl (Raw_Error (what @ '' exceeded 1000 pages''))"
| "list_context f what answer (Suc left) n cursor seen found =
     (case answer n cursor of
        Inl e \<Rightarrow> Inl e
      | Inr None \<Rightarrow> Inl (Raw_Error (what @ '' returned no result''))
      | Inr (Some p) \<Rightarrow>
          (case add_items f max_context_items (pg_items p) found of
             (found', full) \<Rightarrow>
               if full then Inr found'
               else if pg_next p = [] then Inr found'
               else if pg_next p \<in> set seen then Inl (Raw_Error (what @ '' repeated a pagination cursor''))
               else list_context f what answer left (Suc n) (pg_next p) (pg_next p # seen) found'))"

section \<open>Operations\<close>

definition context_session :: "'s mcp_client \<Rightarrow> string \<Rightarrow> (mcp_error, 's server_runtime \<times> 's) result" where
  "context_session c server =
     (if cl_closed c then Inl Err_Closed
      else bind_result (get_server c server) (\<lambda>r.
        case sr_session r of None \<Rightarrow> Inl (Err_Not_Connected server) | Some s \<Rightarrow> Inr (r, s)))"

text \<open>Asking a session: a failure degrades the server and is reported without its secrets.\<close>

definition ask_context ::
  "'s context_env \<Rightarrow> string \<Rightarrow> ('s \<Rightarrow> bool) \<Rightarrow> string \<Rightarrow> ('s \<Rightarrow> (raw_error, 'b) result) \<Rightarrow> 's mcp_client \<Rightarrow>
   (mcp_error, 'b) result \<times> 's mcp_client" where
  "ask_context env server supported operation ask c =
     (case context_session c server of
        Inl e \<Rightarrow> (Inl e, c)
      | Inr (r, s) \<Rightarrow>
          if \<not> supported s then (Inl (Err_Plain (''MCP server '' @ server @ '' does not support this'')), c)
          else (case ask s of
                  Inl raw \<Rightarrow>
                    let e = safe_error (me_parse (ce_mcp env)) (sr_config r) operation raw
                    in (Inl e, on_server server (set_state ''degraded'' (mcp_error_text e)) c)
                | Inr x \<Rightarrow> (Inr x, c)))"

definition list_resources ::
  "'s context_env \<Rightarrow> string \<Rightarrow> 's mcp_client \<Rightarrow> (mcp_error, resource_info list) result \<times> 's mcp_client" where
  "list_resources env server c =
     ask_context env server (me_resources (ce_mcp env)) ''listing resources''
       (\<lambda>s. list_context (\<lambda>x. x) ''resources/list'' (ce_resources env s) 1000 0 [] [] []) c"

text \<open>Each text gets what the ones before it have left of the budget.\<close>

fun read_contents :: "int \<Rightarrow> remote_content option list \<Rightarrow> resource_content list" where
  "read_contents remaining [] = []"
| "read_contents remaining (None # items) = read_contents remaining items"
| "read_contents remaining (Some x # items) =
     (let (t, c) = (if 0 < remaining then truncate_utf8 (rc_text x) remaining else ([], rc_text x \<noteq> []));
          remaining' = remaining - int (length t)
      in \<lparr>rs_uri = rc_uri x, rs_mime_type = rc_mime_type x, rs_text = t, rs_blob_bytes = rc_blob x,
          rs_truncated = c \<or> remaining' \<le> 0 \<and> rc_text x \<noteq> []\<rparr> # read_contents remaining' items)"

definition read_resource ::
  "'s context_env \<Rightarrow> string \<Rightarrow> string \<Rightarrow> 's mcp_client \<Rightarrow> (mcp_error, resource_content list) result \<times> 's mcp_client" where
  "read_resource env server uri c =
     (if trim_space uri = [] \<or> 8192 < length uri
      then (Inl (Err_Plain ''MCP resource URI must be between 1 and 8192 bytes''), c)
      else (case ask_context env server (me_resources (ce_mcp env)) ''reading resource''
              (\<lambda>s. case ce_read env s uri of
                     Inl e \<Rightarrow> Inl e
                   | Inr None \<Rightarrow> Inl (Raw_Error ''resources/read returned no result'')
                   | Inr (Some items) \<Rightarrow> Inr items) c of
              (Inl e, c') \<Rightarrow> (Inl e, c')
            | (Inr items, c') \<Rightarrow> (Inr (read_contents (op_max_result_bytes (cl_options c)) items), c')))"

definition prompt_info_of :: "remote_prompt \<Rightarrow> prompt_info" where
  "prompt_info_of p =
     \<lparr>po_name = rp_name p, po_title = rp_title p, po_description = rp_description p,
      po_arguments = concat (map (\<lambda>a. case a of None \<Rightarrow> [] | Some x \<Rightarrow> [x]) (rp_arguments p))\<rparr>"

definition list_prompts ::
  "'s context_env \<Rightarrow> string \<Rightarrow> 's mcp_client \<Rightarrow> (mcp_error, prompt_info list) result \<times> 's mcp_client" where
  "list_prompts env server c =
     ask_context env server (me_prompts (ce_mcp env)) ''listing prompts''
       (\<lambda>s. list_context prompt_info_of ''prompts/list'' (ce_prompts env s) 1000 0 [] [] []) c"

definition get_prompt ::
  "'s context_env \<Rightarrow> string \<Rightarrow> string \<Rightarrow> string gomap \<Rightarrow> 's mcp_client \<Rightarrow> (mcp_error, prompt_result) result \<times> 's mcp_client" where
  "get_prompt env server name arguments c =
     (if trim_space name = [] \<or> 256 < length name
      then (Inl (Err_Plain ''MCP prompt name must be between 1 and 256 bytes''), c)
      else (case ask_context env server (me_prompts (ce_mcp env)) ''getting prompt''
              (\<lambda>s. case ce_get env s name arguments of
                     Inl e \<Rightarrow> Inl e
                   | Inr None \<Rightarrow> Inl (Raw_Error ''prompts/get returned no result'')
                   | Inr (Some g) \<Rightarrow> Inr g) c of
              (Inl e, c') \<Rightarrow> (Inl e, c')
            | (Inr g, c') \<Rightarrow>
                (let parts = concat (map (\<lambda>m. case m of None \<Rightarrow> []
                                  | Some (role, content) \<Rightarrow> [role @ '': '' @ flatten_content content]) (rg_messages g));
                     (output, cut_off) = truncate_utf8 (join_with [CHR 0x0A, CHR 0x0A] parts) (op_max_result_bytes (cl_options c))
                 in (Inr \<lparr>pt_description = rg_description g, pt_output = output, pt_truncated = cut_off\<rparr>, c'))))"

text \<open>The text a context tool returns for its encoded result.\<close>

definition context_tool_output :: "int \<Rightarrow> string \<Rightarrow> string" where
  "context_tool_output max_bytes encoded =
     (case truncate_utf8 encoded max_bytes of
        (output, truncated) \<Rightarrow> if truncated then output @ [CHR 0x0A] @ ''[MCP context result truncated]'' else output)"

section \<open>Processes\<close>

definition cut_equals :: "string \<Rightarrow> (string \<times> string) option" where
  "cut_equals entry =
     (if CHR ''='' \<in> set entry
      then Some (takeWhile (\<lambda>c. c \<noteq> CHR ''='') entry, tl (dropWhile (\<lambda>c. c \<noteq> CHR ''='') entry))
      else None)"

definition merge_environment :: "string list \<Rightarrow> string gomap \<Rightarrow> string list" where
  "merge_environment current overrides =
     (let base = foldl (\<lambda>m entry. case cut_equals entry of None \<Rightarrow> m | Some (k, v) \<Rightarrow> AList.update k v m) [] current;
          vals = foldl (\<lambda>m (k, v). AList.update k v m) base overrides
      in map (\<lambda>k. k @ ''='' @ the (map_of vals k)) (sort_key (\<lambda>k. k) (map fst vals)))"

definition unsafe_loader_variable :: "string \<Rightarrow> bool" where
  "unsafe_loader_variable name \<longleftrightarrow> has_prefix name ''LD_'' \<or> has_prefix name ''DYLD_'' \<or>
     name \<in> {''GCONV_PATH'', ''GETCONF_DIR'', ''GLIBC_TUNABLES'', ''LOCPATH'', ''MALLOC_TRACE'', ''NLSPATH''}"

definition sanitize :: "string list \<Rightarrow> string list" where
  "sanitize environment = filter (\<lambda>entry. case cut_equals entry of None \<Rightarrow> True
                                        | Some (name, v) \<Rightarrow> \<not> unsafe_loader_variable name) environment"

text \<open>The environment of the process of a stdio server. \<open>environ\<close> is the daemon's own, \<open>path\<close> its
  variable PATH.\<close>

definition stdio_environment :: "string list \<Rightarrow> string \<Rightarrow> server_config \<Rightarrow> string list" where
  "stdio_environment environ path c =
     (let env = (if xc_inherit_environment c then merge_environment environ (xc_environment c)
                 else merge_environment (if path \<noteq> [] then [''PATH='' @ path] else []) (xc_environment c))
      in if xc_sandboxed c then sanitize env else env)"

section \<open>HTTP\<close>

text \<open>A request is a URL and its headers. The first redirects that stay at the endpoint's scheme and
  host are followed, headers of the configuration are set only there.\<close>

definition check_redirect :: "mcp_url \<Rightarrow> mcp_url \<Rightarrow> nat \<Rightarrow> string option" where
  "check_redirect endpoint url via =
     (if 5 \<le> via then Some ''MCP HTTP redirect limit exceeded''
      else if xu_scheme url \<noteq> xu_scheme endpoint \<or> xu_host url \<noteq> xu_host endpoint
      then Some ''MCP HTTP cross-origin redirect refused'' else None)"

definition with_headers :: "(string \<Rightarrow> string) \<Rightarrow> string gomap \<Rightarrow> mcp_url \<Rightarrow> mcp_url \<Rightarrow> (string \<Rightarrow> string list) \<Rightarrow> string \<Rightarrow> string list" where
  "with_headers canonical headers endpoint url h =
     (if xu_scheme url = xu_scheme endpoint \<and> xu_host url = xu_host endpoint
      then foldl (\<lambda>h (name, v). h(canonical name := [v])) h headers else h)"

definition response_limit :: "int \<Rightarrow> int" where
  "response_limit configured = (if configured \<le> 0 then 16777216 else configured)"

text \<open>A response with its declared length and body, as the limiting transport passes it on.\<close>

definition limited_response :: "int \<Rightarrow> int \<Rightarrow> string \<Rightarrow> (string, string) result" where
  "limited_response limit declared body =
     (if limit < declared then Inl ''MCP HTTP response exceeds the limit''
      else Inr (List.take (nat (limit + 1)) body))"
end
