(* ===== verification/Capability.thy ===== *)
theory Capability
  imports SkillCatalog ConfigTypes
begin

text \<open>
  Package \<open>capability\<close>: the data of \<open>types.go\<close> and the registry (\<open>registry.go\<close>), which composes the
  built-in tools, the fragments of the sources and the skills into the snapshot of a conversation.
  Tools, hooks and commands are arbitrary types; their definitions are read through \<open>rv_define\<close>.
\<close>

section \<open>Data\<close>

record cap_scope =
  cs_conversation_id :: string
  cs_settings_id :: string
  cs_kind :: string
  cs_cwd :: string
  cs_additional_folders :: "string list"
  cs_builtins :: "string list"

record descriptor =
  de_name :: string
  de_source :: string
  de_description :: string
  de_enabled :: bool
  de_status :: string

record 'h cap_hooks =
  hk_before_prompt :: "'h list"
  hk_after_model :: "'h list"
  hk_before_tool :: "'h list"
  hk_after_tool :: "'h list"

record ('t, 'h, 'c) fragment =
  fr_tools :: "'t gomap"
  fr_descriptors :: "descriptor list"
  fr_plugin_roots :: "plugin_root list"
  fr_instructions :: string
  fr_hooks :: "'h cap_hooks"
  fr_commands :: "'c gomap"

text \<open>\<open>sn_prepare\<close> holds the catalog of the prompt preparer, when there is one.\<close>

record ('t, 'h, 'c) snapshot =
  sn_tools :: "'t gomap"
  sn_instructions :: string
  sn_descriptors :: "descriptor list"
  sn_skills :: "skill list"
  sn_diagnostics :: "diagnostic list"
  sn_prepare :: "skill list option"
  sn_hooks :: "'h cap_hooks"
  sn_commands :: "'c gomap"

definition no_hooks :: "'h cap_hooks" where
  "no_hooks = \<lparr>hk_before_prompt = [], hk_after_model = [], hk_before_tool = [], hk_after_tool = []\<rparr>"

definition no_fragment :: "('t, 'h, 'c) fragment" where
  "no_fragment = \<lparr>fr_tools = [], fr_descriptors = [], fr_plugin_roots = [], fr_instructions = [],
     fr_hooks = no_hooks, fr_commands = []\<rparr>"

definition no_snapshot :: "('t, 'h, 'c) snapshot" where
  "no_snapshot = \<lparr>sn_tools = [], sn_instructions = [], sn_descriptors = [], sn_skills = [], sn_diagnostics = [],
     sn_prepare = None, sn_hooks = no_hooks, sn_commands = []\<rparr>"

section \<open>Composition\<close>

text \<open>What the registry calls: the built-in tools of the scope, each source with its name, the
  definition (name and description) of a tool, and the skill tool over a catalog.\<close>

record ('t, 'h, 'c) registry_env =
  rv_builtins :: "(string, 't gomap) result"
  rv_sources :: "(string \<times> (string, ('t, 'h, 'c) fragment) result) list"
  rv_define :: "'t \<Rightarrow> string \<times> string"
  rv_skill_tool :: "skill list \<Rightarrow> 't"

definition append_instructions :: "string \<Rightarrow> string \<Rightarrow> string" where
  "append_instructions current next =
     (let a = trim_space current; b = trim_space next
      in if a = [] then b else if b = [] then a else a @ [CHR 0x0A, CHR 0x0A] @ b)"

definition append_hooks :: "'h cap_hooks \<Rightarrow> 'h cap_hooks \<Rightarrow> 'h cap_hooks" where
  "append_hooks d s =
     \<lparr>hk_before_prompt = hk_before_prompt d @ hk_before_prompt s, hk_after_model = hk_after_model d @ hk_after_model s,
      hk_before_tool = hk_before_tool d @ hk_before_tool s, hk_after_tool = hk_after_tool d @ hk_after_tool s\<rparr>"

definition tool_descriptor :: "('t, 'h, 'c) registry_env \<Rightarrow> 't \<Rightarrow> string \<Rightarrow> bool \<Rightarrow> string \<Rightarrow> descriptor" where
  "tool_descriptor env t source enabled status =
     \<lparr>de_name = fst (rv_define env t), de_source = source, de_description = snd (rv_define env t),
      de_enabled = enabled, de_status = status\<rparr>"

text \<open>Adding to a map with a check for names that are there already.\<close>

fun add_new :: "string \<Rightarrow> 'a gomap \<Rightarrow> 'a gomap \<Rightarrow> (string, 'a gomap) result" where
  "add_new what [] m = Inr m"
| "add_new what ((n, x) # xs) m =
     (if map_of m n \<noteq> None then Inl (''capability: duplicate '' @ what @ '' name '' @ n)
      else add_new what xs (m @ [(n, x)]))"

fun add_fragments ::
  "(string \<times> (string, ('t, 'h, 'c) fragment) result) list \<Rightarrow> ('t, 'h, 'c) snapshot \<Rightarrow> plugin_root list \<Rightarrow>
   (string, ('t, 'h, 'c) snapshot \<times> plugin_root list) result" where
  "add_fragments [] s roots = Inr (s, roots)"
| "add_fragments ((name, r) # sources) s roots =
     (case r of
        Inl e \<Rightarrow> Inl (''capability: resolve '' @ name @ '': '' @ e)
      | Inr f \<Rightarrow>
          bind_result (add_new ''tool'' (fr_tools f) (sn_tools s)) (\<lambda>tools.
          bind_result (add_new ''command'' (fr_commands f) (sn_commands s)) (\<lambda>commands.
            add_fragments sources
              (s\<lparr>sn_tools := tools, sn_descriptors := sn_descriptors s @ fr_descriptors f,
                 sn_instructions := append_instructions (sn_instructions s) (fr_instructions f),
                 sn_hooks := append_hooks (sn_hooks s) (fr_hooks f), sn_commands := commands\<rparr>)
              (roots @ fr_plugin_roots f))))"

definition add_skills ::
  "('t, 'h, 'c) registry_env \<Rightarrow> skill list \<Rightarrow> string \<Rightarrow> ('t, 'h, 'c) snapshot \<Rightarrow> ('t, 'h, 'c) snapshot" where
  "add_skills env skills trust s =
     (let enable = (trust = ''trusted'' \<and> enabled_skills skills \<noteq> []);
          status = (if trust = ''denied'' then ''denied'' else if enable then ''ready'' else ''approval_required'');
          s1 = s\<lparr>sn_descriptors := sn_descriptors s @ map (\<lambda>k.
                   \<lparr>de_name = ''skill:'' @ sk_name k, de_source = ''skill'',
                    de_description = join_with '' '' (text_fields (sk_description k)),
                    de_enabled = enable \<and> sk_enabled k, de_status = status\<rparr>) skills\<rparr>;
          t = rv_skill_tool env skills
      in if \<not> enable then s1
         else if map_of (sn_tools s1) (fst (rv_define env t)) \<noteq> None then s1
         else s1\<lparr>sn_tools := sn_tools s1 @ [(fst (rv_define env t), t)],
                 sn_descriptors := sn_descriptors s1 @ [tool_descriptor env t ''skill'' True ''ready''],
                 sn_instructions := append_instructions (sn_instructions s1) (catalog_text skills),
                 sn_prepare := Some skills\<rparr>)"

definition registry_skill_config :: "cap_scope \<Rightarrow> settings \<Rightarrow> plugin_root list \<Rightarrow> skill_config" where
  "registry_skill_config scope st roots =
     \<lparr>sc_global_roots = sk_roots (st_skills st), sc_plugin_roots = roots, sc_project_dir = cs_cwd scope,
      sc_path_rules = [], sc_enabled_paths = [], sc_disabled_paths = sk_disabled (st_skills st),
      sc_max_skill_bytes = 0, sc_allow_external = False\<rparr>"

definition builtin_snapshot :: "('t, 'h, 'c) registry_env \<Rightarrow> cap_scope \<Rightarrow> (string, ('t, 'h, 'c) snapshot) result" where
  "builtin_snapshot env scope =
     (if cs_kind scope = ''chat'' then Inr no_snapshot
      else bind_result (rv_builtins env) (\<lambda>m. Inr (no_snapshot\<lparr>sn_tools := m,
             sn_descriptors := map (\<lambda>(n, t). tool_descriptor env t ''builtin'' True ''ready'') m\<rparr>)))"

text \<open>\<open>None\<close> is a discovery that does not end within the depth \<open>k\<close>.\<close>

definition registry_resolve ::
  "nat \<Rightarrow> skill_world \<Rightarrow> ('t, 'h, 'c) registry_env \<Rightarrow> cap_scope \<Rightarrow> (string, settings) result \<Rightarrow>
   (string, ('t, 'h, 'c) snapshot) result option" where
  "registry_resolve k w env scope found =
     (case found of
        Inl e \<Rightarrow> Some (Inl e)
      | Inr st \<Rightarrow>
          (case builtin_snapshot env scope of
             Inl e \<Rightarrow> Some (Inl e)
           | Inr s0 \<Rightarrow>
               (case add_fragments (rv_sources env) s0 [] of
                  Inl e \<Rightarrow> Some (Inl e)
                | Inr (s1, roots) \<Rightarrow>
                    (case discover k w (registry_skill_config scope st roots) of
                       None \<Rightarrow> None
                     | Some (skills, issues) \<Rightarrow>
                         let s2 = add_skills env skills (sk_trust (st_skills st)) (s1\<lparr>sn_skills := skills, sn_diagnostics := issues\<rparr>)
                         in Some (Inr (s2\<lparr>sn_descriptors := sort_key de_name (sn_descriptors s2)\<rparr>))))))"

text \<open>\<open>resolveSettings\<close>: the settings id of the scope falls back to its conversation.\<close>

definition resolve_settings ::
  "(string \<Rightarrow> (string, settings) result) option \<Rightarrow> settings \<Rightarrow> cap_scope \<Rightarrow> (string, settings) result" where
  "resolve_settings store defaults scope =
     (let i = (if cs_settings_id scope = [] then cs_conversation_id scope else cs_settings_id scope)
      in case store of None \<Rightarrow> Inr defaults | Some f \<Rightarrow> f i)"

section \<open>Prompts\<close>

text \<open>\<open>skillPromptPreparer\<close>, for a context that is not cancelled; names of skills need no escaping.\<close>

fun expand_invocations :: "skill_world \<Rightarrow> skill list \<Rightarrow> invocation list \<Rightarrow> (load_error, string) result" where
  "expand_invocations w skills [] = Inr []"
| "expand_invocations w skills (v # vs) =
     bind_result (load_skill w (byte_limit 0) skills (iv_name v)) (\<lambda>body.
     bind_result (expand_invocations w skills vs) (\<lambda>rest.
       Inr (''<skill_instructions name='' @ [CHR 0x22] @ iv_name v @ [CHR 0x22] @ ''>'' @ [CHR 0x0A] @ body @ [CHR 0x0A] @
            (if iv_args v \<noteq> [] then ''Arguments: '' @ iv_args v @ [CHR 0x0A] else []) @
            ''</skill_instructions>'' @ [CHR 0x0A, CHR 0x0A] @ rest)))"

definition skill_prompt :: "skill_world \<Rightarrow> skill list \<Rightarrow> string \<Rightarrow> (load_error, string) result" where
  "skill_prompt w skills prompt =
     (let vs = fst (resolve_invocations skills prompt)
      in if vs = [] then Inr prompt
         else bind_result (expand_invocations w skills vs) (\<lambda>expanded.
           Inr (expanded @ ''<user_request>'' @ [CHR 0x0A] @ prompt @ [CHR 0x0A] @ ''</user_request>'')))"

definition prepare_prompt :: "skill_world \<Rightarrow> ('t, 'h, 'c) snapshot \<Rightarrow> string \<Rightarrow> (load_error, string) result" where
  "prepare_prompt w s prompt = (case sn_prepare s of None \<Rightarrow> Inr prompt | Some skills \<Rightarrow> skill_prompt w skills prompt)"
end
