(* ===== verification/CapabilityProps.thy ===== *)
theory CapabilityProps
  imports Capability
begin

text \<open>
  Properties of the registry: a snapshot holds the tools of its parts under distinct names, and skills
  take no part in it as long as the settings do not trust them.
\<close>

lemma distinct_names_append:
  "wf_gomap xs \<Longrightarrow> wf_gomap ys \<Longrightarrow> (\<forall>n \<in> fst ` set ys. map_of xs n = None) \<Longrightarrow>
     wf_gomap (xs @ ys)"
  by (simp add: wf_gomap_def map_of_eq_None_iff disjoint_iff) (metis imageE)

lemma wf_single [simp]: "wf_gomap [x]"
  by (simp add: wf_gomap_def)

lemma add_new_Inr:
  assumes "add_new what xs m = Inr m'"
  shows "m' = m @ xs \<and> (\<forall>n \<in> fst ` set xs. map_of m n = None) \<and> wf_gomap xs"
  using assms
proof (induction what xs m arbitrary: m' rule: add_new.induct)
  case (2 what n x xs m)
  then have "map_of m n = None" "m' = (m @ [(n, x)]) @ xs \<and> (\<forall>k \<in> fst ` set xs. map_of (m @ [(n, x)]) k = None) \<and>
      wf_gomap xs"
    by (auto split: if_splits)
  then show ?case by (force simp: wf_gomap_def map_of_eq_None_iff)
qed simp

text \<open>What the fragments of the sources add up to.\<close>

fun fragments_of :: "(string \<times> (string, ('t, 'h, 'c) fragment) result) list \<Rightarrow> ('t, 'h, 'c) fragment list" where
  "fragments_of [] = []"
| "fragments_of ((name, Inl e) # sources) = fragments_of sources"
| "fragments_of ((name, Inr f) # sources) = f # fragments_of sources"

lemma add_fragments_Inr:
  assumes "add_fragments sources s roots = Inr (s', roots')" and "wf_gomap (sn_tools s)"
  shows "sn_tools s' = sn_tools s @ concat (map fr_tools (fragments_of sources)) \<and> wf_gomap (sn_tools s') \<and>
    sn_instructions s' = foldl append_instructions (sn_instructions s) (map fr_instructions (fragments_of sources)) \<and>
    sn_prepare s' = sn_prepare s"
  using assms
proof (induction sources s roots arbitrary: s' roots' rule: add_fragments.induct)
  case (2 name r sources s roots)
  then obtain f tools commands where f: "r = Inr f" "add_new ''tool'' (fr_tools f) (sn_tools s) = Inr tools"
    "add_new ''command'' (fr_commands f) (sn_commands s) = Inr commands"
    "add_fragments sources
       (s\<lparr>sn_tools := tools, sn_descriptors := sn_descriptors s @ fr_descriptors f,
          sn_instructions := append_instructions (sn_instructions s) (fr_instructions f),
          sn_hooks := append_hooks (sn_hooks s) (fr_hooks f), sn_commands := commands\<rparr>)
       (roots @ fr_plugin_roots f) = Inr (s', roots')"
    by (auto simp: bind_result_Inr_iff split: sum.splits)
  from add_new_Inr [OF f(2)] 2(3) have t: "tools = sn_tools s @ fr_tools f" "wf_gomap tools"
    using distinct_names_append [of "sn_tools s" "fr_tools f"] by simp_all
  have ih: "sn_tools s' = tools @ concat (map fr_tools (fragments_of sources)) \<and> wf_gomap (sn_tools s') \<and>
    sn_instructions s' = foldl append_instructions (append_instructions (sn_instructions s) (fr_instructions f))
      (map fr_instructions (fragments_of sources)) \<and> sn_prepare s' = sn_prepare s"
    using 2(1) [OF f(1) f(4)] t(2) by auto
  then show ?case by (elim conjE) (simp add: f(1) t(1))
qed simp

lemma resolve_parts:
  assumes "registry_resolve k w env scope (Inr st) = Some (Inr s)"
  shows "\<exists>s0 s1 roots skills issues. (if cs_kind scope \<noteq> ''chat'' then rv_builtins env = Inr (sn_tools s0) else sn_tools s0 = []) \<and>
    sn_instructions s0 = [] \<and> sn_prepare s0 = None \<and> add_fragments (rv_sources env) s0 [] = Inr (s1, roots) \<and>
    discover k w (registry_skill_config scope st roots) = Some (skills, issues) \<and>
    (\<exists>s2. s2 = add_skills env skills (sk_trust (st_skills st)) (s1\<lparr>sn_skills := skills, sn_diagnostics := issues\<rparr>) \<and>
       sn_tools s = sn_tools s2 \<and> sn_instructions s = sn_instructions s2 \<and> sn_prepare s = sn_prepare s2)"
proof -
  from assms obtain s0 where s0: "builtin_snapshot env scope = Inr s0"
    by (cases "builtin_snapshot env scope") (auto simp: registry_resolve_def)
  with assms obtain s1 roots where s1: "add_fragments (rv_sources env) s0 [] = Inr (s1, roots)"
    by (cases "add_fragments (rv_sources env) s0 []") (auto simp: registry_resolve_def)
  with assms s0 obtain skills issues where d: "discover k w (registry_skill_config scope st roots) = Some (skills, issues)"
    by (cases "discover k w (registry_skill_config scope st roots)") (auto simp: registry_resolve_def)
  have "s = (let s2 = add_skills env skills (sk_trust (st_skills st)) (s1\<lparr>sn_skills := skills, sn_diagnostics := issues\<rparr>)
      in s2\<lparr>sn_descriptors := sort_key de_name (sn_descriptors s2)\<rparr>)"
    using assms s0 s1 d by (simp add: registry_resolve_def Let_def)
  moreover have "if cs_kind scope \<noteq> ''chat'' then rv_builtins env = Inr (sn_tools s0) else sn_tools s0 = []"
    "sn_instructions s0 = []" "sn_prepare s0 = None"
    using s0 by (auto simp: builtin_snapshot_def bind_result_Inr_iff no_snapshot_def split: if_splits)
  ultimately show ?thesis using s1 d
    by (intro exI [of _ s0] exI [of _ s1] exI [of _ roots] exI [of _ skills] exI [of _ issues]) (simp add: Let_def)
qed

lemma add_skills_parts:
  "(trust \<noteq> ''trusted'' \<longrightarrow> sn_tools (add_skills env skills trust s) = sn_tools s \<and>
      sn_instructions (add_skills env skills trust s) = sn_instructions s \<and> sn_prepare (add_skills env skills trust s) = sn_prepare s) \<and>
   (sn_tools (add_skills env skills trust s) = sn_tools s \<or>
    (map_of (sn_tools s) (fst (rv_define env (rv_skill_tool env skills))) = None \<and>
     sn_tools (add_skills env skills trust s) = sn_tools s @ [(fst (rv_define env (rv_skill_tool env skills)), rv_skill_tool env skills)]))"
  by (simp add: add_skills_def Let_def)

lemma resolve_composed:
  assumes "registry_resolve k w env scope (Inr st) = Some (Inr s)"
    and "\<And>m. rv_builtins env = Inr m \<Longrightarrow> wf_gomap m"
  shows "\<exists>builtins skill. (if cs_kind scope = ''chat'' then builtins = [] else rv_builtins env = Inr builtins) \<and>
    sn_tools s = builtins @ concat (map fr_tools (fragments_of (rv_sources env))) @ skill \<and> wf_gomap (sn_tools s) \<and>
    (skill = [] \<or> (sk_trust (st_skills st) = ''trusted'' \<and>
      (\<exists>skills. skill = [(fst (rv_define env (rv_skill_tool env skills)), rv_skill_tool env skills)]))) \<and>
    (sk_trust (st_skills st) \<noteq> ''trusted'' \<longrightarrow> sn_prepare s = None \<and>
      sn_instructions s = foldl append_instructions [] (map fr_instructions (fragments_of (rv_sources env))))"
proof -
  from resolve_parts [OF assms(1)] obtain s0 s1 roots skills issues s2 where
    s0: "if cs_kind scope \<noteq> ''chat'' then rv_builtins env = Inr (sn_tools s0) else sn_tools s0 = []"
      "sn_instructions s0 = []" "sn_prepare s0 = None" and
    s1: "add_fragments (rv_sources env) s0 [] = Inr (s1, roots)" and
    s2: "s2 = add_skills env skills (sk_trust (st_skills st)) (s1\<lparr>sn_skills := skills, sn_diagnostics := issues\<rparr>)"
      "sn_tools s = sn_tools s2" "sn_instructions s = sn_instructions s2" "sn_prepare s = sn_prepare s2" by blast
  have "wf_gomap (sn_tools s0)" using s0(1) assms(2) by (auto split: if_splits)
  note f = add_fragments_Inr [OF s1 this]
  note k = add_skills_parts [of "sk_trust (st_skills st)" env skills "s1\<lparr>sn_skills := skills, sn_diagnostics := issues\<rparr>", folded s2(1)]
  let ?n = "fst (rv_define env (rv_skill_tool env skills))"
  obtain skill where skill: "sn_tools s2 = sn_tools s1 @ skill"
    "skill = [] \<or> sk_trust (st_skills st) = ''trusted'' \<and> skill = [(?n, rv_skill_tool env skills)] \<and> map_of (sn_tools s1) ?n = None"
    using k by (cases "sn_tools s2 = sn_tools s1") auto
  have "wf_gomap (sn_tools s2)"
    unfolding skill(1) by (rule distinct_names_append) (use skill(2) f wf_single in auto)
  with f k skill s0 s2 show ?thesis by (intro exI [of _ "sn_tools s0"] exI [of _ skill]) auto
qed

text \<open>C34: The tools of a resolved snapshot are the built-in ones, but for chats, those of the sources in their
  order, and at most the skill tool, and that only for trusted skills; no two have one name, so none
  replaces another.\<close>

theorem snapshot_tools_composed:
  assumes "registry_resolve k w env scope (Inr st) = Some (Inr s)"
    and "\<And>m. rv_builtins env = Inr m \<Longrightarrow> wf_gomap m"
  shows "\<exists>builtins skill. (if cs_kind scope = ''chat'' then builtins = [] else rv_builtins env = Inr builtins) \<and>
    sn_tools s = builtins @ concat (map fr_tools (fragments_of (rv_sources env))) @ skill \<and> wf_gomap (sn_tools s) \<and>
    (skill = [] \<or> (sk_trust (st_skills st) = ''trusted'' \<and>
      (\<exists>skills. skill = [(fst (rv_define env (rv_skill_tool env skills)), rv_skill_tool env skills)])))"
  using resolve_composed [OF assms] by blast

text \<open>As long as the settings do not trust skills, they have no way into a run: prompts pass unchanged,
  whatever they ask for, and the instructions are those of the sources alone.\<close>

lemma untrusted_skills_stay_out:
  assumes "registry_resolve k w env scope (Inr st) = Some (Inr s)"
    and "\<And>m. rv_builtins env = Inr m \<Longrightarrow> wf_gomap m"
    and "sk_trust (st_skills st) \<noteq> ''trusted''"
  shows "prepare_prompt w' s prompt = Inr prompt \<and>
    sn_instructions s = foldl append_instructions [] (map fr_instructions (fragments_of (rv_sources env)))"
  using resolve_composed [OF assms(1,2)] assms(3) by (auto simp: prepare_prompt_def)

section \<open>Instances\<close>

definition snapshot_env :: "(string, unit, unit) registry_env" where
  "snapshot_env = \<lparr>rv_builtins = Inr [(''read'', ''r'')],
     rv_sources = [(''mcp'', Inr (no_fragment\<lparr>fr_tools := [(''mcp__a__b'', ''b'')], fr_instructions := '' be brief ''\<rparr>))],
     rv_define = (\<lambda>t. (''skill'', [])), rv_skill_tool = (\<lambda>skills. ''skill'')\<rparr>"

definition snapshot_scope :: cap_scope where
  "snapshot_scope = \<lparr>cs_conversation_id = ''t'', cs_settings_id = [], cs_kind = ''project'', cs_cwd = ''/p'',
     cs_additional_folders = [], cs_builtins = []\<rparr>"

definition snapshot_world :: skill_world where
  "snapshot_world = \<lparr>sw_tree = [([''p''], Dir)], sw_cwd = ''/p'', sw_missing = (\<lambda>p. True)\<rparr>"

definition sample_snapshot :: "(string, unit, unit) snapshot" where
  "sample_snapshot = (case registry_resolve 5 snapshot_world snapshot_env snapshot_scope
     (Inr ((default_settings ''/h'')\<lparr>st_skills := \<lparr>sk_roots = [], sk_disabled = [], sk_trust = ''prompt''\<rparr>\<rparr>)) of
     Some (Inr s) \<Rightarrow> s)"

lemma sample_resolves:
  "registry_resolve 5 snapshot_world snapshot_env snapshot_scope
     (Inr ((default_settings ''/h'')\<lparr>st_skills := \<lparr>sk_roots = [], sk_disabled = [], sk_trust = ''prompt''\<rparr>\<rparr>)) =
   Some (Inr sample_snapshot)"
  "map fst (sn_tools sample_snapshot) = [''read'', ''mcp__a__b'']" "sn_instructions sample_snapshot = ''be brief''"
  by code_simp+

theorem snapshot_tools_composed_witness:
  "\<exists>builtins skill. builtins = [(''read'', ''r'')] \<and>
     sn_tools sample_snapshot = builtins @ concat (map fr_tools (fragments_of (rv_sources snapshot_env))) @ skill"
  using snapshot_tools_composed [OF sample_resolves(1)] by (auto simp: snapshot_env_def snapshot_scope_def)

end
