(* ===== verification/McpPolicy.thy ===== *)
theory McpPolicy
  imports Capability McpClient GoPaths
begin

text \<open>
  The MCP source of the registry (\<open>capability/mcp.go\<close>, \<open>mcp_fragment.go\<close>): the configurations of the
  servers with their sandbox, the policy that decides which of their tools a conversation gets, and
  the cache of pools, whose critical sections are the steps of \<open>source_step\<close>.
\<close>

section \<open>Configurations\<close>

record process_sandbox =
  px_workspace :: string
  px_working_directory :: string
  px_command :: string
  px_args :: "string list"
  px_extra_read_paths :: "string list"
  px_write_paths :: "string list"
  px_allow_network :: bool
  px_private_workspace :: bool

definition mcp_descriptor :: "string \<Rightarrow> string \<Rightarrow> string \<Rightarrow> descriptor" where
  "mcp_descriptor name status description =
     \<lparr>de_name = ''mcp:'' @ name, de_source = ''mcp'', de_description = description, de_enabled = False, de_status = status\<rparr>"

definition recursive_mcp :: "mcp_server \<Rightarrow> bool" where
  "recursive_mcp s \<longleftrightarrow> mc_transport s = ''stdio'' \<and>
     (let name = to_lower (base_path (trim_space (mc_command s)))
      in (name = ''dire-agent'' \<or> name = ''dire-agent.exe'') \<and> mc_args s \<noteq> [] \<and>
           equal_fold_ascii (trim_space (hd (mc_args s))) ''mcp'' \<or>
         name = ''dire-agent-mcp'' \<or> name = ''dire-agent-mcp.exe'' \<or>
         name = ''goagent-mcp'' \<or> name = ''goagent-mcp.exe'')"

text \<open>\<open>wrap\<close> is \<open>WrapSandboxedProcess\<close>, \<open>temp\<close> the folder for temporary files.\<close>

record mcp_host =
  mh_wrap :: "process_sandbox \<Rightarrow> (string, string \<times> string list) result"
  mh_temp :: string

definition plain_config :: "cap_scope \<Rightarrow> string \<Rightarrow> mcp_server \<Rightarrow> server_config" where
  "plain_config scope name s =
     \<lparr>xc_name = name, xc_enabled = mc_enabled s, xc_trusted = mc_enabled s,
      xc_transport = (if mc_transport s = ''stdio'' then ''stdio'' else ''streamable_http''), xc_command = mc_command s,
      xc_arguments = mc_args s, xc_environment = mc_env s, xc_inherit_environment = mc_inherit_env s,
      xc_working_directory = cs_cwd scope, xc_endpoint = mc_url s, xc_headers = mc_headers s, xc_max_retries = 0,
      xc_disable_sse = False, xc_sandboxed = False, xc_connect_timeout = 0, xc_list_timeout = 0, xc_call_timeout = 0\<rparr>"

text \<open>The configuration of one server, or the descriptor of its refusal.\<close>

definition mcp_config ::
  "mcp_host \<Rightarrow> cap_scope \<Rightarrow> settings \<Rightarrow> string \<Rightarrow> mcp_server \<Rightarrow> (descriptor, server_config) result" where
  "mcp_config host scope st name s =
     (if recursive_mcp s
      then Inl (mcp_descriptor name ''recursive_denied''
        ''The outward Dire Agent desktop bridge cannot be registered as an inward MCP server.'')
      else
        let c = plain_config scope name s
        in if mc_transport s = ''stdio'' \<and> to_sandbox (st_tools st) \<noteq> ''off'' then
             let private = (cs_cwd scope = []);
                 workspace = (if private then mh_temp host else cs_cwd scope);
                 c1 = c\<lparr>xc_working_directory := workspace\<rparr>
             in (case mh_wrap host \<lparr>px_workspace = workspace, px_working_directory = workspace,
                    px_command = xc_command c, px_args = xc_arguments c, px_extra_read_paths = [],
                    px_write_paths = cs_additional_folders scope,
                    px_allow_network = (to_sandbox (st_tools st) = ''workspace''), px_private_workspace = private\<rparr> of
                   Inl e \<Rightarrow> Inl (mcp_descriptor name ''sandbox_unavailable'' e)
                 | Inr (command, args) \<Rightarrow>
                     Inr (c1\<lparr>xc_command := command, xc_arguments := args, xc_sandboxed := True\<rparr>))
           else Inr c)"

text \<open>Configurations, the servers with their policy, and the refused servers, by sorted name.\<close>

definition mcp_configs ::
  "mcp_host \<Rightarrow> cap_scope \<Rightarrow> settings \<Rightarrow> server_config list \<times> mcp_server gomap \<times> descriptor list" where
  "mcp_configs host scope st =
     (let input = mcp_servers (st_mcp st);
          names = sort_key (\<lambda>n. n) (map fst input);
          made = map (\<lambda>n. mcp_config host scope st n (the (map_of input n))) names
      in (concat (map (\<lambda>m. case m of Inl d \<Rightarrow> [] | Inr c \<Rightarrow> [c]) made),
          map (\<lambda>n. (n, the (map_of input n))) names,
          concat (map (\<lambda>m. case m of Inl d \<Rightarrow> [d] | Inr c \<Rightarrow> []) made)))"

section \<open>Policy\<close>

definition mcp_tool_enabled :: "mcp_server \<Rightarrow> string \<Rightarrow> string \<Rightarrow> bool" where
  "mcp_tool_enabled s remote model \<longleftrightarrow>
     mc_enabled s \<and> (mc_enabled_tools s = [] \<or> remote \<in> set (mc_enabled_tools s) \<or> model \<in> set (mc_enabled_tools s))"

definition mcp_approval :: "mcp_server \<Rightarrow> string \<Rightarrow> string" where
  "mcp_approval s tool = (case map_of (mc_tool_approvals s) tool of Some m \<Rightarrow> m | None \<Rightarrow> mc_approval s)"

text \<open>A tool of the fragment calls by model name, or performs an operation on a server's context.\<close>

datatype mcp_tool = Call_Tool string | Context_Tool string string

record pool_entry =
  pe_servers :: "mcp_server gomap"
  pe_denied :: "descriptor list"

definition no_server :: mcp_server where
  "no_server = \<lparr>mc_transport = [], mc_command = [], mc_args = [], mc_inherit_env = False, mc_url = [], mc_env = [],
     mc_secret_env = [], mc_headers = [], mc_secret_headers = [], mc_enabled_tools = [], mc_approval = [],
     mc_tool_approvals = [], mc_enabled = False\<rparr>"

definition policy_server :: "pool_entry \<Rightarrow> string \<Rightarrow> mcp_server" where
  "policy_server e name = (case map_of (pe_servers e) name of None \<Rightarrow> no_server | Some s \<Rightarrow> s)"

definition server_descriptor :: "server_status \<Rightarrow> descriptor" where
  "server_descriptor v =
     \<lparr>de_name = ''mcp:'' @ sv_name v, de_source = ''mcp'',
      de_description = sv_transport v @ '' MCP server'' @
        (if sv_resources v \<or> sv_prompts v
         then '' ('' @ join_with '', '' ((if sv_resources v then [''resources''] else []) @
                                        (if sv_prompts v then [''prompts''] else [])) @ '')'' else []) @
        (if sv_last_error v \<noteq> [] then '': '' @ sv_last_error v else []),
      de_enabled = sv_enabled v \<and> sv_trusted v, de_status = sv_state v\<rparr>"

text \<open>Whether a listed tool is granted, and the state shown for it.\<close>

definition tool_grant :: "pool_entry \<Rightarrow> tool_status \<Rightarrow> bool \<times> string" where
  "tool_grant e t =
     (let s = policy_server e (ts_server t);
          (granted, state) =
            (if \<not> mcp_tool_enabled s (ts_name t) (ts_model_name t) then (False, ''disabled'')
             else if mcp_approval s (ts_name t) \<noteq> ''never'' then (False, ''approval_required'')
             else if \<not> ts_available t then (False, ''unavailable'') else (True, ''ready''))
      in (granted, if ts_last_error t \<noteq> [] then ''degraded'' else state))"

definition context_grant :: "mcp_server \<Rightarrow> bool \<times> string" where
  "context_grant s =
     (if \<not> mc_enabled s then (False, ''disabled'')
      else if mc_approval s \<noteq> ''never'' then (False, ''approval_required'') else (True, ''ready''))"

definition context_operation_names :: "string list" where
  "context_operation_names = [''list_resources'', ''read_resource'', ''list_prompts'', ''get_prompt'']"

text \<open>The snapshots of the pool are taken one after the other: the statuses of the servers, the tools
  (by model name), the statuses of the tools and the context tools (by name, with descriptions).\<close>

definition mcp_fragment ::
  "pool_entry \<Rightarrow> server_status list \<Rightarrow> tool_definition gomap \<Rightarrow> tool_status list \<Rightarrow> (string \<times> string) gomap \<Rightarrow>
   (string \<Rightarrow> string) \<Rightarrow> (mcp_tool, 'h, 'c) fragment" where
  "mcp_fragment e servers available statuses contexts describe =
     (let granted = filter (\<lambda>t. fst (tool_grant e t) \<and> map_of available (ts_model_name t) \<noteq> None) statuses;
          offered = concat (map (\<lambda>(n, s). map (\<lambda>op. (n, s, op))
                      (filter (\<lambda>op. map_of contexts (context_tool_name n op) \<noteq> None) context_operation_names)) (pe_servers e));
          allowed = filter (\<lambda>(n, s, op). fst (context_grant s)) offered;
          pairs = map (\<lambda>t. (ts_model_name t, Call_Tool (ts_model_name t))) granted @
            concat (map (\<lambda>(n, s, op). case map_of contexts (context_tool_name n op) of None \<Rightarrow> []
                           | Some (server, what) \<Rightarrow> [(context_tool_name n op, Context_Tool server what)]) allowed)
      in no_fragment\<lparr>fr_tools := foldl (\<lambda>m x. AList.update (fst x) (snd x) m) [] pairs,
           fr_descriptors := pe_denied e @ map server_descriptor servers @
             map (\<lambda>t. \<lparr>de_name = ts_model_name t, de_source = ''mcp'', de_description = ts_description t,
                       de_enabled = fst (tool_grant e t), de_status = snd (tool_grant e t)\<rparr>) statuses @
             map (\<lambda>(n, s, op). \<lparr>de_name = context_tool_name n op, de_source = ''mcp'',
                       de_description = describe (context_tool_name n op),
                       de_enabled = fst (context_grant s), de_status = snd (context_grant s)\<rparr>) offered\<rparr>)"

section \<open>The cache of pools\<close>

text \<open>Pools are numbered in the order of their creation; a pool is open from its creation until it is
  closed. A resolution is in flight between its critical sections: before its pool exists, with its
  pool connected, and with an old pool to close. \<open>so_closing\<close> are the pools that \<open>Close\<close> has taken.\<close>

datatype 'f flight =
    Creating string 'f
  | Connected_Pool string 'f nat
  | Closing_Pool nat

record 'f mcp_source =
  so_entries :: "(string \<times> 'f \<times> nat) list"
  so_closed :: bool
  so_flights :: "'f flight list"
  so_open :: "nat list"
  so_next :: nat

datatype 'f source_event =
    Resolve_Starts string 'f
  | Pool_Created nat
  | Creation_Failed nat
  | Pool_Connected nat
  | Pool_Closed nat
  | Source_Closed

definition drop_nth :: "nat \<Rightarrow> 'a list \<Rightarrow> 'a list" where
  "drop_nth k xs = List.take k xs @ drop (Suc k) xs"

definition source_key :: "cap_scope \<Rightarrow> string" where
  "source_key scope = (if cs_conversation_id scope = [] then cs_kind scope @ ''|'' @ cs_cwd scope else cs_conversation_id scope)"

fun source_step :: "'f mcp_source \<Rightarrow> 'f source_event \<Rightarrow> 'f mcp_source" where
  "source_step s (Resolve_Starts key fp) =
     (if so_closed s then s
      else (case map_of (so_entries s) key of
              Some (fp', pool) \<Rightarrow> if fp' = fp then s else s\<lparr>so_flights := so_flights s @ [Creating key fp]\<rparr>
            | None \<Rightarrow> s\<lparr>so_flights := so_flights s @ [Creating key fp]\<rparr>))"
| "source_step s (Pool_Created k) =
     (if k < length (so_flights s)
      then (case so_flights s ! k of
              Creating key fp \<Rightarrow>
                s\<lparr>so_flights := (so_flights s)[k := Connected_Pool key fp (so_next s)],
                  so_open := so_next s # so_open s, so_next := Suc (so_next s)\<rparr>
            | _ \<Rightarrow> s)
      else s)"
| "source_step s (Creation_Failed k) =
     (if k < length (so_flights s)
      then (case so_flights s ! k of Creating key fp \<Rightarrow> s\<lparr>so_flights := drop_nth k (so_flights s)\<rparr> | _ \<Rightarrow> s)
      else s)"
| "source_step s (Pool_Connected k) =
     (if k < length (so_flights s)
      then (case so_flights s ! k of
              Connected_Pool key fp pool \<Rightarrow>
                if so_closed s then s\<lparr>so_flights := (so_flights s)[k := Closing_Pool pool]\<rparr>
                else (case map_of (so_entries s) key of
                        None \<Rightarrow> s\<lparr>so_entries := AList.update key (fp, pool) (so_entries s),
                                  so_flights := drop_nth k (so_flights s)\<rparr>
                      | Some (fp', old) \<Rightarrow>
                          if fp' = fp then s\<lparr>so_flights := (so_flights s)[k := Closing_Pool pool]\<rparr>
                          else s\<lparr>so_entries := AList.update key (fp, pool) (so_entries s),
                                 so_flights := (so_flights s)[k := Closing_Pool old]\<rparr>)
            | _ \<Rightarrow> s)
      else s)"
| "source_step s (Pool_Closed k) =
     (if k < length (so_flights s)
      then (case so_flights s ! k of
              Closing_Pool pool \<Rightarrow> s\<lparr>so_flights := drop_nth k (so_flights s), so_open := remove1 pool (so_open s)\<rparr>
            | _ \<Rightarrow> s)
      else s)"
| "source_step s Source_Closed =
     (if so_closed s then s
      else s\<lparr>so_closed := True, so_entries := [],
             so_flights := so_flights s @ map (\<lambda>(key, fp, pool). Closing_Pool pool) (so_entries s)\<rparr>)"

definition new_mcp_source :: "'f mcp_source" where
  "new_mcp_source = \<lparr>so_entries = [], so_closed = False, so_flights = [], so_open = [], so_next = 0\<rparr>"

definition source_history :: "'f source_event list \<Rightarrow> 'f mcp_source" where
  "source_history = foldl source_step new_mcp_source"
end
