(* ===== verification/McpProps.thy ===== *)
theory McpProps
  imports McpPolicy McpContext ConfigValidate
begin

text \<open>
  Properties of the MCP client and of the policy of its tools: in every history of a client the tools
  of a server are those its current session listed, a granted tool has passed the policy of its
  server, and a call by name reaches that tool unless names collide; errors hide the secrets of the
  configuration, results are bounded, and no pool of the source is lost or closed twice.
\<close>

section \<open>Model names\<close>

definition plain_server_name :: "string \<Rightarrow> bool" where
  "plain_server_name s \<longleftrightarrow> \<not> contains_sub s ''__'' \<and> s \<noteq> [] \<and> last s \<noteq> CHR ''_''"

lemma contains_sub_append: "contains_sub (u @ p @ v) p"
proof (induction u)
  case Nil
  then show ?case by (cases "p @ v") (simp_all, metis has_prefix_iff)
qed simp

lemma model_name_iff:
  "mcp_model_name server tool = Inr n \<longleftrightarrow>
     validate_mcp_name server = None \<and> validate_mcp_name tool = None \<and> n = ''mcp__'' @ server @ ''__'' @ tool"
  by (auto simp: mcp_model_name_def split: option.splits)

lemma cut_at_underscores:
  assumes "s @ ''__'' @ t = s' @ ''__'' @ t'" and "plain_server_name s'" and "length s \<le> length s'"
  shows "s = s' \<and> t = t'"
proof -
  from assms(1) assms(3) obtain u where u: "s' = s @ u" "''__'' @ t = u @ ''__'' @ t'"
    by (auto simp: append_eq_append_conv_if) (metis append_take_drop_id)
  show ?thesis
  proof (cases u)
    case Nil
    with u show ?thesis by simp
  next
    case (Cons c w)
    show ?thesis
    proof (cases w)
      case Nil
      with u Cons assms(2) show ?thesis by (auto simp: plain_server_name_def)
    next
      case (Cons d v)
      with u \<open>u = c # w\<close> have "s' = s @ ''__'' @ v" by auto
      with assms(2) contains_sub_append [of s "''__''" v] show ?thesis by (simp add: plain_server_name_def)
    qed
  qed
qed

lemma model_name_inj:
  assumes "mcp_model_name s t = Inr n" "mcp_model_name s' t' = Inr n" "plain_server_name s" "plain_server_name s'"
  shows "s = s' \<and> t = t'"
proof -
  from assms have eq: "s @ ''__'' @ t = s' @ ''__'' @ t'" by (auto simp: model_name_iff)
  show ?thesis
  proof (cases "length s \<le> length s'")
    case True
    then show ?thesis by (rule cut_at_underscores [OF eq assms(4)])
  next
    case False
    then show ?thesis using cut_at_underscores [OF eq [symmetric] assms(3)] by auto
  qed
qed

section \<open>Locked sections\<close>

lemma on_server_lookup:
  "map_of (cl_servers (on_server name f c)) n =
     (if n = name then map_option f (map_of (cl_servers c) n) else map_of (cl_servers c) n)"
  by (cases "map_of (cl_servers c) n") (auto simp: on_server_def map_of_map_vals)

lemma on_server_simps [simp]:
  "cl_closed (on_server name f c) = cl_closed c"
  "cl_options (on_server name f c) = cl_options c"
  "map fst (cl_servers (on_server name f c)) = map fst (cl_servers c)"
  by (simp_all add: on_server_def)

lemma set_state_simps [simp]:
  "sr_config (set_state st m r) = sr_config r" "sr_session (set_state st m r) = sr_session r"
  "sr_generation (set_state st m r) = sr_generation r" "sr_tools (set_state st m r) = sr_tools r"
  by (simp_all add: set_state_def)

lemma install_session_simps [simp]:
  "sr_config (install_session env s now r) = sr_config r" "sr_session (install_session env s now r) = Some s"
  "sr_generation (install_session env s now r) = sr_generation r + 1" "sr_tools (install_session env s now r) = []"
  by (simp_all add: install_session_def)

lemma record_call_simps [simp]:
  "sr_config (record_call m now e st r) = sr_config r" "sr_session (record_call m now e st r) = sr_session r"
  "sr_generation (record_call m now e st r) = sr_generation r"
  by (simp_all add: record_call_def)

lemma close_runtime_simps [simp]:
  "sr_config (close_runtime r) = sr_config r" "sr_session (close_runtime r) = None"
  "sr_generation (close_runtime r) = sr_generation r + 1"
  by (simp_all add: close_runtime_def)

text \<open>What is fixed of a tool when it is discovered; the rest of its status changes.\<close>

definition tool_facts :: "discovered_tool gomap \<Rightarrow> (string \<times> string \<times> tool_definition \<times> string \<times> string \<times> string) list" where
  "tool_facts ts = map (\<lambda>(m, d). (m, dt_remote_name d, dt_definition d,
     ts_server (dt_status d), ts_name (dt_status d), ts_model_name (dt_status d))) ts"

lemma tool_facts_map_vals:
  assumes "\<And>n d. dt_remote_name (f n d) = dt_remote_name d" "\<And>n d. dt_definition (f n d) = dt_definition d"
    "\<And>n d. ts_server (dt_status (f n d)) = ts_server (dt_status d)"
    "\<And>n d. ts_name (dt_status (f n d)) = ts_name (dt_status d)"
    "\<And>n d. ts_model_name (dt_status (f n d)) = ts_model_name (dt_status d)"
  shows "tool_facts (map_vals f ts) = tool_facts ts"
  using assms by (induction ts) (auto simp: tool_facts_def)

lemma record_call_facts [simp]: "tool_facts (sr_tools (record_call m now e st r)) = tool_facts (sr_tools r)"
  by (auto simp: record_call_def intro!: tool_facts_map_vals)

lemma close_runtime_facts [simp]: "tool_facts (sr_tools (close_runtime r)) = tool_facts (sr_tools r)"
  by (auto simp: close_runtime_def intro!: tool_facts_map_vals)

section \<open>Histories of a client\<close>

definition evolves :: "'s mcp_env \<Rightarrow> (string \<times> 's \<times> 64 word) set \<Rightarrow> string \<Rightarrow> 's server_runtime \<Rightarrow> 's server_runtime \<Rightarrow> bool" where
  "evolves env pending name r r' \<longleftrightarrow> sr_config r' = sr_config r \<and>
     (sr_session r' = sr_session r \<and> sr_generation r' = sr_generation r \<and> tool_facts (sr_tools r') = tool_facts (sr_tools r) \<or>
      xc_enabled (sr_config r) \<and> xc_trusted (sr_config r) \<and> sr_session r' \<noteq> None \<and>
        sr_generation r' = sr_generation r + 1 \<and> sr_tools r' = [] \<or>
      (\<exists>s now. (name, s, sr_generation r) \<in> pending \<and> refreshed_tools env (sr_config r) s now = Inr (sr_tools r') \<and>
        sr_session r \<noteq> None \<and> sr_session r' = sr_session r \<and> sr_generation r' = sr_generation r) \<or>
      sr_session r' = None \<and> sr_generation r' = sr_generation r + 1 \<and> tool_facts (sr_tools r') = tool_facts (sr_tools r))"

lemma evolves_refl [simp]: "evolves env pending name r r"
  by (simp add: evolves_def)

lemma get_server_iff: "get_server c name = Inr r \<longleftrightarrow> map_of (cl_servers c) name = Some r"
  by (auto simp: get_server_def split: option.splits)

lemma connect_allowed:
  assumes "connect_refusal c name = None"
  obtains r where "map_of (cl_servers c) name = Some r" "xc_enabled (sr_config r)" "xc_trusted (sr_config r)" "\<not> cl_closed c"
  using assms by (auto simp: connect_refusal_def get_server_def split: option.splits if_splits)

lemma on_server_evolves:
  assumes "map_of (cl_servers c) n = Some r" and "\<And>r. n = name \<Longrightarrow> map_of (cl_servers c) n = Some r \<Longrightarrow> evolves env pending n r (f r)"
  shows "\<exists>r'. map_of (cl_servers (on_server name f c)) n = Some r' \<and> evolves env pending n r r'"
  using assms by (auto simp: on_server_lookup)

lemma quiet_evolves [simp]:
  "evolves env pending name r (set_state st m r)" "evolves env pending name r (record_call m now e st r)"
  "evolves env pending name r (close_runtime r)"
  by (simp_all add: evolves_def)

lemma refresh_evolves:
  assumes "map_of (cl_servers c) n = Some r" and "(name, s, g) \<in> pending"
  shows "\<exists>r'. map_of (cl_servers (snd (refresh_session env name s g now c))) n = Some r' \<and> evolves env pending n r r'"
proof (cases "map_of (cl_servers c) name")
  case None
  with assms show ?thesis by (simp add: refresh_session_def)
next
  case (Some q)
  show ?thesis
  proof (cases "refreshed_tools env (sr_config q) s now")
    case (Inl e)
    with Some assms show ?thesis by (auto simp: refresh_session_def intro!: on_server_evolves)
  next
    case (Inr ts)
    then have "n = name \<Longrightarrow> fst (install_tools g ts now r) \<Longrightarrow> evolves env pending n r (snd (install_tools g ts now r))"
      using Some assms by (auto simp: install_tools_def evolves_def split: if_splits)
    then show ?thesis using Inr Some assms by (auto simp: refresh_session_def on_server_lookup)
  qed
qed

lemma step_evolves:
  assumes "map_of (cl_servers (lr_client l)) n = Some r"
  shows "\<exists>r'. map_of (cl_servers (lr_client (client_step env l ev))) n = Some r' \<and> evolves env (set (lr_pending l)) n r r'"
proof (cases ev)
  case (Ev_Connecting name)
  with assms show ?thesis by (auto intro!: on_server_evolves)
next
  case (Ev_Connect_Failed name operation raw)
  with assms show ?thesis
    by (auto simp: connection_failure_def Let_def split: sum.splits intro!: on_server_evolves)
next
  case (Ev_Connected name s now)
  then show ?thesis using assms
    by (auto simp: client_install_session_def evolves_def on_server_lookup split: option.splits if_splits elim!: connect_allowed)
next
  case (Ev_Refresh_Starts name)
  with assms show ?thesis by (auto split: sum.splits)
next
  case (Ev_Refreshed k now)
  show ?thesis
  proof (cases "k < length (lr_pending l)")
    case True
    then obtain name s g where p: "lr_pending l ! k = (name, s, g)" "(name, s, g) \<in> set (lr_pending l)"
      by (metis nth_mem prod_cases3)
    with refresh_evolves [OF assms p(2)] Ev_Refreshed True show ?thesis by simp
  qed (use assms Ev_Refreshed in simp)
next
  case (Ev_Called name model now message st)
  with assms show ?thesis by (auto intro!: on_server_evolves)
next
  case (Ev_Failed name e)
  with assms show ?thesis by (auto intro!: on_server_evolves)
next
  case Ev_Closed
  with assms show ?thesis by (auto simp: close_client_def map_of_map_vals)
qed


lemma step_keys [simp]: "map fst (cl_servers (lr_client (client_step env l ev))) = map fst (cl_servers (lr_client l))"
proof (cases ev)
  case (Ev_Refreshed k now)
  then show ?thesis
    by (auto simp: refresh_session_def split: prod.splits option.splits sum.splits)
qed (auto simp: connection_failure_def Let_def client_install_session_def close_client_def
       split: option.splits sum.splits prod.splits if_splits)

lemma step_lookup_back:
  assumes "map_of (cl_servers (lr_client (client_step env l ev))) n = Some r'"
  obtains r where "map_of (cl_servers (lr_client l)) n = Some r" "evolves env (set (lr_pending l)) n r r'"
proof -
  from assms have "n \<in> set (map fst (cl_servers (lr_client (client_step env l ev))))"
    by (metis map_of_eq_None_iff option.distinct(1) set_map)
  then have "n \<in> set (map fst (cl_servers (lr_client l)))" by simp
  then obtain r where r: "map_of (cl_servers (lr_client l)) n = Some r" by (metis map_of_eq_None_iff not_None_eq set_map)
  from step_evolves [OF this, of env ev] assms r that show thesis by auto
qed

text \<open>The pending refreshes of a step are old ones, or read session and generation together.\<close>

lemma step_pending:
  assumes "(n, s, g) \<in> set (lr_pending (client_step env l ev))"
  shows "(n, s, g) \<in> set (lr_pending l) \<or>
    (\<exists>r. map_of (cl_servers (lr_client (client_step env l ev))) n = Some r \<and> sr_session r = Some s \<and> sr_generation r = g)"
proof (cases ev)
  case (Ev_Refreshed k now)
  with assms show ?thesis by (auto split: prod.splits if_splits dest: in_set_takeD in_set_dropD)
next
  case (Ev_Connected name session now)
  with assms show ?thesis
    by (auto simp: client_install_session_def on_server_lookup split: option.splits if_splits)
next
  case (Ev_Refresh_Starts name)
  with assms show ?thesis
    by (auto simp: refresh_start_def get_server_iff bind_result_Inr_iff split: option.splits if_splits sum.splits)
qed (use assms in \<open>auto split: if_splits\<close>)

definition listed_by :: "'s mcp_env \<Rightarrow> 's server_runtime \<Rightarrow> bool" where
  "listed_by env r \<longleftrightarrow> (\<forall>s. sr_session r = Some s \<longrightarrow> tool_facts (sr_tools r) = [] \<or>
     (\<exists>now ts. refreshed_tools env (sr_config r) s now = Inr ts \<and> tool_facts (sr_tools r) = tool_facts ts))"

definition client_inv :: "'s mcp_env \<Rightarrow> nat \<Rightarrow> 's client_run \<Rightarrow> bool" where
  "client_inv env k l \<longleftrightarrow>
     (\<forall>n r. map_of (cl_servers (lr_client l)) n = Some r \<longrightarrow> unat (sr_generation r) \<le> k \<and> listed_by env r) \<and>
     (\<forall>n s g. (n, s, g) \<in> set (lr_pending l) \<longrightarrow>
        (\<exists>r. map_of (cl_servers (lr_client l)) n = Some r \<and> unat g \<le> unat (sr_generation r) \<and>
           (g = sr_generation r \<and> sr_session r \<noteq> None \<longrightarrow> sr_session r = Some s)))"

lemma generation_next:
  fixes g :: "64 word"
  assumes "unat g \<le> k" "Suc k < 2 ^ 64"
  shows "unat (g + 1) = Suc (unat g)"
  using assms by (simp add: unat_word_ariths)

lemma evolves_generation:
  assumes "evolves env P n r r'" "unat (sr_generation r) \<le> k" "Suc k < 2 ^ 64"
  shows "unat (sr_generation r) \<le> unat (sr_generation r')" "unat (sr_generation r') \<le> Suc k"
    and "sr_generation r' = sr_generation r \<Longrightarrow> sr_session r' = sr_session r"
  using assms generation_next [OF assms(2,3)] by (auto simp: evolves_def)

lemma client_inv_step:
  assumes inv: "client_inv env k l" and bound: "Suc k < 2 ^ 64"
  shows "client_inv env (Suc k) (client_step env l ev)"
  unfolding client_inv_def
proof (intro conjI allI impI)
  fix n r'
  assume "map_of (cl_servers (lr_client (client_step env l ev))) n = Some r'"
  then obtain r where r: "map_of (cl_servers (lr_client l)) n = Some r" and e: "evolves env (set (lr_pending l)) n r r'"
    by (rule step_lookup_back)
  with inv have k: "unat (sr_generation r) \<le> k" and l: "listed_by env r" by (auto simp: client_inv_def)
  show "unat (sr_generation r') \<le> Suc k" using evolves_generation [OF e k bound] by simp
  from e consider "sr_session r' = sr_session r" "tool_facts (sr_tools r') = tool_facts (sr_tools r)" |
      "sr_tools r' = []" | "sr_session r' = None" |
      (listed) s now where "(n, s, sr_generation r) \<in> set (lr_pending l)" "refreshed_tools env (sr_config r) s now = Inr (sr_tools r')"
        "sr_session r \<noteq> None" "sr_session r' = sr_session r"
    by (auto simp: evolves_def)
  then show "listed_by env r'"
  proof cases
    case listed
    with inv r have "sr_session r = Some s" by (fastforce simp: client_inv_def)
    with listed e show ?thesis by (auto simp: listed_by_def evolves_def)
  qed (use e l in \<open>auto simp: listed_by_def evolves_def tool_facts_def\<close>)
next
  fix n s g
  assume p: "(n, s, g) \<in> set (lr_pending (client_step env l ev))"
  let ?c = "lr_client (client_step env l ev)"
  show "\<exists>r. map_of (cl_servers ?c) n = Some r \<and> unat g \<le> unat (sr_generation r) \<and>
      (g = sr_generation r \<and> sr_session r \<noteq> None \<longrightarrow> sr_session r = Some s)"
  proof (cases "(n, s, g) \<in> set (lr_pending l)")
    case True
    with inv obtain r where r: "map_of (cl_servers (lr_client l)) n = Some r" "unat g \<le> unat (sr_generation r)"
      "g = sr_generation r \<Longrightarrow> sr_session r \<noteq> None \<Longrightarrow> sr_session r = Some s" "unat (sr_generation r) \<le> k"
      by (fastforce simp: client_inv_def)
    obtain r' where r': "map_of (cl_servers ?c) n = Some r'" "evolves env (set (lr_pending l)) n r r'"
      using step_evolves [OF r(1)] by blast
    note g = evolves_generation [OF r'(2) r(4) bound]
    have "g = sr_generation r' \<Longrightarrow> g = sr_generation r" using g(1) r(2) by (simp add: word_unat_eq_iff)
    with g r r'(1) show ?thesis by (metis le_trans)
  next
    case False
    with step_pending [OF p] show ?thesis by auto
  qed
qed


lemma add_servers_lookup:
  assumes "add_servers parse cs m = Inr m'"
  shows "map_of m' n = (case find (\<lambda>c. xc_name c = n) cs of
           Some c \<Rightarrow> Some (new_server_runtime c) | None \<Rightarrow> map_of m n)"
  using assms
proof (induction parse cs m arbitrary: m' rule: add_servers.induct)
  case (2 parse c cs servers)
  then have step: "map_of servers (xc_name c) = None" "add_servers parse cs (AList.update (xc_name c) (new_server_runtime c) servers) = Inr m'"
    by (auto split: option.splits if_splits)
  have keep: "find (\<lambda>c'. xc_name c' = xc_name c) cs = None"
    if "add_servers parse cs s = Inr m'" "map_of s (xc_name c) \<noteq> None" for s :: "'a server_runtime gomap" and m'
    using that
  proof (induction cs arbitrary: s)
    case (Cons d cs)
    then show ?case by (auto simp: map_of_update split: option.splits if_splits)
  qed simp
  from 2(1) [OF _ _ step(2)] 2(2) step have "map_of m' n = (case find (\<lambda>c. xc_name c = n) cs of
      Some c \<Rightarrow> Some (new_server_runtime c) | None \<Rightarrow> map_of (AList.update (xc_name c) (new_server_runtime c) servers) n)"
    by (auto split: option.splits if_splits)
  moreover from keep [OF step(2)] have "find (\<lambda>c'. xc_name c' = xc_name c) cs = None" by (simp add: map_of_update)
  ultimately show ?case by (auto simp: map_of_update split: option.splits)
qed simp

lemma new_client_lookup:
  assumes "new_client parse configs opts = Inr c" and "map_of (cl_servers c) n = Some r"
  shows "\<exists>x. x \<in> set configs \<and> xc_name x = n \<and> r = new_server_runtime x"
proof -
  from assms(1) obtain m where "add_servers parse configs [] = Inr m" "cl_servers c = m"
    by (auto simp: new_client_def bind_result_Inr_iff)
  with add_servers_lookup [of parse configs "[]" m n] assms(2) show ?thesis
    by (auto simp: find_Some_iff split: option.splits) (metis nth_mem)
qed

lemma history_snoc: "client_history env c (evs @ [ev]) = client_step env (client_history env c evs) ev"
  by (simp add: client_history_def)

lemma history_inv:
  assumes "new_client parse configs opts = Inr c" and "length evs < 2 ^ 64"
  shows "client_inv env (length evs) (client_history env c evs)"
  using assms(2)
proof (induction evs rule: rev_induct)
  case Nil
  then show ?case
    using new_client_lookup [OF assms(1)]
    by (fastforce simp: client_inv_def client_history_def listed_by_def new_server_runtime_def)
next
  case (snoc ev evs)
  then show ?case using client_inv_step [of env "length evs" "client_history env c evs" ev] by (simp add: history_snoc)
qed

text \<open>C7: However connections, refreshes, calls and closing interleave, the tools a server offers are those that
  its current session listed: a list that an older session has answered is never installed over a new
  session, even when the two refreshes overlap.\<close>

theorem tools_of_current_session:
  assumes "new_client parse configs opts = Inr c" and "length evs < 2 ^ 64"
    and "map_of (cl_servers (lr_client (client_history env c evs))) name = Some r" and "sr_session r = Some s"
  shows "sr_tools r = [] \<or> (\<exists>now ts. refreshed_tools env (sr_config r) s now = Inr ts \<and>
    map (\<lambda>(model, d). (model, dt_remote_name d, dt_definition d)) (sr_tools r) =
    map (\<lambda>(model, d). (model, dt_remote_name d, dt_definition d)) ts)"
proof -
  have strip: "map (\<lambda>(model, d). (model, dt_remote_name d, dt_definition d)) ts =
      map (\<lambda>(m, n, d, e). (m, n, d)) (tool_facts ts)" for ts :: "discovered_tool gomap"
    by (auto simp: tool_facts_def)
  from history_inv [OF assms(1,2), of env] assms(3) have "listed_by env r" by (auto simp: client_inv_def)
  moreover have "sr_tools r = []" if "tool_facts (sr_tools r) = []" using that by (simp add: tool_facts_def)
  ultimately show ?thesis unfolding strip using assms(4) by (metis listed_by_def)
qed


section \<open>What a client knows of its tools\<close>

definition runtime_ok :: "server_config list \<Rightarrow> string \<Rightarrow> 's server_runtime \<Rightarrow> bool" where
  "runtime_ok configs n r \<longleftrightarrow> sr_config r \<in> set configs \<and> xc_name (sr_config r) = n \<and>
     (sr_session r \<noteq> None \<longrightarrow> xc_enabled (sr_config r) \<and> xc_trusted (sr_config r)) \<and>
     (\<forall>(m, remote, d, server, tool, model) \<in> set (tool_facts (sr_tools r)).
        server = n \<and> tool = remote \<and> model = m \<and> td_name d = m \<and> mcp_model_name n remote = Inr m)"

lemma new_tool_facts:
  assumes "new_discovered_tool env server t = Inr d"
  shows "mcp_model_name server (dt_remote_name d) = Inr (dt_model_name d) \<and> ts_server (dt_status d) = server \<and>
    ts_name (dt_status d) = dt_remote_name d \<and> ts_model_name (dt_status d) = dt_model_name d \<and>
    td_name (dt_definition d) = dt_model_name d"
proof -
  from assms obtain x model where "t = Some x" "mcp_model_name server (rm_name x) = Inr model"
    by (auto simp: new_discovered_tool_def bind_result_Inr_iff split: option.splits)
  with assms show ?thesis
    by (cases "tool_parameters env (rm_schema x)") (auto simp: new_discovered_tool_def)
qed

lemma discover_tools_facts:
  assumes "discover_tools env n ts found = Inr found'"
    and "\<forall>(m, remote, d, server, tool, model) \<in> set (tool_facts found).
      server = n \<and> tool = remote \<and> model = m \<and> td_name d = m \<and> mcp_model_name n remote = Inr m"
  shows "\<forall>(m, remote, d, server, tool, model) \<in> set (tool_facts found').
      server = n \<and> tool = remote \<and> model = m \<and> td_name d = m \<and> mcp_model_name n remote = Inr m"
  using assms
proof (induction env n ts found rule: discover_tools.induct)
  case (2 env server t ts found)
  from 2(2) obtain d where d: "new_discovered_tool env server t = Inr d" "map_of found (dt_model_name d) = None"
    "discover_tools env server ts (found @ [(dt_model_name d, d)]) = Inr found'"
    by (auto simp: bind_result_Inr_iff split: if_splits)
  then have "mcp_model_name server (dt_remote_name d) = Inr (dt_model_name d) \<and> ts_server (dt_status d) = server \<and>
      ts_name (dt_status d) = dt_remote_name d \<and> ts_model_name (dt_status d) = dt_model_name d \<and>
      td_name (dt_definition d) = dt_model_name d"
    using new_tool_facts by blast
  with 2(1) [of d] 2(3) d show ?case by (auto simp: tool_facts_def)
qed simp

lemma refreshed_facts:
  assumes "refreshed_tools env c s now = Inr ts"
  shows "\<forall>(m, remote, d, server, tool, model) \<in> set (tool_facts ts).
      server = xc_name c \<and> tool = remote \<and> model = m \<and> td_name d = m \<and> mcp_model_name (xc_name c) remote = Inr m"
  using assms discover_tools_facts [of env "xc_name c" _ "[]" ts]
  by (auto simp: refreshed_tools_def tool_facts_def split: if_splits sum.splits)

lemma evolves_runtime_ok:
  assumes e: "evolves env P n r r'" and ok: "runtime_ok configs n r"
  shows "runtime_ok configs n r'"
proof -
  have c: "sr_config r' = sr_config r" using e by (simp add: evolves_def)
  from e consider (same) "tool_facts (sr_tools r') = tool_facts (sr_tools r)" |
      (fresh) "sr_tools r' = []" |
      (listed) s now where "refreshed_tools env (sr_config r) s now = Inr (sr_tools r')"
    unfolding evolves_def by (elim conjE disjE exE) simp_all
  then have facts: "\<forall>(m, remote, d, server, tool, model) \<in> set (tool_facts (sr_tools r')).
      server = n \<and> tool = remote \<and> model = m \<and> td_name d = m \<and> mcp_model_name n remote = Inr m"
  proof cases
    case same
    with ok show ?thesis by (simp add: runtime_ok_def)
  next
    case fresh
    then show ?thesis by (simp add: tool_facts_def)
  next
    case listed
    with refreshed_facts [OF listed] ok show ?thesis by (simp add: runtime_ok_def)
  qed
  have "sr_session r' \<noteq> None \<Longrightarrow> xc_enabled (sr_config r) \<and> xc_trusted (sr_config r)"
    using e ok unfolding evolves_def runtime_ok_def by (elim conjE disjE exE) simp_all
  with c ok facts show ?thesis by (simp add: runtime_ok_def)
qed

lemma history_ok:
  assumes "new_client parse configs opts = Inr c"
    and "map_of (cl_servers (lr_client (client_history env c evs))) n = Some r"
  shows "runtime_ok configs n r"
  using assms(2)
proof (induction evs arbitrary: r rule: rev_induct)
  case Nil
  then show ?case using new_client_lookup [OF assms(1)]
    by (fastforce simp: client_history_def runtime_ok_def new_server_runtime_def tool_facts_def)
next
  case (snoc ev evs)
  from snoc(2) obtain r0 where "map_of (cl_servers (lr_client (client_history env c evs))) n = Some r0"
    "evolves env (set (lr_pending (client_history env c evs))) n r0 r"
    unfolding history_snoc by (rule step_lookup_back)
  with snoc(1) show ?case by (auto dest: evolves_runtime_ok)
qed

lemma runtime_ok_tool:
  assumes "runtime_ok configs n r" "(m, d) \<in> set (sr_tools r)"
  shows "ts_server (dt_status d) = n" "ts_name (dt_status d) = dt_remote_name d" "ts_model_name (dt_status d) = m"
    "mcp_model_name n (dt_remote_name d) = Inr m"
proof -
  from assms(2) have "(m, dt_remote_name d, dt_definition d, ts_server (dt_status d), ts_name (dt_status d),
      ts_model_name (dt_status d)) \<in> set (tool_facts (sr_tools r))"
    by (force simp: tool_facts_def)
  with assms(1) show "ts_server (dt_status d) = n" "ts_name (dt_status d) = dt_remote_name d" "ts_model_name (dt_status d) = m"
    "mcp_model_name n (dt_remote_name d) = Inr m"
    by (auto simp: runtime_ok_def)
qed

lemma status_listed:
  assumes "t \<in> set (tool_statuses c)"
  obtains n r m d where "map_of (cl_servers c) n = Some r" "(m, d) \<in> set (sr_tools r)" "t = dt_status d"
proof -
  from assms obtain n where n: "n \<in> set (map fst (cl_servers c))"
    "t \<in> (dt_status \<circ> snd) ` set (sr_tools (the (map_of (cl_servers c) n)))"
    by (auto simp: tool_statuses_def server_names_def)
  then obtain r where r: "map_of (cl_servers c) n = Some r" by (metis map_of_eq_None_iff not_None_eq set_map)
  with n that show thesis by auto
qed

lemma find_mcp_tool_found:
  "find_mcp_tool order c model = Some (n, r, d) \<Longrightarrow> map_of (cl_servers c) n = Some r \<and> map_of (sr_tools r) model = Some d"
  by (induction order c model rule: find_mcp_tool.induct) (auto split: option.splits)

lemma call_sent:
  assumes "call_tool env order answer now model raw c = (Some (n, s, remote, args), result, c')"
  shows "\<exists>r d. map_of (cl_servers c) n = Some r \<and> sr_session r = Some s \<and> map_of (sr_tools r) model = Some d \<and> remote = dt_remote_name d"
  using assms by (auto simp: call_tool_def split: if_splits option.splits prod.splits sum.splits dest: find_mcp_tool_found)


section \<open>The policy of granted tools\<close>

lemma map_of_keys: "map_of (map (\<lambda>n. (n, f n)) xs) k = (if k \<in> set xs then Some (f k) else None)"
  by (induction xs) auto

lemma mcp_configs_servers: "mcp_configs host scope st = (configs, servers, denied) \<Longrightarrow> map_of servers n = map_of (mcp_servers (st_mcp st)) n"
  by (auto simp: mcp_configs_def Let_def map_of_keys map_of_eq_None_iff)
    (metis domI domIff map_of_eq_None_iff option.collapse)

lemma mcp_configs_config:
  assumes "mcp_configs host scope st = (configs, servers, denied)" and "x \<in> set configs"
  shows "\<exists>n s. map_of (mcp_servers (st_mcp st)) n = Some s \<and> mcp_config host scope st n s = Inr x"
proof -
  let ?made = "\<lambda>n. mcp_config host scope st n (the (map_of (mcp_servers (st_mcp st)) n))"
  from assms have "x \<in> set (concat (map (\<lambda>n. case ?made n of Inl d \<Rightarrow> [] | Inr c \<Rightarrow> [c])
      (sort_key (\<lambda>n. n) (map fst (mcp_servers (st_mcp st))))))"
    by (simp add: mcp_configs_def Let_def comp_def)
  then obtain n where n: "n \<in> set (map fst (mcp_servers (st_mcp st)))" "?made n = Inr x"
    by (auto split: sum.split_asm) (metis fst_conv image_eqI)
  then obtain s where "map_of (mcp_servers (st_mcp st)) n = Some s" by (metis map_of_eq_None_iff not_None_eq set_map)
  with n show ?thesis by auto
qed

lemma mcp_config_facts:
  assumes "mcp_config host scope st n s = Inr x"
  shows "xc_name x = n" "\<not> recursive_mcp s" "xc_enabled x = mc_enabled s" "xc_trusted x = mc_enabled s"
    "mc_transport s = ''stdio'' \<Longrightarrow> to_sandbox (st_tools st) \<noteq> ''off'' \<Longrightarrow> xc_sandboxed x"
  using assms by (auto simp: mcp_config_def plain_config_def Let_def split: if_splits sum.splits)

lemma foldl_update_lookup:
  "map_of (foldl (\<lambda>m x. AList.update (k x) (v x) m) m xs) n = Some t \<Longrightarrow>
     map_of m n = Some t \<or> (\<exists>x \<in> set xs. k x = n \<and> v x = t)"
  by (induction xs arbitrary: m) (fastforce simp: map_of_update split: if_splits)+

lemma foldl_pairs_lookup: "map_of (foldl (\<lambda>m x. AList.update (fst x) (snd x) m) [] xs) n = Some t \<Longrightarrow> (n, t) \<in> set xs"
  using foldl_update_lookup [of fst snd "[]" xs n t] by (auto simp: prod_eq_iff)

lemma in_concat_map: "y \<in> set (concat (map f xs)) \<Longrightarrow> \<exists>a b c. (a, b, c) \<in> set xs \<and> y \<in> set (f (a, b, c))"
  by force

lemma fragment_tool:
  assumes "map_of (fr_tools (mcp_fragment e servers available statuses contexts describe)) n = Some t"
  shows "(\<exists>u \<in> set statuses. fst (tool_grant e u) \<and> ts_model_name u = n \<and> t = Call_Tool n) \<or>
    (\<exists>name s op server what. (name, s) \<in> set (pe_servers e) \<and> fst (context_grant s) \<and> op \<in> set context_operation_names \<and>
       n = context_tool_name name op \<and> map_of contexts n = Some (server, what) \<and> t = Context_Tool server what)"
proof -
  let ?granted = "filter (\<lambda>t. fst (tool_grant e t) \<and> map_of available (ts_model_name t) \<noteq> None) statuses"
  let ?offered = "concat (map (\<lambda>(n, s). map (\<lambda>op. (n, s, op))
    (filter (\<lambda>op. map_of contexts (context_tool_name n op) \<noteq> None) context_operation_names)) (pe_servers e))"
  let ?f = "\<lambda>(n, s, op). case map_of contexts (context_tool_name n op) of None \<Rightarrow> []
    | Some (server, what) \<Rightarrow> [(context_tool_name n op, Context_Tool server what)]"
  let ?pairs = "map (\<lambda>t. (ts_model_name t, Call_Tool (ts_model_name t))) ?granted @
    concat (map ?f (filter (\<lambda>(n, s, op). fst (context_grant s)) ?offered))"
  from assms have "map_of (foldl (\<lambda>m x. AList.update (fst x) (snd x) m) [] ?pairs) n = Some t"
    by (simp add: mcp_fragment_def Let_def)
  then have "(n, t) \<in> set ?pairs" by (rule foldl_pairs_lookup)
  then consider "(n, t) \<in> set (map (\<lambda>t. (ts_model_name t, Call_Tool (ts_model_name t))) ?granted)" |
    "(n, t) \<in> set (concat (map ?f (filter (\<lambda>(n, s, op). fst (context_grant s)) ?offered)))"
    unfolding set_append by blast
  then show ?thesis
  proof cases
    case 1
    then show ?thesis by auto
  next
    case 2
    from in_concat_map [OF 2] obtain name s op where ctx: "(name, s, op) \<in> set (filter (\<lambda>(n, s, op). fst (context_grant s)) ?offered)"
      "(n, t) \<in> set (?f (name, s, op))"
      by (elim exE conjE)
    then have "(name, s) \<in> set (pe_servers e)" "fst (context_grant s)" "op \<in> set context_operation_names" by auto
    moreover from ctx(2) have "\<exists>server what. n = context_tool_name name op \<and> map_of contexts n = Some (server, what) \<and>
        t = Context_Tool server what"
      by (auto split: option.splits)
    ultimately show ?thesis by blast
  qed
qed

lemma context_tools_lookup:
  assumes "map_of (context_tools env c) n = Some (server, what)"
  shows "n = context_tool_name server what \<and> what \<in> set context_operation_names \<and> server \<in> set (server_names c)"
proof -
  have ops: "set (context_operations env r) \<subseteq> set context_operation_names" for r :: "'a server_runtime"
    by (auto simp: context_operations_def context_operation_names_def split: option.splits)
  have one: "map_of m n = Some x \<or> (\<exists>op \<in> set os. n = context_tool_name s op \<and> x = (s, op))"
    if "map_of (foldl (\<lambda>m op. AList.update (context_tool_name s op) (s, op) m) m os) n = Some x" for m os s x
    using foldl_update_lookup [of "context_tool_name s" "Pair s", OF that] by auto
  have "map_of m n = Some (server, what) \<or>
      (n = context_tool_name server what \<and> what \<in> set context_operation_names \<and> server \<in> set ns)"
    if "map_of (foldl (\<lambda>m n. foldl (\<lambda>m op. AList.update (context_tool_name n op) (n, op) m) m
          (context_operations env (the (map_of (cl_servers c) n)))) m ns) n = Some (server, what)" for m ns
    using that
  proof (induction ns arbitrary: m)
    case (Cons s ns)
    from Cons(1) [OF Cons(2) [unfolded foldl.simps]] one [of s m _ "(server, what)"] ops show ?case
      by (auto dest: subsetD)
  qed simp
  with assms show ?thesis by (fastforce simp: context_tools_def)
qed

lemma context_tool_name_inj:
  assumes "context_tool_name a op = context_tool_name b op'" "op \<in> set context_operation_names" "op' \<in> set context_operation_names"
  shows "a = b \<and> op = op'"
proof -
  from assms(1) have "rev (a @ ''__'' @ op) = rev (b @ ''__'' @ op')" by (simp add: context_tool_name_def)
  then have eq: "rev op @ ''__'' @ rev a = rev op' @ ''__'' @ rev b" by simp
  then have "List.take 3 (rev op @ ''__'' @ rev a) = List.take 3 (rev op' @ ''__'' @ rev b)" by (rule arg_cong)
  with assms(2,3) have "op = op'" by (auto simp: context_operation_names_def)
  with eq show ?thesis by simp
qed


lemma mcp_configs_entry:
  assumes "mcp_configs host scope st = (configs, servers, denied)" and "(n, s) \<in> set servers"
  shows "map_of (mcp_servers (st_mcp st)) n = Some s"
proof -
  from assms have "n \<in> set (map fst (mcp_servers (st_mcp st)))" "s = the (map_of (mcp_servers (st_mcp st)) n)"
    by (auto simp: mcp_configs_def Let_def)
  then show ?thesis by (metis map_of_eq_None_iff option.collapse set_map)
qed

lemma settings_server:
  assumes "mcp_configs host scope st = (configs, servers, denied)" and "new_client parse configs opts = Inr c"
    and "map_of (cl_servers (lr_client (client_history env c evs))) name = Some r"
  shows "\<exists>s. map_of (mcp_servers (st_mcp st)) name = Some s \<and> \<not> recursive_mcp s \<and> map_of servers name = Some s"
proof -
  from history_ok [OF assms(2,3)] have r: "sr_config r \<in> set configs" "xc_name (sr_config r) = name"
    by (auto simp: runtime_ok_def)
  then obtain n s where "map_of (mcp_servers (st_mcp st)) n = Some s" "mcp_config host scope st n s = Inr (sr_config r)"
    using mcp_configs_config [OF assms(1)] by blast
  with r show ?thesis using mcp_config_facts [of host scope st n s "sr_config r"] mcp_configs_servers [OF assms(1)] by auto
qed

lemma granted_tools:
  assumes "mcp_configs host scope st = (configs, servers, denied)" and "new_client parse configs opts = Inr c"
    and "statuses = tool_statuses (lr_client (client_history env c evs))"
    and "map_of (fr_tools (mcp_fragment \<lparr>pe_servers = servers, pe_denied = denied\<rparr> infos available statuses contexts
           describe)) n = Some (Call_Tool n)"
  shows "\<exists>name s remote. map_of (mcp_servers (st_mcp st)) name = Some s \<and> \<not> recursive_mcp s \<and>
    mcp_model_name name remote = Inr n \<and> mcp_tool_enabled s remote n \<and> mcp_approval s remote = ''never''"
proof -
  let ?e = "\<lparr>pe_servers = servers, pe_denied = denied\<rparr>"
  from fragment_tool [OF assms(4)] obtain u where u: "u \<in> set statuses" "fst (tool_grant ?e u)" "ts_model_name u = n" by auto
  from u(1) obtain name r m d where r: "map_of (cl_servers (lr_client (client_history env c evs))) name = Some r"
    "(m, d) \<in> set (sr_tools r)" "u = dt_status d"
    unfolding assms(3) by (rule status_listed)
  note facts = runtime_ok_tool [OF history_ok [OF assms(2) r(1)] r(2)]
  from settings_server [OF assms(1,2) r(1)] obtain s where s: "map_of (mcp_servers (st_mcp st)) name = Some s" "\<not> recursive_mcp s"
    "policy_server ?e name = s" by (auto simp: policy_server_def)
  with u facts r(3) have "mcp_tool_enabled s (ts_name u) n" "mcp_approval s (ts_name u) = ''never''"
    by (auto simp: tool_grant_def Let_def split: if_splits)
  with s u facts r(3) show ?thesis by auto
qed

text \<open>C5: Every MCP tool that a conversation is granted belongs to a server of its settings that is enabled and
  is not the program's own outward bridge; a tool of such a server is switched on there and needs no
  approval, and the operations on its resources and prompts are granted only when the server itself
  needs none. This holds whatever its client has gone through before the snapshots are taken.\<close>

theorem granted_tools_pass_policy:
  assumes "mcp_configs host scope st = (configs, servers, denied)" and "new_client parse configs opts = Inr c"
    and "statuses = tool_statuses (lr_client (client_history env c evs))"
    and "contexts = context_tools env (lr_client (client_history env c evs'))"
    and "map_of (fr_tools (mcp_fragment \<lparr>pe_servers = servers, pe_denied = denied\<rparr> infos available statuses contexts
           describe)) n = Some t"
  shows "\<exists>name s. map_of (mcp_servers (st_mcp st)) name = Some s \<and> mc_enabled s \<and> \<not> recursive_mcp s \<and>
    ((\<exists>remote. mcp_model_name name remote = Inr n \<and> t = Call_Tool n \<and> mcp_tool_enabled s remote n \<and>
        mcp_approval s remote = ''never'') \<or>
     (\<exists>op. n = context_tool_name name op \<and> t = Context_Tool name op \<and> mc_approval s = ''never''))"
proof -
  from fragment_tool [OF assms(5)] show ?thesis
  proof (elim disjE bexE conjE exE)
    assume "t = Call_Tool n"
    with granted_tools [OF assms(1-3) assms(5) [unfolded \<open>t = Call_Tool n\<close>]] show ?thesis
      by (auto simp: mcp_tool_enabled_def)
  next
    fix name s op server what
    assume a: "(name, s) \<in> set (pe_servers \<lparr>pe_servers = servers, pe_denied = denied\<rparr>)" "fst (context_grant s)" "op \<in> set context_operation_names"
      "n = context_tool_name name op" "map_of contexts n = Some (server, what)" "t = Context_Tool server what"
    from context_tools_lookup [OF a(5) [unfolded assms(4)]] context_tool_name_inj [of name op server what] a
    have eq: "server = name" "what = op" "name \<in> set (server_names (lr_client (client_history env c evs')))" by auto
    then obtain r where "map_of (cl_servers (lr_client (client_history env c evs'))) name = Some r"
      by (simp add: server_names_def) (metis map_of_eq_None_iff not_None_eq set_map)
    from settings_server [OF assms(1,2) this] mcp_configs_entry [OF assms(1), of name s] a(1)
    have "map_of (mcp_servers (st_mcp st)) name = Some s" "\<not> recursive_mcp s" by auto
    moreover from a(2) have "mc_enabled s" "mc_approval s = ''never''" by (auto simp: context_grant_def split: if_splits)
    ultimately show ?thesis using a(4,6) eq by blast
  qed
qed


text \<open>C6: A call of a granted tool goes to a server and a tool that the settings allow without approval,
  whatever the client has gone through meanwhile and in whatever order its servers are searched,
  when no server's name contains two underscores in a row or ends with one.\<close>

theorem granted_call_reaches_granted_tool:
  assumes "mcp_configs host scope st = (configs, servers, denied)" and "new_client parse configs opts = Inr c"
    and "statuses = tool_statuses (lr_client (client_history env c evs))"
    and "map_of (fr_tools (mcp_fragment \<lparr>pe_servers = servers, pe_denied = denied\<rparr> infos available statuses contexts
           describe)) n = Some (Call_Tool n)"
    and "call_tool env order answer now n raw (lr_client (client_history env c evs')) = (Some (server, session, remote, args), out)"
    and "\<forall>name \<in> fst ` set (mcp_servers (st_mcp st)). plain_server_name name"
  shows "\<exists>s. map_of (mcp_servers (st_mcp st)) server = Some s \<and> mcp_tool_enabled s remote n \<and>
    mcp_approval s remote = ''never''"
proof -
  from granted_tools [OF assms(1-4)] obtain name s remote' where g: "map_of (mcp_servers (st_mcp st)) name = Some s"
    "mcp_model_name name remote' = Inr n" "mcp_tool_enabled s remote' n" "mcp_approval s remote' = ''never''" by blast
  from call_sent assms(5) obtain r d where r: "map_of (cl_servers (lr_client (client_history env c evs'))) server = Some r"
    "map_of (sr_tools r) n = Some d" "remote = dt_remote_name d" by (metis prod.collapse)
  from settings_server [OF assms(1,2) r(1)] obtain s' where s': "map_of (mcp_servers (st_mcp st)) server = Some s'" by blast
  from runtime_ok_tool(4) [OF history_ok [OF assms(2) r(1)] map_of_SomeD [OF r(2)]]
  have "mcp_model_name server remote = Inr n" by (simp add: r(3))
  moreover have "plain_server_name name" "plain_server_name server"
    using assms(6) map_of_SomeD [OF g(1)] map_of_SomeD [OF s'] by force+
  ultimately have "name = server \<and> remote' = remote" using model_name_inj [OF g(2)] by blast
  with g show ?thesis by blast
qed

section \<open>Names that collide\<close>

definition mesh_url :: "string \<Rightarrow> mcp_url option" where
  "mesh_url u = Some \<lparr>xu_scheme = ''http'', xu_host = ''localhost'', xu_user = None, xu_query = [], xu_safe = u\<rparr>"

text \<open>Sessions are the names of their servers; the one of \<open>a__b\<close> lists a tool \<open>c\<close>, the others \<open>b__c\<close>.\<close>

definition mesh_env :: "string mcp_env" where
  "mesh_env = \<lparr>me_parse = mesh_url, me_is_object = (\<lambda>s. True), me_decode = Inr,
     me_init = (\<lambda>s. Some \<lparr>in_protocol = [], in_capabilities = Some \<lparr>ca_tools = True, ca_resources = False, ca_prompts = False\<rparr>,
       in_server = None\<rparr>),
     me_list = (\<lambda>s now n cursor. Inr (Some \<lparr>pg_items = [Some \<lparr>rm_name = (if s = ''a__b'' then ''c'' else ''b__c''),
       rm_description = [], rm_schema = Json_None\<rparr>], pg_next = []\<rparr>)),
     me_resources = (\<lambda>s. False), me_prompts = (\<lambda>s. False)\<rparr>"

definition mesh_server :: "string \<Rightarrow> mcp_server" where
  "mesh_server approval = no_server\<lparr>mc_transport := ''streamable_http'', mc_url := ''http://localhost'',
     mc_approval := approval, mc_enabled := True\<rparr>"

definition mesh_settings :: "string \<Rightarrow> settings" where
  "mesh_settings other = (default_settings [])\<lparr>st_mcp := \<lparr>mcp_servers =
     [(''a'', mesh_server ''never''), (other, mesh_server ''always'')]\<rparr>\<rparr>"

definition mesh_scope :: cap_scope where
  "mesh_scope = \<lparr>cs_conversation_id = ''t'', cs_settings_id = [], cs_kind = ''project'', cs_cwd = ''/p'',
     cs_additional_folders = [], cs_builtins = []\<rparr>"

definition mesh_host :: mcp_host where
  "mesh_host = \<lparr>mh_wrap = (\<lambda>p. Inl ''none''), mh_temp = ''/tmp''\<rparr>"

definition mesh_options :: client_options where
  "mesh_options = \<lparr>op_client_name = [], op_client_version = [], op_connect_timeout = 0, op_list_timeout = 0,
     op_call_timeout = 0, op_max_result_bytes = 0, op_max_structured_bytes = 0\<rparr>"

definition mesh_client :: "string \<Rightarrow> string mcp_client" where
  "mesh_client other = (case new_client mesh_url (fst (mcp_configs mesh_host mesh_scope (mesh_settings other))) mesh_options of Inr c \<Rightarrow> c)"

definition mesh_events :: "string \<Rightarrow> string client_event list" where
  "mesh_events other = [Ev_Connected ''a'' ''a'' 0, Ev_Connected other other 0, Ev_Refreshed 1 0, Ev_Refreshed 0 0]"

definition mesh_run :: "string \<Rightarrow> string mcp_client" where
  "mesh_run other = lr_client (client_history mesh_env (mesh_client other) (mesh_events other))"

definition mesh_fragment :: "string \<Rightarrow> (mcp_tool, unit, unit) fragment" where
  "mesh_fragment other = mcp_fragment \<lparr>pe_servers = fst (snd (mcp_configs mesh_host mesh_scope (mesh_settings other))),
       pe_denied = snd (snd (mcp_configs mesh_host mesh_scope (mesh_settings other)))\<rparr>
     (server_statuses (mesh_run other)) (agent_tools [''a'', other] (mesh_run other)) (tool_statuses (mesh_run other))
     (context_tools mesh_env (mesh_run other)) (\<lambda>n. [])"

text \<open>With servers \<open>a\<close>, which needs no approval, and \<open>a__b\<close>, which always does, both names valid, the tool
  \<open>b__c\<close> of the first and the tool \<open>c\<close> of the second have one model name: it is granted by the
  policy of the first, and a call of it may run the tool of the second.\<close>

lemma colliding_name_bypasses_approval:
  "config_name ''a'' \<and> config_name ''a__b'' \<and>
   map_of (fr_tools (mesh_fragment ''a__b'')) ''mcp__a__b__c'' = Some (Call_Tool ''mcp__a__b__c'') \<and>
   mcp_approval (mesh_server ''always'') ''c'' = ''always'' \<and>
   map_of (mcp_servers (st_mcp (mesh_settings ''a__b''))) ''a__b'' = Some (mesh_server ''always'') \<and>
   fst (call_tool mesh_env [''a__b'', ''a''] (\<lambda>s tool args. Inr None) 0 ''mcp__a__b__c'' [] (mesh_run ''a__b'')) =
     Some (''a__b'', ''a__b'', ''c'', ''{}'')"
  by code_simp


section \<open>Instances\<close>

lemma mesh_facts:
  "mcp_configs mesh_host mesh_scope (mesh_settings ''b'') = (fst (mcp_configs mesh_host mesh_scope (mesh_settings ''b'')),
     fst (snd (mcp_configs mesh_host mesh_scope (mesh_settings ''b''))),
     snd (snd (mcp_configs mesh_host mesh_scope (mesh_settings ''b''))))"
  "new_client mesh_url (fst (mcp_configs mesh_host mesh_scope (mesh_settings ''b''))) mesh_options = Inr (mesh_client ''b'')"
  by simp code_simp

lemma mesh_granted: "map_of (fr_tools (mesh_fragment ''b'')) ''mcp__a__b__c'' = Some (Call_Tool ''mcp__a__b__c'')"
  by code_simp

lemma mesh_fragment_unfold:
  "fr_tools (mesh_fragment ''b'') = fr_tools (mcp_fragment \<lparr>pe_servers = fst (snd (mcp_configs mesh_host mesh_scope (mesh_settings ''b''))),
       pe_denied = snd (snd (mcp_configs mesh_host mesh_scope (mesh_settings ''b'')))\<rparr>
     (server_statuses (mesh_run ''b'')) (agent_tools [''a'', ''b''] (mesh_run ''b''))
     (tool_statuses (lr_client (client_history mesh_env (mesh_client ''b'') (mesh_events ''b''))))
     (context_tools mesh_env (lr_client (client_history mesh_env (mesh_client ''b'') (mesh_events ''b'')))) (\<lambda>n. []) ::
       (mcp_tool, unit, unit) fragment)"
  by (simp add: mesh_fragment_def mesh_run_def)

theorem granted_tools_pass_policy_witness:
  "\<exists>name s. map_of (mcp_servers (st_mcp (mesh_settings ''b''))) name = Some s \<and> mc_enabled s \<and> \<not> recursive_mcp s \<and>
    (\<exists>remote. mcp_model_name name remote = Inr ''mcp__a__b__c'' \<and> mcp_approval s remote = ''never'')"
  using granted_tools_pass_policy [OF mesh_facts refl refl mesh_granted [unfolded mesh_fragment_unfold]] by auto

lemma mesh_call:
  "call_tool mesh_env [''b'', ''a''] (\<lambda>s tool args. Inr None) 0 ''mcp__a__b__c'' []
     (lr_client (client_history mesh_env (mesh_client ''b'') (mesh_events ''b''))) =
   (Some (''a'', ''a'', ''b__c'', ''{}''), snd (call_tool mesh_env [''b'', ''a''] (\<lambda>s tool args. Inr None) 0 ''mcp__a__b__c'' []
     (lr_client (client_history mesh_env (mesh_client ''b'') (mesh_events ''b'')))))"
  by (rule prod_eqI) (code_simp, simp)

theorem granted_call_reaches_granted_tool_witness:
  "\<exists>s. map_of (mcp_servers (st_mcp (mesh_settings ''b''))) ''a'' = Some s \<and> mcp_tool_enabled s ''b__c'' ''mcp__a__b__c'' \<and>
    mcp_approval s ''b__c'' = ''never''"
  by (rule granted_call_reaches_granted_tool [OF mesh_facts refl mesh_granted [unfolded mesh_fragment_unfold] mesh_call])
    code_simp

lemma mesh_runtime:
  "map_of (cl_servers (lr_client (client_history mesh_env (mesh_client ''b'') (mesh_events ''b'')))) ''a'' =
     Some (the (map_of (cl_servers (mesh_run ''b'')) ''a''))"
  "sr_session (the (map_of (cl_servers (mesh_run ''b'')) ''a'')) = Some ''a''"
  "sr_tools (the (map_of (cl_servers (mesh_run ''b'')) ''a'')) \<noteq> []"
  by code_simp+

theorem tools_of_current_session_witness:
  "\<exists>now ts. refreshed_tools mesh_env (sr_config (the (map_of (cl_servers (mesh_run ''b'')) ''a''))) ''a'' now = Inr ts"
  using tools_of_current_session [OF mesh_facts(2) _ mesh_runtime(1,2)] mesh_runtime(3)
  by (auto simp: mesh_events_def)

end
