(* ===== verification/McpBounds.thy ===== *)
theory McpBounds
  imports McpPolicy McpContext "HOL-Library.Multiset"
begin

text \<open>
  What leaves the MCP client and what it keeps: errors carry no secret of a server's configuration,
  results stay within the limits of the options, and the source holds every open pool exactly once.
\<close>

section \<open>Occurrences in replaced texts\<close>










section \<open>Errors without secrets\<close>










section \<open>Bounded results\<close>









section \<open>Pools\<close>

fun flight_pools :: "'f flight \<Rightarrow> nat list" where
  "flight_pools (Creating key fp) = []"
| "flight_pools (Connected_Pool key fp pool) = [pool]"
| "flight_pools (Closing_Pool pool) = [pool]"

definition held_pools :: "'f mcp_source \<Rightarrow> nat multiset" where
  "held_pools s = mset (concat (map flight_pools (so_flights s))) + mset (map (\<lambda>(key, fp, pool). pool) (so_entries s))"

definition source_ok :: "'f mcp_source \<Rightarrow> bool" where
  "source_ok s \<longleftrightarrow> mset (so_open s) = held_pools s \<and> distinct (so_open s) \<and> (\<forall>p \<in> set (so_open s). p < so_next s) \<and>
     distinct (map fst (so_entries s)) \<and> (so_closed s \<longrightarrow> so_entries s = [])"

lemma flight_at:
  assumes "k < length fl"
  obtains A f B where "fl ! k = f" "fl = A @ f # B" "\<And>v. fl[k := v] = A @ v # B" "drop_nth k fl = A @ B"
  using assms that [of "fl ! k" "List.take k fl" "drop (Suc k) fl"]
  by (simp add: id_take_nth_drop [symmetric] upd_conv_take_nth_drop drop_nth_def)

lemma source_ok_same:
  assumes "source_ok s" "so_open s' = so_open s" "so_next s' = so_next s" "held_pools s' = held_pools s"
    "distinct (map fst (so_entries s'))" "so_closed s' \<longrightarrow> so_entries s' = []"
  shows "source_ok s'"
  using assms by (simp add: source_ok_def)

lemma source_ok_closed:
  assumes "source_ok s" "so_open s' = remove1 p (so_open s)" "so_next s' = so_next s" "held_pools s' + {#p#} = held_pools s"
    "so_entries s' = so_entries s" "so_closed s' = so_closed s"
  shows "source_ok s'"
proof -
  from assms have "mset (so_open s') = held_pools s'" by (simp add: source_ok_def) (metis add_mset_remove_trivial)
  with assms show ?thesis by (auto simp: source_ok_def dest: in_set_remove1)
qed

lemma update_new: "map_of es key = None \<Longrightarrow> AList.update key v es = es @ [(key, v)]"
  by (induction es) (auto split: if_splits)

lemma update_old:
  "map_of es key = Some (fp', old) \<Longrightarrow>
     mset (map (\<lambda>(key, fp, pool). pool) (AList.update key (fp, pool) es)) + {#old#} =
     mset (map (\<lambda>(key, fp, pool). pool) es) + {#pool#}"
  by (induction es) (auto split: if_splits)

lemma closing_pools:
  "concat (map (flight_pools \<circ> (\<lambda>(key, fp, pool). Closing_Pool pool)) es) = map (\<lambda>(key, fp, pool). pool) es"
  by (induction es) auto

lemma source_ok_connected:
  assumes ok: "source_ok s" and k: "k < length (so_flights s)"
  shows "source_ok (source_step s (Pool_Connected k))"
proof -
  from k obtain A f B where fl: "so_flights s ! k = f" "so_flights s = A @ f # B"
    "\<And>v. (so_flights s)[k := v] = A @ v # B" "drop_nth k (so_flights s) = A @ B" by (rule flight_at) blast
  show ?thesis
  proof (cases f)
    case (Connected_Pool key fp pool)
    note [simp] = Connected_Pool
    have entries: "distinct (map fst (so_entries s))" using ok by (simp add: source_ok_def)
    consider "so_closed s" | "\<not> so_closed s" "map_of (so_entries s) key = None" |
      old where "\<not> so_closed s" "map_of (so_entries s) key = Some (fp, old)" |
      fp' old where "\<not> so_closed s" "fp' \<noteq> fp" "map_of (so_entries s) key = Some (fp', old)"
      by (metis option.exhaust prod.exhaust)
    then show ?thesis
    proof cases
      case 1
      then show ?thesis using ok k fl(1,3) by (auto simp: source_ok_def held_pools_def fl(2))
    next
      case 2
      then have "source_step s (Pool_Connected k) = s\<lparr>so_entries := so_entries s @ [(key, fp, pool)], so_flights := A @ B\<rparr>"
        using k fl(1,4) by (simp add: update_new)
      moreover have "key \<notin> fst ` set (so_entries s)" using 2 by (simp add: map_of_eq_None_iff)
      ultimately show ?thesis using entries 2
        by (intro source_ok_same [OF ok]) (simp_all add: held_pools_def fl(2))
    next
      case 3
      then have "source_step s (Pool_Connected k) = s\<lparr>so_flights := A @ Closing_Pool pool # B\<rparr>"
        using k fl(1,3) by simp
      then show ?thesis using entries 3 by (intro source_ok_same [OF ok]) (simp_all add: held_pools_def fl(2))
    next
      case 4
      then have "source_step s (Pool_Connected k) =
          s\<lparr>so_entries := AList.update key (fp, pool) (so_entries s), so_flights := A @ Closing_Pool old # B\<rparr>"
        using k fl(1,3) by simp
      then show ?thesis using entries 4(1) update_old [OF 4(3), of fp pool]
        by (intro source_ok_same [OF ok]) (simp_all add: held_pools_def fl(2) distinct_update)
    qed
  qed (use ok k fl(1) in auto)
qed

lemma source_ok_step:
  assumes ok: "source_ok s"
  shows "source_ok (source_step s ev)"
proof (cases ev)
  case (Resolve_Starts key fp)
  with ok show ?thesis by (auto simp: source_ok_def held_pools_def split: option.splits)
next
  case (Pool_Created k)
  show ?thesis
  proof (cases "k < length (so_flights s)")
    case True
    then obtain A f B where fl: "so_flights s ! k = f" "so_flights s = A @ f # B"
      "\<And>v. (so_flights s)[k := v] = A @ v # B" by (rule flight_at) blast
    then show ?thesis using Pool_Created True ok
      by (cases f) (auto simp: source_ok_def held_pools_def less_Suc_eq)
  qed (use Pool_Created ok in simp)
next
  case (Creation_Failed k)
  show ?thesis
  proof (cases "k < length (so_flights s)")
    case True
    then obtain A f B where fl: "so_flights s ! k = f" "so_flights s = A @ f # B" "drop_nth k (so_flights s) = A @ B"
      by (rule flight_at) blast
    then show ?thesis using Creation_Failed True ok by (cases f) (auto simp: source_ok_def held_pools_def)
  qed (use Creation_Failed ok in simp)
next
  case (Pool_Connected k)
  then show ?thesis using source_ok_connected [OF ok, of k] ok by (cases "k < length (so_flights s)") simp_all
next
  case (Pool_Closed k)
  show ?thesis
  proof (cases "k < length (so_flights s)")
    case True
    then obtain A f B where fl: "so_flights s ! k = f" "so_flights s = A @ f # B" "drop_nth k (so_flights s) = A @ B"
      by (rule flight_at) blast
    show ?thesis
    proof (cases f)
      case (Closing_Pool p)
      then show ?thesis using Pool_Closed True fl(1,3)
        by (intro source_ok_closed [OF ok, of _ p]) (simp_all add: held_pools_def fl(2))
    qed (use Pool_Closed True ok fl(1) in auto)
  qed (use Pool_Closed ok in simp)
next
  case Source_Closed
  then show ?thesis using ok by (auto simp: source_ok_def held_pools_def closing_pools)
qed

lemma source_history_ok: "source_ok (source_history evs)"
proof (induction evs rule: rev_induct)
  case Nil
  show ?case by (simp add: source_history_def new_mcp_source_def source_ok_def held_pools_def)
next
  case (snoc ev evs)
  then show ?case by (simp add: source_history_def source_ok_step)
qed

text \<open>C8: However resolutions and the closing of the source interleave, each open pool is held exactly once: by
  the entry of one conversation or by one resolution that will install or close it. So when nothing is
  in flight the open pools are those of the entries, and after closing none is open.\<close>

theorem open_pools_held_once:
  "mset (so_open (source_history evs)) =
     mset (concat (map flight_pools (so_flights (source_history evs)))) +
     mset (map (\<lambda>(key, fp, pool). pool) (so_entries (source_history evs))) \<and>
   distinct (so_open (source_history evs)) \<and> distinct (map fst (so_entries (source_history evs))) \<and>
   \<not> (so_closed (source_history evs) \<and> so_flights (source_history evs) = [] \<and> so_open (source_history evs) \<noteq> [])"
  using source_history_ok [of evs] by (auto simp: source_ok_def held_pools_def)

end
