(* ===== verification/ExtensionNames.thy ===== *)
theory ExtensionNames
  imports GoText
begin

text \<open>
  Names, bounded text and the captured standard error of extensions (\<open>extensions/names.go\<close>,
  \<open>buffer.go\<close>, \<open>truncate\<close> of \<open>runtime_helpers.go\<close>) and the identifiers the capability registry
  makes of them (\<open>extensionID\<close>, \<open>itoa\<close> in \<open>capability/extensions_source_catalog.go\<close>). The digest
  of an over-long name is the argument \<open>digest\<close>.
\<close>

section \<open>Identifiers\<close>

definition name_char :: "char \<Rightarrow> bool" where
  "name_char c \<longleftrightarrow> is_alnum c \<or> c = CHR ''-'' \<or> c = CHR ''_''"

text \<open>Runs of other runes between name characters become one underscore.\<close>

fun normalize_runes :: "bool \<Rightarrow> string \<Rightarrow> bool \<Rightarrow> string list \<Rightarrow> string" where
  "normalize_runes lower out underscore [] = out"
| "normalize_runes lower out underscore (r # rs) =
     (if length r = 1 \<and> name_char (hd r) then
        normalize_runes lower
          ((if underscore \<and> out \<noteq> [] then out @ ''_'' else out) @ [if lower then lower_char (hd r) else hd r])
          (underscore \<and> out = []) rs
      else normalize_runes lower out (underscore \<or> out \<noteq> []) rs)"

definition trim_cutset :: "string \<Rightarrow> string \<Rightarrow> string" where
  "trim_cutset ws s = trim_right_chars ws (trim_left_chars ws s)"

definition normalize_segment :: "string \<Rightarrow> string \<Rightarrow> bool \<Rightarrow> string" where
  "normalize_segment v fallback lower =
     (let s = trim_cutset ''_-'' (normalize_runes lower [] False (runes (trim_space v)))
      in if s = [] then fallback else s)"

definition normalize_id :: "string \<Rightarrow> string" where
  "normalize_id v = normalize_segment v ''extension'' True"

definition max_model_tool_name :: nat where
  "max_model_tool_name = 64"

text \<open>\<open>digest\<close> is the hexadecimal text of the first four bytes of the SHA-256 of a name.\<close>

definition model_name :: "(string \<Rightarrow> string) \<Rightarrow> string \<Rightarrow> string \<Rightarrow> string" where
  "model_name digest extension tool =
     (let name = ''ext__'' @ normalize_segment extension ''extension'' True @ ''__'' @ normalize_segment tool ''tool'' False
      in if length name \<le> max_model_tool_name then name
         else (let suffix = ''__'' @ digest name
               in List.take (max_model_tool_name - length suffix) name @ suffix))"

text \<open>\<open>strings.ToLower\<close> of one rune, exact where the result is ASCII: beside the letters of ASCII,
  the Kelvin sign and the dotted capital I have ASCII lower cases.\<close>

definition lower_rune :: "string \<Rightarrow> string" where
  "lower_rune r =
     (if r = [CHR 0xE2, CHR 0x84, CHR 0xAA] then ''k''
      else if r = [CHR 0xC4, CHR 0xB0] then ''i''
      else if length r = 1 then map lower_char r else r)"

definition lower_name_char :: "char \<Rightarrow> bool" where
  "lower_name_char c \<longleftrightarrow> is_lower_letter c \<or> is_ascii_digit c \<or> c = CHR ''-'' \<or> c = CHR ''_''"

fun id_runes :: "string \<Rightarrow> string list \<Rightarrow> string" where
  "id_runes out [] = out"
| "id_runes out (r # rs) =
     (if length r = 1 \<and> lower_name_char (hd r) then id_runes (out @ r) rs
      else if out \<noteq> [] then id_runes (out @ ''_'') rs
      else id_runes out rs)"

definition extension_id :: "string \<Rightarrow> string" where
  "extension_id v =
     (let s = trim_cutset ''_-'' (id_runes [] (runes (trim_space (concat (map lower_rune (runes v))))))
      in if s = [] then ''extension'' else s)"

fun itoa_digits :: "nat \<Rightarrow> string \<Rightarrow> string" where
  "itoa_digits n out =
     (if n = 0 then out else itoa_digits (n div 10) (byte (48 + n mod 10) # out))"

declare itoa_digits.simps [simp del]

definition itoa :: "nat \<Rightarrow> string" where
  "itoa n = (if n = 0 then ''0'' else itoa_digits n [])"

section \<open>Bounded text\<close>

text \<open>\<open>utf8.RuneStart\<close>.\<close>

definition rune_start :: "char \<Rightarrow> bool" where
  "rune_start c \<longleftrightarrow> \<not> (128 \<le> (of_char c :: nat) \<and> (of_char c :: nat) < 192)"

fun back_to_rune :: "string \<Rightarrow> nat \<Rightarrow> nat" where
  "back_to_rune s 0 = 0"
| "back_to_rune s (Suc n) = (if rune_start (s ! Suc n) then Suc n else back_to_rune s n)"

definition output_suffix :: string where
  "output_suffix = CHR 0x0A # ''[output truncated]''"

definition truncate_output :: "string \<Rightarrow> int \<Rightarrow> string" where
  "truncate_output v maximum =
     (if maximum \<le> 0 \<or> int (length v) \<le> maximum then v
      else (let limit = maximum - int (length output_suffix) in
        if limit \<le> 0 then List.take (nat maximum) output_suffix
        else List.take (back_to_rune v (nat limit)) v @ output_suffix))"

record bounded_buffer =
  bb_contents :: string
  bb_maximum :: int
  bb_truncated :: bool

definition new_buffer :: "int \<Rightarrow> bounded_buffer" where
  "new_buffer maximum = \<lparr>bb_contents = [], bb_maximum = maximum, bb_truncated = False\<rparr>"

definition buffer_write :: "string \<Rightarrow> bounded_buffer \<Rightarrow> nat \<times> bounded_buffer" where
  "buffer_write v b =
     (let remaining = bb_maximum b - int (length (bb_contents b));
          b' = (if 0 < remaining
                then b\<lparr>bb_contents := bb_contents b @
                        (if remaining < int (length v) then List.take (nat remaining) v else v)\<rparr> else b)
      in (length v, if remaining < int (length v) then b'\<lparr>bb_truncated := True\<rparr> else b'))"

definition stderr_suffix :: string where
  "stderr_suffix = CHR 0x0A # ''[stderr truncated]''"

definition buffer_string :: "bounded_buffer \<Rightarrow> string" where
  "buffer_string b =
     (if bb_truncated b then
        if bb_maximum b \<le> int (length stderr_suffix) then List.take (nat (max 0 (bb_maximum b))) stderr_suffix
        else (let limit = nat (bb_maximum b - int (length stderr_suffix))
              in (if limit < length (bb_contents b) then List.take limit (bb_contents b) else bb_contents b) @ stderr_suffix)
      else bb_contents b)"

end
