(* ===== verification/ExtensionClient.thy ===== *)
theory ExtensionClient
  imports ExtensionNames McpContext
begin

text \<open>
  One adapter process of an extension (\<open>extensions/runtime.go\<close>, \<open>runtime_helpers.go\<close>,
  \<open>contributions.go\<close>, \<open>contribution_validation.go\<close>, \<open>tool.go\<close>, \<open>status.go\<close>,
  \<open>validateProcessSpec\<close> of \<open>state.go\<close>, the environment of \<open>stdio.go\<close>). An operation returns its
  result and what it did to the process: started it, sent it requests, closed it. What the process
  replies is an argument. Times out of the limits are left to the transport.
\<close>

section \<open>Data\<close>

record ext_process =
  ps_command :: string
  ps_args :: "string list"
  ps_dir :: string
  ps_env :: "string gomap"
  ps_inherit_env :: bool
  ps_sandboxed :: bool

record launch_config =
  xl_id :: string
  xl_enabled :: bool
  xl_trust :: string
  xl_process :: ext_process

record ext_limits =
  el_initialize_timeout :: int
  el_call_timeout :: int
  el_close_timeout :: int
  el_message_bytes :: int
  el_output_bytes :: int
  el_stderr_bytes :: int
  el_tools :: int
  el_commands :: int
  el_hooks :: int
  el_prompt_bytes :: int
  el_ui :: int

definition positive_or :: "int \<Rightarrow> int \<Rightarrow> int" where
  "positive_or v default_value = (if v \<le> 0 then default_value else v)"

definition default_limits :: "ext_limits \<Rightarrow> ext_limits" where
  "default_limits l =
     \<lparr>el_initialize_timeout = positive_or (el_initialize_timeout l) (10 * 10 ^ 9),
      el_call_timeout = positive_or (el_call_timeout l) (60 * 10 ^ 9),
      el_close_timeout = positive_or (el_close_timeout l) (2 * 10 ^ 9),
      el_message_bytes = positive_or (el_message_bytes l) (2 * 2 ^ 20),
      el_output_bytes = positive_or (el_output_bytes l) (2 ^ 20),
      el_stderr_bytes = positive_or (el_stderr_bytes l) (64 * 2 ^ 10),
      el_tools = positive_or (el_tools l) 256,
      el_commands = positive_or (el_commands l) 128,
      el_hooks = positive_or (el_hooks l) 128,
      el_prompt_bytes = positive_or (el_prompt_bytes l) (64 * 2 ^ 10),
      el_ui = positive_or (el_ui l) 128\<rparr>"

record ext_tool =
  et_name :: string
  et_description :: string
  et_schema :: string

record ext_command =
  ec_name :: string
  ec_description :: string
  ec_hint :: string

record prompt_fragment =
  pf_id :: string
  pf_text :: string
  pf_priority :: int

record hook_spec =
  hk_id :: string
  hk_event :: string
  hk_priority :: int

record ui_contribution =
  ui_id :: string
  ui_kind :: string
  ui_title :: string
  ui_schema :: string

record tool_renderer =
  tr_tool :: string
  tr_style :: string
  tr_label :: string

record registration =
  rg_commands :: "ext_command list"
  rg_prompts :: "prompt_fragment list"
  rg_hooks :: "hook_spec list"
  rg_schema :: string
  rg_ui :: "ui_contribution list"
  rg_renderers :: "tool_renderer list"

text \<open>The questions the code asks the JSON decoder about raw text: is it valid, is it an object, and which
  type does a schema name (none is the empty string).\<close>

record ext_json =
  ej_valid :: "string \<Rightarrow> bool"
  ej_object :: "string \<Rightarrow> bool"
  ej_type :: "string \<Rightarrow> (string, string) result"

datatype ext_error = Ext_Disabled | Ext_Untrusted | Ext_Closed | Ext_Invalid "string list"
  | Ext_Failed "string list" string | Ext_Call string

text \<open>The requests of the protocol.\<close>

record hook_payload =
  hp_prompt :: string
  hp_model_text :: string
  hp_tool_name :: string
  hp_arguments :: string
  hp_output :: string
  hp_is_error :: bool

datatype ext_request = Rq_Initialize string "string \<times> string" string | Rq_List_Tools | Rq_Call_Tool string string
  | Rq_Command string string | Rq_Hook string string hook_payload | Rq_Status | Rq_Shutdown

datatype ext_effect = Fx_Started ext_process | Fx_Requested ext_request | Fx_Canceled | Fx_Closed

section \<open>Checking what an extension gives\<close>

text \<open>The first item that is bad or has the key of an earlier one.\<close>

fun first_bad :: "('a \<Rightarrow> bool) \<Rightarrow> ('a \<Rightarrow> string) \<Rightarrow> string list \<Rightarrow> 'a list \<Rightarrow> 'a option" where
  "first_bad bad key seen [] = None"
| "first_bad bad key seen (x # xs) =
     (if bad x \<or> key x \<in> set seen then Some x else first_bad bad key (key x # seen) xs)"

definition valid_hook_event :: "string \<Rightarrow> bool" where
  "valid_hook_event e \<longleftrightarrow> e \<in> {''before_prompt'', ''after_model'', ''before_tool'', ''after_tool''}"

definition validate_registration :: "ext_json \<Rightarrow> registration \<Rightarrow> ext_limits \<Rightarrow> string list option" where
  "validate_registration j r l =
     (let bad_item = (\<lambda>what x. map_option (\<lambda>k. [what, k]) x) in
      first_error
       [reject (int (length (rg_commands r)) > el_commands l \<or> int (length (rg_hooks r)) > el_hooks l \<or>
                int (length (rg_ui r)) > el_ui l) [''contribution count exceeds configured limit''],
        bad_item ''invalid or duplicate command''
          (map_option ec_name (first_bad (\<lambda>c. trim_space (ec_name c) = []) ec_name [] (rg_commands r))),
        bad_item ''invalid or duplicate prompt fragment''
          (map_option pf_id (first_bad (\<lambda>p. pf_id p = [] \<or> pf_text p = []) pf_id [] (rg_prompts r))),
        reject (int (sum_list (map (length \<circ> pf_text) (rg_prompts r))) > el_prompt_bytes l)
          [''prompt fragments exceed their limit''],
        bad_item ''invalid or duplicate hook''
          (map_option hk_id (first_bad (\<lambda>h. hk_id h = [] \<or> \<not> valid_hook_event (hk_event h)) hk_id [] (rg_hooks r))),
        reject (rg_schema r \<noteq> [] \<and> \<not> ej_object j (rg_schema r)) [''settings_schema must be a JSON object''],
        bad_item ''invalid UI contribution''
          (map_option ui_id (first_bad (\<lambda>u. ui_id u = [] \<or> ui_kind u = [] \<or>
                                           (ui_schema u \<noteq> [] \<and> \<not> ej_object j (ui_schema u))) ui_id [] (rg_ui r)))])"

definition clone_registration :: "registration \<Rightarrow> registration" where
  "clone_registration r =
     r\<lparr>rg_commands := sort_key ec_name (rg_commands r), rg_prompts := sort_key pf_priority (rg_prompts r)\<rparr>"

definition default_schema :: string where
  "default_schema = ''{'' @ [CHR 0x22] @ ''type'' @ [CHR 0x22] @ '':'' @ [CHR 0x22] @ ''object'' @ [CHR 0x22] @ ''}''"

definition tool_schema :: "ext_tool \<Rightarrow> string" where
  "tool_schema t = (if et_schema t = [] then default_schema else et_schema t)"

definition validate_tool :: "ext_json \<Rightarrow> ext_tool \<Rightarrow> string list option" where
  "validate_tool j t =
     (if et_name t = [] then Some [''tool name is required'']
      else case ej_type j (tool_schema t) of
             Inl e \<Rightarrow> Some [''tool has invalid input schema'', et_name t, e]
           | Inr kind \<Rightarrow> reject (kind \<noteq> ''object'') [''tool input schema must have type object'', et_name t])"

definition clone_tool :: "ext_tool \<Rightarrow> ext_tool" where
  "clone_tool t = t\<lparr>et_schema := tool_schema t\<rparr>"

definition validate_process :: "ext_process \<Rightarrow> bool \<Rightarrow> string list option" where
  "validate_process p allow_empty =
     first_error
      [reject (ps_command p = [] \<and> \<not> allow_empty) [''command is required''],
       reject (CHR 0x00 \<in> set (ps_command p)) [''command contains NUL''],
       reject (ps_dir p \<noteq> [] \<and> \<not> is_abs (ps_dir p)) [''working directory must be absolute''],
       check_all (\<lambda>a. reject (CHR 0x00 \<in> set a) [''argument contains NUL'']) (ps_args p),
       check_all (\<lambda>(k, v). reject (k = [] \<or> CHR ''='' \<in> set k \<or> CHR 0x00 \<in> set k \<or> CHR 0x00 \<in> set v)
                              [''invalid environment entry'', k]) (ps_env p)]"

text \<open>The environment of the process. \<open>environ\<close> is the daemon's own, \<open>path\<close> its variable PATH.\<close>

definition ext_environment :: "string list \<Rightarrow> string \<Rightarrow> ext_process \<Rightarrow> string list" where
  "ext_environment environ path p =
     (let env = merge_environment ((if path \<noteq> [] then [''PATH='' @ path] else []) @
                                   (if ps_inherit_env p then environ else [])) (ps_env p)
      in if ps_sandboxed p then sanitize env else env)"

section \<open>The client\<close>

record 'c ext_client =
  xk_id :: string
  xk_peer :: "string \<times> string"
  xk_connection :: 'c
  xk_limits :: ext_limits
  xk_closed :: bool
  xk_tools :: "ext_tool gomap"
  xk_registration :: registration

definition no_registration :: registration where
  "no_registration = \<lparr>rg_commands = [], rg_prompts = [], rg_hooks = [], rg_schema = [], rg_ui = [], rg_renderers = []\<rparr>"

text \<open>How a process is started, and what a new one replies to its first two requests.\<close>

record 'c ext_env =
  xe_digest :: "string \<Rightarrow> string"
  xe_json :: ext_json
  xe_connect :: "ext_process \<Rightarrow> ext_limits \<Rightarrow> (string, 'c) result"
  xe_initialize :: "'c \<Rightarrow> (string, string \<times> registration) result"
  xe_list_tools :: "'c \<Rightarrow> (string, ext_tool list) result"

definition protocol_version :: string where
  "protocol_version = ''1.0''"

definition initialize_client ::
  "ext_json \<Rightarrow> (string, string \<times> registration) result \<Rightarrow> 'c ext_client \<Rightarrow> (ext_error, 'c ext_client) result" where
  "initialize_client j reply c =
     (case reply of
        Inl e \<Rightarrow> Inl (Ext_Failed [''initialize'', xk_id c] e)
      | Inr (version, r) \<Rightarrow>
          if version \<noteq> protocol_version then Inl (Ext_Invalid [''unsupported protocol'', xk_id c, version])
          else (case validate_registration j r (xk_limits c) of
                  Some e \<Rightarrow> Inl (Ext_Invalid (''initialize'' # xk_id c # e))
                | None \<Rightarrow> Inr (c\<lparr>xk_registration := clone_registration r\<rparr>)))"

text \<open>The tools of a list, as a map by name; \<open>names\<close> maps the model names given so far to their tools.\<close>

fun collect_ext_tools ::
  "(string \<Rightarrow> string) \<Rightarrow> ext_json \<Rightarrow> string \<Rightarrow> ext_tool gomap \<Rightarrow> string gomap \<Rightarrow> ext_tool list \<Rightarrow>
    (ext_error, ext_tool gomap) result" where
  "collect_ext_tools digest j i tools names [] = Inr tools"
| "collect_ext_tools digest j i tools names (t # ts) =
     (case validate_tool j t of
        Some e \<Rightarrow> Inl (Ext_Invalid (i # e))
      | None \<Rightarrow>
          if map_of tools (et_name t) \<noteq> None then Inl (Ext_Invalid [i, ''returned duplicate tool'', et_name t])
          else (let model = model_name digest i (et_name t) in
            case map_of names model of
              Some previous \<Rightarrow> Inl (Ext_Invalid [''tools map to one name'', previous, et_name t, model])
            | None \<Rightarrow> collect_ext_tools digest j i (tools @ [(et_name t, clone_tool t)]) ((model, et_name t) # names) ts))"

definition refresh_tools ::
  "(string \<Rightarrow> string) \<Rightarrow> ext_json \<Rightarrow> (string, ext_tool list) result \<Rightarrow> 'c ext_client \<Rightarrow>
    (ext_error, 'c ext_client) result \<times> ext_effect list" where
  "refresh_tools digest j reply c =
     (if xk_closed c then (Inl Ext_Closed, [])
      else (case reply of
              Inl e \<Rightarrow> Inl (Ext_Failed [''list tools for'', xk_id c] e)
            | Inr ts \<Rightarrow>
                if int (length ts) > el_tools (xk_limits c) then
                  Inl (Ext_Invalid [xk_id c, ''returned too many tools''])
                else bind_result (collect_ext_tools digest j (xk_id c) [] [] ts)
                       (\<lambda>tools. Inr (c\<lparr>xk_tools := tools\<rparr>)),
            [Fx_Requested Rq_List_Tools]))"

text \<open>A client whose first requests fail is closed again.\<close>

definition start_client :: "'c ext_env \<Rightarrow> 'c ext_client \<Rightarrow> (ext_error, 'c ext_client) result \<times> ext_effect list" where
  "start_client env c =
     (case initialize_client (xe_json env) (xe_initialize env (xk_connection c)) c of
        Inl e \<Rightarrow> (Inl e, [Fx_Canceled, Fx_Closed])
      | Inr c' \<Rightarrow>
          (case refresh_tools (xe_digest env) (xe_json env) (xe_list_tools env (xk_connection c)) c' of
             (Inl e, fx) \<Rightarrow> (Inl e, fx @ [Fx_Canceled, Fx_Closed])
           | (Inr c'', fx) \<Rightarrow> (Inr c'', fx)))"

definition open_client ::
  "'c ext_env \<Rightarrow> launch_config \<Rightarrow> ext_limits \<Rightarrow> string \<times> string \<Rightarrow> (ext_error, 'c ext_client) result \<times> ext_effect list" where
  "open_client env config limits given =
     (if \<not> xl_enabled config then (Inl Ext_Disabled, [])
      else if xl_trust config \<noteq> ''trusted'' then (Inl Ext_Untrusted, [])
      else if xl_id config = [] then (Inl (Ext_Invalid [''id is required'']), [])
      else case validate_process (xl_process config) False of
        Some e \<Rightarrow> (Inl (Ext_Invalid (''invalid process'' # e)), [])
      | None \<Rightarrow>
          (let l = default_limits limits;
               peer = (if fst given = [] then (''dire-agent'', ''1'') else given)
           in case xe_connect env (xl_process config) l of
                Inl e \<Rightarrow> (Inl (Ext_Failed [''start'', xl_id config] e), [Fx_Canceled])
              | Inr connection \<Rightarrow>
                  (let c = \<lparr>xk_id = normalize_id (xl_id config), xk_peer = peer, xk_connection = connection,
                            xk_limits = l, xk_closed = False, xk_tools = [], xk_registration = no_registration\<rparr>;
                       begun = [Fx_Started (xl_process config),
                                Fx_Requested (Rq_Initialize protocol_version peer (xk_id c))]
                   in case start_client env c of (r, fx) \<Rightarrow> (r, begun @ fx))))"

text \<open>The tools are listed by name.\<close>

definition list_tools :: "'c ext_client \<Rightarrow> ext_tool list" where
  "list_tools c = sort_key et_name (map (clone_tool \<circ> snd) (xk_tools c))"

text \<open>A reply to a call is its output and error mark, beside the error of the transport.\<close>

definition ext_call_tool ::
  "ext_json \<Rightarrow> string \<Rightarrow> string \<Rightarrow> (string \<times> bool) \<times> string option \<Rightarrow> 'c ext_client \<Rightarrow>
    (string \<times> bool) \<times> ext_error option \<times> ext_effect list" where
  "ext_call_tool j name arguments reply c =
     (let arguments' = (if arguments = [] then ''{}'' else arguments) in
      if xk_closed c then (([], False), Some Ext_Closed, [])
      else if map_of (xk_tools c) name = None then (([], False), Some (Ext_Invalid [''unknown tool'', name]), [])
      else if \<not> ej_valid j arguments' then (([], False), Some (Ext_Invalid [''tool arguments are invalid JSON'']), [])
      else if int (length arguments') > el_message_bytes (xk_limits c)
      then (([], False), Some (Ext_Invalid [''tool arguments exceed their limit'']), [])
      else ((truncate_output (fst (fst reply)) (el_output_bytes (xk_limits c)), snd (fst reply)),
            map_option (Ext_Failed [''call'', xk_id c, name]) (snd reply),
            [Fx_Requested (Rq_Call_Tool name arguments')]))"

text \<open>The tools offered to the model: by model name, the tool of the process and what is said of it.\<close>

definition offered_tools :: "(string \<Rightarrow> string) \<Rightarrow> 'c ext_client \<Rightarrow> ext_tool gomap" where
  "offered_tools digest c =
     foldl (\<lambda>m t. AList.update (model_name digest (xk_id c) (et_name t)) t m) [] (list_tools c)"

definition agent_tool_output :: "(string \<times> bool) \<times> ext_error option \<Rightarrow> string \<times> ext_error option" where
  "agent_tool_output r =
     (case r of ((output, is_error), e) \<Rightarrow>
        (output, case e of Some x \<Rightarrow> Some x
                 | None \<Rightarrow> if is_error then Some (Ext_Invalid [''tool reported an error'']) else None))"

definition ext_status :: "(string, string \<times> string) result \<Rightarrow> 'c ext_client \<Rightarrow>
    (ext_error, string \<times> string) result \<times> ext_effect list" where
  "ext_status reply c =
     (if xk_closed c then (Inl Ext_Closed, [])
      else (case reply of
              Inl e \<Rightarrow> Inl (Ext_Failed [''get status for'', xk_id c] e)
            | Inr (level, message) \<Rightarrow> Inr (level, truncate_output message (el_output_bytes (xk_limits c))),
            [Fx_Requested Rq_Status]))"

record command_result =
  cm_output :: string
  cm_prompt :: string
  cm_is_error :: bool

definition has_command :: "string \<Rightarrow> 'c ext_client \<Rightarrow> bool" where
  "has_command name c \<longleftrightarrow> list_ex (\<lambda>x. ec_name x = name) (rg_commands (clone_registration (xk_registration c)))"

definition execute_command ::
  "string \<Rightarrow> string \<Rightarrow> command_result \<times> string option \<Rightarrow> 'c ext_client \<Rightarrow>
    command_result \<times> ext_error option \<times> ext_effect list" where
  "execute_command name arguments reply c =
     (let nothing = \<lparr>cm_output = [], cm_prompt = [], cm_is_error = False\<rparr> in
      if xk_closed c then (nothing, Some Ext_Closed, [])
      else if \<not> has_command name c then (nothing, Some (Ext_Invalid [''unknown command'', name]), [])
      else ((fst reply)\<lparr>cm_output := truncate_output (cm_output (fst reply)) (el_output_bytes (xk_limits c)),
                        cm_prompt := truncate_output (cm_prompt (fst reply)) (el_prompt_bytes (xk_limits c))\<rparr>,
            map_option Ext_Call (snd reply),
            [Fx_Requested (Rq_Command name arguments)]))"

section \<open>Hooks\<close>

record hook_result =
  ht_veto :: bool
  ht_message :: string
  ht_prompt :: "string option"
  ht_model_text :: "string option"
  ht_arguments :: string
  ht_output :: "string option"
  ht_is_error :: "bool option"

definition apply_hook_result :: "ext_json \<Rightarrow> ext_limits \<Rightarrow> hook_payload \<Rightarrow> hook_result \<Rightarrow> hook_payload" where
  "apply_hook_result j l p r =
     p\<lparr>hp_prompt := (case ht_prompt r of None \<Rightarrow> hp_prompt p | Some v \<Rightarrow> truncate_output v (el_prompt_bytes l)),
       hp_model_text := (case ht_model_text r of None \<Rightarrow> hp_model_text p | Some v \<Rightarrow> truncate_output v (el_output_bytes l)),
       hp_arguments := (if ht_arguments r \<noteq> [] \<and> ej_valid j (ht_arguments r) \<and>
                           int (length (ht_arguments r)) \<le> el_message_bytes l
                        then ht_arguments r else hp_arguments p),
       hp_output := (case ht_output r of None \<Rightarrow> hp_output p | Some v \<Rightarrow> truncate_output v (el_output_bytes l)),
       hp_is_error := (case ht_is_error r of None \<Rightarrow> hp_is_error p | Some v \<Rightarrow> v)\<rparr>"

definition hooks_for :: "string \<Rightarrow> registration \<Rightarrow> hook_spec list" where
  "hooks_for event r = sort_key hk_priority (filter (\<lambda>h. hk_event h = event) (rg_hooks r))"

text \<open>The hooks of an event in turn; \<open>reply\<close> is what the process answers a hook that sees a payload.\<close>

type_synonym hook_reply = "string \<Rightarrow> hook_payload \<Rightarrow> (string, hook_result) result"

fun run_hooks ::
  "ext_json \<Rightarrow> ext_limits \<Rightarrow> hook_reply \<Rightarrow> string \<Rightarrow> hook_spec list \<Rightarrow> hook_payload \<Rightarrow>
    (hook_payload \<times> hook_result option \<times> ext_error option) \<times> ext_effect list" where
  "run_hooks j l reply event [] p = ((p, None, None), [])"
| "run_hooks j l reply event (h # hs) p =
     (let asked = Fx_Requested (Rq_Hook (hk_id h) event p) in
      case reply (hk_id h) p of
        Inl e \<Rightarrow> ((p, None, Some (Ext_Call e)), [asked])
      | Inr r \<Rightarrow>
          (let p' = apply_hook_result j l p r in
           if ht_veto r then
             ((p', Some (r\<lparr>ht_message := truncate_output (ht_message r) (el_output_bytes l)\<rparr>), None), [asked])
           else (case run_hooks j l reply event hs p' of (out, fx) \<Rightarrow> (out, asked # fx))))"

definition invoke_hooks ::
  "ext_json \<Rightarrow> hook_reply \<Rightarrow> string \<Rightarrow> hook_payload \<Rightarrow> 'c ext_client \<Rightarrow>
    (hook_payload \<times> hook_result option \<times> ext_error option) \<times> ext_effect list" where
  "invoke_hooks j reply event p c =
     (if \<not> valid_hook_event event then ((p, None, Some (Ext_Invalid [''unknown hook event'', event])), [])
      else run_hooks j (xk_limits c) reply event (hooks_for event (xk_registration c)) p)"

section \<open>Closing\<close>

text \<open>The errors of the shutdown request and of closing the connection are joined.\<close>

definition ext_close :: "string option \<Rightarrow> string option \<Rightarrow> 'c ext_client \<Rightarrow>
    string list \<times> 'c ext_client \<times> ext_effect list" where
  "ext_close shutdown_error close_error c =
     (if xk_closed c then ([], c, [])
      else (concat (map (case_option [] (\<lambda>e. [e])) [shutdown_error, close_error]), c\<lparr>xk_closed := True\<rparr>,
            [Fx_Requested Rq_Shutdown, Fx_Canceled, Fx_Closed]))"

end
