(* ===== verification/ExtensionRpc.thy ===== *)
theory ExtensionRpc
  imports ExtensionNames
begin

text \<open>
  The JSON-RPC connection to an adapter process (\<open>rpcConnection\<close> in \<open>extensions/stdio.go\<close>): calls
  from many goroutines, the reader of the process's output and the end of the process, interleaved. A
  call takes its number, enters the table of pending calls, writes its line and waits for whichever comes
  first of its reply, the end of its context and the end of the connection; its channel holds one reply.
  Each event is one section of the code between two points where others may run. Lines come decoded.
\<close>

section \<open>State\<close>

record rpc_error =
  re_code :: int
  re_message :: string

record rpc_response =
  rp_version :: string
  rp_id :: string
  rp_result :: string
  rp_error :: "rpc_error option"

datatype rpc_outcome = Out_Replied rpc_response | Out_Canceled string | Out_Lost "string option"
  | Out_Write string | Out_Refused string

datatype rpc_phase = Numbered | Registered | Sent | Over rpc_outcome

record rpc_call =
  kl_key :: string
  kl_slot :: "rpc_response option"
  kl_phase :: rpc_phase

record rpc_state =
  rx_next :: "64 word"
  rx_pending :: "nat gomap"
  rx_calls :: "rpc_call list"
  rx_failure :: "string option"
  rx_done :: bool
  rx_canceled :: bool
  rx_stdin_closed :: bool
  rx_reading :: bool
  rx_read :: "rpc_response list"

definition rpc_open :: rpc_state where
  "rpc_open = \<lparr>rx_next = 0, rx_pending = [], rx_calls = [], rx_failure = None, rx_done = False,
     rx_canceled = False, rx_stdin_closed = False, rx_reading = True, rx_read = []\<rparr>"

datatype rpc_line = Blank_Line | Bad_Line string | Response_Line rpc_response

datatype rpc_event =
    Rpc_Starts string "string option" nat
  | Rpc_Registers nat
  | Rpc_Writes nat "string option"
  | Rpc_Read rpc_line
  | Rpc_Read_Ends "string option"
  | Rpc_Exits string
  | Rpc_Replied nat
  | Rpc_Canceled nat string
  | Rpc_Lost nat
  | Rpc_Closes

section \<open>Steps\<close>

text \<open>The end of the connection is recorded once, with the first reason for it.\<close>

definition rpc_finish :: "string \<Rightarrow> rpc_state \<Rightarrow> rpc_state" where
  "rpc_finish e s = (if rx_done s then s else s\<lparr>rx_failure := Some e, rx_canceled := True, rx_done := True\<rparr>)"

definition on_call :: "nat \<Rightarrow> (rpc_call \<Rightarrow> rpc_call) \<Rightarrow> rpc_state \<Rightarrow> rpc_state" where
  "on_call k f s = (if k < length (rx_calls s) then s\<lparr>rx_calls := (rx_calls s)[k := f (rx_calls s ! k)]\<rparr> else s)"

definition phase_of :: "rpc_state \<Rightarrow> nat \<Rightarrow> rpc_phase option" where
  "phase_of s k = (if k < length (rx_calls s) then Some (kl_phase (rx_calls s ! k)) else None)"

text \<open>A call that returns leaves the table.\<close>

definition call_over :: "nat \<Rightarrow> rpc_outcome \<Rightarrow> rpc_state \<Rightarrow> rpc_state" where
  "call_over k outcome s =
     (on_call k (\<lambda>c. c\<lparr>kl_phase := Over outcome\<rparr>) s)
       \<lparr>rx_pending := AList.delete (kl_key (rx_calls s ! k)) (rx_pending s)\<rparr>"

definition deliver_reply :: "rpc_response \<Rightarrow> rpc_state \<Rightarrow> rpc_state" where
  "deliver_reply r s =
     (if rp_version r \<noteq> ''2.0'' \<or> rp_id r = [] then s
      else case map_of (rx_pending s) (trim_space (rp_id r)) of
             None \<Rightarrow> s
           | Some k \<Rightarrow> on_call k (\<lambda>c. if kl_slot c = None then c\<lparr>kl_slot := Some r\<rparr> else c) s)"

text \<open>A call that sees the end of the connection still takes a reply that came before.\<close>

definition lost_outcome :: "rpc_response option \<Rightarrow> string option \<Rightarrow> rpc_outcome" where
  "lost_outcome slot failure = (case slot of Some r \<Rightarrow> Out_Replied r | None \<Rightarrow> Out_Lost failure)"

fun rpc_step :: "int \<Rightarrow> rpc_state \<Rightarrow> rpc_event \<Rightarrow> rpc_state" where
  "rpc_step max_bytes s (Rpc_Starts rpc_method marshal_error bytes) =
     (if trim_space rpc_method = [] then s
      else (let number = rx_next s + 1;
                phase = (case marshal_error of
                           Some e \<Rightarrow> Over (Out_Refused e)
                         | None \<Rightarrow> if int (bytes + 1) > max_bytes then Over (Out_Refused ''RPC request exceeds its limit'')
                                   else Numbered)
            in s\<lparr>rx_next := number,
                 rx_calls := rx_calls s @ [\<lparr>kl_key = show_nat (unat number), kl_slot = None, kl_phase = phase\<rparr>]\<rparr>))"
| "rpc_step max_bytes s (Rpc_Registers k) =
     (if phase_of s k \<noteq> Some Numbered then s
      else if rx_done s then on_call k (\<lambda>c. c\<lparr>kl_phase := Over (Out_Lost (rx_failure s))\<rparr>) s
      else (on_call k (\<lambda>c. c\<lparr>kl_phase := Registered\<rparr>) s)
             \<lparr>rx_pending := AList.update (kl_key (rx_calls s ! k)) k (rx_pending s)\<rparr>)"
| "rpc_step max_bytes s (Rpc_Writes k error) =
     (if phase_of s k \<noteq> Some Registered then s
      else case error of
             None \<Rightarrow> on_call k (\<lambda>c. c\<lparr>kl_phase := Sent\<rparr>) s
           | Some e \<Rightarrow> call_over k (Out_Write e) (rpc_finish e s))"
| "rpc_step max_bytes s (Rpc_Read line) =
     (if \<not> rx_reading s then s
      else case line of
             Blank_Line \<Rightarrow> s
           | Bad_Line e \<Rightarrow> (rpc_finish e s)\<lparr>rx_reading := False\<rparr>
           | Response_Line r \<Rightarrow> (deliver_reply r s)\<lparr>rx_read := rx_read s @ [r]\<rparr>)"
| "rpc_step max_bytes s (Rpc_Read_Ends error) =
     (if \<not> rx_reading s then s
      else (rpc_finish (case error of None \<Rightarrow> ''EOF'' | Some e \<Rightarrow> e) s)\<lparr>rx_reading := False\<rparr>)"
| "rpc_step max_bytes s (Rpc_Exits error) = rpc_finish error s"
| "rpc_step max_bytes s (Rpc_Replied k) =
     (if phase_of s k \<noteq> Some Sent then s
      else case kl_slot (rx_calls s ! k) of None \<Rightarrow> s | Some r \<Rightarrow> call_over k (Out_Replied r) s)"
| "rpc_step max_bytes s (Rpc_Canceled k error) =
     (if phase_of s k \<noteq> Some Sent then s else call_over k (Out_Canceled error) s)"
| "rpc_step max_bytes s (Rpc_Lost k) =
     (if phase_of s k \<noteq> Some Sent \<or> \<not> rx_done s then s
      else call_over k (lost_outcome (kl_slot (rx_calls s ! k)) (rx_failure s)) s)"
| "rpc_step max_bytes s Rpc_Closes = s\<lparr>rx_stdin_closed := True, rx_canceled := True\<rparr>"

definition rpc_run :: "int \<Rightarrow> rpc_event list \<Rightarrow> rpc_state" where
  "rpc_run max_bytes evs = foldl (rpc_step max_bytes) rpc_open evs"

text \<open>What a call hands its caller: the error, or the text its result is decoded from.\<close>

definition rpc_answer :: "rpc_outcome \<Rightarrow> (string list, string) result" where
  "rpc_answer outcome =
     (case outcome of
        Out_Replied r \<Rightarrow> (case rp_error r of
                            Some e \<Rightarrow> Inl [''extension RPC error '', show_int (re_code e), re_message e]
                          | None \<Rightarrow> Inr (rp_result r))
      | Out_Canceled e \<Rightarrow> Inl [e]
      | Out_Lost f \<Rightarrow> Inl (''extensions: connection is closed'' # (case f of None \<Rightarrow> [] | Some e \<Rightarrow> [e]))
      | Out_Write e \<Rightarrow> Inl [e]
      | Out_Refused e \<Rightarrow> Inl [e])"

end
