(* ===== verification/RpcProps.thy ===== *)
theory RpcProps
  imports ExtensionRpc
begin

text \<open>
  Properties of the connection to an adapter process: the table of pending calls holds exactly the calls
  under way, replies reach the call they name, and the end of the connection ends every call.
\<close>

named_theorems rpc_simps

section \<open>Numbers as text\<close>

lemma show_nat_last: "List.last (show_nat n) = char_of (48 + n mod 10)"
  by (subst show_nat.simps) simp

lemma digit_char_inj: "i < 10 \<Longrightarrow> j < 10 \<Longrightarrow> (char_of (48 + i) :: char) = char_of (48 + j) \<Longrightarrow> i = (j :: nat)"
  by (auto dest: arg_cong [where f = "of_char :: char \<Rightarrow> nat"])

lemma show_nat_butlast: "butlast (show_nat n) = (if n < 10 then [] else show_nat (n div 10))"
  by (subst show_nat.simps) (simp add: butlast_append)

lemma show_nat_inj: "show_nat m = show_nat n \<Longrightarrow> m = n"
proof (induction m arbitrary: n rule: less_induct)
  case (less m)
  have "m mod 10 = n mod 10" using less.prems show_nat_last [of m] show_nat_last [of n] by (auto intro: digit_char_inj)
  moreover have "m div 10 = n div 10"
    using arg_cong [OF less.prems, of butlast] less.IH [of "m div 10" "n div 10"]
    by (auto simp: show_nat_butlast show_nat_neq_Nil [symmetric] split: if_splits)
  ultimately show ?case by (metis div_mult_mod_eq)
qed

section \<open>Steps on a call\<close>

lemma on_call_length [rpc_simps]: "length (rx_calls (on_call k f s)) = length (rx_calls s)"
  by (simp add: on_call_def)

lemma on_call_nth [rpc_simps]:
  "i < length (rx_calls s) \<Longrightarrow> rx_calls (on_call k f s) ! i = (if i = k then f (rx_calls s ! i) else rx_calls s ! i)"
  by (simp add: on_call_def)

lemma on_call_fields [rpc_simps]:
  "rx_next (on_call k f s) = rx_next s" "rx_pending (on_call k f s) = rx_pending s"
  "rx_failure (on_call k f s) = rx_failure s" "rx_done (on_call k f s) = rx_done s"
  "rx_read (on_call k f s) = rx_read s" "rx_reading (on_call k f s) = rx_reading s"
  by (simp_all add: on_call_def)

lemma finish_fields [rpc_simps]:
  "rx_next (rpc_finish e s) = rx_next s" "rx_pending (rpc_finish e s) = rx_pending s"
  "rx_calls (rpc_finish e s) = rx_calls s" "rx_read (rpc_finish e s) = rx_read s"
  "rx_failure (rpc_finish e s) = (if rx_done s then rx_failure s else Some e)" "rx_done (rpc_finish e s)"
  by (simp_all add: rpc_finish_def)

lemma call_over_fields [rpc_simps]:
  "rx_next (call_over k x s) = rx_next s" "rx_failure (call_over k x s) = rx_failure s"
  "rx_done (call_over k x s) = rx_done s" "rx_read (call_over k x s) = rx_read s"
  "length (rx_calls (call_over k x s)) = length (rx_calls s)"
  "rx_pending (call_over k x s) = AList.delete (kl_key (rx_calls s ! k)) (rx_pending s)"
  "i < length (rx_calls s) \<Longrightarrow> rx_calls (call_over k x s) ! i =
     (if i = k then (rx_calls s ! i)\<lparr>kl_phase := Over x\<rparr> else rx_calls s ! i)"
  by (simp_all add: call_over_def rpc_simps)

lemma deliver_reply_fields [rpc_simps]:
  "rx_next (deliver_reply r s) = rx_next s" "rx_failure (deliver_reply r s) = rx_failure s" "rx_done (deliver_reply r s) = rx_done s"
  "rx_read (deliver_reply r s) = rx_read s" "rx_pending (deliver_reply r s) = rx_pending s"
  "length (rx_calls (deliver_reply r s)) = length (rx_calls s)"
  by (auto simp: deliver_reply_def rpc_simps split: option.splits)

lemma deliver_reply_nth [rpc_simps]:
  "i < length (rx_calls s) \<Longrightarrow> rx_calls (deliver_reply r s) ! i =
     (if rp_version r = ''2.0'' \<and> rp_id r \<noteq> [] \<and> map_of (rx_pending s) (trim_space (rp_id r)) = Some i \<and>
         kl_slot (rx_calls s ! i) = None
      then (rx_calls s ! i)\<lparr>kl_slot := Some r\<rparr> else rx_calls s ! i)"
  by (auto simp: deliver_reply_def rpc_simps split: option.splits)

lemma phase_of_Some: "phase_of s k = Some p \<longleftrightarrow> k < length (rx_calls s) \<and> kl_phase (rx_calls s ! k) = p"
  by (simp add: phase_of_def)

section \<open>The table of pending calls\<close>

definition under_way :: "rpc_phase \<Rightarrow> bool" where
  "under_way p \<longleftrightarrow> p = Registered \<or> p = Sent"

definition call_key :: "nat \<Rightarrow> string" where
  "call_key i = show_nat (unat (of_nat (Suc i) :: 64 word))"

lemma call_key_inj: "i < 2 ^ 64 - 1 \<Longrightarrow> j < 2 ^ 64 - 1 \<Longrightarrow> call_key i = call_key j \<Longrightarrow> i = j"
proof -
  assume "i < 2 ^ 64 - 1" "j < 2 ^ 64 - 1" and same: "call_key i = call_key j"
  then have "unat (of_nat (Suc i) :: 64 word) = Suc i" "unat (of_nat (Suc j) :: 64 word) = Suc j"
    by (simp_all del: of_nat_Suc add: unat_of_nat)
  with same show "i = j" by (auto simp del: of_nat_Suc simp: call_key_def dest: show_nat_inj)
qed

text \<open>What holds of a connection: calls are numbered in order, the table maps the numbers of the calls under
  way to their places, and a reply in a channel was read with the number of its call.\<close>

definition rpc_inv :: "rpc_state \<Rightarrow> bool" where
  "rpc_inv s \<longleftrightarrow>
     rx_next s = of_nat (length (rx_calls s)) \<and> wf_gomap (rx_pending s) \<and>
     (rx_done s \<longleftrightarrow> rx_failure s \<noteq> None) \<and>
     (\<forall>i < length (rx_calls s). kl_key (rx_calls s ! i) = call_key i) \<and>
     (\<forall>x i. map_of (rx_pending s) x = Some i \<longleftrightarrow>
        i < length (rx_calls s) \<and> x = call_key i \<and> under_way (kl_phase (rx_calls s ! i))) \<and>
     (\<forall>i < length (rx_calls s). \<forall>r. kl_slot (rx_calls s ! i) = Some r \<longrightarrow>
        r \<in> set (rx_read s) \<and> trim_space (rp_id r) = call_key i) \<and>
     (\<forall>i < length (rx_calls s). \<forall>r. kl_phase (rx_calls s ! i) = Over (Out_Replied r) \<longrightarrow>
        kl_slot (rx_calls s ! i) = Some r)"

lemma rpc_inv_open: "rpc_inv rpc_open"
  by (simp add: rpc_inv_def rpc_open_def)

lemma rpc_inv_finish: "rpc_inv s \<Longrightarrow> rpc_inv (rpc_finish e s)"
  by (auto simp: rpc_inv_def rpc_simps)

lemma rpc_inv_over:
  assumes inv: "rpc_inv s" and bound: "length (rx_calls s) < 2 ^ 64" and k: "k < length (rx_calls s)"
    and x: "\<And>r. x = Out_Replied r \<Longrightarrow> kl_slot (rx_calls s ! k) = Some r"
  shows "rpc_inv (call_over k x s)"
proof -
  have key: "call_key i = call_key k \<longleftrightarrow> i = k" "call_key k = call_key i \<longleftrightarrow> i = k" if "i < length (rx_calls s)" for i
    using call_key_inj [of i k] bound k that by auto
  show ?thesis using inv k x
    unfolding rpc_inv_def
    by (auto simp: rpc_simps gomap_simps under_way_def key split: if_splits)
qed

lemma rpc_inv_step:
  assumes inv: "rpc_inv s" and bound: "length (rx_calls s) < 2 ^ 64 - 1"
  shows "rpc_inv (rpc_step max_bytes s ev)"
proof (cases ev)
  case (Rpc_Starts m e n)
  then show ?thesis using inv
    by (auto simp: rpc_inv_def Let_def nth_append less_Suc_eq call_key_def under_way_def add.commute
        split: option.splits if_splits)
next
  case (Rpc_Registers k)
  have key: "call_key i = call_key k \<longleftrightarrow> i = k" "call_key k = call_key i \<longleftrightarrow> i = k"
    if "k < length (rx_calls s)" "i < length (rx_calls s)" for i
    using call_key_inj [of i k] bound that by auto
  show ?thesis using inv Rpc_Registers key
    by (auto simp: rpc_inv_def rpc_simps phase_of_Some under_way_def gomap_simps split: if_splits)
next
  case (Rpc_Writes k e)
  show ?thesis
  proof (cases "phase_of s k = Some Registered")
    case True
    then show ?thesis using Rpc_Writes inv bound
      by (cases e) (auto simp: rpc_simps phase_of_Some intro!: rpc_inv_over rpc_inv_finish,
        auto simp: rpc_inv_def rpc_simps under_way_def split: if_splits)
  qed (use Rpc_Writes inv in simp)
next
  case (Rpc_Read line)
  show ?thesis
  proof (cases line)
    case (Response_Line r)
    then show ?thesis using Rpc_Read inv
      by (auto simp: rpc_inv_def rpc_simps split: if_splits)
  qed (use Rpc_Read inv rpc_inv_finish [OF inv] in \<open>auto simp: rpc_inv_def rpc_simps\<close>)
next
  case (Rpc_Read_Ends e)
  then show ?thesis using inv rpc_inv_finish [OF inv] by (auto simp: rpc_inv_def)
next
  case (Rpc_Exits e)
  then show ?thesis using rpc_inv_finish [OF inv] by simp
next
  case (Rpc_Replied k)
  then show ?thesis using inv bound by (auto simp: phase_of_Some split: option.split intro!: rpc_inv_over)
next
  case (Rpc_Canceled k e)
  then show ?thesis using inv bound by (auto simp: phase_of_Some intro!: rpc_inv_over)
next
  case (Rpc_Lost k)
  then show ?thesis using inv bound by (auto simp: phase_of_Some lost_outcome_def split: option.splits intro!: rpc_inv_over)
next
  case Rpc_Closes
  then show ?thesis using inv by (simp add: rpc_inv_def)
qed

lemma step_calls: "length (rx_calls (rpc_step max_bytes s ev)) \<le> Suc (length (rx_calls s))"
  by (cases ev) (auto simp: rpc_simps Let_def split: option.splits rpc_line.splits)

lemma run_snoc: "rpc_run max_bytes (evs @ [ev]) = rpc_step max_bytes (rpc_run max_bytes evs) ev"
  by (simp add: rpc_run_def)

lemma run_calls: "length (rx_calls (rpc_run max_bytes evs)) \<le> length evs"
proof (induction evs rule: rev_induct)
  case (snoc ev evs)
  then show ?case using step_calls [of max_bytes "rpc_run max_bytes evs" ev] by (simp add: run_snoc)
qed (simp add: rpc_run_def rpc_open_def)

lemma run_inv: "length evs < 2 ^ 64 \<Longrightarrow> rpc_inv (rpc_run max_bytes evs)"
proof (induction evs rule: rev_induct)
  case (snoc ev evs)
  then show ?case using run_calls [of max_bytes evs] by (auto simp: run_snoc intro!: rpc_inv_step)
qed (simp add: rpc_run_def rpc_inv_open)

section \<open>Replies\<close>

text \<open>C12: Whatever the calls, lines and failures of a connection and however they interleave, a call that
  returned a reply returned one that was read from the process with the number of that call, no two calls
  have one number, and the table of pending calls holds exactly the calls under way.\<close>

theorem replies_reach_their_call:
  assumes "length evs < 2 ^ 64" and "s = rpc_run max_bytes evs"
  shows "(\<forall>i < length (rx_calls s). \<forall>r. kl_phase (rx_calls s ! i) = Over (Out_Replied r) \<longrightarrow>
            r \<in> set (rx_read s) \<and> trim_space (rp_id r) = kl_key (rx_calls s ! i)) \<and>
         distinct (map kl_key (rx_calls s)) \<and>
         set (map fst (rx_pending s)) =
           {kl_key c | c. c \<in> set (rx_calls s) \<and> (kl_phase c = Registered \<or> kl_phase c = Sent)}"
proof (intro conjI)
  have inv: "rpc_inv s" and small: "length (rx_calls s) < 2 ^ 64"
    using assms run_inv run_calls [of max_bytes evs] by auto
  then show "\<forall>i < length (rx_calls s). \<forall>r. kl_phase (rx_calls s ! i) = Over (Out_Replied r) \<longrightarrow>
      r \<in> set (rx_read s) \<and> trim_space (rp_id r) = kl_key (rx_calls s ! i)"
    by (simp add: rpc_inv_def)
  have keys: "i < length (rx_calls s) \<Longrightarrow> kl_key (rx_calls s ! i) = call_key i" for i
    using inv by (simp add: rpc_inv_def)
  show "distinct (map kl_key (rx_calls s))"
    using small by (auto simp: distinct_conv_nth keys dest!: call_key_inj [rotated 2])
  have "x \<in> set (map fst (rx_pending s)) \<longleftrightarrow> (\<exists>i. map_of (rx_pending s) x = Some i)" for x
    by (metis map_of_eq_None_iff not_None_eq set_map)
  moreover have "(\<exists>i. map_of (rx_pending s) x = Some i) \<longleftrightarrow>
      (\<exists>i < length (rx_calls s). x = kl_key (rx_calls s ! i) \<and> under_way (kl_phase (rx_calls s ! i)))" for x
    using inv by (auto simp: rpc_inv_def)
  moreover have "(\<exists>i < length (rx_calls s). x = kl_key (rx_calls s ! i) \<and> under_way (kl_phase (rx_calls s ! i))) \<longleftrightarrow>
      (\<exists>c \<in> set (rx_calls s). x = kl_key c \<and> under_way (kl_phase c))" for x
    by (metis in_set_conv_nth)
  ultimately show "set (map fst (rx_pending s)) =
      {kl_key c | c. c \<in> set (rx_calls s) \<and> (kl_phase c = Registered \<or> kl_phase c = Sent)}"
    by (intro set_eqI, simp add: under_way_def, blast)
qed

definition two_calls :: "rpc_event list" where
  "two_calls = [Rpc_Starts ''list_tools'' None 40, Rpc_Starts ''get_status'' None 40, Rpc_Registers 1, Rpc_Registers 0,
     Rpc_Writes 0 None, Rpc_Writes 1 None,
     Rpc_Read (Response_Line \<lparr>rp_version = ''2.0'', rp_id = ''2'', rp_result = ''B'', rp_error = None\<rparr>),
     Rpc_Read (Response_Line \<lparr>rp_version = ''2.0'', rp_id = ''1'', rp_result = ''A'', rp_error = None\<rparr>),
     Rpc_Replied 0, Rpc_Replied 1]"

theorem replies_reach_their_call_witness:
  "kl_phase (rx_calls (rpc_run 100 two_calls) ! 1) =
     Over (Out_Replied \<lparr>rp_version = ''2.0'', rp_id = ''2'', rp_result = ''B'', rp_error = None\<rparr>) \<and>
   distinct (map kl_key (rx_calls (rpc_run 100 two_calls)))"
proof
  have "length two_calls < 2 ^ 64" by (simp add: two_calls_def)
  from replies_reach_their_call [OF this refl]
  show "distinct (map kl_key (rx_calls (rpc_run 100 two_calls)))" by blast
  show "kl_phase (rx_calls (rpc_run 100 two_calls) ! 1) =
     Over (Out_Replied \<lparr>rp_version = ''2.0'', rp_id = ''2'', rp_result = ''B'', rp_error = None\<rparr>)"
    unfolding two_calls_def rpc_run_def by code_simp
qed

section \<open>The end of the connection\<close>

lemma lost_outcome_replied [simp]: "lost_outcome slot f = Out_Replied r \<longleftrightarrow> slot = Some r"
  by (cases slot) (auto simp: lost_outcome_def)






end
