(* ===== verification/ExtensionCatalog.thy ===== *)
theory ExtensionCatalog
  imports ExtensionClient FileTree
begin

text \<open>
  Finding extensions (\<open>extensions/discover.go\<close>, \<open>catalog.go\<close>, \<open>manifest.go\<close>, \<open>paths.go\<close>,
  \<open>state.go\<close>) in a file tree with links. \<open>filepath.Glob\<close> and the JSON decoders of the two manifest
  formats are functions of the world. Reading a tree never fails half way, so scan errors do not occur.
\<close>

section \<open>Data\<close>

record ext_diagnostic =
  xd_severity :: string
  xd_code :: string
  xd_message :: "string list"
  xd_path :: string
  xd_extension :: string

record ext_source =
  xs_id :: string
  xs_location :: string
  xs_enabled :: bool
  xs_trust :: string
  xs_command :: string
  xs_args :: "string list"
  xs_env :: "string gomap"
  xs_inherit_env :: bool
  xs_sandboxed :: bool

record extension =
  xn_id :: string
  xn_name :: string
  xn_version :: string
  xn_description :: string
  xn_format :: string
  xn_root :: string
  xn_manifest :: string
  xn_entrypoints :: "string list"
  xn_skill_roots :: "string list"
  xn_prompt_roots :: "string list"
  xn_theme_roots :: "string list"
  xn_has_mcp :: bool
  xn_has_app :: bool
  xn_enabled :: bool
  xn_trust :: string
  xn_state :: string
  xn_process :: ext_process
  xn_diagnostics :: "ext_diagnostic list"

record ext_catalog =
  xg_extensions :: "extension list"
  xg_diagnostics :: "ext_diagnostic list"

definition launch_of :: "extension \<Rightarrow> launch_config" where
  "launch_of x = \<lparr>xl_id = xn_id x, xl_enabled = xn_enabled x, xl_trust = xn_trust x, xl_process = xn_process x\<rparr>"

record codex_manifest =
  cx_name :: string
  cx_version :: string
  cx_description :: string
  cx_skills :: "string list"
  cx_apps :: string
  cx_mcp :: string
  cx_mcp_servers :: string

record pi_config =
  pi_extensions :: "string list"
  pi_skills :: "string list"
  pi_prompts :: "string list"
  pi_themes :: "string list"

record pi_manifest =
  pi_name :: string
  pi_version :: string
  pi_description :: string
  pi_settings :: "pi_config option"

record manifest_data =
  mf_name :: string
  mf_version :: string
  mf_description :: string
  mf_format :: string
  mf_entrypoints :: "string list"
  mf_skills :: "string list"
  mf_prompts :: "string list"
  mf_themes :: "string list"
  mf_has_mcp :: bool
  mf_has_app :: bool

record ext_world =
  ew_tree :: tree
  ew_cwd :: string
  ew_glob :: "string \<Rightarrow> (string, string list) result"
  ew_codex :: "string \<Rightarrow> (string, codex_manifest) result"
  ew_pi :: "string \<Rightarrow> (string, pi_manifest) result"

definition file_exists :: "ext_world \<Rightarrow> string \<Rightarrow> bool" where
  "file_exists w p \<longleftrightarrow> (case stat_node (ew_tree w) p of None \<Rightarrow> False | Some n \<Rightarrow> n \<noteq> Dir)"

definition is_directory :: "ext_world \<Rightarrow> string \<Rightarrow> bool" where
  "is_directory w p \<longleftrightarrow> is_dir (stat_node (ew_tree w) p)"

definition evaluated :: "ext_world \<Rightarrow> string \<Rightarrow> string" where
  "evaluated w p = (case eval_symlinks (ew_tree w) p of None \<Rightarrow> p | Some r \<Rightarrow> r)"

section \<open>Manifests\<close>

datatype manifest_error = Not_Pi | Bad_Manifest "string list"

definition max_manifest_bytes :: nat where
  "max_manifest_bytes = 2 ^ 20"

definition read_small_file :: "ext_world \<Rightarrow> string \<Rightarrow> (manifest_error, string) result" where
  "read_small_file w p =
     (case stat_node (ew_tree w) p of
        Some (File c) \<Rightarrow> if length c > max_manifest_bytes then Inl (Bad_Manifest [''manifest exceeds its limit'']) else Inr c
      | _ \<Rightarrow> Inl (Bad_Manifest [''cannot read'', p]))"

definition json_present :: "string \<Rightarrow> bool" where
  "json_present raw = (let t = trim_space raw in t \<noteq> [] \<and> t \<noteq> ''null'' \<and> t \<noteq> ''false'')"

definition parse_manifest :: "ext_world \<Rightarrow> string \<Rightarrow> string \<Rightarrow> (manifest_error, manifest_data) result" where
  "parse_manifest w p format =
     bind_result (read_small_file w p) (\<lambda>contents.
       if format = ''codex-plugin'' then
         (case ew_codex w contents of
            Inl e \<Rightarrow> Inl (Bad_Manifest [''parse Codex plugin manifest'', e])
          | Inr m \<Rightarrow>
              if trim_space (cx_name m) = [] then Inl (Bad_Manifest [''Codex plugin manifest is missing name''])
              else (let root = dir_path (dir_path p) in
                Inr \<lparr>mf_name = cx_name m, mf_version = cx_version m, mf_description = cx_description m,
                     mf_format = ''codex-plugin'', mf_entrypoints = [], mf_skills = cx_skills m, mf_prompts = [],
                     mf_themes = [],
                     mf_has_mcp = (json_present (cx_mcp m) \<or> json_present (cx_mcp_servers m) \<or>
                                   file_exists w (join_path [root, ''.mcp.json''])),
                     mf_has_app = (json_present (cx_apps m) \<or> file_exists w (join_path [root, ''.app.json'']))\<rparr>))
       else if format = ''pi-package'' then
         (case ew_pi w contents of
            Inl e \<Rightarrow> Inl (Bad_Manifest [''parse Pi package manifest'', e])
          | Inr m \<Rightarrow>
              if trim_space (pi_name m) = [] then Inl (Bad_Manifest [''Pi package manifest is missing name''])
              else (case pi_settings m of
                      None \<Rightarrow> Inl Not_Pi
                    | Some s \<Rightarrow>
                        Inr \<lparr>mf_name = pi_name m, mf_version = pi_version m, mf_description = pi_description m,
                             mf_format = ''pi-package'', mf_entrypoints = pi_extensions s, mf_skills = pi_skills s,
                             mf_prompts = pi_prompts s, mf_themes = pi_themes s, mf_has_mcp = False,
                             mf_has_app = False\<rparr>))
       else Inl (Bad_Manifest [''unsupported manifest format'', format]))"

section \<open>Paths of a manifest\<close>

definition path_diagnostic :: "string \<Rightarrow> string \<Rightarrow> string list \<Rightarrow> string \<Rightarrow> ext_diagnostic" where
  "path_diagnostic i code message p =
     \<lparr>xd_severity = ''warning'', xd_code = code, xd_message = message, xd_path = p, xd_extension = i\<rparr>"

definition has_glob :: "string \<Rightarrow> bool" where
  "has_glob p \<longleftrightarrow> CHR ''*'' \<in> set p \<or> CHR ''?'' \<in> set p \<or> CHR ''['' \<in> set p"

definition contained_path :: "ext_world \<Rightarrow> string \<Rightarrow> string \<Rightarrow> string option" where
  "contained_path w root candidate =
     (let r = evaluated w (abs_path (ew_cwd w) root);
          c = evaluated w (abs_path (ew_cwd w) candidate)
      in if within r c then Some (clean_path c) else None)"

fun resolve_matches ::
  "ext_world \<Rightarrow> string \<Rightarrow> string \<Rightarrow> string \<Rightarrow> string list \<Rightarrow> string list \<Rightarrow> string list \<times> ext_diagnostic list" where
  "resolve_matches w root kind i resolved [] = (resolved, [])"
| "resolve_matches w root kind i resolved (m # ms) =
     (case contained_path w root m of
        None \<Rightarrow> (case resolve_matches w root kind i resolved ms of
                   (ps, ds) \<Rightarrow> (ps, path_diagnostic i (kind @ ''-outside-root'') [''path escapes extension root''] m # ds))
      | Some p \<Rightarrow>
          if stat_node (ew_tree w) p = None then
            (case resolve_matches w root kind i resolved ms of
               (ps, ds) \<Rightarrow> (ps, path_diagnostic i (kind @ ''-not-found'') [''cannot stat''] p # ds))
          else resolve_matches w root kind i (add_unique resolved p) ms)"

text \<open>What one entry of a manifest stands for: itself, or the matches of a pattern.\<close>

definition value_matches :: "ext_world \<Rightarrow> string \<Rightarrow> string \<Rightarrow> string \<Rightarrow> string \<Rightarrow> ext_diagnostic list \<times> string list" where
  "value_matches w root kind i v =
     (let t = trim_space v;
          pattern = (if is_abs t then t else join_path [root, t])
      in if t = [] then ([path_diagnostic i (kind @ ''-path-empty'') [''empty path''] root], [])
         else if has_glob t then
           (case ew_glob w pattern of
              Inl e \<Rightarrow> ([path_diagnostic i (kind @ ''-glob-invalid'') [e] pattern], [])
            | Inr ms \<Rightarrow>
                (if ms = [] then [path_diagnostic i (kind @ ''-not-found'') [''no paths matched''] pattern] else [], ms))
         else ([], [pattern]))"

fun resolve_values ::
  "ext_world \<Rightarrow> string \<Rightarrow> string \<Rightarrow> string \<Rightarrow> string list \<Rightarrow> string list \<Rightarrow> string list \<times> ext_diagnostic list" where
  "resolve_values w root kind i resolved [] = (resolved, [])"
| "resolve_values w root kind i resolved (v # vs) =
     (case value_matches w root kind i v of (ds, ms) \<Rightarrow>
       (case resolve_matches w root kind i resolved ms of (ps, ds') \<Rightarrow>
         (case resolve_values w root kind i ps vs of (qs, ds'') \<Rightarrow> (qs, ds @ ds' @ ds''))))"

definition resolve_paths ::
  "ext_world \<Rightarrow> string \<Rightarrow> string list \<Rightarrow> string \<Rightarrow> string \<Rightarrow> string list \<times> ext_diagnostic list" where
  "resolve_paths w root vs kind i = (case resolve_values w root kind i [] vs of (ps, ds) \<Rightarrow> (sort ps, ds))"

section \<open>Entries\<close>

fun first_given :: "string list \<Rightarrow> string" where
  "first_given [] = []"
| "first_given (v # vs) = (if trim_space v \<noteq> [] then trim_space v else first_given vs)"

definition base_entry :: "ext_source \<Rightarrow> string \<Rightarrow> string \<Rightarrow> string \<Rightarrow> extension" where
  "base_entry s i name root =
     \<lparr>xn_id = i, xn_name = name, xn_version = [], xn_description = [], xn_format = [], xn_root = root,
      xn_manifest = [], xn_entrypoints = [], xn_skill_roots = [], xn_prompt_roots = [], xn_theme_roots = [],
      xn_has_mcp = False, xn_has_app = False, xn_enabled = xs_enabled s,
      xn_trust = (if xs_trust s = [] then ''prompt'' else xs_trust s), xn_state = [],
      xn_process = \<lparr>ps_command = trim_space (xs_command s), ps_args = xs_args s, ps_dir = root, ps_env = xs_env s,
                    ps_inherit_env = xs_inherit_env s, ps_sandboxed = xs_sandboxed s\<rparr>,
      xn_diagnostics = []\<rparr>"

definition entry_error :: "extension \<Rightarrow> string \<Rightarrow> string list \<Rightarrow> ext_diagnostic" where
  "entry_error x code message =
     \<lparr>xd_severity = ''error'', xd_code = code, xd_message = message, xd_path = xn_root x, xd_extension = xn_id x\<rparr>"

definition finish_state :: "extension \<Rightarrow> extension" where
  "finish_state x =
     (let ds = xn_diagnostics x @
            (if xn_id x = [] then [entry_error x ''id-invalid'' [''extension id is empty'']] else []) @
            (if xn_trust x \<notin> {''denied'', ''prompt'', ''trusted''}
             then [entry_error x ''trust-invalid'' [''invalid trust state'', xn_trust x]] else []) @
            (case validate_process (xn_process x) (ps_command (xn_process x) = []) of
               None \<Rightarrow> [] | Some e \<Rightarrow> [entry_error x ''process-invalid'' e])
      in x\<lparr>xn_diagnostics := ds,
           xn_state := (if list_ex (\<lambda>d. xd_severity d = ''error'') ds then ''invalid''
                        else if \<not> xn_enabled x then ''disabled''
                        else if xn_trust x = ''denied'' then ''denied''
                        else if xn_trust x = ''prompt'' then ''needs_trust''
                        else if ps_command (xn_process x) = [] then ''catalogued'' else ''runnable'')\<rparr>)"

definition entry_from_manifest :: "ext_world \<Rightarrow> ext_source \<Rightarrow> string \<Rightarrow> string \<Rightarrow> manifest_data \<Rightarrow> extension" where
  "entry_from_manifest w s root manifest m =
     (let i = normalize_id (first_given [xs_id s, mf_name m]);
          skills = (if mf_format m = ''codex-plugin'' \<and> mf_skills m = [] \<and> is_directory w (join_path [root, ''skills''])
                    then [''skills''] else mf_skills m);
          es = resolve_paths w root (mf_entrypoints m) ''extension'' i;
          ss = resolve_paths w root skills ''skill'' i;
          ps = resolve_paths w root (mf_prompts m) ''prompt'' i;
          ts = resolve_paths w root (mf_themes m) ''theme'' i;
          renamed = (if xs_id s = [] \<and> i \<noteq> mf_name m
                     then [\<lparr>xd_severity = ''info'', xd_code = ''id-normalized'', xd_message = [mf_name m, i],
                            xd_path = manifest, xd_extension = i\<rparr>] else [])
      in finish_state ((base_entry s i (mf_name m) root)
           \<lparr>xn_version := mf_version m, xn_description := mf_description m, xn_format := mf_format m,
            xn_manifest := manifest, xn_has_mcp := mf_has_mcp m, xn_has_app := mf_has_app m,
            xn_entrypoints := fst es, xn_skill_roots := fst ss, xn_prompt_roots := fst ps, xn_theme_roots := fst ts,
            xn_diagnostics := snd es @ snd ss @ snd ps @ snd ts @ renamed\<rparr>))"

text \<open>\<open>strings.TrimSuffix(name, filepath.Ext(name))\<close> of a last component.\<close>

definition without_ext :: "string \<Rightarrow> string" where
  "without_ext name =
     (if CHR ''.'' \<in> set name then rev (tl (dropWhile (\<lambda>c. c \<noteq> CHR ''.'') (rev name))) else name)"

definition local_entry :: "ext_world \<Rightarrow> ext_source \<Rightarrow> string \<Rightarrow> node \<Rightarrow> extension" where
  "local_entry w s location info =
     (let name = (if info = Dir then base_path location else without_ext (base_path location));
          root = (if info = Dir then location else dir_path location);
          i = normalize_id (first_given [xs_id s, name]);
          skills = join_path [root, ''skills'']
      in finish_state ((base_entry s i name root)
           \<lparr>xn_format := ''local'', xn_entrypoints := (if info = Dir then [] else [location]),
            xn_skill_roots := (if is_directory w skills then [skills] else [])\<rparr>))"

section \<open>Discovery\<close>

text \<open>The manifest of a location, its format and the root of the extension.\<close>

definition manifest_at :: "ext_world \<Rightarrow> string \<Rightarrow> node \<Rightarrow> string \<times> string \<times> string" where
  "manifest_at w location info =
     (let codex = join_path [location, ''.codex-plugin'', ''plugin.json''];
          pi = join_path [location, ''package.json'']
      in if info \<noteq> Dir then
           if base_path location = ''plugin.json'' \<and> base_path (dir_path location) = ''.codex-plugin''
           then (location, ''codex-plugin'', dir_path (dir_path location))
           else if base_path location = ''package.json'' then (location, ''pi-package'', dir_path location)
           else ([], [], dir_path location)
         else if file_exists w codex then (codex, ''codex-plugin'', location)
         else if file_exists w pi then (pi, ''pi-package'', location)
         else ([], [], location))"

definition discover_source :: "ext_world \<Rightarrow> ext_source \<Rightarrow> extension option \<times> ext_diagnostic list" where
  "discover_source w s =
     (let absolute = abs_path (ew_cwd w) (trim_space (xs_location s)) in
      if trim_space (xs_location s) = [] then
        (None, [\<lparr>xd_severity = ''error'', xd_code = ''source-path-invalid'', xd_message = [''source location is required''],
                 xd_path = xs_location s, xd_extension = []\<rparr>])
      else case stat_node (ew_tree w) absolute of
        None \<Rightarrow> (None, [\<lparr>xd_severity = ''error'', xd_code = ''source-not-found'', xd_message = [''cannot stat''],
                         xd_path = absolute, xd_extension = []\<rparr>])
      | Some info \<Rightarrow>
          (let location = evaluated w absolute;
               x = local_entry w s location info
           in case manifest_at w location info of
                (manifest, format, root) \<Rightarrow>
                  if manifest = [] then (Some x, xn_diagnostics x)
                  else (case parse_manifest w manifest format of
                    Inr m \<Rightarrow> (let y = entry_from_manifest w s root manifest m in (Some y, xn_diagnostics y))
                  | Inl Not_Pi \<Rightarrow> (Some x, xn_diagnostics x)
                  | Inl (Bad_Manifest e) \<Rightarrow>
                      (let i = normalize_id (first_given [xs_id s, base_path root]);
                           d = \<lparr>xd_severity = ''error'', xd_code = ''manifest-invalid'', xd_message = e,
                                xd_path = manifest, xd_extension = i\<rparr>
                       in (Some ((base_entry s i (base_path root) root)
                                 \<lparr>xn_manifest := manifest, xn_format := format, xn_state := ''invalid'',
                                  xn_diagnostics := [d]\<rparr>), [d])))))"

text \<open>The scan of a plugin root goes over its nodes in order; \<open>pn_skipped\<close> holds the directories that
  \<open>SkipDir\<close> has cut off and \<open>pn_stopped\<close> tells that \<open>SkipAll\<close> has ended the walk.\<close>

record plugin_scan =
  pn_entries :: "extension list"
  pn_diagnostics :: "ext_diagnostic list"
  pn_count :: nat
  pn_skipped :: "string list list"
  pn_stopped :: bool

definition ignored_directory :: "string \<Rightarrow> bool" where
  "ignored_directory name \<longleftrightarrow> name \<in> {''.git'', ''node_modules'', ''vendor'', ''.cache'', ''dist'', ''build''}"

definition manifest_format :: "string list \<Rightarrow> string" where
  "manifest_format d =
     (if d = [] then []
      else if List.last d = ''plugin.json'' \<and> butlast d \<noteq> [] \<and> List.last (butlast d) = ''.codex-plugin'' then ''codex-plugin''
      else if List.last d = ''package.json'' then ''pi-package'' else [])"

definition prompt_source :: "string \<Rightarrow> ext_source" where
  "prompt_source root = \<lparr>xs_id = [], xs_location = root, xs_enabled = True, xs_trust = ''prompt'', xs_command = [],
     xs_args = [], xs_env = [], xs_inherit_env = False, xs_sandboxed = False\<rparr>"

definition scan_manifest :: "ext_world \<Rightarrow> string list \<Rightarrow> nat \<Rightarrow> string list \<Rightarrow> string \<Rightarrow> plugin_scan \<Rightarrow> plugin_scan" where
  "scan_manifest w root max_entries d format s =
     (let p = from_comps True d;
          plugin_root = (if format = ''codex-plugin'' then dir_path (dir_path p) else dir_path p)
      in case parse_manifest w p format of
           Inl Not_Pi \<Rightarrow> s
         | parsed \<Rightarrow>
             if pn_count s \<ge> max_entries then
               s\<lparr>pn_diagnostics := pn_diagnostics s @ [\<lparr>xd_severity = ''warning'', xd_code = ''plugin-scan-limit'',
                    xd_message = [''stopped''], xd_path = from_comps True root, xd_extension = []\<rparr>], pn_stopped := True\<rparr>
             else (case parsed of
                 Inl (Bad_Manifest e) \<Rightarrow>
                   s\<lparr>pn_count := Suc (pn_count s),
                     pn_diagnostics := pn_diagnostics s @ [\<lparr>xd_severity = ''warning'', xd_code = ''manifest-invalid'',
                        xd_message = e, xd_path = p, xd_extension = []\<rparr>]\<rparr>
               | Inl Not_Pi \<Rightarrow> s
               | Inr m \<Rightarrow>
                   (let x = entry_from_manifest w (prompt_source plugin_root) plugin_root p m in
                    s\<lparr>pn_count := Suc (pn_count s), pn_entries := pn_entries s @ [x],
                      pn_diagnostics := pn_diagnostics s @ xn_diagnostics x,
                      pn_skipped := (if format = ''codex-plugin'' then butlast d # pn_skipped s else pn_skipped s)\<rparr>)))"

definition scan_node :: "ext_world \<Rightarrow> string list \<Rightarrow> int \<Rightarrow> nat \<Rightarrow> plugin_scan \<Rightarrow> string list \<times> node \<Rightarrow> plugin_scan" where
  "scan_node w root deepest max_entries s x =
     (case x of (d, n) \<Rightarrow>
        if pn_stopped s \<or> list_ex (\<lambda>p. prefix p d) (pn_skipped s) then s
        else if n = Dir then
          if d \<noteq> root \<and> (int (length d - length root) > deepest \<or> ignored_directory (List.last d))
          then s\<lparr>pn_skipped := d # pn_skipped s\<rparr> else s
        else if manifest_format d = [] then s
        else scan_manifest w root max_entries d (manifest_format d) s)"

definition scan_root :: "ext_world \<Rightarrow> string \<Rightarrow> int \<Rightarrow> nat \<Rightarrow> extension list \<times> ext_diagnostic list" where
  "scan_root w given deepest max_entries =
     (let raw = trim_space given;
          absolute = abs_path (ew_cwd w) raw;
          root = evaluated w absolute;
          failed = (\<lambda>code message p. ([], [\<lparr>xd_severity = ''error'', xd_code = code, xd_message = message, xd_path = p,
                                            xd_extension = []\<rparr>]))
      in if raw = [] then failed ''plugin-root-invalid'' [''plugin root is required''] absolute
         else if \<not> is_directory w root then failed ''plugin-root-not-found'' [''plugin root is not a directory''] root
         else (let s = foldl (scan_node w (path_comps root) deepest max_entries)
                         \<lparr>pn_entries = [], pn_diagnostics = [], pn_count = 0, pn_skipped = [], pn_stopped = False\<rparr>
                         (walk_dir (ew_tree w) (path_comps root) Dir)
               in (pn_entries s, pn_diagnostics s)))"

section \<open>The catalog\<close>

definition entry_key :: "extension \<Rightarrow> string" where
  "entry_key x = (if xn_manifest x = [] then xn_root x @ [CHR 0x00] @ join_with [CHR 0x00] (xn_entrypoints x) else xn_root x)"

fun add_entries :: "extension list \<Rightarrow> string list \<Rightarrow> extension list \<Rightarrow> extension list" where
  "add_entries xs seen [] = xs"
| "add_entries xs seen (y # ys) =
     (if entry_key y \<in> set seen then add_entries xs seen ys
      else add_entries (xs @ [y]) (entry_key y # seen) ys)"

definition duplicate_diagnostic :: "extension \<Rightarrow> ext_diagnostic" where
  "duplicate_diagnostic x = entry_error x ''duplicate-id'' [''multiple extensions use id '', xn_id x]"

definition id_count :: "extension list \<Rightarrow> string \<Rightarrow> nat" where
  "id_count xs i = length (filter (\<lambda>y. xn_id y = i) xs)"

definition mark_duplicates :: "ext_catalog \<Rightarrow> ext_catalog" where
  "mark_duplicates g =
     (let xs = xg_extensions g;
          twice = (\<lambda>x. 2 \<le> id_count xs (xn_id x))
      in \<lparr>xg_extensions = map (\<lambda>x. if twice x
                   then x\<lparr>xn_state := ''invalid'', xn_diagnostics := xn_diagnostics x @ [duplicate_diagnostic x]\<rparr> else x) xs,
          xg_diagnostics = xg_diagnostics g @ map duplicate_diagnostic (filter twice xs)\<rparr>)"

text \<open>Two stable sorts order by the first key, then by the second.\<close>

definition sort_catalog :: "ext_catalog \<Rightarrow> ext_catalog" where
  "sort_catalog g =
     \<lparr>xg_extensions = sort_key xn_id (sort_key xn_root (xg_extensions g)),
      xg_diagnostics = sort_key xd_path (sort_key xd_code (sort_key xd_extension (xg_diagnostics g)))\<rparr>"

definition raw_catalog :: "ext_world \<Rightarrow> ext_source list \<Rightarrow> string list \<Rightarrow> int \<Rightarrow> int \<Rightarrow> ext_catalog" where
  "raw_catalog w sources roots deepest max_entries =
     (let from_sources = map (discover_source w) sources;
          from_roots = map (\<lambda>r. scan_root w r (if deepest \<le> 0 then 8 else deepest)
                                  (nat (if max_entries \<le> 0 then 512 else max_entries))) roots
      in \<lparr>xg_extensions = add_entries [] []
              (concat (map (case_option [] (\<lambda>x. [x]) \<circ> fst) from_sources) @ concat (map fst from_roots)),
            xg_diagnostics = concat (map snd from_sources) @ concat (map snd from_roots)\<rparr>)"

definition discover_extensions :: "ext_world \<Rightarrow> ext_source list \<Rightarrow> string list \<Rightarrow> int \<Rightarrow> int \<Rightarrow> ext_catalog" where
  "discover_extensions w sources roots deepest max_entries =
     sort_catalog (mark_duplicates (raw_catalog w sources roots deepest max_entries))"

definition find_extension :: "ext_catalog \<Rightarrow> string \<Rightarrow> extension option" where
  "find_extension g i = List.find (\<lambda>x. xn_id x = i) (xg_extensions g)"

end
