(* ===== verification/ExtensionHost.thy ===== *)
theory ExtensionHost
  imports McpPolicy ExtensionCatalog
begin

text \<open>
  The extensions of a conversation (\<open>capability/extensions_source.go\<close>,
  \<open>extensions_source_catalog.go\<close>, \<open>extensions_source_lifecycle.go\<close>,
  \<open>extensions_contributions.go\<close>, \<open>extensions_sandbox.go\<close>): the configured sources, their sandbox, the
  catalog, the processes that are kept by slot and fingerprint, and what they contribute. Discovery, the
  sandbox wrapper, the fingerprint of an extension and Go's quoting are functions of the host.
\<close>

section \<open>Sources\<close>

record 'c ext_host =
  eh_discover :: "ext_source list \<Rightarrow> (string, ext_catalog) result"
  eh_env :: "'c ext_env"
  eh_refresh :: "'c ext_client \<Rightarrow> (string, ext_tool list) result"
  eh_limits :: ext_limits
  eh_fingerprint :: "extension \<Rightarrow> string"
  eh_sandbox_processes :: bool
  eh_wrap :: "process_sandbox \<Rightarrow> (string, string \<times> string list) result"
  eh_temp :: string
  eh_stat :: "string \<Rightarrow> node option"
  eh_quote :: "string \<Rightarrow> string"

definition extension_trust :: "string \<Rightarrow> string" where
  "extension_trust t = (if t = ''denied'' then ''denied'' else if t = ''trusted'' then ''trusted'' else ''prompt'')"

definition local_source :: "string \<Rightarrow> extension_source \<Rightarrow> ext_source" where
  "local_source name s =
     \<lparr>xs_id = name, xs_location = ex_location s, xs_enabled = ex_enabled s, xs_trust = extension_trust (ex_trust s),
      xs_command = ex_command s, xs_args = ex_args s, xs_env = ex_env s, xs_inherit_env = ex_inherit_env s,
      xs_sandboxed = False\<rparr>"

definition configured_sources :: "extension_settings \<Rightarrow> ext_source list \<times> extension_source gomap" where
  "configured_sources st =
     (let named = map (\<lambda>n. (n, the (map_of (es_sources st) n))) (sort_key (\<lambda>n. n) (map fst (es_sources st)))
      in (map (\<lambda>(n, s). local_source n s) (filter (\<lambda>(n, s). ex_kind s = ''local'') named),
          filter (\<lambda>(n, s). ex_kind s \<noteq> ''local'') named))"

definition remote_descriptor :: "string \<Rightarrow> extension_source \<Rightarrow> descriptor" where
  "remote_descriptor name s =
     \<lparr>de_name = ''extension:'' @ extension_id name, de_source = ''extension'',
      de_description = ''Remote extension is catalogued; automatic installation is not supported.'', de_enabled = False,
      de_status = (if \<not> ex_enabled s then ''disabled'' else if ex_trust s = ''denied'' then ''denied''
                   else if ex_trust s \<noteq> ''trusted'' then ''needs_trust'' else ''install_unsupported'')\<rparr>"

definition extension_descriptor :: "extension \<Rightarrow> descriptor" where
  "extension_descriptor x =
     (let description = join_with '' '' (text_fields (xn_description x)) in
      \<lparr>de_name = ''extension:'' @ xn_id x, de_source = ''extension'',
       de_description = (if description = [] then xn_format x @ '' extension'' else description),
       de_enabled = (xn_state x = ''runnable'' \<or> xn_state x = ''catalogued''), de_status = xn_state x\<rparr>)"

definition safe_diagnostic :: "string \<Rightarrow> string \<Rightarrow> string \<Rightarrow> nat \<Rightarrow> descriptor" where
  "safe_diagnostic i code severity index =
     (let i' = (if i = [] then ''catalog'' else i); code' = (if code = [] then ''unknown'' else code) in
      \<lparr>de_name = ''extension:'' @ extension_id i' @ '':diagnostic:'' @ extension_id code' @ '':'' @ itoa index,
       de_source = ''extension'', de_description = ''Extension diagnostic: '' @ code' @ ''.'', de_enabled = False,
       de_status = severity\<rparr>)"

section \<open>Sandbox\<close>

definition sandbox_directory :: "'c ext_host \<Rightarrow> string \<Rightarrow> string" where
  "sandbox_directory host location =
     (case eh_stat host location of
        None \<Rightarrow> location
      | Some n \<Rightarrow>
          if n = Dir then location
          else (let directory = dir_path location in
                if base_path location = ''plugin.json'' \<and> base_path directory = ''.codex-plugin''
                then dir_path directory else directory))"

definition sandbox_source ::
  "'c ext_host \<Rightarrow> cap_scope \<Rightarrow> string \<Rightarrow> ext_source \<Rightarrow> ext_source \<times> descriptor list" where
  "sandbox_source host scope mode s =
     (if \<not> xs_enabled s \<or> xs_trust s \<noteq> ''trusted'' \<or> xs_command s = [] then (s, [])
      else (let private = (cs_cwd scope = []);
                workspace = (if private then eh_temp host else cs_cwd scope)
            in case eh_wrap host \<lparr>px_workspace = workspace, px_working_directory = sandbox_directory host (xs_location s),
                    px_command = xs_command s, px_args = xs_args s, px_extra_read_paths = [xs_location s],
                    px_write_paths = cs_additional_folders scope, px_allow_network = (mode = ''workspace''),
                    px_private_workspace = private\<rparr> of
                 Inl e \<Rightarrow> (s\<lparr>xs_command := [], xs_args := []\<rparr>,
                           [\<lparr>de_name = ''extension:'' @ extension_id (xs_id s) @ '':sandbox'', de_source = ''extension'',
                             de_description = e, de_enabled = False, de_status = ''sandbox_unavailable''\<rparr>])
               | Inr (command, args) \<Rightarrow> (s\<lparr>xs_command := command, xs_args := args, xs_sandboxed := True\<rparr>, [])))"

definition sandbox_sources ::
  "'c ext_host \<Rightarrow> cap_scope \<Rightarrow> string \<Rightarrow> ext_source list \<Rightarrow> ext_source list \<times> descriptor list" where
  "sandbox_sources host scope mode ss =
     (if mode = ''off'' then (ss, [])
      else (let made = map (sandbox_source host scope mode) ss in (map fst made, concat (map snd made))))"

section \<open>Processes\<close>

text \<open>The clients by slot, each with the fingerprint of the extension it runs.\<close>

record 'c ext_clients =
  xh_clients :: "(string \<times> 'c ext_client) gomap"
  xh_closed :: bool

definition no_clients :: "'c ext_clients" where
  "no_clients = \<lparr>xh_clients = [], xh_closed = False\<rparr>"

definition close_effects :: "'c ext_client \<Rightarrow> ext_effect list" where
  "close_effects c = snd (snd (ext_close None None c))"

definition scope_key :: "cap_scope \<Rightarrow> string" where
  "scope_key scope = (if cs_conversation_id scope \<noteq> [] then cs_conversation_id scope
                      else cs_kind scope @ [CHR 0x00] @ cs_cwd scope)"

definition open_for ::
  "'c ext_host \<Rightarrow> string \<Rightarrow> string \<Rightarrow> launch_config \<Rightarrow> 'c ext_clients \<Rightarrow>
    (string list, 'c ext_client) result \<times> 'c ext_clients \<times> ext_effect list" where
  "open_for host slot fp launch s =
     (case open_client (eh_env host) launch (eh_limits host) ([], []) of
        (Inl e, fx) \<Rightarrow> (Inl [''adapter-unavailable''], s, fx)
      | (Inr c, fx) \<Rightarrow> (Inr c, s\<lparr>xh_clients := AList.update slot (fp, c) (xh_clients s)\<rparr>, fx))"

definition client_for ::
  "'c ext_host \<Rightarrow> string \<Rightarrow> string \<Rightarrow> launch_config \<Rightarrow> 'c ext_clients \<Rightarrow>
    (string list, 'c ext_client) result \<times> 'c ext_clients \<times> ext_effect list" where
  "client_for host slot fp launch s =
     (if xh_closed s then (Inl [''capability: extension source is closed''], s, [])
      else case map_of (xh_clients s) slot of
        None \<Rightarrow> open_for host slot fp launch s
      | Some (fp', c) \<Rightarrow>
          (let s' = s\<lparr>xh_clients := AList.delete slot (xh_clients s)\<rparr>;
               reopen = (\<lambda>fx. case open_for host slot fp launch s' of (r, t, fx') \<Rightarrow> (r, t, fx @ close_effects c @ fx'))
           in if fp' = fp then
                (case refresh_tools (xe_digest (eh_env host)) (xe_json (eh_env host)) (eh_refresh host c) c of
                   (Inr c', fx) \<Rightarrow> (Inr c', s\<lparr>xh_clients := AList.update slot (fp, c') (xh_clients s)\<rparr>, fx)
                 | (Inl e, fx) \<Rightarrow> reopen fx)
              else reopen []))"

definition kept_slot :: "string \<Rightarrow> string gomap \<Rightarrow> string \<times> string \<times> 'c ext_client \<Rightarrow> bool" where
  "kept_slot scope keep x =
     (case x of (slot, fp, c) \<Rightarrow> \<not> has_prefix slot (scope @ [CHR 0x00]) \<or> map_of keep slot = Some fp)"

definition reconcile :: "string \<Rightarrow> string gomap \<Rightarrow> 'c ext_clients \<Rightarrow> 'c ext_clients \<times> ext_effect list" where
  "reconcile scope keep s =
     (s\<lparr>xh_clients := filter (kept_slot scope keep) (xh_clients s)\<rparr>,
      concat (map (\<lambda>(slot, fp, c). close_effects c) (filter (\<lambda>x. \<not> kept_slot scope keep x) (xh_clients s))))"

definition close_source :: "'c ext_clients \<Rightarrow> 'c ext_clients \<times> ext_effect list" where
  "close_source s =
     (if xh_closed s then (s, [])
      else (\<lparr>xh_clients = [], xh_closed = True\<rparr>, concat (map (\<lambda>(slot, fp, c). close_effects c) (xh_clients s))))"

section \<open>Contributions\<close>

datatype ext_agent_tool = Ext_Agent_Tool string string ext_tool

datatype ext_hook = Ext_Hook string string string

datatype ext_slash = Ext_Slash string string string string

type_synonym ext_fragment = "(ext_agent_tool, ext_hook, ext_slash) fragment"

definition prompt_instruction :: "(string \<Rightarrow> string) \<Rightarrow> string \<Rightarrow> prompt_fragment \<Rightarrow> string" where
  "prompt_instruction quote i p =
     ''<extension_prompt source='' @ quote i @ '' id='' @ quote (pf_id p) @ ''>'' @ [CHR 0x0A] @ pf_text p @
     [CHR 0x0A] @ ''</extension_prompt>''"

definition slash_name :: "string \<Rightarrow> string \<Rightarrow> string" where
  "slash_name i command = ''ext:'' @ extension_id i @ '':'' @ extension_id command"

definition add_command :: "string \<Rightarrow> string \<Rightarrow> ext_fragment \<Rightarrow> ext_command \<Rightarrow> ext_fragment" where
  "add_command slot i f c =
     (let name = slash_name i (ec_name c) in
      f\<lparr>fr_commands := AList.update name (Ext_Slash slot name (ec_name c) (ec_description c)) (fr_commands f),
        fr_descriptors := fr_descriptors f @ [\<lparr>de_name = ''/'' @ name, de_source = ''extension:'' @ i,
          de_description = ec_description c, de_enabled = True, de_status = ''ready''\<rparr>]\<rparr>)"

definition event_hooks :: "string \<Rightarrow> string \<Rightarrow> registration \<Rightarrow> string \<Rightarrow> ext_hook list" where
  "event_hooks slot i r event =
     (if list_ex (\<lambda>h. hk_event h = event) (rg_hooks r) then [Ext_Hook slot i event] else [])"

definition add_contributions ::
  "(string \<Rightarrow> string) \<Rightarrow> string \<Rightarrow> string \<Rightarrow> registration \<Rightarrow> ext_fragment \<Rightarrow> ext_fragment" where
  "add_contributions quote slot i given f =
     (let r = clone_registration given;
          f1 = f\<lparr>fr_instructions := foldl (\<lambda>t p. append_instructions t (prompt_instruction quote i p))
                                        (fr_instructions f) (rg_prompts r)\<rparr>;
          f2 = foldl (add_command slot i) f1 (rg_commands r)
      in f2\<lparr>fr_hooks := append_hooks (fr_hooks f2)
              \<lparr>hk_before_prompt = event_hooks slot i r ''before_prompt'', hk_after_model = event_hooks slot i r ''after_model'',
               hk_before_tool = event_hooks slot i r ''before_tool'', hk_after_tool = event_hooks slot i r ''after_tool''\<rparr>\<rparr>)"

definition add_agent_tool :: "string \<Rightarrow> string \<Rightarrow> ext_fragment \<Rightarrow> string \<times> ext_tool \<Rightarrow> ext_fragment" where
  "add_agent_tool slot i f x =
     (case x of (name, t) \<Rightarrow>
        if map_of (fr_tools f) name \<noteq> None then
          f\<lparr>fr_descriptors := fr_descriptors f @ [safe_diagnostic i ''duplicate-tool'' ''error'' 0]\<rparr>
        else f\<lparr>fr_tools := fr_tools f @ [(name, Ext_Agent_Tool slot name t)],
               fr_descriptors := fr_descriptors f @ [\<lparr>de_name = name, de_source = ''extension:'' @ i,
                 de_description = et_description t, de_enabled = True, de_status = ''ready''\<rparr>]\<rparr>)"

section \<open>Resolving\<close>

record 'c ext_resolution =
  xr_fragment :: ext_fragment
  xr_keep :: "string gomap"
  xr_clients :: "'c ext_clients"
  xr_effects :: "ext_effect list"

definition resolve_extension :: "'c ext_host \<Rightarrow> cap_scope \<Rightarrow> 'c ext_resolution \<Rightarrow> extension \<Rightarrow> 'c ext_resolution" where
  "resolve_extension host scope q x =
     (let f = xr_fragment q;
          d = extension_descriptor x;
          f1 = f\<lparr>fr_descriptors := fr_descriptors f @ [d],
                 fr_plugin_roots := fr_plugin_roots f @
                   (if xn_enabled x \<and> xn_trust x = ''trusted'' \<and> (xn_state x = ''runnable'' \<or> xn_state x = ''catalogued'')
                    then map (\<lambda>p. \<lparr>pg_name = xn_id x, pg_path = p\<rparr>) (xn_skill_roots x) else [])\<rparr>
      in if xn_state x \<noteq> ''runnable'' then q\<lparr>xr_fragment := f1\<rparr>
         else (let slot = scope_key scope @ [CHR 0x00] @ xn_id x;
                   fp = eh_fingerprint host x;
                   q1 = q\<lparr>xr_keep := AList.update slot fp (xr_keep q)\<rparr>
               in case client_for host slot fp (launch_of x) (xr_clients q) of
                    (Inl e, s, fx) \<Rightarrow>
                      q1\<lparr>xr_clients := s, xr_effects := xr_effects q @ fx,
                         xr_fragment := f1\<lparr>fr_descriptors := fr_descriptors f @
                           [d\<lparr>de_enabled := False, de_status := ''error''\<rparr>,
                            safe_diagnostic (xn_id x) ''adapter-unavailable'' ''error'' 0]\<rparr>\<rparr>
                  | (Inr c, s, fx) \<Rightarrow>
                      q1\<lparr>xr_clients := s, xr_effects := xr_effects q @ fx,
                         xr_fragment := foldl (add_agent_tool slot (xn_id x))
                           (add_contributions (eh_quote host) slot (xn_id x) (xk_registration c) f1)
                           (offered_tools (xe_digest (eh_env host)) c)\<rparr>))"

definition resolve_extensions ::
  "'c ext_host \<Rightarrow> cap_scope \<Rightarrow> settings \<Rightarrow> 'c ext_clients \<Rightarrow>
    (string, ext_fragment) result \<times> 'c ext_clients \<times> ext_effect list" where
  "resolve_extensions host scope st s =
     (if xh_closed s then (Inl ''capability: extension source is closed'', s, [])
      else case configured_sources (st_extensions st) of (given, remote) \<Rightarrow>
       (case (if eh_sandbox_processes host then sandbox_sources host scope (to_sandbox (st_tools st)) given else (given, [])) of
          (locals, ds) \<Rightarrow>
            (let f = no_fragment\<lparr>fr_descriptors := ds @ map (\<lambda>(n, e). remote_descriptor n e) remote\<rparr> in
             case eh_discover host locals of
               Inl e \<Rightarrow>
                 (case reconcile (scope_key scope) [] s of (t, fx) \<Rightarrow>
                    (Inr (f\<lparr>fr_descriptors := fr_descriptors f @ [safe_diagnostic ''discovery'' ''discovery-failed'' ''error'' 0]\<rparr>),
                     t, fx))
             | Inr g \<Rightarrow>
                 (let q = foldl (resolve_extension host scope)
                            \<lparr>xr_fragment = f, xr_keep = [], xr_clients = s, xr_effects = []\<rparr> (xg_extensions g);
                      missing = filter (\<lambda>i. i \<notin> set (map xn_id (xg_extensions g))) (map (extension_id \<circ> xs_id) locals);
                      ds' = fr_descriptors (xr_fragment q) @
                        map (\<lambda>i. \<lparr>de_name = ''extension:'' @ i, de_source = ''extension'',
                                  de_description = ''Local extension could not be catalogued.'', de_enabled = False,
                                  de_status = ''invalid''\<rparr>) missing @
                        map (\<lambda>(k, d). safe_diagnostic (xd_extension d) (xd_code d) (xd_severity d) k)
                          (enumerate 0 (xg_diagnostics g))
                  in case reconcile (scope_key scope) (xr_keep q) (xr_clients q) of (t, fx) \<Rightarrow>
                       (Inr ((xr_fragment q)\<lparr>fr_descriptors := sort_key de_name ds'\<rparr>), t, xr_effects q @ fx)))))"

section \<open>Hooks\<close>

definition extension_hook_error :: "string \<Rightarrow> hook_result option \<Rightarrow> ext_error option \<Rightarrow> string list option" where
  "extension_hook_error i veto e =
     (case e of
        Some x \<Rightarrow> Some [''extension '', i, '' hook'']
      | None \<Rightarrow>
          (case veto of
             None \<Rightarrow> None
           | Some r \<Rightarrow>
               if ht_veto r then
                 Some [''extension '', i, (if trim_space (ht_message r) = [] then ''operation vetoed'' else trim_space (ht_message r))]
               else None))"

definition empty_payload :: hook_payload where
  "empty_payload = \<lparr>hp_prompt = [], hp_model_text = [], hp_tool_name = [], hp_arguments = [], hp_output = [],
     hp_is_error = False\<rparr>"

definition before_prompt_hook ::
  "ext_json \<Rightarrow> hook_reply \<Rightarrow> string \<Rightarrow> 'c ext_client \<Rightarrow> string \<Rightarrow> string \<times> string list option" where
  "before_prompt_hook j reply i c prompt =
     (case fst (invoke_hooks j reply ''before_prompt'' (empty_payload\<lparr>hp_prompt := prompt\<rparr>) c) of
        (p, veto, e) \<Rightarrow> (hp_prompt p, extension_hook_error i veto e))"

definition after_model_hook ::
  "ext_json \<Rightarrow> hook_reply \<Rightarrow> string \<Rightarrow> 'c ext_client \<Rightarrow> string \<Rightarrow> (string list, string) result" where
  "after_model_hook j reply i c text =
     (case fst (invoke_hooks j reply ''after_model'' (empty_payload\<lparr>hp_model_text := text\<rparr>) c) of
        (p, veto, e) \<Rightarrow> (case extension_hook_error i veto e of Some x \<Rightarrow> Inl x | None \<Rightarrow> Inr (hp_model_text p)))"

text \<open>A tool call is its name and its arguments.\<close>

definition before_tool_hook ::
  "ext_json \<Rightarrow> hook_reply \<Rightarrow> string \<Rightarrow> 'c ext_client \<Rightarrow> string \<times> string \<Rightarrow> (string list, string \<times> string) result" where
  "before_tool_hook j reply i c call =
     (case fst (invoke_hooks j reply ''before_tool''
              (empty_payload\<lparr>hp_tool_name := fst call, hp_arguments := snd call\<rparr>) c) of
        (p, veto, e) \<Rightarrow>
          (case extension_hook_error i veto e of
             Some x \<Rightarrow> Inl x
           | None \<Rightarrow> Inr (if hp_tool_name p \<noteq> [] then hp_tool_name p else fst call,
                          if hp_arguments p \<noteq> [] then hp_arguments p else snd call)))"

definition after_tool_hook ::
  "ext_json \<Rightarrow> hook_reply \<Rightarrow> string \<Rightarrow> 'c ext_client \<Rightarrow> string \<times> string \<Rightarrow> string \<times> bool \<Rightarrow>
    (string list, string \<times> bool) result" where
  "after_tool_hook j reply i c call result =
     (case fst (invoke_hooks j reply ''after_tool''
              (empty_payload\<lparr>hp_tool_name := fst call, hp_arguments := snd call, hp_output := fst result,
                             hp_is_error := snd result\<rparr>) c) of
        (p, veto, e) \<Rightarrow>
          (case extension_hook_error i veto e of Some x \<Rightarrow> Inl x | None \<Rightarrow> Inr (hp_output p, hp_is_error p)))"

end
