(* ===== verification/ExtensionProps.thy ===== *)
theory ExtensionProps
  imports ExtensionHost
begin

text \<open>
  Properties of extensions: which processes are started and that none is left behind, the names of their
  tools, the bounds of what they return, the order of their hooks, and the entries of the catalog.
\<close>

section \<open>Names and bounded text\<close>

lemma set_normalize_runes:
  "set out \<subseteq> {c. name_char c} \<Longrightarrow> set (normalize_runes lower out u rs) \<subseteq> {c. name_char c}"
proof (induction lower out u rs rule: normalize_runes.induct)
  case (2 lower out u r rs)
  have "name_char (hd r) \<Longrightarrow> name_char (lower_char (hd r))"
    by (auto simp: name_char_def is_alnum_def is_lower_letter_def is_upper_letter_def lower_char_def)
  with 2 show ?case by (auto simp: name_char_def)
qed simp

lemma set_trim_cutset: "set (trim_cutset ws s) \<subseteq> set s"
  by (auto simp: trim_cutset_def trim_right_chars_def trim_left_chars_def
      dest!: subsetD [OF set_mono_suffix [OF suffix_dropWhile]])

lemma normalize_segment_chars:
  assumes "set fallback \<subseteq> {c. name_char c}"
  shows "set (normalize_segment v fallback lower) \<subseteq> {c. name_char c}"
  using set_trim_cutset [of "''_-''" "normalize_runes lower [] False (runes (trim_space v))"]
    set_normalize_runes [of "[]" lower False "runes (trim_space v)"] assms
  by (auto simp: normalize_segment_def Let_def)

lemma name_char_words: "set ''extension'' \<subseteq> {c. name_char c}" "set ''tool'' \<subseteq> {c. name_char c}"
  "set ''ext__'' \<subseteq> {c. name_char c}"
  by (simp_all add: name_char_def is_alnum_def is_lower_letter_def)

lemma model_name_shape:
  assumes "length (digest n) \<le> 62 \<and> set (digest n) \<subseteq> {c. name_char c}"
    and "n = ''ext__'' @ normalize_segment i ''extension'' True @ ''__'' @ normalize_segment t ''tool'' False"
  shows "length (model_name digest i t) \<le> 64 \<and> set (model_name digest i t) \<subseteq> {c. name_char c}"
proof -
  have n: "set n \<subseteq> {c. name_char c}"
    using normalize_segment_chars [OF name_char_words(1), of i True] normalize_segment_chars [OF name_char_words(2), of t False]
      name_char_words(3)
    unfolding assms(2) by (auto simp: name_char_def)
  show ?thesis
    using assms(1) n set_take_subset [of "64 - length (''__'' @ digest n)" n]
    unfolding model_name_def assms(2) [symmetric] Let_def max_model_tool_name_def
    by (auto simp: name_char_def)
qed



lemma truncate_output_whole: "int (length v) \<le> maximum \<Longrightarrow> truncate_output v maximum = v"
  by (simp add: truncate_output_def)


section \<open>Captured standard error\<close>

definition write_all :: "string list \<Rightarrow> bounded_buffer \<Rightarrow> bounded_buffer" where
  "write_all vs b = foldl (\<lambda>b v. snd (buffer_write v b)) b vs"

lemma write_all_contents:
  assumes "0 \<le> bb_maximum b"
  shows "bb_contents b = List.take (nat (bb_maximum b)) t \<and> (bb_truncated b \<longleftrightarrow> nat (bb_maximum b) < length t) \<Longrightarrow>
    bb_maximum (write_all vs b) = bb_maximum b \<and>
    bb_contents (write_all vs b) = List.take (nat (bb_maximum b)) (t @ concat vs) \<and>
    (bb_truncated (write_all vs b) \<longleftrightarrow> nat (bb_maximum b) < length (t @ concat vs))"
  using assms
proof (induction vs arbitrary: b t)
  case (Cons v vs)
  let ?b = "snd (buffer_write v b)" and ?m = "nat (bb_maximum b)"
  have m: "bb_maximum ?b = bb_maximum b" by (auto simp: buffer_write_def Let_def)
  have "bb_contents ?b = List.take ?m (t @ v) \<and> (bb_truncated ?b \<longleftrightarrow> ?m < length (t @ v))"
    using Cons.prems by (auto simp: buffer_write_def Let_def min_def nat_diff_distrib)
      (simp flip: length_0_conv)
  with Cons.IH [of ?b "t @ v"] Cons.prems(2) m show ?case by (simp add: write_all_def)
qed (simp add: write_all_def)

text \<open>What is shown of a process's standard error never exceeds the limit, and is all it wrote, in the
  order it wrote it, when that fits.\<close>

lemma stderr_bounded:
  "int (length (buffer_string (write_all vs (new_buffer maximum)))) \<le> max 0 maximum \<and>
   (buffer_string (write_all vs (new_buffer maximum)) = concat vs \<or> maximum < int (length (concat vs)))"
proof (cases "0 \<le> maximum")
  case True
  then have "bb_maximum (write_all vs (new_buffer maximum)) = maximum \<and>
      bb_contents (write_all vs (new_buffer maximum)) = List.take (nat maximum) (concat vs) \<and>
      (bb_truncated (write_all vs (new_buffer maximum)) \<longleftrightarrow> nat maximum < length (concat vs))"
    using write_all_contents [of "new_buffer maximum" "[]" vs] by (simp add: new_buffer_def)
  with True show ?thesis by (auto simp: buffer_string_def Let_def)
next
  case False
  have "bb_contents (write_all vs b) = [] \<and> bb_maximum (write_all vs b) = maximum"
    if "bb_contents b = []" "bb_maximum b = maximum" for b
    using that
  proof (induction vs arbitrary: b)
    case (Cons v vs)
    then show ?case using False by (simp add: write_all_def buffer_write_def Let_def)
  qed (simp add: write_all_def)
  then have *: "bb_contents (write_all vs (new_buffer maximum)) = []" "bb_maximum (write_all vs (new_buffer maximum)) = maximum"
    by (simp_all add: new_buffer_def)
  with False show ?thesis by (auto simp: buffer_string_def Let_def)
qed

section \<open>Tools\<close>

lemma collect_ext_tools_facts:
  assumes "collect_ext_tools digest j i tools names ts = Inr out"
    and "distinct (map fst tools)" "\<forall>(n, t) \<in> set tools. et_name t = n \<and> (\<exists>t' \<in> set given. t = clone_tool t')"
    and "distinct (map (\<lambda>(n, t). model_name digest i n) tools)"
    and "fst ` set names = (\<lambda>(n, t). model_name digest i n) ` set tools" and "set ts \<subseteq> set given"
  shows "distinct (map fst out) \<and> (\<forall>(n, t) \<in> set out. et_name t = n \<and> (\<exists>t' \<in> set given. t = clone_tool t')) \<and>
    distinct (map (\<lambda>(n, t). model_name digest i n) out)"
  using assms
proof (induction digest j i tools names ts rule: collect_ext_tools.induct)
  case (2 digest j i tools names t ts)
  let ?m = "model_name digest i (et_name t)"
  from 2(2) have ok: "validate_tool j t = None" "map_of tools (et_name t) = None" "map_of names ?m = None"
    and rest: "collect_ext_tools digest j i (tools @ [(et_name t, clone_tool t)]) ((?m, et_name t) # names) ts = Inr out"
    by (auto simp: Let_def split: option.splits if_splits)
  have "et_name t \<notin> fst ` set tools" "?m \<notin> fst ` set names" using ok(2,3) by (simp_all add: map_of_eq_None_iff)
  then show ?case
    using 2(3-) rest ok by (intro 2(1) [OF ok(1) _ refl ok(3)]) (auto simp: clone_tool_def)
qed simp

lemma clone_tool_twice [simp]: "clone_tool (clone_tool t) = clone_tool t" "et_name (clone_tool t) = et_name t"
  by (simp_all add: clone_tool_def tool_schema_def default_schema_def)

lemma update_fresh: "k \<notin> fst ` set m \<Longrightarrow> AList.update k v m = m @ [(k, v)]"
  by (induction m) auto

lemma fold_update_distinct:
  assumes "distinct (map f xs)" and "f ` set xs \<inter> fst ` set m = {}"
  shows "foldl (\<lambda>m t. AList.update (f t) t m) m xs = m @ map (\<lambda>t. (f t, t)) xs"
  using assms
proof (induction xs arbitrary: m)
  case (Cons x xs)
  then show ?case by (auto simp: update_fresh)
qed simp

text \<open>After its tools were listed, a process offers the model exactly one tool for each tool it listed, under
  distinct names of at most 64 bytes made of letters, digits, dashes and underscores, and each name leads
  to the tool it was made of.\<close>

lemma offered_tools_named:
  assumes "\<And>n. length (digest n) \<le> 62 \<and> set (digest n) \<subseteq> {c. name_char c}"
    and "refresh_tools digest j (Inr listed) c = (Inr c', fx)"
  shows "distinct (map fst (offered_tools digest c')) \<and> length (offered_tools digest c') = length (xk_tools c') \<and>
     (\<forall>(name, t) \<in> set (offered_tools digest c').
        name = model_name digest (xk_id c) (et_name t) \<and> length name \<le> 64 \<and> set name \<subseteq> {c. name_char c} \<and>
        (\<exists>t' \<in> set listed. t = clone_tool t'))"
proof -
  from assms(2) obtain tools where tools: "collect_ext_tools digest j (xk_id c) [] [] listed = Inr tools"
    and c': "c' = c\<lparr>xk_tools := tools\<rparr>"
    by (auto simp: refresh_tools_def bind_result_Inr_iff split: if_splits)
  note facts = collect_ext_tools_facts [OF tools, of listed, simplified]
  let ?f = "\<lambda>t. model_name digest (xk_id c) (et_name t)"
  have names: "map ?f (map (clone_tool \<circ> snd) tools) = map (\<lambda>(n, t). model_name digest (xk_id c) n) tools"
    using facts by auto
  have "distinct (map ?f (list_tools c'))"
    using facts names c' unfolding list_tools_def
    by (metis (no_types, lifting) distinct_map distinct_sort ext_client.select_convs(6) ext_client.update_convs(6)
        list.set_map set_sort ext_client.surjective)
  then have "offered_tools digest c' = map (\<lambda>t. (?f t, t)) (list_tools c')"
    using fold_update_distinct [of ?f "list_tools c'" "[]"] c' by (simp add: offered_tools_def)
  moreover have "\<exists>t' \<in> set listed. t = clone_tool t'" if "t \<in> set (list_tools c')" for t
    using that facts c' by (fastforce simp: list_tools_def)
  moreover have "length (list_tools c') = length (xk_tools c')" by (simp add: list_tools_def)
  moreover note \<open>distinct (map ?f (list_tools c'))\<close> model_name_shape [where digest = digest, OF assms(1) refl]
  ultimately show ?thesis by (auto simp: comp_def)
qed

definition sample_client :: "nat ext_client" where
  "sample_client = \<lparr>xk_id = ''git'', xk_peer = ([], []), xk_connection = 0,
     xk_limits = default_limits \<lparr>el_initialize_timeout = 0, el_call_timeout = 0, el_close_timeout = 0,
       el_message_bytes = 0, el_output_bytes = 0, el_stderr_bytes = 0, el_tools = 0, el_commands = 0, el_hooks = 0,
       el_prompt_bytes = 0, el_ui = 0\<rparr>,
     xk_closed = False, xk_tools = [], xk_registration = no_registration\<rparr>"

definition sample_json :: ext_json where
  "sample_json = \<lparr>ej_valid = (\<lambda>s. True), ej_object = (\<lambda>s. True), ej_type = (\<lambda>s. Inr ''object'')\<rparr>"

definition sample_tool :: "string \<Rightarrow> ext_tool" where
  "sample_tool n = \<lparr>et_name = n, et_description = [], et_schema = ''{}''\<rparr>"

definition refreshed_client :: "nat ext_client" where
  "refreshed_client =
     sample_client\<lparr>xk_tools := [(''read log'', sample_tool ''read log''), (''push'', sample_tool ''push'')]\<rparr>"

lemma offered_tools_named_witness:
  "length (offered_tools (\<lambda>n. ''0a1b2c3d'') refreshed_client) = 2 \<and>
   distinct (map fst (offered_tools (\<lambda>n. ''0a1b2c3d'') refreshed_client))"
proof -
  have digest: "length ''0a1b2c3d'' \<le> 62 \<and> set ''0a1b2c3d'' \<subseteq> {c. name_char c}"
    by (simp add: name_char_def is_alnum_def is_lower_letter_def is_ascii_digit_def)
  have "fst (refresh_tools (\<lambda>n. ''0a1b2c3d'') sample_json (Inr [sample_tool ''read log'', sample_tool ''push''])
      sample_client) = Inr refreshed_client"
    unfolding refreshed_client_def by code_simp
  then have "refresh_tools (\<lambda>n. ''0a1b2c3d'') sample_json (Inr [sample_tool ''read log'', sample_tool ''push''])
      sample_client = (Inr refreshed_client, snd (refresh_tools (\<lambda>n. ''0a1b2c3d'') sample_json
        (Inr [sample_tool ''read log'', sample_tool ''push'']) sample_client))"
    by (metis prod.collapse)
  from offered_tools_named [OF digest this] show ?thesis by (simp add: refreshed_client_def)
qed


section \<open>Hooks\<close>


definition asked_hooks :: "ext_effect list \<Rightarrow> (string \<times> string) option list" where
  "asked_hooks fx = map (\<lambda>f. case f of Fx_Requested (Rq_Hook i ev q) \<Rightarrow> Some (i, ev) | _ \<Rightarrow> None) fx"

lemma asked_hooks_simps [simp]:
  "asked_hooks [] = []" "asked_hooks (Fx_Requested (Rq_Hook i ev q) # fx) = Some (i, ev) # asked_hooks fx"
  by (simp_all add: asked_hooks_def)






end
