(* ===== verification/ExtensionRuns.thy ===== *)
theory ExtensionRuns
  imports ExtensionProps
begin

text \<open>
  Which extensions run: the states of the catalog, the processes a conversation starts, and the count of
  the processes that are alive.
\<close>

section \<open>Starting a process\<close>

definition starts :: "ext_effect list \<Rightarrow> nat" where
  "starts fx = length (filter (\<lambda>f. case f of Fx_Started p \<Rightarrow> True | _ \<Rightarrow> False) fx)"

definition closes :: "ext_effect list \<Rightarrow> nat" where
  "closes fx = length (filter (\<lambda>f. f = Fx_Closed) fx)"

lemma starts_simps [simp]: "starts [] = 0" "starts (fx @ gx) = starts fx + starts gx"
  "starts (Fx_Started p # fx) = Suc (starts fx)" "starts (Fx_Requested r # fx) = starts fx"
  "starts (Fx_Canceled # fx) = starts fx" "starts (Fx_Closed # fx) = starts fx"
  by (simp_all add: starts_def)

lemma closes_simps [simp]: "closes [] = 0" "closes (fx @ gx) = closes fx + closes gx"
  "closes (Fx_Started p # fx) = closes fx" "closes (Fx_Requested r # fx) = closes fx"
  "closes (Fx_Canceled # fx) = closes fx" "closes (Fx_Closed # fx) = Suc (closes fx)"
  by (simp_all add: closes_def)

lemma refresh_effects:
  "refresh_tools digest j reply c = (r, fx) \<Longrightarrow> starts fx = 0 \<and> closes fx = 0 \<and> (\<forall>p. Fx_Started p \<notin> set fx) \<and>
     (\<forall>c'. r = Inr c' \<longrightarrow> xk_closed c' = xk_closed c)"
  by (auto simp: refresh_tools_def bind_result_Inr_iff split: if_splits sum.splits)

lemma initialize_open: "initialize_client j reply c = Inr c' \<Longrightarrow> xk_closed c' = xk_closed c"
  by (auto simp: initialize_client_def split: sum.splits prod.splits if_splits option.splits)

lemma start_client_facts:
  assumes "start_client env c = (r, fx)" and "\<not> xk_closed c"
  shows "(\<forall>p. Fx_Started p \<notin> set fx) \<and> starts fx = 0 \<and>
    (case r of Inl e \<Rightarrow> closes fx = 1 | Inr c' \<Rightarrow> closes fx = 0 \<and> \<not> xk_closed c')"
proof (cases "initialize_client (xe_json env) (xe_initialize env (xk_connection c)) c")
  case (Inl e)
  show ?thesis using assms(1) by (auto simp: start_client_def Inl)
next
  case (Inr c')
  obtain r' fx' where r: "refresh_tools (xe_digest env) (xe_json env) (xe_list_tools env (xk_connection c)) c' = (r', fx')"
    by fastforce
  with assms Inr refresh_effects [OF r] initialize_open [OF Inr] show ?thesis
    by (cases r') (auto simp: start_client_def)
qed

lemma open_client_facts:
  assumes "open_client env config limits peer = (r, fx)"
  shows "(\<forall>p. Fx_Started p \<in> set fx \<longrightarrow>
           p = xl_process config \<and> xl_enabled config \<and> xl_trust config = ''trusted'' \<and> validate_process p False = None)"
    and "case r of Inl e \<Rightarrow> starts fx = closes fx | Inr c \<Rightarrow> starts fx = 1 \<and> closes fx = 0 \<and> \<not> xk_closed c"
  using assms
  by (auto simp: open_client_def Let_def split: if_splits option.splits sum.splits prod.splits
      dest!: start_client_facts)

lemma close_effects_facts [simp]:
  "\<not> xk_closed c \<Longrightarrow> starts (close_effects c) = 0 \<and> closes (close_effects c) = 1"
  "Fx_Started p \<notin> set (close_effects c)"
  by (auto simp: close_effects_def ext_close_def)

section \<open>Processes alive\<close>
















section \<open>Runnable extensions\<close>

definition source_process :: "ext_source \<Rightarrow> string \<Rightarrow> ext_process" where
  "source_process s root =
     \<lparr>ps_command = trim_space (xs_command s), ps_args = xs_args s, ps_dir = root, ps_env = xs_env s,
      ps_inherit_env = xs_inherit_env s, ps_sandboxed = xs_sandboxed s\<rparr>"

text \<open>Where the process of an extension comes from, and what lets it be runnable.\<close>

definition made_from :: "ext_source \<Rightarrow> extension \<Rightarrow> bool" where
  "made_from s x \<longleftrightarrow> (\<exists>root. xn_process x = source_process s root) \<and>
     (xn_state x = ''runnable'' \<longrightarrow> xs_enabled s \<and> xs_trust s = ''trusted'' \<and> trim_space (xs_command s) \<noteq> [])"

lemma finish_state_fields [simp]:
  "xn_id (finish_state x) = xn_id x" "xn_process (finish_state x) = xn_process x" "xn_root (finish_state x) = xn_root x"
  "xn_manifest (finish_state x) = xn_manifest x" "xn_entrypoints (finish_state x) = xn_entrypoints x"
  "xn_skill_roots (finish_state x) = xn_skill_roots x" "xn_prompt_roots (finish_state x) = xn_prompt_roots x"
  "xn_theme_roots (finish_state x) = xn_theme_roots x" "xn_trust (finish_state x) = xn_trust x"
  "xn_enabled (finish_state x) = xn_enabled x"
  by (simp_all add: finish_state_def Let_def)

lemma finish_state_runnable:
  assumes "xn_state (finish_state x) = ''runnable''"
  shows "xn_enabled x \<and> xn_trust x = ''trusted'' \<and> ps_command (xn_process x) \<noteq> []"
proof -
  have "xn_trust x \<in> {''denied'', ''prompt'', ''trusted''}"
    using assms by (auto simp: finish_state_def Let_def entry_error_def split: if_splits)
  with assms show ?thesis by (auto simp: finish_state_def Let_def split: if_splits)
qed

lemma finish_made_from:
  assumes "xn_process x = source_process s root" "xn_enabled x = xs_enabled s"
    "xn_trust x = (if xs_trust s = [] then ''prompt'' else xs_trust s)"
  shows "made_from s (finish_state x)"
  using finish_state_runnable [of x] assms by (auto simp: made_from_def source_process_def split: if_splits)

lemma base_entry_fields [simp]:
  "xn_process (base_entry s i n root) = source_process s root" "xn_enabled (base_entry s i n root) = xs_enabled s"
  "xn_trust (base_entry s i n root) = (if xs_trust s = [] then ''prompt'' else xs_trust s)"
  "xn_root (base_entry s i n root) = root"
  by (simp_all add: base_entry_def source_process_def)

lemma local_entry_made: "made_from s (local_entry w s location info)"
  unfolding local_entry_def Let_def by (rule finish_made_from) simp_all

lemma manifest_entry_made: "made_from s (entry_from_manifest w s root manifest m)"
  unfolding entry_from_manifest_def Let_def by (rule finish_made_from) simp_all

lemma discover_source_cases:
  assumes "fst (discover_source w s) = Some x"
  obtains (folder) location info where "x = local_entry w s location info"
    | (manifest) root p format m where "x = entry_from_manifest w s root p m" "parse_manifest w p format = Inr m"
    | (broken) i root p format ds where "x = (base_entry s i (base_path root) root)
        \<lparr>xn_manifest := p, xn_format := format, xn_state := ''invalid'', xn_diagnostics := ds\<rparr>"
proof (cases "trim_space (xs_location s) = []")
  case True
  with assms show ?thesis by (simp add: discover_source_def)
next
  case located: False
  define absolute where "absolute = abs_path (ew_cwd w) (trim_space (xs_location s))"
  show ?thesis
  proof (cases "stat_node (ew_tree w) absolute")
    case None
    with assms located show ?thesis by (simp add: discover_source_def Let_def absolute_def)
  next
    case (Some info)
    define location where "location = evaluated w absolute"
    obtain p format root where at: "manifest_at w location info = (p, format, root)" by (metis prod.exhaust)
    note known = located Some [unfolded absolute_def] at [unfolded location_def absolute_def]
    show ?thesis
    proof (cases "p = []")
      case True
      with assms known have "x = local_entry w s location info"
        by (simp add: discover_source_def Let_def location_def absolute_def)
      then show ?thesis by (rule folder)
    next
      case False
      show ?thesis
      proof (cases "parse_manifest w p format")
        case (Inl e)
        then show ?thesis
        proof (cases e)
          case Not_Pi
          with assms known False Inl have "x = local_entry w s location info"
            by (simp add: discover_source_def Let_def location_def absolute_def)
          then show ?thesis by (rule folder)
        next
          case (Bad_Manifest why)
          with assms known False Inl show ?thesis by (intro broken) (auto simp: discover_source_def Let_def)
        qed
      next
        case (Inr m)
        with assms known False have "x = entry_from_manifest w s root p m"
          by (simp add: discover_source_def Let_def)
        then show ?thesis using Inr by (rule manifest)
      qed
    qed
  qed
qed

lemma discover_source_made: "fst (discover_source w s) = Some x \<Longrightarrow> made_from s x"
  by (erule discover_source_cases) (auto simp: local_entry_made manifest_entry_made, auto simp: made_from_def)

lemma scan_manifest_entries:
  "pn_entries (scan_manifest w root limit d format s) = pn_entries s \<or>
   (\<exists>m p pr. parse_manifest w p format = Inr m \<and>
      pn_entries (scan_manifest w root limit d format s) = pn_entries s @ [entry_from_manifest w (prompt_source pr) pr p m])"
proof (cases "parse_manifest w (from_comps True d) format")
  case (Inl e)
  then show ?thesis by (cases e) (simp_all add: scan_manifest_def Let_def)
next
  case (Inr m)
  then show ?thesis by (auto simp: scan_manifest_def Let_def)
qed

definition scanned :: "ext_world \<Rightarrow> extension \<Rightarrow> bool" where
  "scanned w x \<longleftrightarrow> (\<exists>pr p m format. x = entry_from_manifest w (prompt_source pr) pr p m \<and> parse_manifest w p format = Inr m)"

lemma scan_manifest_scanned:
  assumes "\<forall>x \<in> set (pn_entries s). scanned w x"
  shows "\<forall>x \<in> set (pn_entries (scan_manifest w root limit d format s)). scanned w x"
  using scan_manifest_entries [of w root limit d format s]
proof
  assume "\<exists>m p pr. parse_manifest w p format = Inr m \<and>
      pn_entries (scan_manifest w root limit d format s) = pn_entries s @ [entry_from_manifest w (prompt_source pr) pr p m]"
  then obtain m p pr where m: "parse_manifest w p format = Inr m"
    and e: "pn_entries (scan_manifest w root limit d format s) = pn_entries s @ [entry_from_manifest w (prompt_source pr) pr p m]"
    by blast
  from m have "scanned w (entry_from_manifest w (prompt_source pr) pr p m)" unfolding scanned_def by blast
  with e assms show ?thesis by simp
qed (use assms in simp)

lemma scan_node_scanned:
  assumes "\<forall>x \<in> set (pn_entries s). scanned w x"
  shows "\<forall>x \<in> set (pn_entries (scan_node w root deepest limit s dn)). scanned w x"
proof -
  obtain d n where dn: "dn = (d, n)" by (cases dn)
  have "pn_entries (scan_node w root deepest limit s dn) = pn_entries s \<or>
      scan_node w root deepest limit s dn = scan_manifest w root limit d (manifest_format d) s"
    by (simp add: scan_node_def dn)
  with scan_manifest_scanned [OF assms, of root limit d "manifest_format d"] assms show ?thesis by (elim disjE) simp_all
qed

lemma scan_root_entries: "x \<in> set (fst (scan_root w r deepest limit)) \<Longrightarrow> scanned w x"
proof -
  have "\<forall>x \<in> set (pn_entries s). scanned w x \<Longrightarrow>
      \<forall>x \<in> set (pn_entries (foldl (scan_node w root deepest limit) s ns)). scanned w x" for s root ns
  proof (induction ns arbitrary: s)
    case (Cons n ns)
    show ?case using Cons.IH [OF scan_node_scanned [OF Cons.prems]] by simp
  qed simp
  note this [of "\<lparr>pn_entries = [], pn_diagnostics = [], pn_count = 0, pn_skipped = [], pn_stopped = False\<rparr>", simplified]
  then show "x \<in> set (fst (scan_root w r deepest limit)) \<Longrightarrow> ?thesis"
    by (auto simp: scan_root_def Let_def split: if_splits)
qed

lemma scan_root_made: "x \<in> set (fst (scan_root w r deepest limit)) \<Longrightarrow> \<exists>root. made_from (prompt_source root) x"
  using scan_root_entries [of x w r deepest limit] manifest_entry_made unfolding scanned_def by blast

lemma add_entries_set: "set (add_entries xs seen ys) \<subseteq> set xs \<union> set ys"
  by (induction xs seen ys rule: add_entries.induct) auto

lemma marked_entry:
  assumes "x \<in> set (xg_extensions (mark_duplicates g))"
  obtains y where "y \<in> set (xg_extensions g)" "xn_id x = xn_id y" "xn_process x = xn_process y" "xn_enabled x = xn_enabled y"
    "xn_trust x = xn_trust y" "xn_root x = xn_root y" "xn_manifest x = xn_manifest y"
    "xn_entrypoints x = xn_entrypoints y" "xn_skill_roots x = xn_skill_roots y" "xn_prompt_roots x = xn_prompt_roots y"
    "xn_theme_roots x = xn_theme_roots y" "xn_state x = ''invalid'' \<or> xn_state x = xn_state y \<and> id_count (xg_extensions g) (xn_id y) < 2"
  using assms by (auto simp: mark_duplicates_def Let_def split: if_splits)

lemma raw_entry:
  assumes "x \<in> set (xg_extensions (raw_catalog w sources roots deepest limit))"
  shows "(\<exists>s \<in> set sources. fst (discover_source w s) = Some x) \<or>
    (\<exists>r \<in> set roots. \<exists>d l. x \<in> set (fst (scan_root w r d l)))"
proof -
  let ?as = "map (case_option [] (\<lambda>x. [x]) \<circ> fst) (map (discover_source w) sources)"
  let ?bs = "map fst (map (\<lambda>r. scan_root w r (if deepest \<le> 0 then 8 else deepest)
        (nat (if limit \<le> 0 then 512 else limit))) roots)"
  have "xg_extensions (raw_catalog w sources roots deepest limit) = add_entries [] [] (concat ?as @ concat ?bs)"
    by (simp only: raw_catalog_def Let_def ext_catalog.simps)
  then have "x \<in> set (add_entries [] [] (concat ?as @ concat ?bs))" using assms by (simp only:)
  then have "x \<in> set [] \<union> set (concat ?as @ concat ?bs)" by (rule subsetD [OF add_entries_set])
  then have "x \<in> set (concat ?as) \<or> x \<in> set (concat ?bs)" by (simp only: set_append Un_iff list.set empty_iff simp_thms)
  then show ?thesis
  proof
    assume "x \<in> set (concat ?as)"
    then obtain s where "s \<in> set sources" "x \<in> set (case_option [] (\<lambda>x. [x]) (fst (discover_source w s)))" by auto
    then show ?thesis by (cases "fst (discover_source w s)") auto
  next
    assume "x \<in> set (concat ?bs)"
    then show ?thesis unfolding set_concat set_map by blast
  qed
qed

lemma discovered_entry:
  assumes "x \<in> set (xg_extensions (discover_extensions w sources roots deepest limit))"
  obtains y where "(\<exists>s \<in> set sources. fst (discover_source w s) = Some y) \<or>
      (\<exists>r \<in> set roots. \<exists>d l. y \<in> set (fst (scan_root w r d l)))"
    "xn_process x = xn_process y" "xn_root x = xn_root y" "xn_manifest x = xn_manifest y"
    "xn_entrypoints x = xn_entrypoints y" "xn_skill_roots x = xn_skill_roots y" "xn_prompt_roots x = xn_prompt_roots y"
    "xn_theme_roots x = xn_theme_roots y" "xn_state x = ''invalid'' \<or> xn_state x = xn_state y"
    "xn_enabled x = xn_enabled y" "xn_trust x = xn_trust y"
proof -
  from assms have "x \<in> set (xg_extensions (mark_duplicates (raw_catalog w sources roots deepest limit)))"
    by (simp add: discover_extensions_def sort_catalog_def)
  then show thesis by (rule marked_entry) (rule that, auto dest: raw_entry)
qed

lemma catalog_entry_made:
  assumes "x \<in> set (xg_extensions (discover_extensions w sources roots deepest limit))"
  shows "(\<exists>s \<in> set sources. made_from s x) \<or> (\<exists>root. made_from (prompt_source root) x)"
proof -
  from assms obtain y where y: "(\<exists>s \<in> set sources. fst (discover_source w s) = Some y) \<or>
      (\<exists>r \<in> set roots. \<exists>d l. y \<in> set (fst (scan_root w r d l)))"
    "xn_process x = xn_process y" "xn_state x = ''invalid'' \<or> xn_state x = xn_state y"
    by (rule discovered_entry)
  then have "(\<exists>s \<in> set sources. made_from s y) \<or> (\<exists>root. made_from (prompt_source root) y)"
    using discover_source_made scan_root_made by blast
  with y(2,3) show ?thesis by (auto simp: made_from_def)
qed

lemma few_distinct:
  "(\<And>i. id_count zs i \<le> n i) \<Longrightarrow> distinct (map xn_id (filter (\<lambda>x. n (xn_id x) < 2) zs))"
proof (induction zs)
  case (Cons z zs)
  have rest: "id_count zs i \<le> n i" for i using Cons.prems [of i] by (simp add: id_count_def split: if_splits)
  have "xn_id z \<notin> xn_id ` set (filter (\<lambda>x. n (xn_id x) < 2) zs)" if "n (xn_id z) < 2"
  proof -
    have "Suc (id_count zs (xn_id z)) \<le> n (xn_id z)" using Cons.prems [of "xn_id z"] by (simp add: id_count_def)
    with that have "id_count zs (xn_id z) = 0" by linarith
    then show ?thesis by (auto simp: id_count_def filter_empty_conv)
  qed
  with Cons.IH [OF rest] show ?case by simp
qed simp

lemma marked_distinct: "distinct (map xn_id (filter (\<lambda>x. xn_state x \<noteq> ''invalid'') (xg_extensions (mark_duplicates g))))"
proof -
  let ?xs = "xg_extensions g"
  let ?few = "filter (\<lambda>x. id_count ?xs (xn_id x) < 2) ?xs"
  have "distinct (map xn_id (filter (\<lambda>x. xn_state x \<noteq> ''invalid'') ?few))"
    using few_distinct [of ?xs "id_count ?xs"] distinct_map_filter by blast
  moreover
  have "map xn_id (filter (\<lambda>x. xn_state x \<noteq> ''invalid'') (map (\<lambda>x. if 2 \<le> id_count ?xs (xn_id x)
        then x\<lparr>xn_state := ''invalid'', xn_diagnostics := ds x\<rparr> else x) zs)) =
      map xn_id (filter (\<lambda>x. xn_state x \<noteq> ''invalid'') (filter (\<lambda>x. id_count ?xs (xn_id x) < 2) zs))" for zs ds
    by (induction zs) auto
  note this [of "\<lambda>x. xn_diagnostics x @ [duplicate_diagnostic x]" ?xs]
  ultimately show ?thesis unfolding mark_duplicates_def Let_def ext_catalog.simps by simp
qed

lemma distinct_filter_sort:
  "distinct (map f (filter P (sort_key g (sort_key h xs)))) = distinct (map f (filter P xs))"
  by (simp add: distinct_map filter_sort inj_on_def)

text \<open>No two extensions of a catalog that are not marked invalid have one identifier.\<close>

lemma runnable_ids_unique:
  "distinct (map xn_id (filter (\<lambda>x. xn_state x \<noteq> ''invalid'')
     (xg_extensions (discover_extensions w sources roots deepest limit))))"
  by (simp add: discover_extensions_def sort_catalog_def distinct_filter_sort marked_distinct)


section \<open>What a conversation starts\<close>

lemma client_for_started:
  assumes "client_for host slot fp launch s = (r, t, fx)" and "Fx_Started p \<in> set fx"
  shows "p = xl_process launch"
proof -
  have o: "Fx_Started p \<in> set (snd (snd (open_for host slot fp launch s'))) \<Longrightarrow> p = xl_process launch" for s'
    by (cases "open_client (eh_env host) launch (eh_limits host) ([], [])")
       (auto simp: open_for_def split: sum.splits dest: open_client_facts(1))
  show ?thesis
  proof (cases "xh_closed s")
    case True
    with assms show ?thesis by (auto simp: client_for_def)
  next
    case open_source: False
    show ?thesis
    proof (cases "map_of (xh_clients s) slot")
      case None
      with open_source assms o [of s] show ?thesis by (auto simp: client_for_def)
    next
      case (Some y)
      obtain fp' c where y: "y = (fp', c)" by (cases y)
      obtain r2 fx2 where f: "refresh_tools (xe_digest (eh_env host)) (xe_json (eh_env host)) (eh_refresh host c) c = (r2, fx2)"
        by fastforce
      then have quiet: "Fx_Started p \<notin> set fx2" by (auto dest: refresh_effects)
      let ?s = "s\<lparr>xh_clients := AList.delete slot (xh_clients s)\<rparr>"
      obtain r1 t1 fx1 where n: "open_for host slot fp launch ?s = (r1, t1, fx1)" by (metis prod.exhaust)
      have "fx = fx2 \<or> fx = fx2 @ close_effects c @ fx1 \<or> fx = close_effects c @ fx1"
        using assms(1) open_source Some y f n by (cases r2) (auto simp: client_for_def Let_def split: if_splits)
      with quiet assms(2) o [of ?s] n show ?thesis by auto
    qed
  qed
qed

lemma resolve_extension_started:
  assumes "Fx_Started p \<in> set (xr_effects (resolve_extension host scope q x))"
  shows "Fx_Started p \<in> set (xr_effects q) \<or> (xn_state x = ''runnable'' \<and> p = xn_process x)"
proof (cases "xn_state x = ''runnable''")
  case True
  let ?slot = "scope_key scope @ [CHR 0x00] @ xn_id x"
  obtain r t fx where c: "client_for host ?slot (eh_fingerprint host x) (launch_of x) (xr_clients q) = (r, t, fx)"
    by (metis prod.exhaust)
  have "xr_effects (resolve_extension host scope q x) = xr_effects q @ fx"
    using True c by (cases r) (simp_all add: resolve_extension_def Let_def)
  with assms True client_for_started [OF c] show ?thesis by (auto simp: launch_of_def)
qed (use assms in \<open>simp add: resolve_extension_def Let_def\<close>)

lemma resolve_all_started:
  "Fx_Started p \<in> set (xr_effects (foldl (resolve_extension host scope) q xs)) \<Longrightarrow>
    Fx_Started p \<in> set (xr_effects q) \<or> (\<exists>x \<in> set xs. xn_state x = ''runnable'' \<and> p = xn_process x)"
proof (induction xs arbitrary: q)
  case (Cons x xs)
  then have "Fx_Started p \<in> set (xr_effects (resolve_extension host scope q x)) \<or>
      (\<exists>x \<in> set xs. xn_state x = ''runnable'' \<and> p = xn_process x)" by simp
  with resolve_extension_started [of p host scope q x] show ?case by auto
qed simp

lemma reconcile_quiet: "Fx_Started p \<notin> set (snd (reconcile scope keep s))"
  by (auto simp: reconcile_def)

definition catalog_sources :: "'c ext_host \<Rightarrow> cap_scope \<Rightarrow> settings \<Rightarrow> ext_source list" where
  "catalog_sources host scope st =
     fst (if eh_sandbox_processes host then sandbox_sources host scope (to_sandbox (st_tools st))
            (fst (configured_sources (st_extensions st))) else (fst (configured_sources (st_extensions st)), []))"

lemma resolve_started:
  assumes "resolve_extensions host scope st s = (r, t, fx)" and "Fx_Started p \<in> set fx"
  shows "\<exists>g x. eh_discover host (catalog_sources host scope st) = Inr g \<and> x \<in> set (xg_extensions g) \<and>
    xn_state x = ''runnable'' \<and> p = xn_process x"
proof (cases "xh_closed s")
  case True
  with assms show ?thesis by (auto simp: resolve_extensions_def)
next
  case False
  obtain given remote where c: "configured_sources (st_extensions st) = (given, remote)" by fastforce
  obtain locals ds where l: "(if eh_sandbox_processes host then sandbox_sources host scope (to_sandbox (st_tools st)) given
      else (given, [])) = (locals, ds)" by (metis prod.exhaust)
  have locals: "catalog_sources host scope st = locals"
    using arg_cong [OF l, of fst] by (simp add: catalog_sources_def c split: if_splits)
  show ?thesis
  proof (cases "eh_discover host locals")
    case (Inl e)
    with assms False c l reconcile_quiet [of p "scope_key scope" "[]" s] show ?thesis
      by (auto simp: resolve_extensions_def Let_def split: prod.splits)
  next
    case (Inr g)
    let ?q0 = "\<lparr>xr_fragment = no_fragment\<lparr>fr_descriptors := ds @ map (\<lambda>(n, e). remote_descriptor n e) remote\<rparr>,
      xr_keep = [], xr_clients = s, xr_effects = []\<rparr>"
    let ?q = "foldl (resolve_extension host scope) ?q0 (xg_extensions g)"
    have "fx = xr_effects ?q @ snd (reconcile (scope_key scope) (xr_keep ?q) (xr_clients ?q))"
      using assms(1) False c l Inr by (auto simp: resolve_extensions_def Let_def split: prod.splits)
    with assms(2) reconcile_quiet have "Fx_Started p \<in> set (xr_effects ?q)" by auto
    from resolve_all_started [OF this] Inr locals show ?thesis by auto
  qed
qed

text \<open>A configured source as the catalog sees it: as it is without the sandbox, otherwise wrapped.\<close>

definition configured_process :: "'c ext_host \<Rightarrow> cap_scope \<Rightarrow> string \<Rightarrow> extension_source \<Rightarrow> ext_process \<Rightarrow> bool" where
  "configured_process host scope mode e p \<longleftrightarrow>
     (if mode = ''off'' then ps_command p = trim_space (ex_command e) \<and> ps_args p = ex_args e
      else ps_sandboxed p \<and>
        (\<exists>q command. eh_wrap host q = Inr (command, ps_args p) \<and> ps_command p = trim_space command \<and>
           px_command q = ex_command e \<and> px_args q = ex_args e \<and> px_allow_network q = (mode = ''workspace'')))"

lemma local_sources: "x \<in> set (fst (configured_sources st)) \<Longrightarrow>
    \<exists>n e. map_of (es_sources st) n = Some e \<and> ex_kind e = ''local'' \<and> x = local_source n e"
proof -
  assume "x \<in> set (fst (configured_sources st))"
  then obtain n where "n \<in> set (map fst (es_sources st))" "ex_kind (the (map_of (es_sources st) n)) = ''local''"
      "x = local_source n (the (map_of (es_sources st) n))"
    by (auto simp: configured_sources_def Let_def)
  then show ?thesis by (metis map_of_eq_None_iff option.exhaust_sel set_map)
qed

lemma catalog_source_process:
  assumes "eh_sandbox_processes host" and "x \<in> set (catalog_sources host scope st)"
    and "xs_enabled x" "xs_trust x = ''trusted''" "trim_space (xs_command x) \<noteq> []"
  shows "\<exists>n e. map_of (es_sources (st_extensions st)) n = Some e \<and> ex_kind e = ''local'' \<and> ex_enabled e \<and>
    ex_trust e = ''trusted'' \<and> configured_process host scope (to_sandbox (st_tools st)) e (source_process x root)"
proof (cases "to_sandbox (st_tools st) = ''off''")
  case True
  with assms(1,2) have "x \<in> set (fst (configured_sources (st_extensions st)))"
    by (simp add: catalog_sources_def sandbox_sources_def)
  from local_sources [OF this] assms(3,4) True show ?thesis
    by (auto simp: local_source_def extension_trust_def configured_process_def source_process_def split: if_splits)
next
  case False
  let ?mode = "to_sandbox (st_tools st)"
  from False assms(1,2) obtain y where y: "y \<in> set (fst (configured_sources (st_extensions st)))"
    and x: "x = fst (sandbox_source host scope ?mode y)"
    by (auto simp: catalog_sources_def sandbox_sources_def Let_def)
  from local_sources [OF y] obtain n e where e: "map_of (es_sources (st_extensions st)) n = Some e"
    "ex_kind e = ''local''" "y = local_source n e" by blast
  have on: "xs_enabled y" "xs_trust y = ''trusted''" "xs_command y \<noteq> []"
    using x assms(3-5) by (auto simp: sandbox_source_def Let_def split: if_splits sum.splits)
  define q where "q = \<lparr>px_workspace = (if cs_cwd scope = [] then eh_temp host else cs_cwd scope),
     px_working_directory = sandbox_directory host (xs_location y), px_command = xs_command y, px_args = xs_args y,
     px_extra_read_paths = [xs_location y], px_write_paths = cs_additional_folders scope,
     px_allow_network = (?mode = ''workspace''), px_private_workspace = (cs_cwd scope = [])\<rparr>"
  show ?thesis
  proof (cases "eh_wrap host q")
    case (Inl why)
    with x on assms(5) show ?thesis by (simp add: sandbox_source_def Let_def q_def)
  next
    case (Inr made)
    then have "x = y\<lparr>xs_command := fst made, xs_args := snd made, xs_sandboxed := True\<rparr>"
      using x on by (cases made) (simp add: sandbox_source_def Let_def q_def)
    moreover have "px_command q = ex_command e" "px_args q = ex_args e" "px_allow_network q = (?mode = ''workspace'')"
      using e(3) by (simp_all add: q_def local_source_def)
    ultimately have "configured_process host scope ?mode e (source_process x root)"
      using False Inr by (auto simp: configured_process_def source_process_def intro!: exI [of _ q] exI [of _ "fst made"])
    with e on show ?thesis by (auto simp: local_source_def extension_trust_def split: if_splits)
  qed
qed

text \<open>C10: Every process a conversation starts for its extensions is the command of a local source of its
  settings that is enabled and trusted, and unless the sandbox is off the wrapper confines it, without a
  network in strict mode; no manifest that a scan finds, and no entry point of one, is ever started.\<close>

theorem only_configured_extensions_run:
  assumes "eh_discover host = (\<lambda>sources. Inr (discover_extensions w sources roots deepest limit))"
    and "eh_sandbox_processes host"
    and "resolve_extensions host scope st s = (r, t, fx)" and "Fx_Started p \<in> set fx"
  shows "\<exists>n e. map_of (es_sources (st_extensions st)) n = Some e \<and> ex_kind e = ''local'' \<and> ex_enabled e \<and>
    ex_trust e = ''trusted'' \<and> configured_process host scope (to_sandbox (st_tools st)) e p"
proof -
  from resolve_started [OF assms(3,4)] assms(1) obtain x
    where x: "x \<in> set (xg_extensions (discover_extensions w (catalog_sources host scope st) roots deepest limit))"
      "xn_state x = ''runnable''" "p = xn_process x" by auto
  from catalog_entry_made [OF x(1)] x(2) obtain y where y: "y \<in> set (catalog_sources host scope st)" "made_from y x"
    by (auto simp: made_from_def prompt_source_def)
  then obtain root where "p = source_process y root" "xs_enabled y" "xs_trust y = ''trusted''" "trim_space (xs_command y) \<noteq> []"
    using x by (auto simp: made_from_def)
  with catalog_source_process [OF assms(2) y(1)] show ?thesis by blast
qed


definition ext_sample_world :: ext_world where
  "ext_sample_world = \<lparr>ew_tree = [([''ext''], Dir)], ew_cwd = ''/'', ew_glob = (\<lambda>p. Inr []),
     ew_codex = (\<lambda>s. Inl []), ew_pi = (\<lambda>s. Inl [])\<rparr>"

definition sample_host :: "nat ext_host" where
  "sample_host = \<lparr>eh_discover = (\<lambda>sources. Inr (discover_extensions ext_sample_world sources [] 8 512)),
     eh_env = \<lparr>xe_digest = (\<lambda>n. ''00000000''), xe_json = sample_json, xe_connect = (\<lambda>p l. Inr 7),
               xe_initialize = (\<lambda>c. Inr (''1.0'', no_registration)), xe_list_tools = (\<lambda>c. Inr [])\<rparr>,
     eh_refresh = (\<lambda>c. Inr []), eh_limits = xk_limits sample_client, eh_fingerprint = (\<lambda>x. xn_id x),
     eh_sandbox_processes = True, eh_wrap = (\<lambda>q. Inr (''bwrap'', px_command q # px_args q)), eh_temp = ''/tmp'',
     eh_stat = (\<lambda>p. Some Dir), eh_quote = (\<lambda>s. s)\<rparr>"

definition sample_scope :: cap_scope where
  "sample_scope = \<lparr>cs_conversation_id = ''c'', cs_settings_id = [], cs_kind = ''project'', cs_cwd = ''/p'',
     cs_additional_folders = [], cs_builtins = []\<rparr>"

definition ext_sample_settings :: settings where
  "ext_sample_settings = (default_settings ''/home'')\<lparr>st_extensions := \<lparr>es_sources = [(''git'',
     \<lparr>ex_kind = ''local'', ex_location = ''/ext'', ex_ref = [], ex_trust = ''trusted'', ex_enabled = True,
      ex_command = ''run'', ex_args = [''x''], ex_env = [], ex_secret_env = [], ex_inherit_env = False\<rparr>)],
     es_allow_unsigned = False\<rparr>\<rparr>"


definition sample_process :: ext_process where
  "sample_process = \<lparr>ps_command = ''bwrap'', ps_args = [''run'', ''x''], ps_dir = ''/ext'', ps_env = [],
     ps_inherit_env = False, ps_sandboxed = True\<rparr>"

definition sample_source :: ext_source where
  "sample_source = \<lparr>xs_id = ''git'', xs_location = ''/ext'', xs_enabled = True, xs_trust = ''trusted'',
     xs_command = ''bwrap'', xs_args = [''run'', ''x''], xs_env = [], xs_inherit_env = False, xs_sandboxed = True\<rparr>"

definition sample_extension :: extension where
  "sample_extension = (base_entry sample_source ''git'' ''ext'' ''/ext'')\<lparr>xn_format := ''local'', xn_state := ''runnable''\<rparr>"

lemma sample_catalog:
  "discover_extensions ext_sample_world [sample_source] [] 8 512 = \<lparr>xg_extensions = [sample_extension], xg_diagnostics = []\<rparr>"
  unfolding sample_source_def sample_extension_def by code_simp

lemma sample_sources:
  "configured_sources (st_extensions ext_sample_settings) =
     ([sample_source\<lparr>xs_command := ''run'', xs_args := [''x''], xs_sandboxed := False\<rparr>], [])"
  "sandbox_sources sample_host sample_scope ''strict''
     [sample_source\<lparr>xs_command := ''run'', xs_args := [''x''], xs_sandboxed := False\<rparr>] = ([sample_source], [])"
  unfolding ext_sample_settings_def sample_source_def by code_simp+

lemma sample_client_started:
  "list_ex (\<lambda>f. case f of Fx_Started p \<Rightarrow> p = sample_process | _ \<Rightarrow> False)
     (snd (snd (client_for sample_host (scope_key sample_scope @ [CHR 0x00] @ xn_id sample_extension)
       (eh_fingerprint sample_host sample_extension) (launch_of sample_extension) no_clients)))"
  unfolding sample_extension_def sample_source_def sample_process_def by code_simp

definition ext_sample_run :: "(string, ext_fragment) result \<times> nat ext_clients \<times> ext_effect list" where
  "ext_sample_run = resolve_extensions sample_host sample_scope ext_sample_settings no_clients"

lemma sample_mode: "to_sandbox (st_tools ext_sample_settings) = ''strict''"
  by (simp add: ext_sample_settings_def default_settings_def)

lemma sample_started: "Fx_Started sample_process \<in> set (snd (snd ext_sample_run))"
proof -
  obtain r t fx where c: "client_for sample_host (scope_key sample_scope @ [CHR 0x00] @ xn_id sample_extension)
      (eh_fingerprint sample_host sample_extension) (launch_of sample_extension) no_clients = (r, t, fx)"
    by (metis prod.exhaust)
  have fx: "Fx_Started sample_process \<in> set fx"
  proof -
    obtain f where "f \<in> set fx" "case f of Fx_Started p \<Rightarrow> p = sample_process | _ \<Rightarrow> False"
      using sample_client_started [unfolded c] by (auto simp: list_ex_iff)
    then show ?thesis by (cases f rule: ext_effect.exhaust) simp_all
  qed
  have q: "Fx_Started sample_process \<in> set (xr_effects (resolve_extension sample_host sample_scope
      \<lparr>xr_fragment = f, xr_keep = [], xr_clients = no_clients, xr_effects = []\<rparr> sample_extension))" for f
    using fx c by (cases r) (simp_all add: resolve_extension_def Let_def sample_extension_def)
  have host: "eh_sandbox_processes sample_host" "eh_discover sample_host [sample_source] =
      Inr \<lparr>xg_extensions = [sample_extension], xg_diagnostics = []\<rparr>"
    by (simp_all add: sample_host_def sample_catalog)
  show ?thesis
    using q by (simp add: ext_sample_run_def resolve_extensions_def sample_sources sample_mode host Let_def
        no_clients_def [THEN arg_cong, of xh_closed] split: prod.splits)
qed

theorem only_configured_extensions_run_witness:
  "Fx_Started sample_process \<in> set (snd (snd ext_sample_run)) \<and>
   (\<exists>n e. map_of (es_sources (st_extensions ext_sample_settings)) n = Some e \<and> ex_trust e = ''trusted'' \<and>
      configured_process sample_host sample_scope ''strict'' e sample_process)"
proof -
  have "eh_discover sample_host = (\<lambda>sources. Inr (discover_extensions ext_sample_world sources [] 8 512))"
    "eh_sandbox_processes sample_host" by (simp_all add: sample_host_def)
  moreover have "resolve_extensions sample_host sample_scope ext_sample_settings no_clients =
      (fst ext_sample_run, fst (snd ext_sample_run), snd (snd ext_sample_run))" by (simp add: ext_sample_run_def)
  ultimately show ?thesis
    using only_configured_extensions_run [of sample_host ext_sample_world "[]" 8 512] sample_mode sample_started by metis
qed
end
