(* ===== verification/ExtensionPaths.thy ===== *)
theory ExtensionPaths
  imports ExtensionRuns ConfigValidate
begin

text \<open>
  The folders an extension may name, and where the identifiers of the catalog and of the registry differ.
\<close>

section \<open>Paths stay in the extension\<close>

lemma within_clean_path [simp]: "within root (clean_path p) = within root p"
  by (simp add: within_def rel_path_def)









definition plugin_world :: ext_world where
  "plugin_world = \<lparr>ew_tree = [([''p''], Dir), ([''p'', ''.codex-plugin''], Dir),
       ([''p'', ''.codex-plugin'', ''plugin.json''], File ''{}''), ([''p'', ''skills''], Dir),
       ([''p'', ''out''], Link ''/secret''), ([''secret''], Dir)],
     ew_cwd = ''/'', ew_glob = (\<lambda>p. Inr []),
     ew_codex = (\<lambda>s. Inr \<lparr>cx_name = ''Demo'', cx_version = [], cx_description = [], cx_skills = [''skills'', ''out''],
       cx_apps = [], cx_mcp = [], cx_mcp_servers = []\<rparr>), ew_pi = (\<lambda>s. Inl [])\<rparr>"

definition plugin_source :: ext_source where
  "plugin_source = \<lparr>xs_id = [], xs_location = ''/p'', xs_enabled = True, xs_trust = ''trusted'', xs_command = [],
     xs_args = [], xs_env = [], xs_inherit_env = False, xs_sandboxed = False\<rparr>"







section \<open>Where the code differs from itself\<close>

text \<open>A local extension without a manifest gives its skill folder unchecked: a link leads out of its root.\<close>

lemma local_skills_may_be_linked_out:
  "let w = plugin_world\<lparr>ew_tree := [([''x''], Dir), ([''x'', ''skills''], Link ''/secret''), ([''secret''], Dir)]\<rparr>;
       x = local_entry w (plugin_source\<lparr>xs_location := ''/x''\<rparr>) ''/x'' Dir
   in xn_skill_roots x = [''/x/skills''] \<and> \<not> within ''/x'' (evaluated w ''/x/skills'')"
  by code_simp

text \<open>The catalog joins the words of a name by one underscore, the registry by one for each rune between
  them; so a source of a valid name with two dots is reported missing though it was found.\<close>

lemma identifiers_disagree:
  "normalize_id ''my..ext'' = ''my_ext'' \<and> extension_id ''my..ext'' = ''my__ext'' \<and> config_name ''my..ext''"
  by code_simp

text \<open>Two commands of a registration that passes its checks become one.\<close>

definition clashing_commands :: registration where
  "clashing_commands = no_registration\<lparr>rg_commands :=
     [\<lparr>ec_name = ''run all'', ec_description = [], ec_hint = []\<rparr>, \<lparr>ec_name = ''run_all'', ec_description = [], ec_hint = []\<rparr>]\<rparr>"

lemma commands_collide:
  "validate_registration sample_json clashing_commands (xk_limits sample_client) = None \<and>
   length (fr_commands (add_contributions (\<lambda>s. s) [] ''git'' clashing_commands no_fragment)) = 1"
  by code_simp
end
